(* ===== verification/Prelude.thy ===== *)
theory Prelude
  imports Main "HOL-Library.Char_ord" "HOL-Library.List_Lexorder"
begin

text \<open>
  Shared vocabulary of the development: the exception values every fallible operation returns,
  the error monad they are threaded through, the list idioms of the Python sources
  (\<open>dict.fromkeys\<close>, \<open>sorted(set(...))\<close>, list comprehensions that may raise), and the collections
  of facts the component proofs pass to \<open>simp\<close>.

  Python \<open>str\<close> and \<open>bytes\<close> are both \<^typ>\<open>string\<close>: a \<open>str\<close> is represented by its UTF-8 bytes, so
  \<open>s.encode("utf-8")\<close> is the identity, equality agrees, and the order of code points is the
  lexicographic order of the bytes.
\<close>

named_theorems res_simps \<open>equations that evaluate the error monad\<close>
named_theorems res_dests \<open>inversions of successful computations\<close>

type_synonym bytes = string

section \<open>Exceptions\<close>

text \<open>
  \<open>ForgeError\<close> (errors.py) carries a stable code and a prose message. The model keeps the code,
  which is what callers branch on. Built-in exceptions that the sources let escape are \<open>PyExc\<close>.
\<close>

datatype exn = ForgeError (code: string) | PyExc string

type_synonym 'a res = "exn + 'a"

abbreviation raise :: "string \<Rightarrow> 'a res" where
  "raise c \<equiv> Inl (ForgeError c)"

definition rbind :: "'a res \<Rightarrow> ('a \<Rightarrow> 'b res) \<Rightarrow> 'b res" where
  "rbind r f = (case r of Inl e \<Rightarrow> Inl e | Inr x \<Rightarrow> f x)"

lemma rbind_Inr [simp, res_simps]: "rbind (Inr x) f = f x"
  by (simp add: rbind_def)

lemma rbind_Inl [simp, res_simps]: "rbind (Inl e) f = Inl e"
  by (simp add: rbind_def)

lemma rbind_eq_Inr [simp, res_dests]: "rbind r f = Inr y \<longleftrightarrow> (\<exists>x. r = Inr x \<and> f x = Inr y)"
  by (cases r) auto

lemma rbind_eq_Inl: "rbind r f = Inl e \<longleftrightarrow> r = Inl e \<or> (\<exists>x. r = Inr x \<and> f x = Inl e)"
  by (cases r) auto

lemma rbind_assoc: "rbind (rbind r f) g = rbind r (\<lambda>x. rbind (f x) g)"
  by (cases r) auto

lemma rbind_cong [fundef_cong]:
  "r = r' \<Longrightarrow> (\<And>x. r' = Inr x \<Longrightarrow> f x = f' x) \<Longrightarrow> rbind r f = rbind r' f'"
  by (cases r') auto

text \<open>A guard: \<open>if not b: raise ForgeError(c)\<close>, and sequencing after it.\<close>

definition ensure :: "bool \<Rightarrow> string \<Rightarrow> unit res" where
  "ensure b c = (if b then Inr () else raise c)"

definition rthen :: "unit res \<Rightarrow> 'a res \<Rightarrow> 'a res" where
  "rthen r s = rbind r (\<lambda>_. s)"

lemma ensure_eq_Inr [simp, res_dests]: "ensure b c = Inr u \<longleftrightarrow> b"
  by (simp add: ensure_def)

lemma ensure_True [simp, res_simps]: "ensure True c = Inr ()"
  by (simp add: ensure_def)

lemma ensure_False [simp, res_simps]: "ensure False c = raise c"
  by (simp add: ensure_def)

lemma ensure_eq_Inl: "ensure b c = Inl e \<longleftrightarrow> \<not> b \<and> e = ForgeError c"
  by (auto simp: ensure_def)

lemma rthen_eq_Inr [simp, res_dests]: "rthen r s = Inr y \<longleftrightarrow> r = Inr () \<and> s = Inr y"
  by (simp add: rthen_def)

lemma rthen_Inr [simp, res_simps]: "rthen (Inr u) s = s"
  by (simp add: rthen_def)

lemma rthen_Inl [simp, res_simps]: "rthen (Inl e) s = Inl e"
  by (simp add: rthen_def)

lemma rthen_cong [fundef_cong]: "r = r' \<Longrightarrow> (r' = Inr () \<Longrightarrow> s = s') \<Longrightarrow> rthen r s = rthen r' s'"
  by (cases r') (auto simp: rthen_def)

text \<open>\<open>ForgeError.as_dict\<close> is reached through the code only.\<close>

fun error_code :: "exn \<Rightarrow> string option" where
  "error_code (ForgeError c) = Some c"
| "error_code (PyExc _) = None"

text \<open>A list comprehension whose element expression may raise stops at the first exception.\<close>

fun rmap :: "('a \<Rightarrow> 'b res) \<Rightarrow> 'a list \<Rightarrow> 'b list res" where
  "rmap f [] = Inr []"
| "rmap f (x # xs) = rbind (f x) (\<lambda>y. rbind (rmap f xs) (\<lambda>ys. Inr (y # ys)))"

lemma rmap_cong [fundef_cong]: "xs = ys \<Longrightarrow> (\<And>x. x \<in> set ys \<Longrightarrow> f x = g x) \<Longrightarrow> rmap f xs = rmap g ys"
  by (induction xs arbitrary: ys) auto

lemma rmap_Inr_map: "(\<And>x. x \<in> set xs \<Longrightarrow> f x = Inr (g x)) \<Longrightarrow> rmap f xs = Inr (map g xs)"
  by (induction xs) auto

lemma rmap_append:
  "rmap f (xs @ ys) = rbind (rmap f xs) (\<lambda>us. rbind (rmap f ys) (\<lambda>vs. Inr (us @ vs)))"
  by (induction xs) (auto simp: rbind_assoc rbind_def split: sum.splits)

lemma rmap_eq_Inr: "rmap f xs = Inr ys \<longleftrightarrow> list_all2 (\<lambda>x y. f x = Inr y) xs ys"
  by (induction xs arbitrary: ys) (auto simp: list_all2_Cons1)

lemma rmap_length: "rmap f xs = Inr ys \<Longrightarrow> length ys = length xs"
  by (simp add: rmap_eq_Inr list_all2_lengthD)

lemma rmap_mem: "rmap f xs = Inr ys \<Longrightarrow> y \<in> set ys \<Longrightarrow> \<exists>x \<in> set xs. f x = Inr y"
  by (induction xs arbitrary: ys) auto

lemma rmap_weaken:
  "rmap f xs = Inr ys \<Longrightarrow> (\<And>x y. x \<in> set xs \<Longrightarrow> f x = Inr y \<Longrightarrow> g x = Inr y) \<Longrightarrow> rmap g xs = Inr ys"
  by (induction xs arbitrary: ys) auto

lemma rmap_fixed: "(\<And>y. y \<in> set ys \<Longrightarrow> f y = Inr y) \<Longrightarrow> rmap f ys = Inr ys"
  using rmap_Inr_map [of ys f id] by simp

lemma rmap_idem:
  "rmap f xs = Inr ys \<Longrightarrow> (\<And>x y. x \<in> set xs \<Longrightarrow> f x = Inr y \<Longrightarrow> f y = Inr y) \<Longrightarrow> rmap f ys = Inr ys"
  by (rule rmap_fixed) (blast dest: rmap_mem)

section \<open>List idioms of the sources\<close>

text \<open>\<open>tuple(dict.fromkeys(xs))\<close>: the first occurrences, in order.\<close>

fun dedup_first :: "'a list \<Rightarrow> 'a list" where
  "dedup_first [] = []"
| "dedup_first (x # xs) = x # filter (\<lambda>y. y \<noteq> x) (dedup_first xs)"

lemma set_dedup_first [simp]: "set (dedup_first xs) = set xs"
  by (induction xs) auto

lemma distinct_dedup_first [simp]: "distinct (dedup_first xs)"
  by (induction xs) auto

lemma dedup_first_distinct: "distinct xs \<Longrightarrow> dedup_first xs = xs"
  by (induction xs) (auto intro: filter_True)

lemma dedup_first_idem [simp]: "dedup_first (dedup_first xs) = dedup_first xs"
  by (simp add: dedup_first_distinct)

lemma dedup_first_Nil [simp]: "dedup_first xs = [] \<longleftrightarrow> xs = []"
  by (cases xs) auto

text \<open>\<open>sorted(set(xs))\<close>.\<close>

definition sorted_set :: "'a::linorder list \<Rightarrow> 'a list" where
  "sorted_set xs = sort (remdups xs)"

lemma set_sorted_set [simp]: "set (sorted_set xs) = set xs"
  by (simp add: sorted_set_def)

lemma sorted_set_Nil [simp]: "sorted_set xs = [] \<longleftrightarrow> xs = []"
  by (metis set_empty set_sorted_set)

lemma distinct_sorted_set [simp]: "distinct (sorted_set xs)"
  by (simp add: sorted_set_def)

text \<open>The last element of a list, \<open>None\<close> when the list is empty.\<close>

definition last_opt :: "'a list \<Rightarrow> 'a option" where
  "last_opt xs = (if xs = [] then None else Some (last xs))"

lemma last_opt_Nil [simp]: "last_opt [] = None"
  by (simp add: last_opt_def)

lemma last_opt_snoc [simp]: "last_opt (xs @ [x]) = Some x"
  by (simp add: last_opt_def)

lemma last_opt_None [simp]: "last_opt xs = None \<longleftrightarrow> xs = []"
  by (simp add: last_opt_def)

lemma last_opt_Some_in: "last_opt xs = Some x \<Longrightarrow> x \<in> set xs"
  by (auto simp: last_opt_def split: if_splits)

text \<open>Line feed and carriage return.\<close>

definition NL :: char where
  "NL = CHR 0x0A"

definition CR :: char where
  "CR = CHR 0x0D"

lemma CR_neq_NL [simp]: "CR \<noteq> NL" "NL \<noteq> CR"
  by (simp_all add: NL_def CR_def)

section \<open>Interface: codecs\<close>

text \<open>
  An encoder with a decoder that inverts it on the well-formed values. Every serialisation boundary
  of the program is an instance.
\<close>

locale codec =
  fixes enc :: "'a \<Rightarrow> 'b"
    and dec :: "'b \<Rightarrow> 'a option"
    and wf :: "'a \<Rightarrow> bool"
  assumes dec_enc: "wf x \<Longrightarrow> dec (enc x) = Some x"
begin

lemma enc_inj: "wf x \<Longrightarrow> wf y \<Longrightarrow> enc x = enc y \<Longrightarrow> x = y"
  by (metis dec_enc option.inject)

lemma enc_eq_iff: "wf x \<Longrightarrow> wf y \<Longrightarrow> enc x = enc y \<longleftrightarrow> x = y"
  using enc_inj by blast

lemma enc_inj_on: "inj_on enc {x. wf x}"
  by (auto intro: inj_onI enc_inj)

end

end
