(* ===== verification/RecordSpecs.thy ===== *)
theory RecordSpecs
  imports Prelude
begin

text \<open>
  The tables of records.py: the record types, the specification of each (required and optional
  fields, how its identity is derived, which field carries its status), the fields that must be
  non-empty text or objects, and the storage contexts that tie a ledger kind to an immutable record
  group. Field sets are lists in the order of the source; only membership in them is used.
\<close>

section \<open>Record types\<close>

datatype record_type =
    EPOCH
  | CANDIDATE
  | PROVIDER_PROBE
  | WORKFLOW_ACTION
  | EXECUTION_RECEIPT_BINDING
  | EXECUTION_ASSURANCE
  | WORKFLOW_RESULT
  | VERIFIER_ACTION
  | VERIFIER_RESULT
  | CANDIDATE_DISPOSITION
  | FREEZE
  | FINAL_EVALUATION
  | RECONCILIATION
  | BUNDLE
  | COMPILER_EXPERIMENT
  | COMPILER_CANDIDATE
  | CONCEPT_EVALUATION
  | LEDGER_ENTRY

fun record_type_value :: "record_type \<Rightarrow> string" where
  "record_type_value EPOCH = ''epoch''"
| "record_type_value CANDIDATE = ''candidate''"
| "record_type_value PROVIDER_PROBE = ''provider_probe''"
| "record_type_value WORKFLOW_ACTION = ''workflow_action''"
| "record_type_value EXECUTION_RECEIPT_BINDING = ''execution_receipt_binding''"
| "record_type_value EXECUTION_ASSURANCE = ''execution_assurance''"
| "record_type_value WORKFLOW_RESULT = ''workflow_result''"
| "record_type_value VERIFIER_ACTION = ''verifier_action''"
| "record_type_value VERIFIER_RESULT = ''verifier_result''"
| "record_type_value CANDIDATE_DISPOSITION = ''candidate_disposition''"
| "record_type_value FREEZE = ''freeze''"
| "record_type_value FINAL_EVALUATION = ''final_evaluation''"
| "record_type_value RECONCILIATION = ''reconciliation''"
| "record_type_value BUNDLE = ''bundle''"
| "record_type_value COMPILER_EXPERIMENT = ''compiler_experiment''"
| "record_type_value COMPILER_CANDIDATE = ''compiler_candidate''"
| "record_type_value CONCEPT_EVALUATION = ''concept_evaluation''"
| "record_type_value LEDGER_ENTRY = ''ledger_entry''"

definition record_types :: "record_type list" where
  "record_types =
    [EPOCH,
     CANDIDATE,
     PROVIDER_PROBE,
     WORKFLOW_ACTION,
     EXECUTION_RECEIPT_BINDING,
     EXECUTION_ASSURANCE,
     WORKFLOW_RESULT,
     VERIFIER_ACTION,
     VERIFIER_RESULT,
     CANDIDATE_DISPOSITION,
     FREEZE,
     FINAL_EVALUATION,
     RECONCILIATION,
     BUNDLE,
     COMPILER_EXPERIMENT,
     COMPILER_CANDIDATE,
     CONCEPT_EVALUATION,
     LEDGER_ENTRY]"

text \<open>
  \<open>_record_type\<close> on text; a \<open>RecordType\<close> argument is returned as it is, so the operations below take
  a \<^typ>\<open>record_type\<close>.
\<close>

definition record_type_of :: "string \<Rightarrow> record_type res" where
  "record_type_of s =
     (case filter (\<lambda>t. record_type_value t = s) record_types of
        t # _ \<Rightarrow> Inr t
      | [] \<Rightarrow> raise ''RECORD_TYPE_UNKNOWN'')"

section \<open>Specifications\<close>

record record_spec =
  required :: "string list"
  optional :: "string list"
  identity_field :: "string option"
  identity_prefix :: "string option"
  identity_exclusions :: "string list"
  status_field :: "string option"

definition allowed :: "record_spec \<Rightarrow> string list" where
  "allowed spec = required spec @ optional spec"

definition WORKFLOW_RESULT_FIELDS :: "string list" where
  "WORKFLOW_RESULT_FIELDS =
    [''candidate_identity'', ''subject_type'', ''provider_or_evaluator_identity'', ''method'',
     ''workflow'', ''category'', ''scope'', ''environment'', ''duration_seconds'', ''status'',
     ''witnesses_or_counterexamples'', ''limitations'', ''unsupported_constructs'',
     ''stderr_diagnostic'', ''returncode'', ''recorded_at'', ''protocol_request_identity'',
     ''output_identity'']"

definition epoch_spec :: record_spec where
  "epoch_spec =
    \<lparr>required =
       [''baseline_identity'', ''generator_identity'', ''evaluator_identity'',
        ''contract_identity'', ''objective_identity'', ''visible_partition_identities'',
        ''authority_identities'', ''declared_authority_overlap'', ''parent_epoch'',
        ''created_at'', ''epoch_id''],
     optional = [''extensions''],
     identity_field = Some ''epoch_id'',
     identity_prefix = Some ''epoch:'',
     identity_exclusions = [],
     status_field = None\<rparr>"

definition candidate_spec :: record_spec where
  "candidate_spec =
    \<lparr>required =
       [''candidate_id'', ''parent_candidate'', ''changed_files'', ''declared_hypothesis'',
        ''generator_identity'', ''generator_configuration_identity'', ''source_epoch'',
        ''registered_at'', ''current_file_identities'', ''useful_benefit_objective'',
        ''objective_identity'', ''supersedes''],
     optional = [''extensions''],
     identity_field = None,
     identity_prefix = None,
     identity_exclusions = [],
     status_field = None\<rparr>"

definition provider_probe_spec :: record_spec where
  "provider_probe_spec =
    \<lparr>required =
       [''provider_id'', ''name'', ''declared_identity'', ''declared_version'', ''command'',
        ''transport'', ''required'', ''declared_capabilities'', ''supported_constructs'',
        ''unsupported_constructs'', ''limitations'', ''expected_executable_identity'',
        ''descriptor'', ''availability'', ''status'', ''probe_kind'', ''provider_identity'',
        ''executable'', ''executable_identity'', ''probed_capabilities'', ''recorded_at'',
        ''output_identity''],
     optional = [''protocol_statuses'', ''cancellation'', ''health_checks'', ''duration_seconds'',
                 ''stderr_diagnostic'', ''returncode'', ''error_code'', ''extensions''],
     identity_field = Some ''output_identity'',
     identity_prefix = Some ''forge-json-sha256-v1:'',
     identity_exclusions = [],
     status_field = Some ''status''\<rparr>"

definition workflow_action_spec :: record_spec where
  "workflow_action_spec =
    \<lparr>required =
       [''workflow'', ''candidate_identity'', ''mode'', ''protocol_request_identity'',
        ''requested_at'', ''action_id''],
     optional = [''extensions''],
     identity_field = Some ''action_id'',
     identity_prefix = Some ''workflow-action:'',
     identity_exclusions = [],
     status_field = None\<rparr>"

definition execution_receipt_binding_spec :: record_spec where
  "execution_receipt_binding_spec =
    \<lparr>required =
       [''project_identity'', ''epoch_identity'', ''candidate_identity'', ''action_kind'',
        ''action_identity'', ''result_identity'', ''request_identity'', ''workflow_or_verifier'',
        ''runner_identity'', ''runner_kind'', ''runner_version'', ''worker_identity'',
        ''host_identity'', ''os_family'', ''architecture'', ''executable_identity'',
        ''image_identity'', ''environment_identity'', ''execution_scope'',
        ''termination_category'', ''receipt_schema_version'', ''receipt_identity'',
        ''receipt_completeness'', ''status'', ''established_properties'', ''mncs_receipt'',
        ''recorded_at'', ''binding_id''],
     optional = [''extensions''],
     identity_field = Some ''binding_id'',
     identity_prefix = Some ''execution-receipt-binding:'',
     identity_exclusions = [''mncs_receipt''],
     status_field = Some ''status''\<rparr>"

definition workflow_result_spec :: record_spec where
  "workflow_result_spec =
    \<lparr>required =
       WORKFLOW_RESULT_FIELDS,
     optional = [''extensions''],
     identity_field = Some ''output_identity'',
     identity_prefix = Some ''forge-json-sha256-v1:'',
     identity_exclusions = [],
     status_field = Some ''status''\<rparr>"

definition verifier_action_spec :: record_spec where
  "verifier_action_spec =
    \<lparr>required =
       [''verifier_id'', ''verifier_version'', ''verifier_identity'', ''provider_id'',
        ''provider_configuration_identity'', ''method'', ''mode'', ''epoch_identity'',
        ''candidate_identity'', ''candidate_parent_identity'', ''freeze_identity'',
        ''supersedes_output_identity'', ''scope'', ''changed_paths'', ''source_region'',
        ''input_identities'', ''configuration_identity'', ''policy_identity'',
        ''environment_identity'', ''requested_at'', ''protocol_request_identity'', ''action_id''],
     optional = [''extensions''],
     identity_field = Some ''action_id'',
     identity_prefix = Some ''verifier-action:'',
     identity_exclusions = [''protocol_request_identity''],
     status_field = None\<rparr>"

definition verifier_result_spec :: record_spec where
  "verifier_result_spec =
    \<lparr>required =
       [''action_id'', ''verifier_id'', ''verifier_version'', ''verifier_identity'', ''claim'',
        ''category'', ''provider_id'', ''provider_configuration_identity'',
        ''provider_executable_identity'', ''provider_identity'', ''provider_response_identity'',
        ''method'', ''mode'', ''evidence_class'', ''independent_evaluation'',
        ''iterative_development_overlap'', ''epoch_identity'', ''candidate_identity'',
        ''candidate_parent_identity'', ''freeze_identity'', ''supersedes_output_identity'',
        ''input_identities'', ''configuration_identity'', ''policy_identity'',
        ''environment_identity'', ''status'', ''summary'', ''witnesses'', ''assumptions'',
        ''limitations'', ''unsupported_constructs'', ''dependency_envelope'',
        ''duration_seconds'', ''stderr_diagnostic'', ''returncode'', ''operational_error'',
        ''disclosure'', ''recorded_at'', ''output_identity''],
     optional = [''extensions''],
     identity_field = Some ''output_identity'',
     identity_prefix = Some ''forge-json-sha256-v1:'',
     identity_exclusions = [],
     status_field = Some ''status''\<rparr>"

definition candidate_disposition_spec :: record_spec where
  "candidate_disposition_spec =
    \<lparr>required =
       [''candidate_identity'', ''disposition'', ''reason'', ''selection_rule'',
        ''selection_policy_identity'', ''evidence_status'', ''recorded_at'', ''disposition_id''],
     optional = [''extensions''],
     identity_field = Some ''disposition_id'',
     identity_prefix = Some ''disposition:'',
     identity_exclusions = [],
     status_field = Some ''evidence_status''\<rparr>"

definition freeze_spec :: record_spec where
  "freeze_spec =
    \<lparr>required =
       [''candidate_identity'', ''contract_identity'', ''reference_identity'',
        ''evaluator_identity'', ''acceptance_policy_identity'', ''protected_identity'',
        ''selection_record'', ''environment'', ''required_evidence_plan'',
        ''required_evidence_plan_identity'', ''frozen_path_sets'', ''frozen_at'', ''freeze_id''],
     optional = [''extensions''],
     identity_field = Some ''freeze_id'',
     identity_prefix = Some ''freeze:'',
     identity_exclusions = [],
     status_field = None\<rparr>"

definition final_evaluation_spec :: record_spec where
  "final_evaluation_spec =
    \<lparr>required =
       WORKFLOW_RESULT_FIELDS,
     optional = [''extensions''],
     identity_field = Some ''output_identity'',
     identity_prefix = Some ''forge-json-sha256-v1:'',
     identity_exclusions = [],
     status_field = Some ''status''\<rparr>"

definition reconciliation_spec :: record_spec where
  "reconciliation_spec =
    \<lparr>required =
       [''candidate_identity'', ''required_gate_aggregation'', ''categories'',
        ''conflicting_evidence'', ''stale_identities'', ''claim_limitations'',
        ''unresolved_blockers'', ''dominance'', ''normative_logic_delegated''],
     optional = [''extensions''],
     identity_field = None,
     identity_prefix = None,
     identity_exclusions = [],
     status_field = Some ''required_gate_aggregation''\<rparr>"

definition bundle_spec :: record_spec where
  "bundle_spec =
    \<lparr>required =
       WORKFLOW_RESULT_FIELDS,
     optional = [''extensions''],
     identity_field = Some ''output_identity'',
     identity_prefix = Some ''forge-json-sha256-v1:'',
     identity_exclusions = [],
     status_field = Some ''status''\<rparr>"

definition compiler_experiment_spec :: record_spec where
  "compiler_experiment_spec =
    \<lparr>required =
       [''language_contract_id'', ''language_record_identity'', ''run_identity'',
        ''compiler_identity'', ''pipeline_identity'', ''compilation_status'', ''language_record'',
        ''observation'', ''recorded_at'', ''interpretation'', ''assurance_status'',
        ''conformance_status'', ''experiment_id''],
     optional = [''extensions''],
     identity_field = Some ''experiment_id'',
     identity_prefix = Some ''compiler-experiment:'',
     identity_exclusions = [''recorded_at''],
     status_field = None\<rparr>"

definition compiler_candidate_spec :: record_spec where
  "compiler_candidate_spec =
    \<lparr>required =
       [''baseline_artifact_identity'', ''candidate_artifact_identity'', ''generator_identity'',
        ''declared_transformation'', ''claimed_relation'', ''expected_benefit'',
        ''protected_properties'', ''target_envelope'', ''required_validation'',
        ''semantic_status'', ''benchmark_observation'', ''validation'', ''policy_disposition'',
        ''isolated'', ''generator_certified'', ''interpretation'', ''assurance_status'',
        ''conformance_status'', ''recorded_at'', ''candidate_id''],
     optional = [''extensions''],
     identity_field = Some ''candidate_id'',
     identity_prefix = Some ''compiler-candidate:'',
     identity_exclusions = [''recorded_at''],
     status_field = None\<rparr>"

definition concept_evaluation_spec :: record_spec where
  "concept_evaluation_spec =
    \<lparr>required =
       [''concept_experiment_id'', ''candidate_identity'', ''language_profile'',
        ''compiler_identity'', ''backend_identity'', ''execution_identities'',
        ''verifier_identity'', ''verifier_version'', ''obligation'', ''evidence_identities'',
        ''status'', ''unresolved_obligations'', ''generator_identity'',
        ''evaluator_policy_identity'', ''generator_certified'', ''evaluation_material'',
        ''stable_id'', ''content_digest'', ''interpretation'', ''assurance_status'',
        ''conformance_status'', ''recorded_at'', ''evaluation_id''],
     optional = [''extensions''],
     identity_field = Some ''evaluation_id'',
     identity_prefix = Some ''concept-evaluation:'',
     identity_exclusions = [''recorded_at''],
     status_field = None\<rparr>"

definition execution_assurance_spec :: record_spec where
  "execution_assurance_spec =
    \<lparr>required =
       [''project_identity'', ''candidate_identity'', ''binding_identity'', ''action_kind'',
        ''action_identity'', ''requested_properties'', ''unmet_properties'', ''reasons'',
        ''assurance_status'', ''policy_identity'', ''assessed_at'', ''assessment_id''],
     optional = [''extensions''],
     identity_field = Some ''assessment_id'',
     identity_prefix = Some ''execution-assurance:'',
     identity_exclusions = [],
     status_field = Some ''assurance_status''\<rparr>"

fun RECORD_SPECS :: "record_type \<Rightarrow> record_spec option" where
  "RECORD_SPECS EPOCH = Some epoch_spec"
| "RECORD_SPECS CANDIDATE = Some candidate_spec"
| "RECORD_SPECS PROVIDER_PROBE = Some provider_probe_spec"
| "RECORD_SPECS WORKFLOW_ACTION = Some workflow_action_spec"
| "RECORD_SPECS EXECUTION_RECEIPT_BINDING = Some execution_receipt_binding_spec"
| "RECORD_SPECS WORKFLOW_RESULT = Some workflow_result_spec"
| "RECORD_SPECS VERIFIER_ACTION = Some verifier_action_spec"
| "RECORD_SPECS VERIFIER_RESULT = Some verifier_result_spec"
| "RECORD_SPECS CANDIDATE_DISPOSITION = Some candidate_disposition_spec"
| "RECORD_SPECS FREEZE = Some freeze_spec"
| "RECORD_SPECS FINAL_EVALUATION = Some final_evaluation_spec"
| "RECORD_SPECS RECONCILIATION = Some reconciliation_spec"
| "RECORD_SPECS BUNDLE = Some bundle_spec"
| "RECORD_SPECS COMPILER_EXPERIMENT = Some compiler_experiment_spec"
| "RECORD_SPECS COMPILER_CANDIDATE = Some compiler_candidate_spec"
| "RECORD_SPECS CONCEPT_EVALUATION = Some concept_evaluation_spec"
| "RECORD_SPECS EXECUTION_ASSURANCE = Some execution_assurance_spec"
| "RECORD_SPECS LEDGER_ENTRY = None"

definition epoch_strings :: "string list" where
  "epoch_strings =
    [''baseline_identity'', ''generator_identity'', ''evaluator_identity'', ''contract_identity'',
     ''objective_identity'', ''created_at'', ''epoch_id'']"

definition candidate_strings :: "string list" where
  "candidate_strings =
    [''candidate_id'', ''declared_hypothesis'', ''generator_identity'',
     ''generator_configuration_identity'', ''source_epoch'', ''registered_at'',
     ''useful_benefit_objective'', ''objective_identity'']"

definition provider_probe_strings :: "string list" where
  "provider_probe_strings =
    [''provider_id'', ''name'', ''transport'', ''availability'', ''status'', ''probe_kind'',
     ''recorded_at'', ''output_identity'']"

definition workflow_action_strings :: "string list" where
  "workflow_action_strings =
    [''workflow'', ''candidate_identity'', ''mode'', ''requested_at'', ''action_id'']"

definition execution_receipt_binding_strings :: "string list" where
  "execution_receipt_binding_strings =
    [''project_identity'', ''candidate_identity'', ''action_kind'', ''action_identity'',
     ''workflow_or_verifier'', ''runner_identity'', ''runner_kind'', ''runner_version'',
     ''os_family'', ''architecture'', ''environment_identity'', ''execution_scope'',
     ''termination_category'', ''receipt_completeness'', ''status'', ''recorded_at'',
     ''binding_id'']"

definition execution_assurance_strings :: "string list" where
  "execution_assurance_strings =
    [''project_identity'', ''candidate_identity'', ''binding_identity'', ''action_kind'',
     ''action_identity'', ''assurance_status'', ''assessed_at'', ''assessment_id'']"

definition workflow_result_strings :: "string list" where
  "workflow_result_strings =
    [''candidate_identity'', ''subject_type'', ''method'', ''workflow'', ''category'', ''scope'',
     ''status'', ''recorded_at'', ''output_identity'']"

definition verifier_action_strings :: "string list" where
  "verifier_action_strings =
    [''verifier_id'', ''verifier_version'', ''verifier_identity'', ''provider_id'',
     ''provider_configuration_identity'', ''method'', ''mode'', ''epoch_identity'',
     ''candidate_identity'', ''scope'', ''configuration_identity'', ''policy_identity'',
     ''environment_identity'', ''requested_at'', ''protocol_request_identity'', ''action_id'']"

definition verifier_result_strings :: "string list" where
  "verifier_result_strings =
    [''action_id'', ''verifier_id'', ''verifier_version'', ''verifier_identity'', ''claim'',
     ''category'', ''provider_id'', ''provider_configuration_identity'', ''method'', ''mode'',
     ''evidence_class'', ''epoch_identity'', ''candidate_identity'', ''configuration_identity'',
     ''policy_identity'', ''environment_identity'', ''status'', ''summary'', ''disclosure'',
     ''recorded_at'', ''output_identity'']"

definition candidate_disposition_strings :: "string list" where
  "candidate_disposition_strings =
    [''candidate_identity'', ''disposition'', ''reason'', ''selection_rule'',
     ''selection_policy_identity'', ''evidence_status'', ''recorded_at'', ''disposition_id'']"

definition freeze_strings :: "string list" where
  "freeze_strings =
    [''candidate_identity'', ''contract_identity'', ''reference_identity'',
     ''evaluator_identity'', ''acceptance_policy_identity'', ''protected_identity'',
     ''selection_record'', ''environment'', ''required_evidence_plan'',
     ''required_evidence_plan_identity'', ''frozen_at'', ''freeze_id'']"

definition final_evaluation_strings :: "string list" where
  "final_evaluation_strings =
    [''candidate_identity'', ''subject_type'', ''method'', ''workflow'', ''category'', ''scope'',
     ''status'', ''recorded_at'', ''output_identity'']"

definition reconciliation_strings :: "string list" where
  "reconciliation_strings =
    [''required_gate_aggregation'', ''dominance'', ''normative_logic_delegated'']"

definition bundle_strings :: "string list" where
  "bundle_strings =
    [''candidate_identity'', ''subject_type'', ''method'', ''workflow'', ''category'', ''scope'',
     ''status'', ''recorded_at'', ''output_identity'']"

definition compiler_experiment_strings :: "string list" where
  "compiler_experiment_strings =
    [''language_contract_id'', ''language_record_identity'', ''run_identity'',
     ''compiler_identity'', ''pipeline_identity'', ''compilation_status'', ''recorded_at'',
     ''interpretation'', ''experiment_id'']"

definition concept_evaluation_strings :: "string list" where
  "concept_evaluation_strings =
    [''concept_experiment_id'', ''candidate_identity'', ''language_profile'',
     ''compiler_identity'', ''backend_identity'', ''verifier_identity'', ''verifier_version'',
     ''obligation'', ''stable_id'', ''content_digest'', ''recorded_at'', ''interpretation'',
     ''evaluation_id'']"

definition compiler_candidate_strings :: "string list" where
  "compiler_candidate_strings =
    [''baseline_artifact_identity'', ''candidate_artifact_identity'', ''generator_identity'',
     ''declared_transformation'', ''claimed_relation'', ''expected_benefit'', ''target_envelope'',
     ''required_validation'', ''semantic_status'', ''policy_disposition'', ''interpretation'',
     ''recorded_at'', ''candidate_id'']"

fun REQUIRED_STRING_FIELDS :: "record_type \<Rightarrow> string list" where
  "REQUIRED_STRING_FIELDS EPOCH = epoch_strings"
| "REQUIRED_STRING_FIELDS CANDIDATE = candidate_strings"
| "REQUIRED_STRING_FIELDS PROVIDER_PROBE = provider_probe_strings"
| "REQUIRED_STRING_FIELDS WORKFLOW_ACTION = workflow_action_strings"
| "REQUIRED_STRING_FIELDS EXECUTION_RECEIPT_BINDING = execution_receipt_binding_strings"
| "REQUIRED_STRING_FIELDS EXECUTION_ASSURANCE = execution_assurance_strings"
| "REQUIRED_STRING_FIELDS WORKFLOW_RESULT = workflow_result_strings"
| "REQUIRED_STRING_FIELDS VERIFIER_ACTION = verifier_action_strings"
| "REQUIRED_STRING_FIELDS VERIFIER_RESULT = verifier_result_strings"
| "REQUIRED_STRING_FIELDS CANDIDATE_DISPOSITION = candidate_disposition_strings"
| "REQUIRED_STRING_FIELDS FREEZE = freeze_strings"
| "REQUIRED_STRING_FIELDS FINAL_EVALUATION = final_evaluation_strings"
| "REQUIRED_STRING_FIELDS RECONCILIATION = reconciliation_strings"
| "REQUIRED_STRING_FIELDS BUNDLE = bundle_strings"
| "REQUIRED_STRING_FIELDS COMPILER_EXPERIMENT = compiler_experiment_strings"
| "REQUIRED_STRING_FIELDS CONCEPT_EVALUATION = concept_evaluation_strings"
| "REQUIRED_STRING_FIELDS COMPILER_CANDIDATE = compiler_candidate_strings"
| "REQUIRED_STRING_FIELDS LEDGER_ENTRY = []"

fun REQUIRED_OBJECT_FIELDS :: "record_type \<Rightarrow> string list" where
  "REQUIRED_OBJECT_FIELDS EPOCH = [''visible_partition_identities'', ''authority_identities'']"
| "REQUIRED_OBJECT_FIELDS CANDIDATE = [''current_file_identities'']"
| "REQUIRED_OBJECT_FIELDS EXECUTION_RECEIPT_BINDING = [''established_properties'']"
| "REQUIRED_OBJECT_FIELDS WORKFLOW_RESULT = [''environment'']"
| "REQUIRED_OBJECT_FIELDS VERIFIER_ACTION = [''input_identities'']"
| "REQUIRED_OBJECT_FIELDS VERIFIER_RESULT = [''input_identities'', ''dependency_envelope'']"
| "REQUIRED_OBJECT_FIELDS FREEZE = [''frozen_path_sets'']"
| "REQUIRED_OBJECT_FIELDS FINAL_EVALUATION = [''environment'']"
| "REQUIRED_OBJECT_FIELDS RECONCILIATION = [''categories'']"
| "REQUIRED_OBJECT_FIELDS BUNDLE = [''environment'']"
| "REQUIRED_OBJECT_FIELDS COMPILER_EXPERIMENT = [''language_record'', ''observation'']"
| "REQUIRED_OBJECT_FIELDS CONCEPT_EVALUATION = [''evaluation_material'']"
| "REQUIRED_OBJECT_FIELDS _ = []"

definition LEDGER_KIND_TYPES :: "(string \<times> record_type) list" where
  "LEDGER_KIND_TYPES =
    [(''epoch'', EPOCH),
     (''candidate'', CANDIDATE),
     (''provider_probe'', PROVIDER_PROBE),
     (''workflow_action'', WORKFLOW_ACTION),
     (''execution_receipt_binding'', EXECUTION_RECEIPT_BINDING),
     (''execution_assurance'', EXECUTION_ASSURANCE),
     (''result'', WORKFLOW_RESULT),
     (''verifier_action'', VERIFIER_ACTION),
     (''verifier_result'', VERIFIER_RESULT),
     (''disposition'', CANDIDATE_DISPOSITION),
     (''freeze'', FREEZE),
     (''evaluation'', FINAL_EVALUATION),
     (''bundle'', BUNDLE),
     (''compiler_experiment'', COMPILER_EXPERIMENT),
     (''compiler_candidate'', COMPILER_CANDIDATE),
     (''concept_evaluation'', CONCEPT_EVALUATION)]"

definition RECORD_GROUP_TYPES :: "(string \<times> record_type) list" where
  "RECORD_GROUP_TYPES =
    [(''epochs'', EPOCH),
     (''candidates'', CANDIDATE),
     (''provider-probes'', PROVIDER_PROBE),
     (''workflow-actions'', WORKFLOW_ACTION),
     (''execution-receipt-bindings'', EXECUTION_RECEIPT_BINDING),
     (''assessments'', EXECUTION_ASSURANCE),
     (''results'', WORKFLOW_RESULT),
     (''verifier-actions'', VERIFIER_ACTION),
     (''verifier-results'', VERIFIER_RESULT),
     (''dispositions'', CANDIDATE_DISPOSITION),
     (''freezes'', FREEZE),
     (''evaluations'', FINAL_EVALUATION),
     (''bundles'', BUNDLE),
     (''compiler-experiments'', COMPILER_EXPERIMENT),
     (''concept-evaluations'', CONCEPT_EVALUATION),
     (''compiler-candidates'', COMPILER_CANDIDATE)]"

definition LEDGER_REQUIRED :: "string list" where
  "LEDGER_REQUIRED = [''sequence'', ''timestamp'', ''kind'', ''previous_hash'', ''payload'',
                       ''entry_hash'']"

section \<open>Storage contexts\<close>

record persisted_context =
  group :: string
  ledger_kind :: string
  ctx_record_type :: record_type
  ctx_identity_field :: string

definition PERSISTED_RECORD_CONTEXTS :: "(string \<times> persisted_context) list" where
  "PERSISTED_RECORD_CONTEXTS =
    [(''epoch'', \<lparr>group = ''epochs'', ledger_kind = ''epoch'',
        ctx_record_type = EPOCH, ctx_identity_field = ''epoch_id''\<rparr>),
     (''candidate'', \<lparr>group = ''candidates'', ledger_kind = ''candidate'',
        ctx_record_type = CANDIDATE, ctx_identity_field = ''candidate_id''\<rparr>),
     (''provider_probe'', \<lparr>group = ''provider-probes'', ledger_kind = ''provider_probe'',
        ctx_record_type = PROVIDER_PROBE, ctx_identity_field = ''output_identity''\<rparr>),
     (''workflow_action'', \<lparr>group = ''workflow-actions'', ledger_kind = ''workflow_action'',
        ctx_record_type = WORKFLOW_ACTION, ctx_identity_field = ''action_id''\<rparr>),
     (''execution_receipt_binding'', \<lparr>group = ''execution-receipt-bindings'', ledger_kind = ''execution_receipt_binding'',
        ctx_record_type = EXECUTION_RECEIPT_BINDING, ctx_identity_field = ''binding_id''\<rparr>),
     (''execution_assurance'', \<lparr>group = ''assessments'', ledger_kind = ''execution_assurance'',
        ctx_record_type = EXECUTION_ASSURANCE, ctx_identity_field = ''assessment_id''\<rparr>),
     (''result'', \<lparr>group = ''results'', ledger_kind = ''result'',
        ctx_record_type = WORKFLOW_RESULT, ctx_identity_field = ''output_identity''\<rparr>),
     (''verifier_action'', \<lparr>group = ''verifier-actions'', ledger_kind = ''verifier_action'',
        ctx_record_type = VERIFIER_ACTION, ctx_identity_field = ''action_id''\<rparr>),
     (''verifier_result'', \<lparr>group = ''verifier-results'', ledger_kind = ''verifier_result'',
        ctx_record_type = VERIFIER_RESULT, ctx_identity_field = ''output_identity''\<rparr>),
     (''disposition'', \<lparr>group = ''dispositions'', ledger_kind = ''disposition'',
        ctx_record_type = CANDIDATE_DISPOSITION, ctx_identity_field = ''disposition_id''\<rparr>),
     (''freeze'', \<lparr>group = ''freezes'', ledger_kind = ''freeze'',
        ctx_record_type = FREEZE, ctx_identity_field = ''freeze_id''\<rparr>),
     (''evaluation'', \<lparr>group = ''evaluations'', ledger_kind = ''evaluation'',
        ctx_record_type = FINAL_EVALUATION, ctx_identity_field = ''output_identity''\<rparr>),
     (''bundle'', \<lparr>group = ''bundles'', ledger_kind = ''bundle'',
        ctx_record_type = BUNDLE, ctx_identity_field = ''output_identity''\<rparr>),
     (''compiler_experiment'', \<lparr>group = ''compiler-experiments'', ledger_kind = ''compiler_experiment'',
        ctx_record_type = COMPILER_EXPERIMENT, ctx_identity_field = ''experiment_id''\<rparr>),
     (''compiler_candidate'', \<lparr>group = ''compiler-candidates'', ledger_kind = ''compiler_candidate'',
        ctx_record_type = COMPILER_CANDIDATE, ctx_identity_field = ''candidate_id''\<rparr>),
     (''concept_evaluation'', \<lparr>group = ''concept-evaluations'', ledger_kind = ''concept_evaluation'',
        ctx_record_type = CONCEPT_EVALUATION, ctx_identity_field = ''evaluation_id''\<rparr>)]"

definition persisted_record_context :: "string \<Rightarrow> string \<Rightarrow> persisted_context res" where
  "persisted_record_context grp kind =
     (case map_of PERSISTED_RECORD_CONTEXTS kind of
        None \<Rightarrow> raise ''RECORD_CONTEXT''
      | Some ctx \<Rightarrow> if group ctx \<noteq> grp then raise ''RECORD_CONTEXT'' else Inr ctx)"

end
