(* ===== verification/PyVal.thy ===== *)
theory PyVal
  imports Prelude
begin

text \<open>
  The Python values that records, ledger lines, journals and index files are made of, with Python's
  equality, \<open>str()\<close> and the mapping operations the sources use.

  A dictionary is an association list in strictly increasing key order. Insertion order is never
  observable in the modelled code: every encoder sorts keys, equality ignores order, and error
  messages sort what they name. \<open>dict_wf\<close> states the order and the operations keep it.

  Frozen records hold tuples and mapping proxies where JSON values hold lists and dictionaries
  (\<open>FrozenJsonValue\<close> of records.py); the two are kept apart because the sources test for them with
  \<open>isinstance\<close>. \<open>POther\<close> is any Python object that is none of these.
\<close>

section \<open>Values\<close>

text \<open>
  A finite float is held as the sign, digits and exponent of its shortest decimal representation,
  which is what \<open>repr\<close> prints and what identifies the double.
\<close>

datatype pyfloat = PFin bool nat int | PInf bool | PNan

datatype pyval =
    PNone
  | PBool bool
  | PInt int
  | PFloat pyfloat
  | PStr string
  | PList "pyval list"
  | PTuple "pyval list"
  | PDict "(string \<times> pyval) list"
  | PProxy "(string \<times> pyval) list"
  | POther nat

type_synonym dict = "(string \<times> pyval) list"

section \<open>Dictionaries\<close>

fun dict_put :: "string \<Rightarrow> pyval \<Rightarrow> dict \<Rightarrow> dict" where
  "dict_put k v [] = [(k, v)]"
| "dict_put k v ((k', v') # d) =
     (if k < k' then (k, v) # (k', v') # d
      else if k = k' then (k, v) # d
      else (k', v') # dict_put k v d)"

definition dict_del :: "string \<Rightarrow> dict \<Rightarrow> dict" where
  "dict_del k d = filter (\<lambda>p. fst p \<noteq> k) d"

text \<open>\<open>d.get(k)\<close> with Python's default \<open>None\<close>.\<close>

definition dict_get :: "dict \<Rightarrow> string \<Rightarrow> pyval" where
  "dict_get d k = (case map_of d k of None \<Rightarrow> PNone | Some v \<Rightarrow> v)"

text \<open>\<open>d.update(ps)\<close> and the dictionary built from a sequence of pairs: later pairs win.\<close>

fun dict_update :: "dict \<Rightarrow> dict \<Rightarrow> dict" where
  "dict_update d [] = d"
| "dict_update d ((k, v) # ps) = dict_update (dict_put k v d) ps"

definition dict_of :: "dict \<Rightarrow> dict" where
  "dict_of ps = dict_update [] ps"

definition dict_wf :: "dict \<Rightarrow> bool" where
  "dict_wf d = sorted_wrt (<) (map fst d)"

lemma map_of_dict_put [simp]: "map_of (dict_put k v d) = (map_of d)(k \<mapsto> v)"
  by (induction k v d rule: dict_put.induct) (auto simp: fun_eq_iff)

lemma keys_dict_put: "fst ` set (dict_put k v d) = insert k (fst ` set d)"
  by (induction k v d rule: dict_put.induct) auto

lemma set_dict_put: "set (dict_put k v d) \<subseteq> insert (k, v) (set d)"
  by (induction k v d rule: dict_put.induct) auto

lemma dict_wf_Nil [simp]: "dict_wf []"
  by (simp add: dict_wf_def)

lemma dict_wf_Cons [simp]: "dict_wf ((k, v) # d) \<longleftrightarrow> (\<forall>k' \<in> fst ` set d. k < k') \<and> dict_wf d"
  by (auto simp: dict_wf_def)

lemma dict_wf_put [simp]: "dict_wf d \<Longrightarrow> dict_wf (dict_put k v d)"
  by (induction k v d rule: dict_put.induct) (auto simp: keys_dict_put)

lemma dict_wf_distinct: "dict_wf d \<Longrightarrow> distinct (map fst d)"
  by (induction d) force+

lemma dict_wf_del [simp]: "dict_wf d \<Longrightarrow> dict_wf (dict_del k d)"
  by (induction d) (auto simp: dict_del_def)

lemma map_of_dict_del [simp]: "map_of (dict_del k d) = (map_of d)(k := None)"
  by (induction d) (auto simp: dict_del_def fun_eq_iff)

lemma dict_wf_update [simp]: "dict_wf d \<Longrightarrow> dict_wf (dict_update d ps)"
  by (induction d ps rule: dict_update.induct) auto

lemma dict_wf_of [simp]: "dict_wf (dict_of ps)"
  by (simp add: dict_of_def)

lemma map_of_dict_update: "map_of (dict_update d ps) = map_of d ++ map_of (rev ps)"
  by (induction d ps rule: dict_update.induct) (auto simp: fun_eq_iff map_add_def split: option.splits)

lemma dict_get_put [simp]: "dict_get (dict_put k v d) k' = (if k' = k then v else dict_get d k')"
  by (simp add: dict_get_def)

lemma dict_get_del [simp]: "dict_get (dict_del k d) k' = (if k' = k then PNone else dict_get d k')"
  by (simp add: dict_get_def)

lemma set_dict_update: "set (dict_update d ps) \<subseteq> set d \<union> set ps"
proof (induction d ps rule: dict_update.induct)
  case (2 d k v ps)
  then show ?case using set_dict_put [of k v d] by auto
qed simp

lemma set_dict_of: "set (dict_of ps) \<subseteq> set ps"
  using set_dict_update [of "[]" ps] by (simp add: dict_of_def)

lemma keys_dict_update: "fst ` set (dict_update d ps) = fst ` set d \<union> fst ` set ps"
  by (induction d ps rule: dict_update.induct) (auto simp: keys_dict_put)

lemma keys_dict_of: "fst ` set (dict_of ps) = fst ` set ps"
  by (simp add: dict_of_def keys_dict_update)

lemma dict_put_last: "(\<And>k'. k' \<in> fst ` set d \<Longrightarrow> k' < k) \<Longrightarrow> dict_put k v d = d @ [(k, v)]"
proof (induction d)
  case (Cons p d)
  obtain k' v' where p: "p = (k', v')" by (cases p)
  with Cons.prems [of k'] have "k' < k" by simp
  with Cons p show ?case by (auto dest: less_asym)
qed simp

lemma dict_put_same: "dict_wf d \<Longrightarrow> map_of d k = Some v \<Longrightarrow> dict_put k v d = d"
proof (induction d)
  case (Cons p d)
  obtain k' v' where p: "p = (k', v')" by (cases p)
  have "k' < k" if "k \<noteq> k'"
    using that Cons.prems p by (auto dest!: map_of_SomeD)
  with Cons p show ?case by (auto dest: less_asym)
qed simp

text \<open>Rebuilding a well-formed dictionary from its own items gives it back.\<close>

lemma dict_update_sorted:
  "dict_wf (d @ ps) \<Longrightarrow> dict_update d ps = d @ ps"
proof (induction ps arbitrary: d)
  case (Cons p ps)
  obtain k v where p: "p = (k, v)" by (cases p)
  have "dict_put k v d = d @ [(k, v)]"
    using Cons.prems p by (intro dict_put_last) (auto simp: dict_wf_def sorted_wrt_append)
  with Cons p show ?case by simp
qed simp

lemma dict_of_wf [simp]: "dict_wf d \<Longrightarrow> dict_of d = d"
  using dict_update_sorted [of "[]" d] by (simp add: dict_of_def)

text \<open>Two well-formed dictionaries with the same lookups are the same list.\<close>

lemma dict_eqI: "dict_wf d \<Longrightarrow> dict_wf e \<Longrightarrow> map_of d = map_of e \<Longrightarrow> d = e"
proof (induction d arbitrary: e)
  case Nil
  then have "map_of e = Map.empty" by simp
  then show ?case by simp
next
  case (Cons p d)
  obtain k v where p: "p = (k, v)" by (cases p)
  have "map_of e k = Some v" using Cons.prems(3) p by (auto dest: fun_cong [where x = k])
  then obtain k' v' e' where e: "e = (k', v') # e'" by (cases e) auto
  have lt: "\<And>x. x \<in> fst ` set d \<Longrightarrow> k < x" "\<And>x. x \<in> fst ` set e' \<Longrightarrow> k' < x"
    using Cons.prems(1,2) p e by auto
  have kk: "k = k'"
  proof (rule ccontr)
    assume ne: "k \<noteq> k'"
    from \<open>map_of e k = Some v\<close> ne e have "map_of e' k = Some v" by simp
    then have "k' < k" by (intro lt) (auto dest!: map_of_SomeD intro: rev_image_eqI)
    moreover from fun_cong [OF Cons.prems(3), of k'] ne p e have "map_of d k' = Some v'" by simp
    then have "k < k'" by (intro lt) (auto dest!: map_of_SomeD intro: rev_image_eqI)
    ultimately show False by simp
  qed
  have notin: "map_of d k = None" "map_of e' k = None"
    using lt kk by (auto simp: map_of_eq_None_iff)
  have "map_of d x = map_of e' x" for x
    using fun_cong [OF Cons.prems(3), of x] p e kk notin by (cases "x = k") auto
  then have "d = e'" using Cons.prems(1,2) p e by (intro Cons.IH) auto
  moreover have "v = v'" using fun_cong [OF Cons.prems(3), of k] p e kk by simp
  ultimately show ?case using p e kk by simp
qed

section \<open>Induction over values\<close>

lemma pyval_induct [case_names none bool int float str list tuple dict proxy other]:
  assumes "P PNone" "\<And>b. P (PBool b)" "\<And>i. P (PInt i)" "\<And>f. P (PFloat f)" "\<And>s. P (PStr s)"
    and "\<And>xs. (\<And>x. x \<in> set xs \<Longrightarrow> P x) \<Longrightarrow> P (PList xs)"
    and "\<And>xs. (\<And>x. x \<in> set xs \<Longrightarrow> P x) \<Longrightarrow> P (PTuple xs)"
    and "\<And>d. (\<And>k v. (k, v) \<in> set d \<Longrightarrow> P v) \<Longrightarrow> P (PDict d)"
    and "\<And>d. (\<And>k v. (k, v) \<in> set d \<Longrightarrow> P v) \<Longrightarrow> P (PProxy d)"
    and "\<And>n. P (POther n)"
  shows "P v"
  by (induction v) (use assms in \<open>force simp: snds.simps\<close>)+

section \<open>Type tests\<close>

text \<open>\<open>isinstance(x, Mapping)\<close>, \<open>isinstance(x, dict)\<close>, \<open>isinstance(x, Sequence)\<close> for non-strings.\<close>

fun mapping_items :: "pyval \<Rightarrow> dict option" where
  "mapping_items (PDict d) = Some d"
| "mapping_items (PProxy d) = Some d"
| "mapping_items _ = None"

fun sequence_items :: "pyval \<Rightarrow> pyval list option" where
  "sequence_items (PList xs) = Some xs"
| "sequence_items (PTuple xs) = Some xs"
| "sequence_items _ = None"

fun is_pdict :: "pyval \<Rightarrow> bool" where
  "is_pdict (PDict _) = True"
| "is_pdict _ = False"

fun is_pstr :: "pyval \<Rightarrow> bool" where
  "is_pstr (PStr _) = True"
| "is_pstr _ = False"

text \<open>\<open>isinstance(x, str) and x\<close>: a non-empty text value.\<close>

definition nonempty_str :: "pyval \<Rightarrow> bool" where
  "nonempty_str v = (case v of PStr s \<Rightarrow> s \<noteq> [] | _ \<Rightarrow> False)"

lemma is_pstr_iff: "is_pstr v \<longleftrightarrow> (\<exists>s. v = PStr s)"
  by (cases v) auto

lemma is_pdict_iff: "is_pdict v \<longleftrightarrow> (\<exists>d. v = PDict d)"
  by (cases v) auto

lemma nonempty_str_iff: "nonempty_str v \<longleftrightarrow> (\<exists>s. v = PStr s \<and> s \<noteq> [])"
  by (cases v) (auto simp: nonempty_str_def)

text \<open>The typed value, when it has that type; a Boolean is not an integer here.\<close>

fun as_int :: "pyval \<Rightarrow> int option" where
  "as_int (PInt i) = Some i"
| "as_int _ = None"

fun as_text :: "pyval \<Rightarrow> string option" where
  "as_text (PStr s) = Some s"
| "as_text _ = None"

fun as_dict :: "pyval \<Rightarrow> dict option" where
  "as_dict (PDict d) = Some d"
| "as_dict _ = None"

lemma as_int_Some [simp]: "as_int v = Some i \<longleftrightarrow> v = PInt i"
  by (cases v) auto

lemma as_text_Some [simp]: "as_text v = Some s \<longleftrightarrow> v = PStr s"
  by (cases v) auto

lemma as_dict_Some [simp]: "as_dict v = Some d \<longleftrightarrow> v = PDict d"
  by (cases v) auto

section \<open>Equality\<close>

text \<open>
  Booleans, integers and floats compare by value across types (\<open>True == 1 == 1.0\<close>); a mapping proxy
  compares as the mapping it wraps; a list never equals a tuple; \<open>nan\<close> equals nothing.
\<close>

fun py_num :: "pyval \<Rightarrow> (int \<times> int) option" where
  "py_num (PBool b) = Some (if b then 1 else 0, 0)"
| "py_num (PInt i) = Some (i, 0)"
| "py_num (PFloat (PFin s m e)) = Some (if s then - int m else int m, e)"
| "py_num _ = None"

definition num_eq :: "int \<times> int \<Rightarrow> int \<times> int \<Rightarrow> bool" where
  "num_eq x y = (let k = min (snd x) (snd y)
     in fst x * 10 ^ nat (snd x - k) = fst y * 10 ^ nat (snd y - k))"

definition num_py_eq :: "pyval \<Rightarrow> pyval \<Rightarrow> bool" where
  "num_py_eq v w = (case (py_num v, py_num w) of (Some x, Some y) \<Rightarrow> num_eq x y | _ \<Rightarrow> False)"

fun float_eq :: "pyfloat \<Rightarrow> pyval \<Rightarrow> bool" where
  "float_eq (PInf s) (PFloat (PInf t)) = (s = t)"
| "float_eq f w = num_py_eq (PFloat f) w"

fun py_eq :: "pyval \<Rightarrow> pyval \<Rightarrow> bool"
  and py_eq_list :: "pyval list \<Rightarrow> pyval list \<Rightarrow> bool"
  and py_eq_items :: "dict \<Rightarrow> dict \<Rightarrow> bool" where
  "py_eq PNone w = (w = PNone)"
| "py_eq (PBool b) w = num_py_eq (PBool b) w"
| "py_eq (PInt i) w = num_py_eq (PInt i) w"
| "py_eq (PFloat f) w = float_eq f w"
| "py_eq (PStr s) w = (w = PStr s)"
| "py_eq (PList xs) w = (case w of PList ys \<Rightarrow> py_eq_list xs ys | _ \<Rightarrow> False)"
| "py_eq (PTuple xs) w = (case w of PTuple ys \<Rightarrow> py_eq_list xs ys | _ \<Rightarrow> False)"
| "py_eq (PDict d) w = (case mapping_items w of Some e \<Rightarrow> py_eq_items d e | None \<Rightarrow> False)"
| "py_eq (PProxy d) w = (case mapping_items w of Some e \<Rightarrow> py_eq_items d e | None \<Rightarrow> False)"
| "py_eq (POther n) w = (w = POther n)"
| "py_eq_list [] ys = (ys = [])"
| "py_eq_list (x # xs) ys = (case ys of [] \<Rightarrow> False | y # ys' \<Rightarrow> py_eq x y \<and> py_eq_list xs ys')"
| "py_eq_items [] e = (e = [])"
| "py_eq_items ((k, v) # d) e =
     (case e of [] \<Rightarrow> False | (k', v') # e' \<Rightarrow> k = k' \<and> py_eq v v' \<and> py_eq_items d e')"

lemma num_py_eq_PStr [simp]: "\<not> num_py_eq v (PStr s)"
  by (simp add: num_py_eq_def split: option.splits)

lemma py_eq_PStr [simp]: "py_eq v (PStr s) \<longleftrightarrow> v = PStr s"
proof (cases v)
  case (PFloat f)
  then show ?thesis by (cases f) auto
qed (auto split: option.splits)

lemma py_eq_PNone [simp]: "py_eq v PNone \<longleftrightarrow> v = PNone"
proof (cases v)
  case (PFloat f)
  then show ?thesis by (cases f) (auto simp: num_py_eq_def split: option.splits)
qed (auto simp: num_py_eq_def split: option.splits)

lemma py_eq_PInt_iff [simp]: "py_eq (PInt i) (PInt j) \<longleftrightarrow> i = j"
  by (simp add: num_py_eq_def num_eq_def)

text \<open>Every value without \<open>nan\<close> equals itself.\<close>

fun no_nan :: "pyval \<Rightarrow> bool" where
  "no_nan (PFloat f) = (f \<noteq> PNan)"
| "no_nan (PList xs) = (\<forall>x \<in> set xs. no_nan x)"
| "no_nan (PTuple xs) = (\<forall>x \<in> set xs. no_nan x)"
| "no_nan (PDict d) = (\<forall>p \<in> set d. no_nan (snd p))"
| "no_nan (PProxy d) = (\<forall>p \<in> set d. no_nan (snd p))"
| "no_nan _ = True"

lemma py_eq_list_refl: "(\<And>x. x \<in> set xs \<Longrightarrow> py_eq x x) \<Longrightarrow> py_eq_list xs xs"
  by (induction xs) auto

lemma py_eq_items_refl: "(\<And>k v. (k, v) \<in> set d \<Longrightarrow> py_eq v v) \<Longrightarrow> py_eq_items d d"
proof (induction d)
  case (Cons p d)
  from Cons.prems [of "fst p" "snd p"] have "py_eq (snd p) (snd p)" by simp
  moreover have "py_eq_items d d" by (rule Cons.IH) (use Cons.prems in auto)
  ultimately show ?case by (cases p) simp
qed simp

lemma py_eq_refl: "no_nan v \<Longrightarrow> py_eq v v"
proof (induction v rule: pyval_induct)
  case (float f)
  then show ?case by (cases f) (auto simp: num_py_eq_def num_eq_def)
next
  case (dict d)
  then show ?case by (auto intro!: py_eq_items_refl)
next
  case (proxy d)
  then show ?case by (auto intro!: py_eq_items_refl)
qed (auto simp: num_py_eq_def num_eq_def intro!: py_eq_list_refl)

section \<open>Decimal text and \<open>str\<close>\<close>

definition digit_char :: "nat \<Rightarrow> char" where
  "digit_char n = ''0123456789'' ! n"

fun digits_of :: "nat \<Rightarrow> string" where
  "digits_of n = (if n < 10 then [digit_char n] else digits_of (n div 10) @ [digit_char (n mod 10)])"

declare digits_of.simps [simp del]

definition int_repr :: "int \<Rightarrow> string" where
  "int_repr i = (if i < 0 then ''-'' @ digits_of (nat (- i)) else digits_of (nat i))"

text \<open>
  \<open>float.__repr__\<close>: the shortest digits, in fixed notation when the decimal point falls in the
  range \<open>-4 < decpt \<le> 16\<close>, in exponent notation (at least two exponent digits) otherwise.
\<close>

definition zeros :: "nat \<Rightarrow> string" where
  "zeros n = replicate n CHR ''0''"

definition exponent_repr :: "int \<Rightarrow> string" where
  "exponent_repr x = (let ds = digits_of (nat \<bar>x\<bar>)
     in (if x < 0 then ''e-'' else ''e+'') @ (if length ds < 2 then ''0'' else []) @ ds)"

definition decimal_repr :: "nat \<Rightarrow> int \<Rightarrow> string" where
  "decimal_repr m e =
     (let ds = digits_of m; n = int (length ds); decpt = n + e
      in if decpt \<le> -4 \<or> decpt > 16
         then [hd ds] @ (if tl ds = [] then [] else CHR ''.'' # tl ds) @ exponent_repr (decpt - 1)
         else if decpt \<le> 0 then ''0.'' @ zeros (nat (- decpt)) @ ds
         else if decpt \<ge> n then ds @ zeros (nat (decpt - n)) @ ''.0''
         else take (nat decpt) ds @ ''.'' @ drop (nat decpt) ds)"

fun float_repr :: "pyfloat \<Rightarrow> string" where
  "float_repr (PFin s m e) = (if s then ''-'' else []) @ decimal_repr m e"
| "float_repr (PInf s) = (if s then ''-inf'' else ''inf'')"
| "float_repr PNan = ''nan''"

text \<open>
  \<open>str(x)\<close> on scalars. The repr of a container is not modelled: its value here is the empty text,
  which is never the identity of a record.
\<close>

fun py_str :: "pyval \<Rightarrow> string" where
  "py_str PNone = ''None''"
| "py_str (PBool b) = (if b then ''True'' else ''False'')"
| "py_str (PInt i) = int_repr i"
| "py_str (PFloat f) = float_repr f"
| "py_str (PStr s) = s"
| "py_str _ = []"

end
