(* ===== verification/JsonCodec.thy ===== *)
theory JsonCodec
  imports Json
begin

text \<open>
  Correctness of the JSON codec of theory Json: \<open>json_loads\<close> inverts \<open>enc\<close> on every value that
  canonical text can denote (numbers, strings with escapes, nested lists and dictionaries), encoded
  text is valid UTF-8, and the fuel of the decoder never runs out. The codec is an instance of the
  interface \<open>codec\<close>.
\<close>

section \<open>Decimal numerals\<close>

lemma digit_cases: "n < (10::nat) \<Longrightarrow> n \<in> {0, 1, 2, 3, 4, 5, 6, 7, 8, 9}"
  by auto

lemma digit_char_props:
  "n < 10 \<Longrightarrow> is_digit (digit_char n)" "n < 10 \<Longrightarrow> digit_val (digit_char n) = n"
  "n < 10 \<Longrightarrow> digit_char n = CHR ''0'' \<longleftrightarrow> n = 0"
  by (drule digit_cases, auto simp: is_digit_def digit_val_def digit_char_def)+

lemma num_of_append: "num_of (xs @ ys) = num_of xs * 10 ^ length ys + num_of ys"
proof (induction ys rule: rev_induct)
  case (snoc y ys)
  then show ?case by (simp add: num_of_def algebra_simps flip: append_assoc)
qed (simp add: num_of_def)

lemma num_of_Nil [simp]: "num_of [] = 0"
  by (simp add: num_of_def)

lemma num_of_singleton [simp]: "num_of [c] = digit_val c"
  by (simp add: num_of_def)

lemma num_of_zeros [simp]: "num_of (zeros n) = 0"
proof (induction n)
  case (Suc n)
  then show ?case
    using num_of_append [of "[CHR ''0'']" "zeros n"] by (simp add: zeros_def digit_val_def)
qed (simp add: zeros_def)

lemma length_zeros [simp]: "length (zeros n) = n"
  by (simp add: zeros_def)

lemma digits_of_digits: "\<forall>c \<in> set (digits_of n). is_digit c"
proof (induction n rule: digits_of.induct)
  case (1 n)
  then show ?case by (subst digits_of.simps) (auto simp: digit_char_props)
qed

lemma digits_of_nonempty [simp]: "digits_of n \<noteq> []"
  by (subst digits_of.simps) simp

lemma num_of_digits_of [simp]: "num_of (digits_of n) = n"
proof (induction n rule: digits_of.induct)
  case (1 n)
  then show ?case
    by (subst digits_of.simps) (auto simp: num_of_append digit_char_props)
qed

lemma digits_of_zero [simp]: "digits_of 0 = ''0''"
  by (subst digits_of.simps) (simp add: digit_char_def)

lemma hd_digits_of: "n \<noteq> 0 \<Longrightarrow> hd (digits_of n) \<noteq> CHR ''0''"
proof (induction n rule: digits_of.induct)
  case (1 n)
  then show ?case
    by (subst digits_of.simps) (auto simp: hd_append digit_char_props)
qed

section \<open>Strings\<close>

lemma hex_cases: "n < (16::nat) \<Longrightarrow> n \<in> {0, 1, 2, 3, 4, 5, 6, 7, 8, 9, 10, 11, 12, 13, 14, 15}"
  by (simp only: insert_iff empty_iff) presburger

lemma hex_val_char [simp]: "n < 16 \<Longrightarrow> hex_val (hex_char n) = Some n"
  by (drule hex_cases) (auto simp: hex_val_def hex_char_def)

lemma hex_val_0 [simp]: "hex_val (CHR ''0'') = Some 0"
  by (simp add: hex_val_def)

lemma unicode_escape_control:
  "n < 128 \<Longrightarrow> unicode_escape (CHR ''0'' # CHR ''0'' # hex_char (n div 16) # hex_char (n mod 16) # r)
     = Some ([char_of n], 4)"
proof -
  assume "n < 128"
  then have "n div 16 < 16" "n mod 16 < 16" by auto
  then show ?thesis using \<open>n < 128\<close> by (simp add: unicode_escape_def utf8_enc_def)
qed

lemma pstr_esc: "pstr (esc_char c @ r) = prepend [c] (pstr r)"
proof -
  consider "c \<in> {CHR 0x22, CHR 0x5C, CHR 0x0A, CHR 0x0D, CHR 0x09, CHR 0x08, CHR 0x0C}"
    | "c \<notin> {CHR 0x22, CHR 0x5C, CHR 0x0A, CHR 0x0D, CHR 0x09, CHR 0x08, CHR 0x0C}" "of_char c < (32::nat)"
    | "c \<notin> {CHR 0x22, CHR 0x5C, CHR 0x0A, CHR 0x0D, CHR 0x09, CHR 0x08, CHR 0x0C}" "\<not> of_char c < (32::nat)"
    by blast
  then show ?thesis
  proof cases
    case 1
    then show ?thesis by (auto simp: esc_char_def simple_escape_def)
  next
    case 2
    then show ?thesis
      using unicode_escape_control [of "of_char c" r] by (auto simp: esc_char_def)
  next
    case 3
    then show ?thesis by (auto simp: esc_char_def)
  qed
qed

lemma pstr_enc: "pstr (concat (map esc_char s) @ CHR 0x22 # r) = Some (s, r)"
  by (induction s) (auto simp: pstr_esc prepend_def)

section \<open>Integers\<close>

text \<open>What may follow a number without being read as part of it.\<close>

definition num_stop :: "string \<Rightarrow> bool" where
  "num_stop r = (case r of [] \<Rightarrow> True | c # _ \<Rightarrow> \<not> is_digit c \<and> c \<noteq> CHR ''.'' \<and> c \<noteq> CHR ''e'' \<and> c \<noteq> CHR ''E'')"

lemma num_stop_simps [simp]:
  "num_stop []" "num_stop (CHR '','' # r)" "num_stop (CHR '']'' # r)" "num_stop (CHR ''}'' # r)"
  by (auto simp: num_stop_def is_digit_def)

lemma span_digits:
  assumes "\<forall>c \<in> set ds. is_digit c" and "r = [] \<or> \<not> is_digit (hd r)"
  shows "takeWhile is_digit (ds @ r) = ds" "dropWhile is_digit (ds @ r) = r"
proof -
  from assms(2) have "takeWhile is_digit r = []" "dropWhile is_digit r = r"
    by (cases r; auto)+
  with assms(1) show "takeWhile is_digit (ds @ r) = ds" "dropWhile is_digit (ds @ r) = r"
    by (simp_all add: takeWhile_append2 dropWhile_append2)
qed

lemma pint_part_digits:
  assumes "r = [] \<or> \<not> is_digit (hd r)"
  shows "pint_part (digits_of n @ r) = Some (digits_of n, r)"
proof (cases "n = 0")
  case True
  then show ?thesis by (simp add: pint_part_def)
next
  case False
  obtain c ds where d: "digits_of n = c # ds" by (cases "digits_of n") auto
  have "c \<noteq> CHR ''0''" "is_digit c"
    using hd_digits_of [OF False] digits_of_digits [of n] d by auto
  with d span_digits [OF digits_of_digits [of n] assms] show ?thesis
    by (simp add: pint_part_def)
qed

lemma num_stop_digit: "num_stop r \<Longrightarrow> r = [] \<or> \<not> is_digit (hd r)"
  by (cases r) (auto simp: num_stop_def)

lemma pfrac_stop: "num_stop r \<Longrightarrow> pfrac r = ([], r)"
  by (cases r) (auto simp: num_stop_def pfrac_def)

lemma pexp_stop: "num_stop r \<Longrightarrow> pexp r = (None, r)"
  by (cases r) (auto simp: num_stop_def pexp_def)

lemma is_digit_not_minus [simp]: "\<not> is_digit (CHR ''-'')"
  by (simp add: is_digit_def)

definition sign_text :: "bool \<Rightarrow> string" where
  "sign_text s = (if s then ''-'' else [])"

lemma sign_split:
  assumes "t \<noteq> []" "hd t \<noteq> CHR ''-''"
  shows "(case sign_text s @ t of c # cs \<Rightarrow> if c = CHR ''-'' then (True, cs) else (False, sign_text s @ t)
          | [] \<Rightarrow> (False, sign_text s @ t)) = (s, t)"
  using assms by (cases t) (auto simp: sign_text_def)

lemma hd_digits_not_minus: "hd (digits_of n) \<noteq> CHR ''-''"
  using digits_of_digits [of n] digits_of_nonempty [of n]
  by (metis hd_in_set is_digit_not_minus)

lemma pnum_int: "num_stop r \<Longrightarrow> pnum (int_repr i @ r) = Some (PInt i, r)"
proof -
  assume r: "num_stop r"
  let ?n = "nat \<bar>i\<bar>"
  have eq: "int_repr i = sign_text (i < 0) @ digits_of ?n"
    by (auto simp: int_repr_def sign_text_def)
  have "hd (digits_of ?n @ r) \<noteq> CHR ''-''"
    by (simp add: hd_append hd_digits_not_minus)
  from sign_split [OF _ this, of "i < 0"] show ?thesis
    using pint_part_digits [OF num_stop_digit [OF r], of ?n] pfrac_stop [OF r] pexp_stop [OF r]
    unfolding pnum_def eq append_assoc
    by simp
qed


section \<open>Floats\<close>

definition wf_float :: "pyfloat \<Rightarrow> bool" where
  "wf_float f = (case f of
      PFin s m e \<Rightarrow> (m = 0 \<and> e = 0) \<or> (m mod 10 \<noteq> 0 \<and> \<not> float_huge m e \<and> \<not> float_tiny m e)
    | _ \<Rightarrow> False)"

lemma strip_zeros_done: "m mod 10 \<noteq> 0 \<Longrightarrow> strip_zeros m e = (m, e)"
  by (subst strip_zeros.simps) auto

lemma strip_zeros_shift: "m mod 10 \<noteq> 0 \<Longrightarrow> strip_zeros (m * 10 ^ k) (e - int k) = (m, e)"
proof (induction k)
  case (Suc k)
  have "m * 10 ^ Suc k mod 10 = 0" "m * 10 ^ Suc k div 10 = m * 10 ^ k" by simp_all
  moreover have "m * 10 ^ Suc k \<noteq> 0" using Suc.prems by auto
  ultimately have "strip_zeros (m * 10 ^ Suc k) (e - int (Suc k)) = strip_zeros (m * 10 ^ k) (e - int (Suc k) + 1)"
    by (subst strip_zeros.simps) simp
  also have "e - int (Suc k) + 1 = e - int k" by simp
  finally show ?case using Suc by simp
qed (simp add: strip_zeros_done)

text \<open>Moving zeros between mantissa and exponent changes neither range test.\<close>

lemma float_tiny_shift: "float_tiny (m * 10 ^ k) (e - int k) = float_tiny m e"
proof -
  define a b where "a = nat (e - int k)" and "b = nat (- (e - int k))"
  consider "e \<ge> int k" | "e < int k" "e \<ge> 0" | "e < 0" by linarith
  then show ?thesis
  proof cases
    case 1
    then have "nat e = k + nat (e - int k)" by simp
    then have "(10::nat) ^ nat e = 10 ^ k * 10 ^ nat (e - int k)" by (metis power_add)
    then show ?thesis using 1 by (simp add: float_tiny_def mult.assoc)
  next
    case 2
    then have "k = nat e + nat (- (e - int k))" by simp
    then have "(10::nat) ^ k = 10 ^ nat e * 10 ^ nat (- (e - int k))" by (metis power_add)
    then show ?thesis using 2 by (simp add: float_tiny_def ac_simps)
  next
    case 3
    then have "nat (- (e - int k)) = k + nat (- e)" by simp
    then have "(10::nat) ^ nat (- (e - int k)) = 10 ^ k * 10 ^ nat (- e)" by (metis power_add)
    then show ?thesis using 3 by (simp add: float_tiny_def ac_simps)
  qed
qed

lemma float_huge_shift: "float_huge (m * 10 ^ k) (e - int k) = float_huge m e"
proof -
  consider "e \<ge> int k" | "e < int k" "e \<ge> 0" | "e < 0" by linarith
  then show ?thesis
  proof cases
    case 1
    then have "nat e = k + nat (e - int k)" by simp
    then have "(10::nat) ^ nat e = 10 ^ k * 10 ^ nat (e - int k)" by (metis power_add)
    then show ?thesis using 1 by (simp add: float_huge_def mult.assoc)
  next
    case 2
    then have "k = nat e + nat (- (e - int k))" by simp
    then have "(10::nat) ^ k = 10 ^ nat e * 10 ^ nat (- (e - int k))" by (metis power_add)
    then show ?thesis using 2 by (simp add: float_huge_def ac_simps)
  next
    case 3
    then have "nat (- (e - int k)) = k + nat (- e)" by simp
    then have "(10::nat) ^ nat (- (e - int k)) = 10 ^ k * 10 ^ nat (- e)" by (metis power_add)
    then show ?thesis using 3 by (simp add: float_huge_def ac_simps)
  qed
qed

lemma float_of_decimal_shift:
  assumes "wf_float (PFin s m e)"
  shows "float_of_decimal s (m * 10 ^ k) (e - int k) = PFin s m e"
  using assms
  by (auto simp: wf_float_def float_of_decimal_def float_tiny_shift float_huge_shift strip_zeros_shift)


lemma pint_part_gen:
  assumes "I \<noteq> []" "\<forall>c \<in> set I. is_digit c" "hd I = CHR ''0'' \<Longrightarrow> I = ''0''"
    and "r = [] \<or> \<not> is_digit (hd r)"
  shows "pint_part (I @ r) = Some (I, r)"
proof (cases "hd I = CHR ''0''")
  case True
  with assms(3) show ?thesis by (simp add: pint_part_def)
next
  case False
  obtain c ds where d: "I = c # ds" using assms(1) by (cases I) auto
  with False span_digits [OF assms(2,4)] assms(2) show ?thesis by (auto simp: pint_part_def)
qed

lemma is_digit_sep [simp]:
  "\<not> is_digit (CHR ''.'')" "\<not> is_digit (CHR ''e'')" "\<not> is_digit (CHR ''+'')" "is_digit (CHR ''0'')"
  by (simp_all add: is_digit_def)

lemma zeros_digits: "\<forall>c \<in> set (zeros n). is_digit c"
  by (auto simp: zeros_def)

lemma pexp_repr: "num_stop r \<Longrightarrow> pexp (exponent_repr x @ r) = (Some x, r)"
proof -
  assume r: "num_stop r"
  define ds where "ds = (if length (digits_of (nat \<bar>x\<bar>)) < 2 then ''0'' else []) @ digits_of (nat \<bar>x\<bar>)"
  have d: "\<forall>c \<in> set ds. is_digit c" using digits_of_digits by (auto simp: ds_def)
  have v: "num_of ds = nat \<bar>x\<bar>"
    using num_of_append [of "''0''" "digits_of (nat \<bar>x\<bar>)"] by (auto simp: ds_def digit_val_def)
  have t: "exponent_repr x = CHR ''e'' # (if x < 0 then CHR ''-'' else CHR ''+'') # ds"
    by (simp add: exponent_repr_def ds_def Let_def)
  have "ds \<noteq> []" by (simp add: ds_def)
  then show ?thesis
    using span_digits [OF d num_stop_digit [OF r]] v by (auto simp: t pexp_def)
qed

lemma pfrac_digits:
  assumes "F \<noteq> []" "\<forall>c \<in> set F. is_digit c" "r = [] \<or> \<not> is_digit (hd r)"
  shows "pfrac (CHR ''.'' # F @ r) = (F, r)"
  using span_digits [OF assms(2,3)] assms(1) by (simp add: pfrac_def)

text \<open>A literal read from its parts: integer digits, fraction digits and the text after them.\<close>

lemma pnum_parts:
  assumes I: "I \<noteq> []" "\<forall>c \<in> set I. is_digit c" "hd I = CHR ''0'' \<Longrightarrow> I = ''0''"
    and T: "T = [] \<or> \<not> is_digit (hd T)"
    and F: "pfrac T = (F, U)" and X: "pexp U = (x, r)" and nonint: "F \<noteq> [] \<or> x \<noteq> None"
  shows "pnum (sign_text s @ I @ T) =
    Some (PFloat (float_of_decimal s (num_of (I @ F)) ((case x of None \<Rightarrow> 0 | Some i \<Rightarrow> i) - int (length F))), r)"
proof -
  have "hd (I @ T) \<noteq> CHR ''-''"
    using I(1,2) is_digit_not_minus by (metis hd_append2 hd_in_set)
  from sign_split [OF _ this, of s] I(1) show ?thesis
    using pint_part_gen [OF I T] F X nonint unfolding pnum_def by simp
qed

lemma digits_of_hd0: "hd (digits_of m) = CHR ''0'' \<Longrightarrow> m = 0 \<and> digits_of m = ''0''"
  using hd_digits_of [of m] by (cases "m = 0") auto

lemma wf_float_0: "wf_float (PFin s 0 e) \<Longrightarrow> e = 0"
  by (simp add: wf_float_def)

lemma float_of_decimal_wf: "wf_float (PFin s m e) \<Longrightarrow> float_of_decimal s m e = PFin s m e"
  using float_of_decimal_shift [of s m e 0] by simp

text \<open>The four shapes of \<open>decimal_repr\<close>.\<close>

lemma pnum_exponent_form:
  fixes m :: nat and e x :: int
  defines "ds \<equiv> digits_of m"
  assumes r: "num_stop r" and x: "x - int (length (tl ds)) = e"
  shows "pnum (sign_text s @ [hd ds] @ (if tl ds = [] then [] else CHR ''.'' # tl ds) @ exponent_repr x @ r)
    = Some (PFloat (float_of_decimal s m e), r)"
proof -
  have ds: "ds \<noteq> []" "\<forall>c \<in> set ds. is_digit c" "num_of ds = m" "hd ds # tl ds = ds"
    using digits_of_digits by (auto simp: ds_def)
  have er: "pfrac (exponent_repr x @ r) = ([], exponent_repr x @ r)" "\<not> is_digit (hd (exponent_repr x @ r))"
    by (simp_all add: exponent_repr_def pfrac_def Let_def)
  have "tl ds \<noteq> [] \<Longrightarrow> pfrac (CHR ''.'' # tl ds @ exponent_repr x @ r) = (tl ds, exponent_repr x @ r)"
    using pfrac_digits [of "tl ds" "exponent_repr x @ r"] ds(1,2) er by (auto dest: list.set_sel(2))
  then have frac: "pfrac ((if tl ds = [] then [] else CHR ''.'' # tl ds) @ exponent_repr x @ r)
      = (tl ds, exponent_repr x @ r)"
    using er(1) by auto
  show ?thesis
    using pnum_parts [OF _ _ _ _ frac pexp_repr [OF r], of "[hd ds]" s] ds er(2) x
    by (auto dest: hd_in_set)
qed

lemma pnum_small_form:
  assumes r: "num_stop r" and e: "- int (k + length (digits_of m)) = e"
  shows "pnum (sign_text s @ ''0.'' @ zeros k @ digits_of m @ r) = Some (PFloat (float_of_decimal s m e), r)"
proof -
  let ?F = "zeros k @ digits_of m"
  have "pfrac (CHR ''.'' # ?F @ r) = (?F, r)"
    by (rule pfrac_digits) (use zeros_digits digits_of_digits num_stop_digit [OF r] in auto)
  from pnum_parts [OF _ _ _ _ this pexp_stop [OF r], of "''0''" s]
  have "pnum (sign_text s @ ''0'' @ CHR ''.'' # ?F @ r)
      = Some (PFloat (float_of_decimal s (num_of (''0'' @ ?F)) (- int (length ?F))), r)"
    by simp
  moreover have "num_of (''0'' @ ?F) = m"
    using num_of_append [of "''0''" ?F] num_of_append [of "zeros k" "digits_of m"]
    by (simp add: digit_val_def)
  ultimately show ?thesis using e by simp
qed

lemma pnum_big_form:
  assumes wf: "wf_float (PFin s m (int k))" and r: "num_stop r"
  shows "pnum (sign_text s @ digits_of m @ zeros k @ ''.0'' @ r) = Some (PFloat (PFin s m (int k)), r)"
proof -
  let ?I = "digits_of m @ zeros k"
  have "m = 0 \<Longrightarrow> k = 0" using wf wf_float_0 by fastforce
  then have z: "hd ?I = CHR ''0'' \<Longrightarrow> ?I = ''0''"
    using digits_of_hd0 [of m] by (auto simp: zeros_def)
  have "pfrac (CHR ''.'' # ''0'' @ r) = (''0'', r)"
    by (rule pfrac_digits) (use num_stop_digit [OF r] in auto)
  from pnum_parts [OF _ _ z _ this pexp_stop [OF r], of s]
  have "pnum (sign_text s @ ?I @ CHR ''.'' # ''0'' @ r)
      = Some (PFloat (float_of_decimal s (num_of (?I @ ''0'')) (- 1)), r)"
    using zeros_digits digits_of_digits by auto
  moreover have "num_of (?I @ ''0'') = m * 10 ^ Suc k"
    using num_of_append [of ?I "''0''"] num_of_append [of "digits_of m" "zeros k"]
    by (simp add: digit_val_def)
  ultimately show ?thesis
    using float_of_decimal_shift [OF wf, of "Suc k"] by simp
qed

lemma pnum_mid_form:
  assumes r: "num_stop r" and k: "0 < k" "k < length (digits_of m)"
    and e: "int k - int (length (digits_of m)) = e"
  shows "pnum (sign_text s @ take k (digits_of m) @ ''.'' @ drop k (digits_of m) @ r)
    = Some (PFloat (float_of_decimal s m e), r)"
proof -
  let ?I = "take k (digits_of m)" and ?F = "drop k (digits_of m)"
  have "hd ?I = hd (digits_of m)" using k by (simp add: hd_take)
  then have z: "hd ?I = CHR ''0'' \<Longrightarrow> ?I = ''0''" using digits_of_hd0 [of m] k by auto
  have "pfrac (CHR ''.'' # ?F @ r) = (?F, r)"
    by (rule pfrac_digits)
      (use k digits_of_digits [of m] num_stop_digit [OF r] in \<open>auto dest: in_set_dropD\<close>)
  from pnum_parts [OF _ _ z _ this pexp_stop [OF r], of s]
  have "pnum (sign_text s @ ?I @ CHR ''.'' # ?F @ r)
      = Some (PFloat (float_of_decimal s (num_of (?I @ ?F)) (- int (length ?F))), r)"
    using k digits_of_digits [of m] by (auto dest: in_set_takeD)
  then show ?thesis using e k by (simp add: of_nat_diff)
qed

lemma pnum_decimal:
  assumes wf: "wf_float (PFin s m e)" and r: "num_stop r"
  shows "pnum (sign_text s @ decimal_repr m e @ r) = Some (PFloat (PFin s m e), r)"
proof -
  define n where "n = length (digits_of m)"
  define decpt where "decpt = int n + e"
  note [simp] = float_of_decimal_wf [OF wf]
  have rep: "decimal_repr m e =
    (if decpt \<le> -4 \<or> decpt > 16
     then [hd (digits_of m)] @ (if tl (digits_of m) = [] then [] else CHR ''.'' # tl (digits_of m))
       @ exponent_repr (decpt - 1)
     else if decpt \<le> 0 then ''0.'' @ zeros (nat (- decpt)) @ digits_of m
     else if decpt \<ge> int n then digits_of m @ zeros (nat (decpt - int n)) @ ''.0''
     else take (nat decpt) (digits_of m) @ ''.'' @ drop (nat decpt) (digits_of m))"
    by (simp add: decimal_repr_def Let_def n_def decpt_def)
  have n: "0 < n" by (simp add: n_def)
  consider (exp) "decpt \<le> -4 \<or> decpt > 16" | (small) "-4 < decpt" "decpt \<le> 0"
    | (big) "0 < decpt" "decpt \<le> 16" "decpt \<ge> int n" | (mid) "0 < decpt" "decpt \<le> 16" "decpt < int n"
    by linarith
  then show ?thesis
  proof cases
    case exp
    have "decpt - 1 - int (length (tl (digits_of m))) = e"
      using n by (cases "digits_of m") (auto simp: n_def decpt_def)
    from pnum_exponent_form [OF r this, of s] exp show ?thesis by (simp add: rep)
  next
    case small
    then show ?thesis
      using pnum_small_form [OF r, of "nat (- decpt)" m e s] by (simp add: rep n_def decpt_def)
  next
    case big
    then have e: "int (nat (decpt - int n)) = e" by (simp add: decpt_def)
    from pnum_big_form [of s m "nat (decpt - int n)" r] wf r big show ?thesis
      unfolding e by (simp add: rep)
  next
    case mid
    then show ?thesis
      using pnum_mid_form [OF r, of "nat decpt" m e s] by (simp add: rep n_def decpt_def)
  qed
qed

lemma pnum_float: "wf_float f \<Longrightarrow> num_stop r \<Longrightarrow> pnum (float_repr f @ r) = Some (PFloat f, r)"
  using pnum_decimal by (cases f) (auto simp: wf_float_def sign_text_def split: if_splits)


section \<open>Values\<close>

text \<open>
  The values canonical JSON text denotes: no tuples, proxies or other objects, dictionaries in key
  order, floats in their shortest form.
\<close>

fun json_val :: "pyval \<Rightarrow> bool" where
  "json_val (PFloat f) = wf_float f"
| "json_val (PStr s) = utf8_ok s"
| "json_val (PList xs) = (\<forall>x \<in> set xs. json_val x)"
| "json_val (PDict d) = (dict_wf d \<and> (\<forall>p \<in> set d. utf8_ok (fst p) \<and> json_val (snd p)))"
| "json_val (PTuple xs) = False"
| "json_val (PProxy d) = False"
| "json_val (POther n) = False"
| "json_val _ = True"

lemma json_val_encodable: "json_val v \<Longrightarrow> encodable v"
proof (induction v rule: pyval_induct)
  case (float f)
  then show ?case by (cases f) (auto simp: wf_float_def)
qed auto

text \<open>The first character of an encoded value is none of those that end or separate values.\<close>

definition value_start :: "char \<Rightarrow> bool" where
  "value_start c = (\<not> is_ws c \<and> c \<notin> {CHR '']'', CHR ''}'', CHR '','', CHR '':''})"

lemma digit_value_start: "is_digit c \<Longrightarrow> value_start c"
  by (auto simp: is_digit_def value_start_def is_ws_def)

lemma hd_decimal_repr: "decimal_repr m e \<noteq> [] \<and> is_digit (hd (decimal_repr m e))"
proof -
  have "is_digit (hd (digits_of m))" using digits_of_digits [of m] by (metis digits_of_nonempty hd_in_set)
  moreover have "take k (digits_of m) \<noteq> [] \<Longrightarrow> hd (take k (digits_of m)) = hd (digits_of m)" for k
    by (metis hd_take not_gr_zero take_eq_Nil)
  ultimately show ?thesis by (auto simp: decimal_repr_def Let_def hd_append)
qed

lemma enc_start: "json_val v \<Longrightarrow> enc v \<noteq> [] \<and> value_start (hd (enc v))"
proof (cases v)
  case (PInt i)
  have "is_digit (hd (digits_of n))" for n
    using digits_of_digits [of n] by (metis digits_of_nonempty hd_in_set)
  with PInt show ?thesis
    by (auto simp: int_repr_def intro: digit_value_start) (simp add: value_start_def is_ws_def)
next
  case (PFloat f)
  assume "json_val v"
  with PFloat obtain s m e where "f = PFin s m e" by (cases f) (auto simp: wf_float_def)
  with PFloat hd_decimal_repr [of m e] show ?thesis
    by (auto simp: hd_append intro: digit_value_start) (simp add: value_start_def is_ws_def)
qed (auto simp: value_start_def is_ws_def enc_str_def)

lemma skip_ws_id: "s \<noteq> [] \<Longrightarrow> \<not> is_ws (hd s) \<Longrightarrow> skip_ws s = s"
  by (cases s) (auto simp: skip_ws_def)

lemma skip_ws_Cons [simp]: "\<not> is_ws c \<Longrightarrow> skip_ws (c # s) = c # s"
  by (simp add: skip_ws_def)

lemma not_ws [simp]:
  "\<not> is_ws (CHR '','')" "\<not> is_ws (CHR '']'')" "\<not> is_ws (CHR ''}'')" "\<not> is_ws (CHR '':'')" "\<not> is_ws (CHR 0x22)"
  by (simp_all add: is_ws_def)

lemma skip_ws_enc: "json_val v \<Longrightarrow> skip_ws (enc v @ r) = enc v @ r"
  using enc_start [of v] by (intro skip_ws_id) (auto simp: value_start_def)

lemma skip_ws_enc_str [simp]: "skip_ws (enc_str k @ r) = enc_str k @ r"
  by (simp add: enc_str_def)

lemma enc_list_start: "xs \<noteq> [] \<Longrightarrow> json_val (hd xs) \<Longrightarrow> enc_list xs \<noteq> [] \<and> value_start (hd (enc_list xs))"
  using enc_start [of "hd xs"] by (cases xs) auto

text \<open>Literal words and numbers share the last branch of \<open>pval\<close>.\<close>

lemma lit_append [simp]: "lit w (w @ r) = Some r"
  by (simp add: lit_def)

lemma lit_hd: "w \<noteq> [] \<Longrightarrow> s \<noteq> [] \<Longrightarrow> hd s \<noteq> hd w \<Longrightarrow> lit w s = None"
  by (cases w; cases s) (auto simp: lit_def)

lemma lit_Nil: "w \<noteq> [] \<Longrightarrow> lit w [] = None"
  by (auto simp: lit_def)

lemma pconst_number:
  assumes "s \<noteq> []" "is_digit (hd s) \<or> (hd s = CHR ''-'' \<and> tl s \<noteq> [] \<and> is_digit (hd (tl s)))"
  shows "pconst nonfin s = pnum s"
proof -
  have w: "lit ''null'' s = None" "lit ''true'' s = None" "lit ''false'' s = None"
    "lit ''NaN'' s = None" "lit ''Infinity'' s = None"
    by (rule lit_hd; use assms in \<open>auto simp: is_digit_def\<close>)+
  have "lit ''-Infinity'' s = None"
    using assms by (cases s; cases "tl s") (auto simp: lit_def is_digit_def)
  with w show ?thesis by (simp add: pconst_def)
qed

lemma pconst_words:
  "pconst nonfin (''null'' @ r) = Some (PNone, r)"
  "pconst nonfin (''true'' @ r) = Some (PBool True, r)"
  "pconst nonfin (''false'' @ r) = Some (PBool False, r)"
  by (simp_all add: pconst_def lit_def)


lemma pval_scalar:
  assumes "s \<noteq> []" "hd s \<noteq> CHR 0x22" "hd s \<noteq> CHR ''[''" "hd s \<noteq> CHR ''{''"
  shows "pval nonfin dups (Suc n) s = pconst nonfin s"
  using assms by (cases s) auto

lemma pval_int: "num_stop r \<Longrightarrow> pval nonfin dups (Suc n) (int_repr i @ r) = Some (PInt i, r)"
proof -
  assume r: "num_stop r"
  have d: "is_digit (hd (digits_of k))" for k
    using digits_of_digits [of k] by (metis digits_of_nonempty hd_in_set)
  have "hd (int_repr i @ r) \<notin> {CHR 0x22, CHR ''['', CHR ''{''}"
    using d [of "nat i"] by (auto simp: int_repr_def hd_append is_digit_def)
  then have "pval nonfin dups (Suc n) (int_repr i @ r) = pconst nonfin (int_repr i @ r)"
    by (intro pval_scalar) (auto simp: int_repr_def)
  also have "\<dots> = pnum (int_repr i @ r)"
    by (rule pconst_number) (use d in \<open>auto simp: int_repr_def hd_append\<close>)
  finally show ?thesis using pnum_int [OF r] by simp
qed

lemma pval_float:
  "wf_float f \<Longrightarrow> num_stop r \<Longrightarrow> pval nonfin dups (Suc n) (float_repr f @ r) = Some (PFloat f, r)"
proof -
  assume f: "wf_float f" and r: "num_stop r"
  then obtain s m e where fe: "f = PFin s m e" by (cases f) (auto simp: wf_float_def)
  note d = hd_decimal_repr [of m e]
  have "hd (float_repr f @ r) \<notin> {CHR 0x22, CHR ''['', CHR ''{''}" "float_repr f @ r \<noteq> []"
    using d fe by (auto simp: hd_append is_digit_def)
  then have "pval nonfin dups (Suc n) (float_repr f @ r) = pconst nonfin (float_repr f @ r)"
    by (intro pval_scalar) auto
  also have "\<dots> = pnum (float_repr f @ r)"
    by (rule pconst_number) (use d fe in \<open>auto simp: hd_append\<close>)
  finally show ?thesis using pnum_float [OF f r] by simp
qed

text \<open>Fuel that a value needs: one unit per nested call.\<close>

fun fuel_of :: "pyval \<Rightarrow> nat"
  and fuel_list :: "pyval list \<Rightarrow> nat"
  and fuel_items :: "dict \<Rightarrow> nat" where
  "fuel_of (PList xs) = Suc (fuel_list xs)"
| "fuel_of (PDict d) = Suc (fuel_items d)"
| "fuel_of _ = 1"
| "fuel_list [] = 0"
| "fuel_list (x # xs) = Suc (max (fuel_of x) (fuel_list xs))"
| "fuel_items [] = 0"
| "fuel_items ((k, v) # d) = Suc (max (fuel_of v) (fuel_items d))"

lemma pelems_enc:
  assumes IH: "\<And>x n r. x \<in> set xs \<Longrightarrow> fuel_of x \<le> n \<Longrightarrow> num_stop r \<Longrightarrow> pval nonfin dups n (enc x @ r) = Some (x, r)"
    and wf: "\<forall>x \<in> set xs. json_val x" and "xs \<noteq> []" and "fuel_list xs \<le> n"
  shows "pelems nonfin dups n (enc_list xs @ CHR '']'' # r) = Some (xs, r)"
  using assms
proof (induction xs arbitrary: n)
  case (Cons x xs)
  then obtain n' where n: "n = Suc n'" "fuel_of x \<le> n'" "fuel_list xs \<le> n'" by (cases n) auto
  show ?case
  proof (cases "xs = []")
    case True
    with Cons.prems(1) [of x n' "CHR '']'' # r"] n show ?thesis by simp
  next
    case False
    have "skip_ws (enc_list xs @ CHR '']'' # r) = enc_list xs @ CHR '']'' # r"
      using enc_list_start [of xs] False Cons.prems(2) by (intro skip_ws_id) (auto simp: value_start_def)
    moreover have "pelems nonfin dups n' (enc_list xs @ CHR '']'' # r) = Some (xs, r)"
      using Cons.IH [of n'] Cons.prems False n by simp
    moreover have "pval nonfin dups n' (enc x @ CHR '','' # enc_list xs @ CHR '']'' # r)
        = Some (x, CHR '','' # enc_list xs @ CHR '']'' # r)"
      using Cons.prems(1) n by simp
    ultimately show ?thesis using False n by simp
  qed
qed simp

lemma pmembers_enc:
  assumes IH: "\<And>k v n r. (k, v) \<in> set d \<Longrightarrow> fuel_of v \<le> n \<Longrightarrow> num_stop r \<Longrightarrow> pval nonfin dups n (enc v @ r) = Some (v, r)"
    and wf: "\<forall>p \<in> set d. json_val (snd p)" and "d \<noteq> []" and "fuel_items d \<le> n"
  shows "pmembers nonfin dups n (enc_items d @ CHR ''}'' # r) = Some (d, r)"
  using assms
proof (induction d arbitrary: n)
  case (Cons p d)
  obtain k v where p: "p = (k, v)" by (cases p)
  with Cons.prems obtain n' where n: "n = Suc n'" "fuel_of v \<le> n'" "fuel_items d \<le> n'" by (cases n) auto
  have v: "json_val v" using Cons.prems(2) p by auto
  have step: "pval nonfin dups n' (skip_ws (enc v @ q)) = Some (v, q)" if "num_stop q" for q
    using Cons.prems(1) [of k v n' q] n p v that by (simp add: skip_ws_enc)
  show ?case
  proof (cases "d = []")
    case True
    with step [of "CHR ''}'' # r"] n p show ?thesis by (simp add: enc_str_def pstr_enc)
  next
    case False
    have "pmembers nonfin dups n' (enc_items d @ CHR ''}'' # r) = Some (d, r)"
      using Cons.IH [of n'] Cons.prems False n by auto
    moreover have "skip_ws (enc_items d @ CHR ''}'' # r) = enc_items d @ CHR ''}'' # r"
      using False by (cases d) (auto simp: enc_str_def)
    ultimately show ?thesis
      using step [of "CHR '','' # enc_items d @ CHR ''}'' # r"] False n p by (simp add: enc_str_def pstr_enc)
  qed
qed simp

lemma pval_enc:
  "json_val v \<Longrightarrow> fuel_of v \<le> n \<Longrightarrow> num_stop r \<Longrightarrow> pval nonfin dups n (enc v @ r) = Some (v, r)"
proof (induction v arbitrary: n r rule: pyval_induct)
  case none
  then show ?case using pconst_words(1) [of nonfin r] by (cases n) auto
next
  case (bool b)
  then show ?case using pconst_words(2,3) [of nonfin r] by (cases n; cases b) auto
next
  case (int i)
  then show ?case using pval_int by (cases n) auto
next
  case (float f)
  then show ?case using pval_float by (cases n) auto
next
  case (str s)
  then show ?case by (cases n) (auto simp: enc_str_def pstr_enc)
next
  case (list xs)
  then obtain n' where n: "n = Suc n'" "fuel_list xs \<le> n'" by (cases n) auto
  show ?case
  proof (cases "xs = []")
    case False
    have "pelems nonfin dups n' (enc_list xs @ CHR '']'' # r) = Some (xs, r)"
      by (rule pelems_enc) (use list False n in auto)
    moreover obtain c cs where c: "enc_list xs = c # cs" "value_start c"
      using enc_list_start [of xs] False list.prems by (cases "enc_list xs") auto
    ultimately show ?thesis using n by (auto simp: value_start_def)
  qed (use n in simp)
next
  case (dict d)
  then obtain n' where n: "n = Suc n'" "fuel_items d \<le> n'" by (cases n) auto
  show ?case
  proof (cases "d = []")
    case False
    have "pmembers nonfin dups n' (enc_items d @ CHR ''}'' # r) = Some (d, r)"
      by (rule pmembers_enc) (use dict False n in auto)
    moreover obtain cs where "enc_items d = CHR 0x22 # cs" using False by (cases d) (auto simp: enc_str_def)
    ultimately show ?thesis using n dict.prems dict_wf_distinct [of d] by simp
  qed (use n in simp)
qed auto


section \<open>UTF-8 of the encoded text\<close>

lemma utf8_ok_append: "utf8_ok s \<Longrightarrow> utf8_ok (s @ t) = utf8_ok t"
proof (induction s rule: utf8_ok.induct)
  case (2 c cs)
  then show ?case by (simp split: option.splits)
qed simp

lemma utf8_need_ascii: "of_char c < (128::nat) \<Longrightarrow> utf8_need c = Some 0"
  by (simp add: utf8_need_def)

lemma utf8_ok_Cons_ascii [simp]: "of_char c < (128::nat) \<Longrightarrow> utf8_ok (c # s) = utf8_ok s"
  by (simp add: utf8_need_ascii)

lemma utf8_ok_ascii: "\<forall>c \<in> set s. of_char c < (128::nat) \<Longrightarrow> utf8_ok s"
  by (induction s) (auto simp del: utf8_ok.simps(2))

lemma esc_char_high:
  assumes "128 \<le> (of_char c :: nat)"
  shows "esc_char c = [c]"
proof -
  have ne: "c \<noteq> x" if "of_char x < (128::nat)" for x
    using assms that by auto
  show ?thesis using assms by (simp add: esc_char_def ne)
qed

lemma esc_char_cont: "list_all utf8_cont cs \<Longrightarrow> concat (map esc_char cs) = cs"
  by (induction cs) (auto simp: utf8_cont_def esc_char_high)

lemma hex_char_ascii: "n < 16 \<Longrightarrow> of_char (hex_char n) < (128::nat)"
  by (drule hex_cases) (auto simp: hex_char_def)

lemma esc_char_ascii: "of_char c < (128::nat) \<Longrightarrow> \<forall>x \<in> set (esc_char c). of_char x < (128::nat)"
  by (auto simp: esc_char_def intro: hex_char_ascii)

lemma utf8_ok_esc: "utf8_ok s \<Longrightarrow> utf8_ok (concat (map esc_char s))"
proof (induction s rule: utf8_ok.induct)
  case (2 c cs)
  then obtain k where k: "utf8_need c = Some k" "k \<le> length cs" "list_all utf8_cont (take k cs)"
    "utf8_second c (take k cs)" "utf8_ok (concat (map esc_char (drop k cs)))"
    by (auto split: option.splits)
  show ?case
  proof (cases "of_char c < (128::nat)")
    case True
    with k have "utf8_ok (concat (map esc_char cs))" by (simp add: utf8_need_ascii)
    then show ?thesis
      using utf8_ok_append [OF utf8_ok_ascii [OF esc_char_ascii [OF True]]] by simp
  next
    case False
    have "concat (map esc_char cs) = take k cs @ concat (map esc_char (drop k cs))"
      using esc_char_cont [OF k(3)] by (metis append_take_drop_id concat_append map_append)
    then show ?thesis using k False esc_char_high [of c] by simp
  qed
qed simp

declare utf8_ok.simps(2) [simp del]

lemma utf8_ok_enc_str: "utf8_ok s \<Longrightarrow> utf8_ok (enc_str s)"
  using utf8_ok_append [OF utf8_ok_esc, of s "[CHR 0x22]"] by (simp add: enc_str_def)

lemma digits_ascii: "\<forall>c \<in> set ds. is_digit c \<Longrightarrow> utf8_ok ds"
  by (rule utf8_ok_ascii) (auto simp: is_digit_def)

lemma utf8_ok_digits [simp]: "utf8_ok (digits_of n)"
  by (rule digits_ascii [OF digits_of_digits])

definition float_text :: "char \<Rightarrow> bool" where
  "float_text c = (is_digit c \<or> c \<in> {CHR ''.'', CHR ''e'', CHR ''-'', CHR ''+''})"

lemma float_text_digits: "\<forall>c \<in> set ds. is_digit c \<Longrightarrow> list_all float_text ds"
  by (auto simp: float_text_def list_all_iff)

lemma float_text_exponent: "list_all float_text (exponent_repr x)"
  using float_text_digits [OF digits_of_digits]
  by (simp add: exponent_repr_def Let_def) (simp add: float_text_def)

lemma float_text_decimal: "list_all float_text (decimal_repr m e)"
proof -
  let ?d = "digits_of m"
  have d: "list_all float_text ?d" by (rule float_text_digits [OF digits_of_digits])
  then have "float_text (hd ?d)" "list_all float_text (tl ?d)"
    by (cases ?d; simp)+
  moreover have "list_all float_text (take k ?d)" "list_all float_text (drop k ?d)" for k
    using d by (metis append_take_drop_id list_all_append)+
  moreover have "list_all float_text (zeros k)" for k by (rule float_text_digits [OF zeros_digits])
  moreover have "float_text (CHR ''.'')" "float_text (CHR ''0'')" by (simp_all add: float_text_def)
  ultimately show ?thesis
    using d float_text_exponent unfolding decimal_repr_def Let_def by (auto simp: list_all_iff)
qed

lemma utf8_ok_decimal: "utf8_ok (decimal_repr m e)"
  by (rule utf8_ok_ascii)
    (use float_text_decimal [of m e] in \<open>auto simp: list_all_iff float_text_def is_digit_def\<close>)

lemma utf8_ok_enc: "json_val v \<Longrightarrow> utf8_ok (enc v)"
  and utf8_ok_enc_list: "\<forall>x \<in> set xs. json_val x \<Longrightarrow> utf8_ok (enc_list xs)"
  and utf8_ok_enc_items: "\<forall>p \<in> set d. utf8_ok (fst p) \<and> json_val (snd p) \<Longrightarrow> utf8_ok (enc_items d)"
proof (induction v and xs and d rule: enc_enc_list_enc_items.induct)
  case (3 i)
  then show ?case by (simp add: int_repr_def)
next
  case (4 f)
  then show ?case by (cases f) (auto simp: wf_float_def utf8_ok_decimal)
next
  case (12 x xs)
  then show ?case by (simp add: utf8_ok_append)
next
  case (14 k v d)
  then show ?case by (simp add: utf8_ok_append utf8_ok_enc_str)
qed (auto simp: utf8_ok_append utf8_ok_enc_str)

section \<open>Decoding inverts encoding\<close>

lemma fuel_length:
  "json_val v \<Longrightarrow> fuel_of v \<le> length (enc v)"
  "\<forall>x \<in> set xs. json_val x \<Longrightarrow> fuel_list xs \<le> Suc (length (enc_list xs))"
  "\<forall>p \<in> set d. utf8_ok (fst p) \<and> json_val (snd p) \<Longrightarrow> fuel_items d \<le> Suc (length (enc_items d))"
proof (induction v and xs and d rule: enc_enc_list_enc_items.induct)
  case (3 i)
  then show ?case by (simp add: int_repr_def Suc_le_eq)
next
  case (4 f)
  then show ?case using hd_decimal_repr by (cases f) (auto simp: wf_float_def Suc_le_eq)
next
  case (12 x xs)
  then show ?case by (cases xs) auto
next
  case (14 k v d)
  then show ?case by (cases d) (auto simp: enc_str_def)
qed (auto simp: enc_str_def)

lemma json_loads_enc:
  assumes "json_val v"
  shows "json_loads nonfin dups (enc v) = Some v"
proof -
  have ws: "skip_ws (enc v) = enc v" using skip_ws_enc [OF assms, of "[]"] by simp
  have "fuel_of v \<le> 2 * length (enc v) + 2" using fuel_length(1) [OF assms] by simp
  from pval_enc [OF assms this, of "[]"] have "pval nonfin dups (2 * length (enc v) + 2) (enc v) = Some (v, [])"
    by simp
  then show ?thesis using utf8_ok_enc [OF assms] ws by (simp add: json_loads_def skip_ws_def)
qed

text \<open>The newline that ends a line or a file does not matter.\<close>

lemma json_loads_enc_line:
  assumes "json_val v"
  shows "json_loads nonfin dups (enc v @ [NL]) = Some v"
proof -
  have nl: "num_stop [NL]" "skip_ws [NL] = []" "utf8_ok [NL]"
    by (simp_all add: num_stop_def is_digit_def NL_def skip_ws_def is_ws_def)
  have "fuel_of v \<le> 2 * length (enc v @ [NL]) + 2" using fuel_length(1) [OF assms] by simp
  from pval_enc [OF assms this nl(1)]
  have "pval nonfin dups (2 * length (enc v @ [NL]) + 2) (enc v @ [NL]) = Some (v, [NL])" .
  then show ?thesis
    using utf8_ok_append [OF utf8_ok_enc [OF assms], of "[NL]"]
    by (simp only: json_loads_def Let_def skip_ws_enc [OF assms] nl option.case prod.case not_True_eq_False
        if_True if_False simp_thms)
qed

interpretation json: codec enc "json_loads nonfin dups" json_val for nonfin dups
  by unfold_locales (rule json_loads_enc)

section \<open>The fuel of the decoder is enough\<close>

lemma skip_ws_length: "length (skip_ws s) \<le> length s"
  by (simp add: skip_ws_def length_dropWhile_le)

lemma pstr_shrink: "pstr s = Some (t, r) \<Longrightarrow> length r < length s"
proof (induction s arbitrary: t r rule: pstr.induct)
  case (2 c cs)
  consider "c = CHR 0x22" | "c \<noteq> CHR 0x22" "c = CHR 0x5C" | "c \<noteq> CHR 0x22" "c \<noteq> CHR 0x5C"
    by blast
  then show ?case
  proof cases
    case 2
    with "2.prems" obtain d ds where cs: "cs = d # ds" by (cases cs) auto
    show ?thesis
    proof (cases "d = CHR ''u''")
      case True
      with "2.prems" 2 cs obtain u k t' where u: "unicode_escape ds = Some (u, k)" and
        p: "pstr (drop k ds) = Some (t', r)"
        by (auto simp: prepend_def split: option.splits)
      have "length r < length (drop k ds)"
        using "2.IH"(1) [OF 2 cs True u] p by auto
      then show ?thesis using cs by simp
    next
      case False
      with "2.prems" 2 cs obtain e t' where e: "simple_escape d = Some e" and p: "pstr ds = Some (t', r)"
        by (auto simp: prepend_def split: option.splits)
      have "length r < length ds" using "2.IH"(2) [OF 2 cs False e] p by auto
      then show ?thesis using cs by simp
    qed
  next
    case 3
    with "2.prems" obtain t' where "\<not> of_char c < (32::nat)" "pstr cs = Some (t', r)"
      by (auto simp: prepend_def split: if_splits)
    then show ?thesis using "2.IH"(3) 3 by fastforce
  qed (use "2.prems" in auto)
qed simp

lemma pint_part_shrink: "pint_part s = Some (ds, r) \<Longrightarrow> length r < length s"
  by (auto simp: pint_part_def less_Suc_eq_le length_dropWhile_le split: list.splits if_splits)

lemma pfrac_shrink: "pfrac s = (fs, r) \<Longrightarrow> length r \<le> length s"
  by (auto simp: pfrac_def le_SucI length_dropWhile_le split: list.splits if_splits)

lemma pexp_shrink: "pexp s = (x, r) \<Longrightarrow> length r \<le> length s"
  by (auto simp: pexp_def le_SucI length_dropWhile_le split: list.splits if_splits)

lemma pnum_shrink: "pnum s = Some (v, r) \<Longrightarrow> length r < length s"
proof -
  assume a: "pnum s = Some (v, r)"
  define q where "q = (case s of c # cs \<Rightarrow> if c = CHR ''-'' then (True, cs) else (False, s) | [] \<Rightarrow> (False, s))"
  have q: "length (snd q) \<le> length s" by (auto simp: q_def split: list.splits)
  from a obtain ds s2 where p: "pint_part (snd q) = Some (ds, s2)"
    by (auto simp: pnum_def q_def split: option.splits prod.splits if_splits)
  have "r = snd (pexp (snd (pfrac s2)))"
    using a p by (auto simp: pnum_def q_def Let_def split: prod.splits if_splits)
  then have "length r \<le> length s2"
    using pfrac_shrink [of s2] pexp_shrink [of "snd (pfrac s2)"] by (metis dual_order.trans prod.collapse)
  then show ?thesis using pint_part_shrink [OF p] q by simp
qed

lemma lit_shrink: "lit w s = Some r \<Longrightarrow> w \<noteq> [] \<Longrightarrow> length r < length s"
  by (cases s) (auto simp: lit_def split: if_splits)

lemma pconst_shrink: "pconst nonfin s = Some (v, r) \<Longrightarrow> length r < length s"
  by (auto simp: pconst_def split: option.splits if_splits dest: lit_shrink pnum_shrink)

lemma skip_ws_shrink: "skip_ws s = c # r \<Longrightarrow> length r < length s"
  using skip_ws_length [of s] by simp

lemma pval_SucE:
  assumes "pval nonfin dups (Suc n) s = Some (v, r)"
  obtains (str) c cs t where "s = c # cs" "pstr cs = Some (t, r)" "v = PStr t"
  | (empty) c cs d where "s = c # cs" "skip_ws cs = d # r" "v = PList [] \<or> v = PDict []"
  | (elems) c cs vs d q where "s = c # cs" "skip_ws cs = d # q" "pelems nonfin dups n (d # q) = Some (vs, r)"
      "v = PList vs"
  | (members) c cs ps d q where "s = c # cs" "skip_ws cs = d # q" "pmembers nonfin dups n (d # q) = Some (ps, r)"
      "v = PDict (dict_of ps)"
  | (const) "pconst nonfin s = Some (v, r)"
proof -
  from assms obtain c cs where s: "s = c # cs" by (cases s) auto
  consider "c = CHR 0x22" | "c = CHR ''[''" | "c = CHR ''{''" | "c \<notin> {CHR 0x22, CHR ''['', CHR ''{''}" by blast
  then show thesis
  proof cases
    case 1
    with assms s have "\<exists>t. pstr cs = Some (t, r) \<and> v = PStr t" by auto
    with s show thesis using str by blast
  next
    case 2
    with assms s obtain d q where q: "skip_ws cs = d # q" by (cases "skip_ws cs") auto
    have "r = q \<and> v = PList [] \<or> (\<exists>vs. pelems nonfin dups n (d # q) = Some (vs, r) \<and> v = PList vs)"
      using assms s 2 q by (auto simp del: pelems.simps split: if_splits)
    with s q show thesis using empty elems by blast
  next
    case 3
    with assms s obtain d q where q: "skip_ws cs = d # q" by (cases "skip_ws cs") auto
    have "r = q \<and> v = PDict []
        \<or> (\<exists>ps. pmembers nonfin dups n (d # q) = Some (ps, r) \<and> v = PDict (dict_of ps))"
      using assms s 3 q by (auto simp del: pmembers.simps split: if_splits option.splits)
    with s q show thesis using empty members by blast
  next
    case 4
    with assms s have "pconst nonfin s = Some (v, r)" by auto
    then show thesis by (rule const)
  qed
qed

lemma pelems_SucE:
  assumes "pelems nonfin dups (Suc n) s = Some (vs, r)"
  obtains v q d q' where "pval nonfin dups n s = Some (v, q)" "skip_ws q = d # q'" "r = q'" "vs = [v]"
  | v q d q' vs' where "pval nonfin dups n s = Some (v, q)" "skip_ws q = d # q'"
      "pelems nonfin dups n (skip_ws q') = Some (vs', r)" "vs = v # vs'"
  using assms by (auto split: option.splits list.splits if_splits)

lemma pmembers_SucE:
  assumes "pmembers nonfin dups (Suc n) s = Some (ps, r)"
  obtains c cs k q e q1 v q2 d q3 where "s = c # cs" "pstr cs = Some (k, q)" "skip_ws q = e # q1"
      "pval nonfin dups n (skip_ws q1) = Some (v, q2)" "skip_ws q2 = d # q3"
      "r = q3 \<and> ps = [(k, v)] \<or> (\<exists>ps'. pmembers nonfin dups n (skip_ws q3) = Some (ps', r) \<and> ps = (k, v) # ps')"
  using assms by (auto split: option.splits list.splits if_splits)

lemma pval_shrink:
  "(\<forall>v r. pval nonfin dups n s = Some (v, r) \<longrightarrow> length r < length s)
   \<and> (\<forall>vs r. pelems nonfin dups n s = Some (vs, r) \<longrightarrow> length r < length s)
   \<and> (\<forall>ps r. pmembers nonfin dups n s = Some (ps, r) \<longrightarrow> length r < length s)"
proof (induction n arbitrary: s)
  case (Suc n)
  have v: "length r < length s" if "pval nonfin dups n s = Some (v, r)" for s v r using Suc that by blast
  have e: "length r < length s" if "pelems nonfin dups n s = Some (vs, r)" for s vs r using Suc that by blast
  have m: "length r < length s" if "pmembers nonfin dups n s = Some (ps, r)" for s ps r using Suc that by blast
  have ws: "length (d # q') \<le> length q" if "skip_ws q = d # q'" for q d q'
    using skip_ws_length [of q] that by simp
  have "length r < length s" if "pval nonfin dups (Suc n) s = Some (v, r)" for v r
    using that
    by (cases rule: pval_SucE) (auto dest!: pstr_shrink pconst_shrink ws e m)
  moreover have "length r < length s" if "pelems nonfin dups (Suc n) s = Some (vs, r)" for vs r
    using that
  proof (cases rule: pelems_SucE)
    case (2 v q d q' vs')
    then show ?thesis using v e ws skip_ws_length [of q'] by fastforce
  qed (auto dest!: v ws)
  moreover have "length r < length s" if "pmembers nonfin dups (Suc n) s = Some (ps, r)" for ps r
    using that
  proof (cases rule: pmembers_SucE)
    case (1 c cs k q e q1 v' q2 d q3)
    have "length q3 < length s"
      using pstr_shrink [OF 1(2)] ws [OF 1(3)] v [OF 1(4)] ws [OF 1(5)] skip_ws_length [of q1] 1(1) by simp
    then show ?thesis using 1(6) m skip_ws_length [of q3] by fastforce
  qed
  ultimately show ?case by blast
qed simp

lemma pval_stable:
  "(2 * length s + 1 \<le> n \<longrightarrow> pval nonfin dups (Suc n) s = pval nonfin dups n s)
   \<and> (2 * length s + 2 \<le> n \<longrightarrow> pelems nonfin dups (Suc n) s = pelems nonfin dups n s)
   \<and> (2 * length s + 1 \<le> n \<longrightarrow> pmembers nonfin dups (Suc n) s = pmembers nonfin dups n s)"
proof (induction n arbitrary: s)
  case (Suc n)
  have v: "pval nonfin dups (Suc n) t = pval nonfin dups n t" if "2 * length t + 1 \<le> n" for t using Suc that by blast
  have e: "pelems nonfin dups (Suc n) t = pelems nonfin dups n t" if "2 * length t + 2 \<le> n" for t using Suc that by blast
  have m: "pmembers nonfin dups (Suc n) t = pmembers nonfin dups n t" if "2 * length t + 1 \<le> n" for t using Suc that by blast
  have sh: "length r < length t" if "pval nonfin dups n t = Some (w, r)" for t w r
    using pval_shrink that by blast
  have ws: "length (skip_ws q) \<le> length q" for q by (rule skip_ws_length)
  have "pval nonfin dups (Suc (Suc n)) s = pval nonfin dups (Suc n) s" if b: "2 * length s + 1 \<le> Suc n"
  proof (cases s)
    case s: (Cons c cs)
    show ?thesis
    proof (cases "skip_ws cs")
      case (Cons d q)
      then have "2 * length (d # q) + 2 \<le> n" using ws [of cs] b s by simp
      then show ?thesis using e m Cons s by (simp del: pelems.simps pmembers.simps)
    qed (use s in simp)
  qed simp
  moreover have "pelems nonfin dups (Suc (Suc n)) s = pelems nonfin dups (Suc n) s" if b: "2 * length s + 2 \<le> Suc n"
  proof (cases "pval nonfin dups n s")
    case (Some p)
    obtain w q where p: "p = (w, q)" by (cases p)
    have "pelems nonfin dups (Suc n) (skip_ws q') = pelems nonfin dups n (skip_ws q')" if "skip_ws q = d # q'" for d q'
      using sh Some p b that ws [of q] ws [of q'] by (intro e) fastforce
    then show ?thesis using Some p v b
      by (simp del: pval.simps pelems.simps(2) add: pelems.simps(2) [of _ _ "Suc n" s] pelems.simps(2) [of _ _ n s] split: list.split)
  qed (use v b in \<open>simp del: pval.simps pelems.simps(2) add: pelems.simps(2) [of _ _ "Suc n" s] pelems.simps(2) [of _ _ n s]\<close>)
  moreover have "pmembers nonfin dups (Suc (Suc n)) s = pmembers nonfin dups (Suc n) s" if b: "2 * length s + 1 \<le> Suc n"
  proof (cases s)
    case s: (Cons c cs)
    have P: "pval nonfin dups (Suc n) (skip_ws q1) = pval nonfin dups n (skip_ws q1)"
      and M: "pval nonfin dups n (skip_ws q1) = Some (w, q2) \<Longrightarrow> skip_ws q2 = d # q3 \<Longrightarrow>
        pmembers nonfin dups (Suc n) (skip_ws q3) = pmembers nonfin dups n (skip_ws q3)"
      if "pstr cs = Some (k, q)" "skip_ws q = a # q1" for k q a q1 w q2 d q3
    proof -
      have l: "length (skip_ws q1) < length cs"
        using pstr_shrink [OF that(1)] skip_ws_shrink [OF that(2)] ws [of q1] by simp
      with b s show "pval nonfin dups (Suc n) (skip_ws q1) = pval nonfin dups n (skip_ws q1)" by (intro v) simp
      assume "pval nonfin dups n (skip_ws q1) = Some (w, q2)" "skip_ws q2 = d # q3"
      then have "length (skip_ws q3) < length cs"
        using l sh skip_ws_shrink ws [of q3] by fastforce
      with b s show "pmembers nonfin dups (Suc n) (skip_ws q3) = pmembers nonfin dups n (skip_ws q3)" by (intro m) simp
    qed
    show ?thesis
      unfolding s pmembers.simps(2) [of _ _ "Suc n" "c # cs"] pmembers.simps(2) [of _ _ n "c # cs"]
      using P M by (auto simp del: pval.simps pmembers.simps split: option.split list.split)
  qed (simp)
  ultimately show ?case by blast
qed simp

lemma pval_fuel_enough:
  "2 * length s + 2 \<le> n \<Longrightarrow> pval nonfin dups n s = pval nonfin dups (2 * length s + 2) s"
proof (induction n rule: dec_induct)
  case (step n)
  then show ?case using pval_stable [of s n nonfin dups] by simp
qed simp

section \<open>Decoded values are canonical\<close>

lemma strip_zeros_spec:
  "0 < m \<Longrightarrow> strip_zeros m e = (m', e') \<Longrightarrow>
    m' mod 10 \<noteq> 0 \<and> (\<exists>k. m = m' * 10 ^ k \<and> e = e' - int k)"
proof (induction m e rule: strip_zeros.induct)
  case (1 m e)
  show ?case
  proof (cases "m mod 10 = 0")
    case True
    then have "0 < m div 10" using 1(2) by auto
    with 1 True obtain k where k: "m' mod 10 \<noteq> 0" "m div 10 = m' * 10 ^ k" "e + 1 = e' - int k"
      by (auto simp: strip_zeros.simps [of m e])
    then have "m = m' * 10 ^ Suc k \<and> e = e' - int (Suc k)" using True by auto
    with k(1) show ?thesis by blast
  next
    case False
    with 1 have "m' = m" "e' = e" by (simp_all add: strip_zeros_done)
    with False show ?thesis by (auto intro: exI [of _ 0])
  qed
qed

lemma float_of_decimal_finite:
  assumes "float_of_decimal s m e = PFin t k x"
  shows "wf_float (PFin t k x)"
proof (cases "m = 0 \<or> float_tiny m e")
  case False
  with assms have h: "\<not> float_huge m e" "strip_zeros m e = (k, x)"
    by (auto simp: float_of_decimal_def split: if_splits prod.splits)
  then obtain j where "k mod 10 \<noteq> 0" "m = k * 10 ^ j" "e = x - int j"
    using strip_zeros_spec [of m e k x] False by auto
  with h(1) False show ?thesis by (simp add: wf_float_def float_huge_shift float_tiny_shift)
qed (use assms in \<open>auto simp: float_of_decimal_def wf_float_def\<close>)

lemma pnum_json_val: "pnum s = Some (v, r) \<Longrightarrow> encodable v \<Longrightarrow> json_val v"
  by (auto simp: pnum_def Let_def split: option.splits prod.splits if_splits pyfloat.splits
      intro: float_of_decimal_finite)

lemma pconst_json_val: "pconst nonfin s = Some (v, r) \<Longrightarrow> encodable v \<Longrightarrow> json_val v"
  by (auto simp: pconst_def split: option.splits if_splits dest: pnum_json_val)

text \<open>A decoded value that can be encoded at all is one the encoder is injective on.\<close>

lemma pval_json_val:
  "(\<forall>v r. pval nonfin dups n s = Some (v, r) \<longrightarrow> encodable v \<longrightarrow> json_val v)
   \<and> (\<forall>vs r. pelems nonfin dups n s = Some (vs, r) \<longrightarrow> (\<forall>v \<in> set vs. encodable v \<longrightarrow> json_val v))
   \<and> (\<forall>ps r. pmembers nonfin dups n s = Some (ps, r) \<longrightarrow>
        (\<forall>p \<in> set ps. encodable (snd p) \<longrightarrow> json_val (snd p)))"
proof (induction n arbitrary: s)
  case (Suc n)
  have V: "json_val v" if "pval nonfin dups n s = Some (v, r)" "encodable v" for s v r
    using Suc that by blast
  have E: "json_val v" if "pelems nonfin dups n s = Some (vs, r)" "v \<in> set vs" "encodable v" for s vs r v
    using Suc that by blast
  have M: "json_val (snd p)" if "pmembers nonfin dups n s = Some (ps, r)" "p \<in> set ps" "encodable (snd p)"
    for s ps r p using Suc that by blast
  have "json_val v" if "pval nonfin dups (Suc n) s = Some (v, r)" "encodable v" for v r
    using that(1)
  proof (cases rule: pval_SucE)
    case (elems c cs vs d q)
    then show ?thesis using E that(2) by auto
  next
    case (members c cs ps d q)
    then show ?thesis using M that(2) set_dict_of [of ps] by fastforce
  next
    case const
    then show ?thesis using pconst_json_val that(2) by blast
  qed (use that(2) in auto)
  moreover have "\<forall>v \<in> set vs. encodable v \<longrightarrow> json_val v" if "pelems nonfin dups (Suc n) s = Some (vs, r)" for vs r
    using that by (cases rule: pelems_SucE) (use V E in auto)
  moreover have "\<forall>p \<in> set ps. encodable (snd p) \<longrightarrow> json_val (snd p)"
    if "pmembers nonfin dups (Suc n) s = Some (ps, r)" for ps r
    using that
  proof (cases rule: pmembers_SucE)
    case (1 c cs k q e q1 v q2 d q3)
    have "encodable v \<longrightarrow> json_val v" using V [OF 1(4)] by blast
    with 1(6) show ?thesis using M by fastforce
  qed
  ultimately show ?case by blast
qed simp

lemma json_loads_json_val:
  "json_loads nonfin dups s = Some v \<Longrightarrow> encodable v \<Longrightarrow> json_val v"
proof -
  assume a: "json_loads nonfin dups s = Some v" and e: "encodable v"
  then obtain r where "pval nonfin dups (2 * length (skip_ws s) + 2) (skip_ws s) = Some (v, r)"
    by (simp only: json_loads_def Let_def) (auto simp del: pval.simps split: if_splits option.splits)
  with e show "json_val v" using pval_json_val by blast
qed

end
