(* ===== verification/Sha256.thy ===== *)
theory Sha256
  imports Prelude "HOL-Library.Word"
begin

text \<open>
  \<open>hashlib.sha256(data).hexdigest()\<close>: padding, message schedule and compression function of
  FIPS 180-4 on 32-bit words, and the lower-case hexadecimal digest. The digest is always 64
  hexadecimal characters. No theorem of the development assumes that SHA-256 is injective: where a
  result needs it, the alternative names the two byte strings that would collide.
\<close>

unbundle bit_operations_syntax

type_synonym w32 = "32 word"

section \<open>Words\<close>

definition rotr :: "nat \<Rightarrow> w32 \<Rightarrow> w32" where
  "rotr n x = drop_bit n x OR push_bit (32 - n) x"

definition ch :: "w32 \<Rightarrow> w32 \<Rightarrow> w32 \<Rightarrow> w32" where
  "ch x y z = (x AND y) XOR (NOT x AND z)"

definition maj :: "w32 \<Rightarrow> w32 \<Rightarrow> w32 \<Rightarrow> w32" where
  "maj x y z = (x AND y) XOR (x AND z) XOR (y AND z)"

definition big0 :: "w32 \<Rightarrow> w32" where
  "big0 x = rotr 2 x XOR rotr 13 x XOR rotr 22 x"

definition big1 :: "w32 \<Rightarrow> w32" where
  "big1 x = rotr 6 x XOR rotr 11 x XOR rotr 25 x"

definition small0 :: "w32 \<Rightarrow> w32" where
  "small0 x = rotr 7 x XOR rotr 18 x XOR drop_bit 3 x"

definition small1 :: "w32 \<Rightarrow> w32" where
  "small1 x = rotr 17 x XOR rotr 19 x XOR drop_bit 10 x"

text \<open>The constants of FIPS 180-4, in decimal: bits of the cube roots and square roots of the first primes.\<close>

definition round_constants :: "w32 list" where
  "round_constants =
    [1116352408, 1899447441, 3049323471, 3921009573, 961987163, 1508970993, 2453635748,
     2870763221, 3624381080, 310598401, 607225278, 1426881987, 1925078388, 2162078206,
     2614888103, 3248222580, 3835390401, 4022224774, 264347078, 604807628, 770255983,
     1249150122, 1555081692, 1996064986, 2554220882, 2821834349, 2952996808, 3210313671,
     3336571891, 3584528711, 113926993, 338241895, 666307205, 773529912, 1294757372,
     1396182291, 1695183700, 1986661051, 2177026350, 2456956037, 2730485921, 2820302411,
     3259730800, 3345764771, 3516065817, 3600352804, 4094571909, 275423344, 430227734,
     506948616, 659060556, 883997877, 958139571, 1322822218, 1537002063, 1747873779,
     1955562222, 2024104815, 2227730452, 2361852424, 2428436474, 2756734187, 3204031479,
     3329325298]"

definition initial_hash :: "w32 list" where
  "initial_hash =
    [1779033703, 3144134277, 1013904242, 2773480762, 1359893119, 2600822924, 528734635,
     1541459225]"

section \<open>Padding and schedule\<close>

text \<open>Big-endian bytes of a number.\<close>

fun be_bytes :: "nat \<Rightarrow> nat \<Rightarrow> nat list" where
  "be_bytes 0 n = []"
| "be_bytes (Suc k) n = be_bytes k (n div 256) @ [n mod 256]"

definition pad :: "bytes \<Rightarrow> nat list" where
  "pad bs =
     (let n = length bs; z = (119 - n mod 64) mod 64
      in map of_char bs @ [128] @ replicate z 0 @ be_bytes 8 (8 * n))"

definition word_of_bytes :: "nat list \<Rightarrow> w32" where
  "word_of_bytes ns = foldl (\<lambda>a n. push_bit 8 a OR of_nat n) 0 ns"

fun chunks :: "nat \<Rightarrow> 'a list \<Rightarrow> 'a list list" where
  "chunks n xs = (if n = 0 \<or> xs = [] then [] else take n xs # chunks n (drop n xs))"

declare chunks.simps [simp del]

text \<open>The schedule is extended one word at a time from its sixteen most recent words, newest first.\<close>

fun extend :: "nat \<Rightarrow> w32 list \<Rightarrow> w32 list" where
  "extend 0 ws = ws"
| "extend (Suc k) ws =
     extend k ((small1 (ws ! 1) + ws ! 6 + small0 (ws ! 14) + ws ! 15) # ws)"

definition schedule :: "nat list \<Rightarrow> w32 list" where
  "schedule block = rev (extend 48 (rev (map word_of_bytes (chunks 4 block))))"

section \<open>Compression\<close>

type_synonym regs = "w32 \<times> w32 \<times> w32 \<times> w32 \<times> w32 \<times> w32 \<times> w32 \<times> w32"

fun round_step :: "regs \<Rightarrow> w32 \<times> w32 \<Rightarrow> regs" where
  "round_step (a, b, c, d, e, f, g, h) (k, w) =
     (let t1 = h + big1 e + ch e f g + k + w; t2 = big0 a + maj a b c
      in (t1 + t2, a, b, c, d + t1, e, f, g))"

fun regs_of :: "w32 list \<Rightarrow> regs" where
  "regs_of hs = (hs ! 0, hs ! 1, hs ! 2, hs ! 3, hs ! 4, hs ! 5, hs ! 6, hs ! 7)"

fun list_of_regs :: "regs \<Rightarrow> w32 list" where
  "list_of_regs (a, b, c, d, e, f, g, h) = [a, b, c, d, e, f, g, h]"

definition compress :: "w32 list \<Rightarrow> nat list \<Rightarrow> w32 list" where
  "compress hs block =
     map2 (+) hs (list_of_regs (foldl round_step (regs_of hs) (zip round_constants (schedule block))))"

definition hash_words :: "bytes \<Rightarrow> w32 list" where
  "hash_words bs = foldl compress initial_hash (chunks 64 (pad bs))"

section \<open>The hexadecimal digest\<close>

fun hex_digits :: "nat \<Rightarrow> nat \<Rightarrow> string" where
  "hex_digits 0 n = []"
| "hex_digits (Suc k) n = hex_digits k (n div 16) @ [''0123456789abcdef'' ! (n mod 16)]"

definition sha256 :: "bytes \<Rightarrow> string" where
  "sha256 bs = concat (map (\<lambda>w. hex_digits 8 (unat w)) (hash_words bs))"

text \<open>The shape that journals require of a digest (record_store.py).\<close>

definition is_hex64 :: "string \<Rightarrow> bool" where
  "is_hex64 s = (length s = 64 \<and> list_all (\<lambda>c. c \<in> set ''0123456789abcdef'') s)"

lemma length_hex_digits [simp]: "length (hex_digits k n) = k"
  by (induction k arbitrary: n) auto

lemma hex_digits_hex: "list_all (\<lambda>c. c \<in> set ''0123456789abcdef'') (hex_digits k n)"
proof (induction k arbitrary: n)
  case (Suc k)
  have "(''0123456789abcdef'' ! (n mod 16)) \<in> set ''0123456789abcdef''"
    by (rule nth_mem) simp
  with Suc show ?case by simp
qed simp

lemma length_compress: "length hs = 8 \<Longrightarrow> length (compress hs b) = 8"
proof -
  have "length (list_of_regs r) = 8" for r by (cases r rule: list_of_regs.cases) simp
  then show "length hs = 8 \<Longrightarrow> length (compress hs b) = 8" by (simp add: compress_def)
qed

lemma length_hash_words [simp]: "length (hash_words bs) = 8"
proof -
  have "length hs = 8 \<Longrightarrow> length (foldl compress hs bl) = 8" for hs bl
    by (induction bl arbitrary: hs) (auto simp: length_compress)
  then show ?thesis by (simp add: hash_words_def initial_hash_def)
qed

lemma length_concat_const: "(\<And>x. x \<in> set xs \<Longrightarrow> length (f x) = k) \<Longrightarrow> length (concat (map f xs)) = k * length xs"
  by (induction xs) auto

lemma sha256_hex64: "is_hex64 (sha256 bs)"
proof -
  have "length (sha256 bs) = 64"
    unfolding sha256_def by (subst length_concat_const [where k = 8]) auto
  moreover have "list_all (\<lambda>c. c \<in> set ''0123456789abcdef'') (sha256 bs)"
    using hex_digits_hex unfolding sha256_def list_all_iff by fastforce
  ultimately show ?thesis by (simp add: is_hex64_def)
qed

lemma length_sha256 [simp]: "length (sha256 bs) = 64"
  using sha256_hex64 by (simp add: is_hex64_def)

text \<open>A collision is a pair of different byte strings with the same digest.\<close>

definition collision :: "bytes \<Rightarrow> bytes \<Rightarrow> bool" where
  "collision x y = (x \<noteq> y \<and> sha256 x = sha256 y)"

lemma sha256_eqD: "sha256 x = sha256 y \<Longrightarrow> x = y \<or> collision x y"
  by (simp add: collision_def)

end
