(* ===== verification/Serialization.thy ===== *)
theory Serialization
  imports JsonCodec Sha256
begin

text \<open>
  Content identities and file reads: \<open>local_json_identity\<close> and \<open>read_json\<close> of serialization.py.
\<close>

definition local_json_identity :: "pyval \<Rightarrow> string res" where
  "local_json_identity v =
     rbind (canonical_bytes v) (\<lambda>bs. Inr (''forge-json-sha256-v1:'' @ sha256 bs))"

text \<open>
  The file is its bytes, \<open>None\<close> when it cannot be read. Members that occur twice are rejected;
  \<open>NaN\<close> and \<open>Infinity\<close> literals are read, as \<open>json.loads\<close> does by default. Files are UTF-8 without
  a byte order mark, which is what the program writes.
\<close>

definition read_json :: "nat \<Rightarrow> bytes option \<Rightarrow> pyval res" where
  "read_json byte_cap file =
     (case file of
        None \<Rightarrow> Inl (PyExc ''OSError'')
      | Some data \<Rightarrow>
          if length data > byte_cap then Inl (PyExc ''ValueError'')
          else case json_loads True False data of
                 None \<Rightarrow> Inl (PyExc ''ValueError'')
               | Some v \<Rightarrow> Inr v)"

text \<open>\<open>s.split(":", 1)[1]\<close> for a text that has a colon.\<close>

definition after_colon :: "string \<Rightarrow> string" where
  "after_colon s = drop 1 (dropWhile (\<lambda>c. c \<noteq> CHR '':'') s)"

lemma after_colon_local [simp]: "after_colon (''forge-json-sha256-v1:'' @ s) = s"
  by (simp add: after_colon_def)

lemma local_json_identity_eq:
  "json_val v \<Longrightarrow> local_json_identity v = Inr (''forge-json-sha256-v1:'' @ sha256 (enc v))"
  by (simp add: local_json_identity_def canonical_bytes_def json_val_encodable)

lemma read_json_enc:
  "json_val v \<Longrightarrow> length (enc v) \<le> cap \<Longrightarrow> read_json cap (Some (enc v)) = Inr v"
  by (simp add: read_json_def json_loads_enc)

lemma read_json_enc_line:
  "json_val v \<Longrightarrow> length (enc v) + 1 \<le> cap \<Longrightarrow> read_json cap (Some (enc v @ [NL])) = Inr v"
  by (simp add: read_json_def json_loads_enc_line)

text \<open>Equal identities mean equal values, or the two encodings collide.\<close>

lemma local_json_identity_inj:
  assumes "json_val v" "json_val w" "local_json_identity v = local_json_identity w"
  shows "v = w \<or> collision (enc v) (enc w)"
  using assms sha256_eqD [of "enc v" "enc w"] json.enc_inj by (auto simp: local_json_identity_eq)

end
