(* ===== verification/Records.thy ===== *)
theory Records
  imports RecordSpecs Serialization
begin

text \<open>
  Frozen records (records.py): conversion of Python values to JSON values, freezing and thawing, the
  record model, field validation, record-derived identities, construction, deterministic migration
  of legacy records, and ledger entries.

  \<open>rfc8785.dumps\<close> is a third-party canonicalizer; it is the parameter \<open>jcs\<close> of every definition that
  reaches it (a mapping to bytes, or an exception). Error messages are prose and are not modelled.
\<close>

type_synonym jcs = "dict \<Rightarrow> bytes res"

definition CURRENT_SCHEMA_VERSION :: string where
  "CURRENT_SCHEMA_VERSION = ''1''"

definition LEGACY_SCHEMA_VERSION :: string where
  "LEGACY_SCHEMA_VERSION = ''0.1-unversioned''"

definition LEGACY_CANDIDATE_SUBJECT_RECORDS :: "record_type list" where
  "LEGACY_CANDIDATE_SUBJECT_RECORDS = [WORKFLOW_RESULT, FINAL_EVALUATION, BUNDLE]"

definition CONCEPT_EVALUATION_INTERPRETATION :: string where
  "CONCEPT_EVALUATION_INTERPRETATION = ''bounded_forge_evaluation_not_mncs_conformance''"

text \<open>\<open>RECORD_SPECS[record_type]\<close>: a ledger entry has no specification.\<close>

definition spec_of :: "record_type \<Rightarrow> record_spec res" where
  "spec_of rt = (case RECORD_SPECS rt of Some s \<Rightarrow> Inr s | None \<Rightarrow> Inl (PyExc ''KeyError''))"

section \<open>Paths of immutable records\<close>

definition safe_char :: "char \<Rightarrow> bool" where
  "safe_char c =
     (c \<in> set ''ABCDEFGHIJKLMNOPQRSTUVWXYZabcdefghijklmnopqrstuvwxyz0123456789._-'')"

text \<open>
  \<open>re.sub\<close> replaces each character outside the class by one underscore. A character of several
  UTF-8 bytes is replaced at its first byte and its continuation bytes go away.
\<close>

definition safe_record_identity :: "string \<Rightarrow> string res" where
  "safe_record_identity identity =
     (if identity = [] \<or> identity \<in> {''.'', ''..''} then raise ''RECORD_IDENTITY''
      else
        let safe = map (\<lambda>c. if safe_char c then c else CHR ''_'')
                     (filter (\<lambda>c. \<not> utf8_cont c) identity)
        in if safe = [] then raise ''RECORD_IDENTITY'' else Inr safe)"

text \<open>The path below the state directory, as its components.\<close>

definition immutable_record_path :: "string \<Rightarrow> string \<Rightarrow> string list res" where
  "immutable_record_path grp identity =
     rbind (safe_record_identity identity) (\<lambda>safe. Inr [''records'', grp, safe @ ''.json''])"

section \<open>JSON values\<close>

fun freeze_json :: "pyval \<Rightarrow> pyval" where
  "freeze_json (PDict d) = PProxy (map (\<lambda>p. (fst p, freeze_json (snd p))) d)"
| "freeze_json (PList xs) = PTuple (map freeze_json xs)"
| "freeze_json v = v"

fun thaw_json :: "pyval \<Rightarrow> pyval" where
  "thaw_json (PDict d) = PDict (map (\<lambda>p. (fst p, thaw_json (snd p))) d)"
| "thaw_json (PProxy d) = PDict (map (\<lambda>p. (fst p, thaw_json (snd p))) d)"
| "thaw_json (PTuple xs) = PList (map thaw_json xs)"
| "thaw_json v = v"

text \<open>
  Keys of the modelled dictionaries are text; a mapping with another key is a \<open>POther\<close>, which is
  rejected with the same code.
\<close>

function as_json_value :: "nat \<Rightarrow> pyval \<Rightarrow> pyval res" where
  "as_json_value depth v =
     (if depth > 64 then raise ''RECORD_MALFORMED''
      else case v of
        PFloat f \<Rightarrow> (case f of PFin _ _ _ \<Rightarrow> Inr v | _ \<Rightarrow> raise ''RECORD_MALFORMED'')
      | PList xs \<Rightarrow> rbind (rmap (as_json_value (depth + 1)) xs) (\<lambda>ys. Inr (PList ys))
      | PTuple xs \<Rightarrow> rbind (rmap (as_json_value (depth + 1)) xs) (\<lambda>ys. Inr (PList ys))
      | PDict d \<Rightarrow>
          rbind (rmap (\<lambda>p. rbind (as_json_value (depth + 1) (snd p)) (\<lambda>w. Inr (fst p, w))) d)
            (\<lambda>ps. Inr (PDict (dict_of ps)))
      | PProxy d \<Rightarrow>
          rbind (rmap (\<lambda>p. rbind (as_json_value (depth + 1) (snd p)) (\<lambda>w. Inr (fst p, w))) d)
            (\<lambda>ps. Inr (PDict (dict_of ps)))
      | POther _ \<Rightarrow> raise ''RECORD_MALFORMED''
      | _ \<Rightarrow> Inr v)"
  by pat_completeness auto
termination
  by (relation "measure (\<lambda>p. size (snd p))")
    (auto simp: less_Suc_eq_le intro: size_list_estimation')

declare as_json_value.simps [simp del]

definition json_object :: "pyval \<Rightarrow> dict res" where
  "json_object v =
     rbind (as_json_value 0 v)
       (\<lambda>w. case w of PDict d \<Rightarrow> Inr d | _ \<Rightarrow> raise ''RECORD_MALFORMED'')"

section \<open>The record model\<close>

text \<open>
  The subclasses of \<open>ForgeRecord\<close> add nothing to it, and the class is determined by the record type
  (\<open>MODEL_TYPES\<close>), so one record models them all. \<open>rec_fields\<close> is the frozen \<open>_fields\<close> mapping.
\<close>

record forge_record =
  rtype :: record_type
  schema_version :: string
  rec_fields :: dict
  source_schema_version :: string

text \<open>\<open>record.get(key)\<close>, the mapping access derived from \<open>__getitem__\<close>.\<close>

definition rget :: "forge_record \<Rightarrow> string \<Rightarrow> pyval" where
  "rget r key =
     (if key = ''record_type'' then PStr (record_type_value (rtype r))
      else if key = ''schema_version'' then PStr (schema_version r)
      else dict_get (rec_fields r) key)"

definition metadata_dict :: "record_type \<Rightarrow> string \<Rightarrow> dict" where
  "metadata_dict rt version =
     [(''record_type'', PStr (record_type_value rt)), (''schema_version'', PStr version)]"

definition thaw_items :: "dict \<Rightarrow> dict" where
  "thaw_items d = map (\<lambda>p. (fst p, thaw_json (snd p))) d"

definition freeze_items :: "dict \<Rightarrow> dict" where
  "freeze_items d = map (\<lambda>p. (fst p, freeze_json (snd p))) d"

definition to_json :: "forge_record \<Rightarrow> dict" where
  "to_json r =
     dict_update (metadata_dict (rtype r) (schema_version r)) (thaw_items (rec_fields r))"

definition text_field :: "forge_record \<Rightarrow> string option \<Rightarrow> string option" where
  "text_field r field =
     (case field of
        None \<Rightarrow> None
      | Some f \<Rightarrow> (case dict_get (rec_fields r) f of PStr s \<Rightarrow> Some s | _ \<Rightarrow> None))"

definition record_status :: "forge_record \<Rightarrow> string option" where
  "record_status r =
     (case RECORD_SPECS (rtype r) of None \<Rightarrow> None | Some spec \<Rightarrow> text_field r (status_field spec))"

definition record_identity :: "forge_record \<Rightarrow> string option" where
  "record_identity r =
     (case RECORD_SPECS (rtype r) of None \<Rightarrow> None | Some spec \<Rightarrow> text_field r (identity_field spec))"

definition model :: "record_type \<Rightarrow> dict \<Rightarrow> string \<Rightarrow> forge_record" where
  "model rt d source =
     \<lparr>rtype = rt, schema_version = source, rec_fields = freeze_items d,
      source_schema_version = source\<rparr>"

section \<open>Validation\<close>

text \<open>A sequence of checks, each of which may raise; the first to raise decides.\<close>

fun run_checks :: "unit res list \<Rightarrow> unit res" where
  "run_checks [] = Inr ()"
| "run_checks (c # cs) = rthen c (run_checks cs)"

lemma run_checks_eq_Inr: "run_checks cs = Inr u \<longleftrightarrow> (\<forall>c \<in> set cs. c = Inr ())"
  by (induction cs) auto

text \<open>\<open>x in {...}\<close> for a set of texts: lists and mappings are not hashable.\<close>

fun hashable :: "pyval \<Rightarrow> bool" where
  "hashable (PList _) = False"
| "hashable (PDict _) = False"
| "hashable (PProxy _) = False"
| "hashable (PTuple xs) = (\<forall>x \<in> set xs. hashable x)"
| "hashable _ = True"

definition in_strs :: "pyval \<Rightarrow> string list \<Rightarrow> bool res" where
  "in_strs v xs =
     (if hashable v then Inr (\<exists>s \<in> set xs. v = PStr s) else Inl (PyExc ''TypeError''))"

definition ensure_in :: "pyval \<Rightarrow> string list \<Rightarrow> string \<Rightarrow> unit res" where
  "ensure_in v xs c = rbind (in_strs v xs) (\<lambda>b. ensure b c)"

lemma ensure_in_Inr [simp]: "ensure_in v xs c = Inr u \<longleftrightarrow> (\<exists>s \<in> set xs. v = PStr s)"
  by (auto simp: ensure_in_def in_strs_def)

fun list_items :: "pyval \<Rightarrow> pyval list" where
  "list_items (PList xs) = xs"
| "list_items _ = []"

fun is_plist :: "pyval \<Rightarrow> bool" where
  "is_plist (PList _) = True"
| "is_plist _ = False"

fun dict_items :: "pyval \<Rightarrow> dict" where
  "dict_items (PDict d) = d"
| "dict_items _ = []"

definition keys :: "dict \<Rightarrow> string list" where
  "keys d = map fst d"

text \<open>\<open>len(s)\<close> counts characters, not bytes.\<close>

definition char_count :: "string \<Rightarrow> nat" where
  "char_count s = length (filter (\<lambda>c. \<not> utf8_cont c) s)"

definition starts_with :: "string \<Rightarrow> string \<Rightarrow> bool" where
  "starts_with p s = (take (length p) s = p)"

definition STATUSES :: "string list" where
  "STATUSES = [''PASS'', ''FAIL'', ''UNKNOWN'']"

definition status_is_valid :: "record_spec \<Rightarrow> dict \<Rightarrow> unit res" where
  "status_is_valid spec d =
     (case status_field spec of
        None \<Rightarrow> Inr ()
      | Some f \<Rightarrow> ensure_in (dict_get d f) STATUSES ''RECORD_STATUS'')"

definition RECEIPT_COMPLETENESS :: "string list" where
  "RECEIPT_COMPLETENESS = [''complete'', ''incomplete'', ''malformed'', ''unsupported'', ''unavailable'']"

definition RECEIPT_ACTION_KINDS :: "string list" where
  "RECEIPT_ACTION_KINDS = [''workflow_action'', ''verifier_action'']"

definition ESTABLISHED_PROPERTY_STATES :: "string list" where
  "ESTABLISHED_PROPERTY_STATES = [''established'', ''not-established'', ''unknown'']"

definition ESTABLISHED_PROPERTY_KEYS :: "string list" where
  "ESTABLISHED_PROPERTY_KEYS =
     [''execution_completed'', ''local_result_validity'', ''runner_capability'',
      ''filesystem_isolation'', ''network_isolation'', ''containerization'',
      ''same_operator_execution'', ''external_anchoring'', ''witnessing'', ''protected_custody'',
      ''evaluator_independence'', ''governance_certification'']"

definition ASSURANCE_REQUEST_PROPERTIES :: "string list" where
  "ASSURANCE_REQUEST_PROPERTIES =
     [''runner_capability'', ''filesystem_isolation'', ''network_isolation'', ''containerization'',
      ''same_operator_execution'']"

text \<open>
  In the validators below a field read by subscript is a required field, which the first check has
  found present, so the default of \<open>dict_get\<close> is not reached.
\<close>

definition validate_execution_assurance :: "dict \<Rightarrow> unit res" where
  "validate_execution_assurance d =
     (let requested = dict_get d ''requested_properties'';
          unmet = dict_get d ''unmet_properties'';
          reasons = dict_get d ''reasons'';
          status = dict_get d ''assurance_status''
      in run_checks
           [ensure_in (dict_get d ''action_kind'') RECEIPT_ACTION_KINDS ''RECORD_MALFORMED'',
            ensure (is_plist requested \<and> list_items requested \<noteq> []
                \<and> list_all nonempty_str (list_items requested) \<and> distinct (list_items requested))
              ''RECORD_MALFORMED'',
            ensure (list_all (\<lambda>x. py_str x \<in> set ASSURANCE_REQUEST_PROPERTIES) (list_items requested))
              ''RECORD_AUTHORITY'',
            ensure (is_plist unmet \<and> list_all is_pstr (list_items unmet)) ''RECORD_MALFORMED'',
            ensure (set (list_items unmet) \<subseteq> set (list_items requested)) ''RECORD_MALFORMED'',
            ensure (is_plist reasons \<and> list_all nonempty_str (list_items reasons))
              ''RECORD_MALFORMED'',
            ensure (\<not> (status = PStr ''PASS'' \<and> (list_items unmet \<noteq> [] \<or> list_items reasons \<noteq> [])))
              ''RECORD_AUTHORITY'',
            ensure (\<not> (status = PStr ''FAIL'' \<and> list_items reasons = [])) ''RECORD_MALFORMED''])"

definition validate_complete_receipt :: "jcs \<Rightarrow> dict \<Rightarrow> unit res" where
  "validate_complete_receipt jcs d =
     (let receipt = dict_get d ''mncs_receipt'';
          rd = dict_items receipt;
          receipt_identity = dict_get d ''receipt_identity''
      in run_checks
           [ensure (is_pdict receipt) ''RECORD_MALFORMED'',
            ensure (nonempty_str receipt_identity) ''RECORD_MALFORMED'',
            rbind (jcs (dict_del ''receipt_identity'' rd))
              (\<lambda>bs. ensure (dict_get rd ''receipt_identity'' = receipt_identity
                  \<and> PStr (sha256 bs) = receipt_identity) ''RECORD_IDENTITY''),
            ensure (dict_get rd ''record_type'' = PStr ''mncs-execution-receipt'') ''RECORD_MALFORMED'',
            ensure (py_eq (dict_get d ''receipt_schema_version'') (dict_get rd ''schema_version''))
              ''RECORD_MALFORMED''])"

definition validate_execution_receipt_binding :: "jcs \<Rightarrow> dict \<Rightarrow> unit res" where
  "validate_execution_receipt_binding jcs d =
     (let completeness = dict_get d ''receipt_completeness'';
          properties = dict_get d ''established_properties'';
          absent = (\<exists>s \<in> set [''incomplete'', ''unavailable'']. completeness = PStr s)
      in run_checks
           [ensure_in (dict_get d ''action_kind'') RECEIPT_ACTION_KINDS ''RECORD_MALFORMED'',
            ensure_in completeness RECEIPT_COMPLETENESS ''RECORD_MALFORMED'',
            ensure (is_pdict properties
                \<and> set (keys (dict_items properties)) = set ESTABLISHED_PROPERTY_KEYS)
              ''RECORD_MALFORMED'',
            rbind (rmap (\<lambda>p. in_strs (snd p) ESTABLISHED_PROPERTY_STATES) (dict_items properties))
              (\<lambda>bs. ensure (list_all (\<lambda>b. b) bs) ''RECORD_MALFORMED''),
            ensure (dict_get d ''status'' \<noteq> PStr ''PASS'') ''RECORD_AUTHORITY'',
            if completeness = PStr ''complete'' then validate_complete_receipt jcs d
            else run_checks
                   [ensure (\<not> (absent \<and> dict_get d ''mncs_receipt'' \<noteq> PNone)) ''RECORD_MALFORMED'',
                    ensure (\<not> (absent \<and> dict_get d ''receipt_identity'' \<noteq> PNone))
                      ''RECORD_MALFORMED'']])"

definition validate_compiler_experiment :: "dict \<Rightarrow> unit res" where
  "validate_compiler_experiment d =
     run_checks
       [ensure_in (dict_get d ''language_contract_id'')
          [''mncs:language:compilation-study-result:0.1'', ''mncs:language:experiment-result:0.1'']
          ''RECORD_CONTRACT'',
        ensure (dict_get d ''interpretation'' = PStr ''observation_only_not_assurance_or_conformance'')
          ''RECORD_AUTHORITY'',
        ensure (dict_get d ''assurance_status'' = PNone \<and> dict_get d ''conformance_status'' = PNone)
          ''RECORD_AUTHORITY'']"

definition validate_compiler_candidate :: "dict \<Rightarrow> unit res" where
  "validate_compiler_candidate d =
     run_checks
       [ensure (dict_get d ''interpretation'' = PStr ''search_observation_not_language_correctness'')
          ''RECORD_AUTHORITY'',
        ensure (dict_get d ''assurance_status'' = PNone \<and> dict_get d ''conformance_status'' = PNone)
          ''RECORD_AUTHORITY'',
        ensure (dict_get d ''isolated'' = PBool True \<and> dict_get d ''generator_certified'' = PBool False)
          ''RECORD_AUTHORITY'',
        ensure (\<not> py_eq (dict_get d ''baseline_artifact_identity'')
                  (dict_get d ''candidate_artifact_identity''))
          ''COMPILER_CANDIDATE_NOT_ISOLATED'',
        ensure_in (dict_get d ''semantic_status'') [''UNVALIDATED'', ''PASS'', ''FAIL'', ''UNKNOWN'']
          ''RECORD_STATUS'',
        ensure_in (dict_get d ''policy_disposition'') [''accept'', ''reject'', ''retain_unresolved'']
          ''RECORD_MALFORMED'']"

definition sha256_text :: "pyval \<Rightarrow> bool" where
  "sha256_text v =
     (case v of PStr s \<Rightarrow> starts_with ''sha256:'' s \<and> char_count s = 71 | _ \<Rightarrow> False)"

definition validate_concept_evaluation :: "dict \<Rightarrow> unit res" where
  "validate_concept_evaluation d =
     (let material = dict_get d ''evaluation_material'';
          digest = dict_get d ''content_digest''
      in run_checks
           [ensure (mapping_items material \<noteq> None) ''RECORD_MALFORMED'',
            ensure (dict_get (dict_items material) ''schema_version''
                = PStr ''mncs-forge.concept-evaluation.v0.1'') ''RECORD_CONTRACT'',
            ensure_in (dict_get d ''status'') STATUSES ''RECORD_STATUS'',
            ensure (dict_get d ''interpretation'' = PStr CONCEPT_EVALUATION_INTERPRETATION
                \<and> dict_get d ''assurance_status'' = PNone \<and> dict_get d ''conformance_status'' = PNone)
              ''RECORD_AUTHORITY'',
            ensure (dict_get d ''generator_certified'' = PBool False) ''RECORD_AUTHORITY'',
            ensure (sha256_text digest) ''RECORD_IDENTITY'',
            ensure (dict_get d ''stable_id'' = PStr (''mncs-forge://evaluation/'' @ drop 7 (py_str digest)))
              ''RECORD_IDENTITY''])"

text \<open>The checks that follow from the specification of the record type alone.\<close>

definition validate_shape :: "record_type \<Rightarrow> record_spec \<Rightarrow> dict \<Rightarrow> unit res" where
  "validate_shape rt spec d =
     run_checks
       [ensure (set (required spec) \<subseteq> set (keys d)) ''RECORD_MISSING_FIELD'',
        ensure (set (keys d) \<subseteq> set (allowed spec)) ''RECORD_UNKNOWN_FIELD'',
        ensure (dict_get d ''extensions'' = PNone \<or> is_pdict (dict_get d ''extensions''))
          ''RECORD_MALFORMED'',
        ensure (list_all (\<lambda>f. nonempty_str (dict_get d f)) (REQUIRED_STRING_FIELDS rt))
          ''RECORD_MALFORMED'',
        ensure (list_all (\<lambda>f. is_pdict (dict_get d f)) (REQUIRED_OBJECT_FIELDS rt))
          ''RECORD_MALFORMED'',
        if dict_get d ''mode'' = PNone then Inr ()
        else ensure_in (dict_get d ''mode'') [''development'', ''evaluator''] ''RECORD_MALFORMED'',
        status_is_valid spec d]"

definition validate_type_rules :: "jcs \<Rightarrow> record_type \<Rightarrow> dict \<Rightarrow> unit res" where
  "validate_type_rules jcs rt d =
     (case rt of
        CANDIDATE_DISPOSITION \<Rightarrow>
          ensure_in (dict_get d ''disposition'') [''selected'', ''rejected''] ''RECORD_MALFORMED''
      | VERIFIER_RESULT \<Rightarrow>
          ensure (dict_get d ''independent_evaluation'' = PBool False) ''RECORD_AUTHORITY''
      | EXECUTION_RECEIPT_BINDING \<Rightarrow> validate_execution_receipt_binding jcs d
      | EXECUTION_ASSURANCE \<Rightarrow> validate_execution_assurance d
      | COMPILER_EXPERIMENT \<Rightarrow> validate_compiler_experiment d
      | COMPILER_CANDIDATE \<Rightarrow> validate_compiler_candidate d
      | CONCEPT_EVALUATION \<Rightarrow> validate_concept_evaluation d
      | _ \<Rightarrow> Inr ())"

definition validate_fields :: "jcs \<Rightarrow> record_type \<Rightarrow> dict \<Rightarrow> unit res" where
  "validate_fields jcs rt d =
     rbind (spec_of rt) (\<lambda>spec.
       rthen (validate_shape rt spec d) (validate_type_rules jcs rt d))"

section \<open>Identities and construction\<close>

definition identity_projection :: "record_type \<Rightarrow> dict \<Rightarrow> dict res" where
  "identity_projection rt d =
     rbind (spec_of rt) (\<lambda>spec.
       case identity_field spec of
         None \<Rightarrow> raise ''RECORD_IDENTITY''
       | Some f \<Rightarrow>
           rbind
             (rmap (\<lambda>p. rbind (as_json_value 0 (snd p)) (\<lambda>w. Inr (fst p, w)))
                (filter (\<lambda>p. fst p \<noteq> f \<and> fst p \<notin> set (identity_exclusions spec)) d))
             (\<lambda>ps. Inr (dict_update (metadata_dict rt CURRENT_SCHEMA_VERSION) ps)))"

definition derive_record_identity :: "record_type \<Rightarrow> dict \<Rightarrow> string res" where
  "derive_record_identity rt d =
     rbind (spec_of rt) (\<lambda>spec.
       case identity_prefix spec of
         None \<Rightarrow> raise ''RECORD_IDENTITY''
       | Some prefix \<Rightarrow>
           rbind (identity_projection rt d) (\<lambda>proj.
             rbind (local_json_identity (PDict proj)) (\<lambda>i. Inr (prefix @ after_colon i))))"

text \<open>
  The identity a legacy record was given: no metadata in the projection, and the fields a migration
  moved into the extensions put back where they were.
\<close>

definition restore_unknowns :: "dict \<Rightarrow> dict" where
  "restore_unknowns proj =
     (case dict_get proj ''extensions'' of
        PDict ext \<Rightarrow>
          (case dict_get ext ''legacy_unknown_fields'' of
             PDict unknown \<Rightarrow>
               let remaining = dict_del ''legacy_unknown_fields'' ext;
                   base = (if remaining \<noteq> [] then dict_put ''extensions'' (PDict remaining) proj
                           else dict_del ''extensions'' proj)
               in dict_update base unknown
           | _ \<Rightarrow> proj)
      | _ \<Rightarrow> proj)"

definition legacy_identity :: "bool \<Rightarrow> record_type \<Rightarrow> dict \<Rightarrow> string res" where
  "legacy_identity restore rt d =
     rbind (spec_of rt) (\<lambda>spec.
       case (identity_field spec, identity_prefix spec) of
         (Some f, Some prefix) \<Rightarrow>
           let proj = filter (\<lambda>p. fst p \<noteq> f \<and> fst p \<notin> set (identity_exclusions spec)) d
           in rbind (local_json_identity (PDict (if restore then restore_unknowns proj else proj)))
                (\<lambda>i. Inr (prefix @ after_colon i))
       | _ \<Rightarrow> raise ''RECORD_IDENTITY'')"

definition new_record :: "jcs \<Rightarrow> record_type \<Rightarrow> dict \<Rightarrow> forge_record res" where
  "new_record jcs rt flds =
     rthen (ensure (''record_type'' \<notin> set (keys flds) \<and> ''schema_version'' \<notin> set (keys flds))
              ''RECORD_METADATA_SPOOF'')
       (rbind (json_object (PDict flds)) (\<lambda>normalized.
          rbind (spec_of rt) (\<lambda>spec.
            rbind
              (case identity_field spec of
                 None \<Rightarrow> Inr normalized
               | Some f \<Rightarrow>
                   rbind (derive_record_identity rt normalized) (\<lambda>expected.
                     let supplied = dict_get normalized f
                     in if supplied = PNone then Inr (dict_put f (PStr expected) normalized)
                        else if supplied \<noteq> PStr expected then raise ''RECORD_IDENTITY''
                        else Inr normalized))
              (\<lambda>d. rthen (validate_fields jcs rt d) (Inr (model rt d CURRENT_SCHEMA_VERSION))))))"

section \<open>Migration\<close>

definition legacy_identity_matches :: "bool \<Rightarrow> record_type \<Rightarrow> string \<Rightarrow> dict \<Rightarrow> bool res" where
  "legacy_identity_matches restore rt f d =
     (let supplied = dict_get d f
      in rbind (legacy_identity restore rt d) (\<lambda>i.
           if supplied = PStr i then Inr True
           else if rt \<in> set LEGACY_CANDIDATE_SUBJECT_RECORDS
                   \<and> dict_get d ''subject_type'' = PStr ''candidate''
           then rbind (legacy_identity restore rt (dict_del ''subject_type'' d))
                  (\<lambda>j. Inr (supplied = PStr j))
           else Inr False))"

definition default_subject :: "record_type \<Rightarrow> dict \<Rightarrow> dict" where
  "default_subject rt d =
     (if rt \<in> set LEGACY_CANDIDATE_SUBJECT_RECORDS \<and> ''subject_type'' \<notin> set (keys d)
      then dict_put ''subject_type'' (PStr ''candidate'') d else d)"

definition preserve_unknowns :: "record_spec \<Rightarrow> dict \<Rightarrow> dict res" where
  "preserve_unknowns spec d =
     (let unknown = filter (\<lambda>p. fst p \<notin> set (allowed spec)) d;
          kept = filter (\<lambda>p. fst p \<in> set (allowed spec)) d;
          existing = dict_get kept ''extensions'';
          ext = dict_items existing
      in if unknown = [] then Inr d
         else if existing \<noteq> PNone \<and> \<not> is_pdict existing then raise ''RECORD_MALFORMED''
         else if ''legacy_unknown_fields'' \<in> set (keys ext) then raise ''RECORD_EXTENSION_CONFLICT''
         else Inr (dict_put ''extensions''
                     (PDict (dict_put ''legacy_unknown_fields'' (PDict unknown) ext)) kept))"

definition legacy :: "jcs \<Rightarrow> bool \<Rightarrow> record_type \<Rightarrow> dict \<Rightarrow> forge_record res" where
  "legacy jcs restore rt data =
     rbind (spec_of rt) (\<lambda>spec.
       rthen
         (case identity_field spec of
            None \<Rightarrow> Inr ()
          | Some f \<Rightarrow>
              rbind (legacy_identity_matches restore rt f data)
                (\<lambda>b. ensure b ''RECORD_IDENTITY''))
         (rbind (preserve_unknowns spec (default_subject rt data)) (\<lambda>d.
            rthen (validate_fields jcs rt d) (Inr (model rt d LEGACY_SCHEMA_VERSION)))))"

definition normalize :: "jcs \<Rightarrow> record_type \<Rightarrow> pyval \<Rightarrow> forge_record res" where
  "normalize jcs expected raw =
     rbind (json_object raw) (\<lambda>obj.
       let declared_type = dict_get obj ''record_type'';
           declared_version = dict_get obj ''schema_version'';
           data = dict_del ''schema_version'' (dict_del ''record_type'' obj)
       in if declared_type = PNone \<and> declared_version = PNone then legacy jcs False expected data
          else if declared_type = PNone \<or> declared_version = PNone then raise ''RECORD_METADATA''
          else if declared_type \<noteq> PStr (record_type_value expected) then raise ''RECORD_TYPE_MISMATCH''
          else if declared_version = PStr LEGACY_SCHEMA_VERSION then legacy jcs True expected data
          else if declared_version \<noteq> PStr CURRENT_SCHEMA_VERSION
          then raise ''UNSUPPORTED_RECORD_VERSION''
          else
            rthen (validate_fields jcs expected data)
              (rbind (spec_of expected) (\<lambda>spec.
                 rthen
                   (case identity_field spec of
                      None \<Rightarrow> Inr ()
                    | Some f \<Rightarrow>
                        rbind (derive_record_identity expected data)
                          (\<lambda>i. ensure (dict_get data f = PStr i) ''RECORD_IDENTITY''))
                   (Inr (model expected data CURRENT_SCHEMA_VERSION)))))"

definition load_record_file :: "jcs \<Rightarrow> string \<Rightarrow> nat \<Rightarrow> bytes option \<Rightarrow> forge_record res" where
  "load_record_file jcs grp byte_cap file =
     (case map_of RECORD_GROUP_TYPES grp of
        None \<Rightarrow> raise ''RECORD_CONTEXT''
      | Some rt \<Rightarrow>
          rbind (read_json byte_cap file) (\<lambda>raw.
            if is_pdict raw then normalize jcs rt raw else raise ''RECORD_MALFORMED''))"

section \<open>Ledger entries\<close>

record ledger_entry =
  sequence :: int
  timestamp :: string
  kind :: string
  previous_hash :: string
  payload :: forge_record
  entry_hash :: string
  entry_schema_version :: string

definition entry_to_json :: "ledger_entry \<Rightarrow> dict" where
  "entry_to_json e =
     dict_of
       [(''record_type'', PStr (record_type_value LEDGER_ENTRY)),
        (''schema_version'', PStr (entry_schema_version e)),
        (''sequence'', PInt (sequence e)),
        (''timestamp'', PStr (timestamp e)),
        (''kind'', PStr (kind e)),
        (''previous_hash'', PStr (previous_hash e)),
        (''payload'', PDict (to_json (payload e))),
        (''entry_hash'', PStr (entry_hash e))]"

definition ledger_source :: "pyval \<Rightarrow> pyval \<Rightarrow> string res" where
  "ledger_source declared_type declared_version =
     (if declared_type = PNone \<and> declared_version = PNone then Inr LEGACY_SCHEMA_VERSION
      else if declared_type \<noteq> PStr (record_type_value LEDGER_ENTRY) then raise ''RECORD_TYPE_MISMATCH''
      else if declared_version = PStr LEGACY_SCHEMA_VERSION then Inr LEGACY_SCHEMA_VERSION
      else if declared_version \<noteq> PStr CURRENT_SCHEMA_VERSION then raise ''UNSUPPORTED_RECORD_VERSION''
      else Inr CURRENT_SCHEMA_VERSION)"

text \<open>The fields of an entry when all of them have their types.\<close>

definition entry_fields :: "dict \<Rightarrow> (int \<times> string \<times> string \<times> string \<times> string \<times> dict) option" where
  "entry_fields data =
     Option.bind (as_int (dict_get data ''sequence'')) (\<lambda>sq.
     Option.bind (as_text (dict_get data ''timestamp'')) (\<lambda>ts.
     Option.bind (as_text (dict_get data ''kind'')) (\<lambda>kd.
     Option.bind (as_text (dict_get data ''previous_hash'')) (\<lambda>ph.
     Option.bind (as_text (dict_get data ''entry_hash'')) (\<lambda>eh.
     Option.bind (as_dict (dict_get data ''payload'')) (\<lambda>pr.
       Some (sq, ts, kd, ph, eh, pr)))))))"

definition normalize_ledger_entry :: "jcs \<Rightarrow> pyval \<Rightarrow> ledger_entry res" where
  "normalize_ledger_entry jcs raw =
     rbind (json_object raw) (\<lambda>obj.
       rbind (ledger_source (dict_get obj ''record_type'') (dict_get obj ''schema_version''))
         (\<lambda>source.
           let data = dict_del ''schema_version'' (dict_del ''record_type'' obj)
           in rthen (ensure (set LEDGER_REQUIRED \<subseteq> set (keys data)) ''RECORD_MISSING_FIELD'')
               (rthen (ensure (set (keys data) \<subseteq> set LEDGER_REQUIRED) ''RECORD_UNKNOWN_FIELD'')
                 (case entry_fields data of
                    Some (sq, ts, kd, ph, eh, pr) \<Rightarrow>
                      (case map_of LEDGER_KIND_TYPES kd of
                         None \<Rightarrow> raise ''RECORD_CONTEXT''
                       | Some rt \<Rightarrow>
                           rbind (normalize jcs rt (PDict pr)) (\<lambda>pl.
                             Inr \<lparr>sequence = sq, timestamp = ts, kind = kd, previous_hash = ph,
                                  payload = pl, entry_hash = eh, entry_schema_version = source\<rparr>))
                  | None \<Rightarrow> raise ''RECORD_MALFORMED''))))"

end
