(* ===== verification/RecordFacts.thy ===== *)
theory RecordFacts
  imports Records
begin

text \<open>
  What the record model guarantees: normalisation to JSON values is idempotent, freezing loses
  nothing, every constructed or parsed record satisfies its specification, the authority rules hold
  of every record, and a record survives being written and read back.
\<close>

section \<open>Plain JSON values\<close>

text \<open>The values \<open>_as_json_value\<close> returns.\<close>

fun plain :: "pyval \<Rightarrow> bool" where
  "plain (PFloat f) = (case f of PFin _ _ _ \<Rightarrow> True | _ \<Rightarrow> False)"
| "plain (PList xs) = (\<forall>x \<in> set xs. plain x)"
| "plain (PDict d) = (dict_wf d \<and> (\<forall>p \<in> set d. plain (snd p)))"
| "plain (PTuple _) = False"
| "plain (PProxy _) = False"
| "plain (POther _) = False"
| "plain _ = True"

abbreviation json_item :: "nat \<Rightarrow> string \<times> pyval \<Rightarrow> (string \<times> pyval) res" where
  "json_item n p \<equiv> rbind (as_json_value n (snd p)) (\<lambda>w. Inr (fst p, w))"

text \<open>Inversion of a successful conversion, one equation per constructor.\<close>

lemma as_json_list:
  "as_json_value n (PList xs) = Inr w \<longleftrightarrow>
    n \<le> 64 \<and> (\<exists>ys. rmap (as_json_value (n + 1)) xs = Inr ys \<and> w = PList ys)"
  by (auto simp: as_json_value.simps [of n])

lemma as_json_tuple:
  "as_json_value n (PTuple xs) = Inr w \<longleftrightarrow>
    n \<le> 64 \<and> (\<exists>ys. rmap (as_json_value (n + 1)) xs = Inr ys \<and> w = PList ys)"
  by (auto simp: as_json_value.simps [of n])

lemma as_json_dict:
  "as_json_value n (PDict d) = Inr w \<longleftrightarrow>
    n \<le> 64 \<and> (\<exists>ps. rmap (json_item (n + 1)) d = Inr ps \<and> w = PDict (dict_of ps))"
  by (auto simp: as_json_value.simps [of n])

lemma as_json_proxy:
  "as_json_value n (PProxy d) = Inr w \<longleftrightarrow>
    n \<le> 64 \<and> (\<exists>ps. rmap (json_item (n + 1)) d = Inr ps \<and> w = PDict (dict_of ps))"
  by (auto simp: as_json_value.simps [of n])

lemma as_json_scalar:
  "as_json_value n PNone = Inr w \<longleftrightarrow> n \<le> 64 \<and> w = PNone"
  "as_json_value n (PBool b) = Inr w \<longleftrightarrow> n \<le> 64 \<and> w = PBool b"
  "as_json_value n (PInt i) = Inr w \<longleftrightarrow> n \<le> 64 \<and> w = PInt i"
  "as_json_value n (PStr s) = Inr w \<longleftrightarrow> n \<le> 64 \<and> w = PStr s"
  "as_json_value n (PFloat f) = Inr w \<longleftrightarrow> n \<le> 64 \<and> w = PFloat f \<and> plain (PFloat f)"
  "as_json_value n (POther k) \<noteq> Inr w"
  by (auto simp: as_json_value.simps [of n] split: pyfloat.splits)

lemmas as_json_Inr = as_json_list as_json_tuple as_json_dict as_json_proxy as_json_scalar

lemma json_item_Inr: "json_item n p = Inr q \<longleftrightarrow> fst q = fst p \<and> as_json_value n (snd p) = Inr (snd q)"
  by (cases q) auto

lemma as_json_value_plain: "as_json_value n v = Inr w \<Longrightarrow> plain w"
proof (induction v arbitrary: n w rule: pyval_induct)
  case (list xs)
  then show ?case by (fastforce simp: as_json_Inr dest: rmap_mem)
next
  case (tuple xs)
  then show ?case by (fastforce simp: as_json_Inr dest: rmap_mem)
next
  case (dict d)
  then show ?case using set_dict_of by (fastforce simp: as_json_Inr dest: rmap_mem)
next
  case (proxy d)
  then show ?case using set_dict_of by (fastforce simp: as_json_Inr dest: rmap_mem)
qed (simp_all only: as_json_Inr plain.simps)

lemma json_item_idem:
  assumes "\<And>k v n w. (k, v) \<in> set d \<Longrightarrow> as_json_value n v = Inr w \<Longrightarrow> as_json_value n w = Inr w"
    and "rmap (json_item n) d = Inr ps"
  shows "rmap (json_item n) (dict_of ps) = Inr (dict_of ps)"
proof (rule rmap_fixed)
  fix q assume "q \<in> set (dict_of ps)"
  then have "q \<in> set ps" using set_dict_of by blast
  with rmap_mem [OF assms(2)] show "json_item n q = Inr q"
    by (metis assms(1) json_item_Inr prod.collapse)
qed

lemma as_json_value_idem: "as_json_value n v = Inr w \<Longrightarrow> as_json_value n w = Inr w"
proof (induction v arbitrary: n w rule: pyval_induct)
  case (list xs)
  then obtain ys where ys: "n \<le> 64" "rmap (as_json_value (n + 1)) xs = Inr ys" "w = PList ys"
    by (auto simp only: as_json_list)
  have "rmap (as_json_value (n + 1)) ys = Inr ys" by (rule rmap_idem [OF ys(2) list.IH])
  with ys show ?case by (simp only: as_json_list) blast
next
  case (tuple xs)
  then obtain ys where ys: "n \<le> 64" "rmap (as_json_value (n + 1)) xs = Inr ys" "w = PList ys"
    by (auto simp only: as_json_tuple)
  have "rmap (as_json_value (n + 1)) ys = Inr ys" by (rule rmap_idem [OF ys(2) tuple.IH])
  with ys show ?case by (simp only: as_json_list) blast
next
  case (dict d)
  then obtain ps where "n \<le> 64" "rmap (json_item (n + 1)) d = Inr ps" "w = PDict (dict_of ps)"
    by (auto simp only: as_json_dict)
  with json_item_idem [OF dict.IH] show ?case by (simp only: as_json_dict) (metis dict_of_wf dict_wf_of)
next
  case (proxy d)
  then obtain ps where "n \<le> 64" "rmap (json_item (n + 1)) d = Inr ps" "w = PDict (dict_of ps)"
    by (auto simp only: as_json_proxy)
  with json_item_idem [OF proxy.IH] show ?case by (simp only: as_json_dict) (metis dict_of_wf dict_wf_of)
qed (auto simp: as_json_scalar)

text \<open>A value accepted under some depth is accepted under any smaller one.\<close>

lemma json_item_shallow:
  assumes "\<And>k v n m w. (k, v) \<in> set d \<Longrightarrow> as_json_value n v = Inr w \<Longrightarrow> m \<le> n \<Longrightarrow> as_json_value m v = Inr w"
    and "rmap (json_item n) d = Inr ps" "m \<le> n"
  shows "rmap (json_item m) d = Inr ps"
  using assms(2) by (rule rmap_weaken) (metis assms(1,3) json_item_Inr prod.collapse)

lemma as_json_value_shallow: "as_json_value n v = Inr w \<Longrightarrow> m \<le> n \<Longrightarrow> as_json_value m v = Inr w"
proof (induction v arbitrary: n m w rule: pyval_induct)
  case (list xs)
  then obtain ys where ys: "n \<le> 64" "rmap (as_json_value (n + 1)) xs = Inr ys" "w = PList ys"
    by (auto simp only: as_json_list)
  have "rmap (as_json_value (m + 1)) xs = Inr ys"
    by (rule rmap_weaken [OF ys(2)]) (erule (1) list.IH, use list.prems(2) in simp)
  with ys list.prems(2) show ?case by (simp only: as_json_list) simp
next
  case (tuple xs)
  then obtain ys where ys: "n \<le> 64" "rmap (as_json_value (n + 1)) xs = Inr ys" "w = PList ys"
    by (auto simp only: as_json_tuple)
  have "rmap (as_json_value (m + 1)) xs = Inr ys"
    by (rule rmap_weaken [OF ys(2)]) (erule (1) tuple.IH, use tuple.prems(2) in simp)
  with ys tuple.prems(2) show ?case by (simp only: as_json_tuple) simp
next
  case (dict d)
  then obtain ps where ps: "n \<le> 64" "rmap (json_item (n + 1)) d = Inr ps" "w = PDict (dict_of ps)"
    by (auto simp only: as_json_dict)
  have "rmap (json_item (m + 1)) d = Inr ps"
    using json_item_shallow [OF dict.IH ps(2)] dict.prems(2) by simp
  with ps dict.prems(2) show ?case
    by (simp only: as_json_dict) simp
next
  case (proxy d)
  then obtain ps where ps: "n \<le> 64" "rmap (json_item (n + 1)) d = Inr ps" "w = PDict (dict_of ps)"
    by (auto simp only: as_json_proxy)
  have "rmap (json_item (m + 1)) d = Inr ps"
    using json_item_shallow [OF proxy.IH ps(2)] proxy.prems(2) by simp
  with ps proxy.prems(2) show ?case
    by (simp only: as_json_proxy) simp
qed (auto simp: as_json_scalar)

lemma json_object_Inr: "json_object v = Inr e \<longleftrightarrow> as_json_value 0 v = Inr (PDict e)"
proof (cases "as_json_value 0 v")
  case (Inr w)
  then show ?thesis by (cases w) (auto simp: json_object_def)
qed (simp add: json_object_def)

lemma json_object_plain: "json_object v = Inr e \<Longrightarrow> plain (PDict e)"
  unfolding json_object_Inr by (rule as_json_value_plain)

lemma json_object_idem: "json_object v = Inr e \<Longrightarrow> json_object (PDict e) = Inr e"
  unfolding json_object_Inr by (rule as_json_value_idem)

section \<open>Freezing\<close>

lemma thaw_freeze: "plain v \<Longrightarrow> thaw_json (freeze_json v) = v"
  by (induction v rule: pyval_induct) (auto intro!: map_idI)

lemma thaw_freeze_items [simp]: "plain (PDict d) \<Longrightarrow> thaw_items (freeze_items d) = d"
  by (auto simp: thaw_items_def freeze_items_def thaw_freeze intro!: map_idI)

lemma json_val_plain: "json_val v \<Longrightarrow> plain v"
proof (induction v rule: pyval_induct)
  case (float f)
  then show ?case by (cases f) (auto simp: wf_float_def)
qed auto

lemma map_of_map_snd: "map_of (map (\<lambda>p. (fst p, f (snd p))) d) k = map_option f (map_of d k)"
  by (induction d) auto

lemma dict_get_freeze [simp]: "dict_get (freeze_items d) k = freeze_json (dict_get d k)"
  by (auto simp: dict_get_def freeze_items_def map_of_map_snd split: option.splits)

lemma freeze_json_PStr [simp]: "freeze_json v = PStr s \<longleftrightarrow> v = PStr s"
  by (cases v) auto

lemma thaw_json_PStr [simp]: "thaw_json v = PStr s \<longleftrightarrow> v = PStr s"
  by (cases v) auto

lemma freeze_json_PNone [simp]: "freeze_json v = PNone \<longleftrightarrow> v = PNone"
  by (cases v) auto

lemma freeze_json_PBool [simp]: "freeze_json v = PBool b \<longleftrightarrow> v = PBool b"
  by (cases v) auto

lemma dict_wf_keys: "keys d = keys e \<Longrightarrow> dict_wf d = dict_wf e"
  by (simp add: keys_def dict_wf_def)

lemma keys_freeze [simp]: "keys (freeze_items d) = keys d"
  by (simp add: keys_def freeze_items_def)

lemma keys_thaw [simp]: "keys (thaw_items d) = keys d"
  by (simp add: keys_def thaw_items_def)

section \<open>Tables\<close>

lemmas spec_defs =
  epoch_spec_def candidate_spec_def provider_probe_spec_def workflow_action_spec_def
  execution_receipt_binding_spec_def workflow_result_spec_def verifier_action_spec_def
  verifier_result_spec_def candidate_disposition_spec_def freeze_spec_def final_evaluation_spec_def
  reconciliation_spec_def bundle_spec_def compiler_experiment_spec_def compiler_candidate_spec_def
  concept_evaluation_spec_def execution_assurance_spec_def WORKFLOW_RESULT_FIELDS_def

lemma spec_of_cases: "spec_of rt = Inr spec \<longleftrightarrow> RECORD_SPECS rt = Some spec"
  by (auto simp: spec_of_def split: option.splits)

lemma metadata_not_allowed:
  "RECORD_SPECS rt = Some spec \<Longrightarrow>
    ''record_type'' \<notin> set (allowed spec) \<and> ''schema_version'' \<notin> set (allowed spec)"
  by (cases rt) (auto simp: allowed_def spec_defs)

lemma identity_field_not_metadata:
  "RECORD_SPECS rt = Some spec \<Longrightarrow> identity_field spec = Some f \<Longrightarrow>
    f \<noteq> ''record_type'' \<and> f \<noteq> ''schema_version'' \<and> f \<in> set (required spec)"
  by (cases rt) (auto simp: spec_defs)

lemma identity_field_prefix:
  "RECORD_SPECS rt = Some spec \<Longrightarrow> identity_field spec = None \<longleftrightarrow> identity_prefix spec = None"
  by (cases rt) (auto simp: spec_defs)

section \<open>The record invariant\<close>

text \<open>
  A record is well formed when its frozen fields are the freezing of a plain dictionary that passes
  the validation of its type, and its two version fields agree on a known version.
\<close>

definition record_ok :: "jcs \<Rightarrow> forge_record \<Rightarrow> bool" where
  "record_ok jcs r =
     (let d = thaw_items (rec_fields r)
      in schema_version r \<in> {CURRENT_SCHEMA_VERSION, LEGACY_SCHEMA_VERSION}
         \<and> source_schema_version r = schema_version r
         \<and> rec_fields r = freeze_items d \<and> plain (PDict d)
         \<and> validate_fields jcs (rtype r) d = Inr ())"

lemma model_simps [simp]:
  "rtype (model rt d v) = rt" "schema_version (model rt d v) = v"
  "source_schema_version (model rt d v) = v" "rec_fields (model rt d v) = freeze_items d"
  by (simp_all add: model_def)

lemma record_ok_model:
  "plain (PDict d) \<Longrightarrow> v \<in> {CURRENT_SCHEMA_VERSION, LEGACY_SCHEMA_VERSION} \<Longrightarrow>
    validate_fields jcs rt d = Inr () \<Longrightarrow> record_ok jcs (model rt d v)"
  by (simp add: record_ok_def Let_def)

lemma record_okE:
  assumes "record_ok jcs r"
  obtains d where "r = model (rtype r) d (schema_version r)" "plain (PDict d)"
    "validate_fields jcs (rtype r) d = Inr ()"
    "schema_version r \<in> {CURRENT_SCHEMA_VERSION, LEGACY_SCHEMA_VERSION}"
  using assms by (intro that [of "thaw_items (rec_fields r)"]) (auto simp: record_ok_def Let_def model_def)

lemma plain_put: "plain (PDict d) \<Longrightarrow> plain v \<Longrightarrow> plain (PDict (dict_put k v d))"
  using set_dict_put [of k v d] by auto

lemma plain_del: "plain (PDict d) \<Longrightarrow> plain (PDict (dict_del k d))"
  by (auto simp: dict_del_def dict_wf_del [unfolded dict_del_def])

lemma dict_wf_filter: "dict_wf d \<Longrightarrow> dict_wf (filter P d)"
  by (induction d) auto

lemma plain_filter: "plain (PDict d) \<Longrightarrow> plain (PDict (filter P d))"
  by (auto simp: dict_wf_filter)

lemma plain_get: "plain (PDict d) \<Longrightarrow> plain (dict_get d k)"
  by (auto simp: dict_get_def split: option.splits dest!: map_of_SomeD)

lemma plain_items: "plain v \<Longrightarrow> plain (PDict (dict_items v))"
  by (cases v) auto

text \<open>What a successful construction went through: the identity is derived and stored.\<close>

definition identified :: "record_type \<Rightarrow> record_spec \<Rightarrow> dict \<Rightarrow> dict \<Rightarrow> bool" where
  "identified rt spec norm d =
     (case identity_field spec of
        None \<Rightarrow> d = norm
      | Some f \<Rightarrow> (\<exists>i. derive_record_identity rt norm = Inr i \<and> d = dict_put f (PStr i) norm))"

lemma dict_put_get: "dict_wf d \<Longrightarrow> dict_get d k = v \<Longrightarrow> v \<noteq> PNone \<Longrightarrow> dict_put k v d = d"
  by (auto simp: dict_get_def dict_put_same split: option.splits)

lemma new_recordE:
  assumes "new_record jcs rt flds = Inr r"
  obtains norm spec d where "''record_type'' \<notin> set (keys flds)" "''schema_version'' \<notin> set (keys flds)"
    "json_object (PDict flds) = Inr norm" "RECORD_SPECS rt = Some spec" "identified rt spec norm d"
    "validate_fields jcs rt d = Inr ()" "r = model rt d CURRENT_SCHEMA_VERSION" "plain (PDict d)"
proof -
  from assms obtain norm spec d where 1: "''record_type'' \<notin> set (keys flds)"
    "''schema_version'' \<notin> set (keys flds)" "json_object (PDict flds) = Inr norm"
    "RECORD_SPECS rt = Some spec" "validate_fields jcs rt d = Inr ()" "r = model rt d CURRENT_SCHEMA_VERSION"
    and d: "(case identity_field spec of
                 None \<Rightarrow> Inr norm
               | Some f \<Rightarrow>
                   rbind (derive_record_identity rt norm) (\<lambda>expected.
                     let supplied = dict_get norm f
                     in if supplied = PNone then Inr (dict_put f (PStr expected) norm)
                        else if supplied \<noteq> PStr expected then raise ''RECORD_IDENTITY''
                        else Inr norm)) = Inr d"
    by (auto simp: new_record_def spec_of_cases)
  have p: "plain (PDict norm)" by (rule json_object_plain [OF 1(3)])
  have id: "identified rt spec norm d"
    using d p by (auto simp: identified_def Let_def dict_put_get split: option.splits if_splits)
  then have "plain (PDict d)"
    using p plain_put [OF p] by (auto simp: identified_def simp del: plain.simps(3) split: option.splits)
  with that 1 id show thesis by blast
qed

lemma new_record_ok:
  "new_record jcs rt d = Inr r \<Longrightarrow>
    record_ok jcs r \<and> rtype r = rt \<and> schema_version r = CURRENT_SCHEMA_VERSION"
  by (erule new_recordE) (simp add: record_ok_model)

lemma preserve_unknowns_plain:
  assumes "preserve_unknowns spec d = Inr e" "plain (PDict d)"
  shows "plain (PDict e)"
proof (cases "filter (\<lambda>p. fst p \<notin> set (allowed spec)) d = []")
  case False
  let ?kept = "filter (\<lambda>p. fst p \<in> set (allowed spec)) d"
  let ?ext = "dict_items (dict_get ?kept ''extensions'')"
  have kept: "plain (PDict ?kept)" by (rule plain_filter [OF assms(2)])
  then have "plain (PDict ?ext)" by (intro plain_items plain_get)
  then have "plain (PDict (dict_put ''legacy_unknown_fields''
      (PDict (filter (\<lambda>p. fst p \<notin> set (allowed spec)) d)) ?ext))"
    by (rule plain_put) (rule plain_filter [OF assms(2)])
  with plain_put [OF kept this, of "''extensions''"] assms(1) False show ?thesis
    unfolding preserve_unknowns_def Let_def by (auto split: if_splits)
qed (use assms in \<open>auto simp: preserve_unknowns_def\<close>)

lemma legacy_ok:
  assumes "legacy jcs restore rt d = Inr r" "plain (PDict d)"
  shows "record_ok jcs r \<and> rtype r = rt"
proof -
  have "plain (PDict (default_subject rt d))"
    using assms(2) plain_put [OF assms(2), of "PStr ''candidate''"] by (simp only: default_subject_def) simp
  with assms(1) show ?thesis
    by (auto simp: legacy_def dest!: preserve_unknowns_plain intro!: record_ok_model)
qed

lemma normalize_ok:
  assumes "normalize jcs rt raw = Inr r"
  shows "record_ok jcs r \<and> rtype r = rt"
proof -
  from assms obtain obj where obj: "json_object raw = Inr obj"
    by (auto simp: normalize_def)
  let ?d = "dict_del ''schema_version'' (dict_del ''record_type'' obj)"
  have "plain (PDict ?d)" by (intro plain_del json_object_plain [OF obj])
  then show ?thesis using assms obj legacy_ok
    by (auto simp: normalize_def Let_def split: if_splits intro!: record_ok_model)
qed

lemma load_record_file_ok:
  "load_record_file jcs grp cap file = Inr r \<Longrightarrow>
    record_ok jcs r \<and> map_of RECORD_GROUP_TYPES grp = Some (rtype r)"
  by (auto simp: load_record_file_def split: option.splits if_splits dest!: normalize_ok)

section \<open>What validation establishes\<close>

lemma validate_fieldsD:
  assumes "validate_fields jcs rt d = Inr u"
  obtains spec where "RECORD_SPECS rt = Some spec" "set (required spec) \<subseteq> set (keys d)"
    "set (keys d) \<subseteq> set (allowed spec)" "list_all (\<lambda>f. nonempty_str (dict_get d f)) (REQUIRED_STRING_FIELDS rt)"
    "list_all (\<lambda>f. is_pdict (dict_get d f)) (REQUIRED_OBJECT_FIELDS rt)" "status_is_valid spec d = Inr ()"
    "validate_type_rules jcs rt d = Inr ()"
  using assms by (auto simp: validate_fields_def spec_of_cases validate_shape_def run_checks_eq_Inr)

lemma validate_no_metadata:
  "validate_fields jcs rt d = Inr u \<Longrightarrow> ''record_type'' \<notin> set (keys d) \<and> ''schema_version'' \<notin> set (keys d)"
  by (erule validate_fieldsD) (use metadata_not_allowed in blast)

lemma rget_model [simp]:
  "k \<noteq> ''record_type'' \<Longrightarrow> k \<noteq> ''schema_version'' \<Longrightarrow> rget (model rt d v) k = freeze_json (dict_get d k)"
  by (simp add: rget_def)

text \<open>Fields the tables list as text hold non-empty text in every record.\<close>

lemma record_text_field:
  assumes "record_ok jcs r" "f \<in> set (REQUIRED_STRING_FIELDS (rtype r))"
  shows "\<exists>s. dict_get (rec_fields r) f = PStr s \<and> s \<noteq> []"
proof -
  obtain d where d: "r = model (rtype r) d (schema_version r)" "validate_fields jcs (rtype r) d = Inr ()"
    using assms(1) by (rule record_okE)
  from d(2) assms(2) have "nonempty_str (dict_get d f)"
    by (elim validate_fieldsD) (auto simp: list_all_iff)
  then obtain s where "dict_get d f = PStr s" "s \<noteq> []" by (auto simp: nonempty_str_iff)
  then show ?thesis by (subst d(1)) simp
qed

lemma record_status_valid:
  assumes "record_ok jcs r" "RECORD_SPECS (rtype r) = Some spec" "status_field spec = Some f"
  shows "\<exists>s \<in> set STATUSES. dict_get (rec_fields r) f = PStr s"
proof -
  obtain d where d: "r = model (rtype r) d (schema_version r)" "validate_fields jcs (rtype r) d = Inr ()"
    using assms(1) by (rule record_okE)
  from d(2) assms(2,3) have "\<exists>s \<in> set STATUSES. dict_get d f = PStr s"
    by (elim validate_fieldsD) (auto simp: status_is_valid_def)
  then show ?thesis by (subst d(1)) auto
qed

lemma record_type_rules:
  assumes "record_ok jcs r"
  obtains d where "\<And>k. dict_get (rec_fields r) k = freeze_json (dict_get d k)"
    "validate_type_rules jcs (rtype r) d = Inr ()"
proof -
  obtain d where d: "r = model (rtype r) d (schema_version r)" "validate_fields jcs (rtype r) d = Inr ()"
    using assms(1) by (rule record_okE)
  show thesis
  proof (rule that [of d])
    show "dict_get (rec_fields r) k = freeze_json (dict_get d k)" for k by (subst d(1)) simp
    show "validate_type_rules jcs (rtype r) d = Inr ()" using d(2) by (rule validate_fieldsD)
  qed
qed

text \<open>The authority rules, as facts about the fields of a record.\<close>

lemma receipt_binding_never_pass:
  assumes "record_ok jcs r" "rtype r = EXECUTION_RECEIPT_BINDING"
  shows "dict_get (rec_fields r) ''status'' \<in> {PStr ''FAIL'', PStr ''UNKNOWN''}"
proof -
  have "\<exists>s \<in> set STATUSES. dict_get (rec_fields r) ''status'' = PStr s"
    using record_status_valid [OF assms(1), of execution_receipt_binding_spec "''status''"] assms(2)
    by (simp add: execution_receipt_binding_spec_def)
  moreover have "dict_get (rec_fields r) ''status'' \<noteq> PStr ''PASS''"
    using assms(1) by (rule record_type_rules)
      (auto simp: assms(2) validate_type_rules_def validate_execution_receipt_binding_def Let_def run_checks_eq_Inr)
  ultimately show ?thesis by (auto simp: STATUSES_def)
qed

lemma verifier_result_not_independent:
  "record_ok jcs r \<Longrightarrow> rtype r = VERIFIER_RESULT \<Longrightarrow>
    dict_get (rec_fields r) ''independent_evaluation'' = PBool False"
  by (erule record_type_rules) (simp add: validate_type_rules_def)

lemma no_assurance_claim:
  assumes "record_ok jcs r" "rtype r \<in> {COMPILER_EXPERIMENT, COMPILER_CANDIDATE, CONCEPT_EVALUATION}"
  shows "dict_get (rec_fields r) ''assurance_status'' = PNone
    \<and> dict_get (rec_fields r) ''conformance_status'' = PNone"
  using assms(1) by (rule record_type_rules) (use assms(2) in \<open>auto simp: validate_type_rules_def
    validate_compiler_experiment_def validate_compiler_candidate_def validate_concept_evaluation_def
    Let_def run_checks_eq_Inr\<close>)

lemma not_generator_certified:
  assumes "record_ok jcs r" "rtype r \<in> {COMPILER_CANDIDATE, CONCEPT_EVALUATION}"
  shows "dict_get (rec_fields r) ''generator_certified'' = PBool False"
  using assms(1) by (rule record_type_rules) (use assms(2) in \<open>auto simp: validate_type_rules_def
    validate_compiler_candidate_def validate_concept_evaluation_def Let_def run_checks_eq_Inr\<close>)

lemma list_items_Nil: "is_plist v \<Longrightarrow> list_items v = [] \<longleftrightarrow> v = PList []"
  by (cases v) auto

lemma freeze_PList_Nil: "v = PList [] \<Longrightarrow> freeze_json v = PTuple []"
  by simp

lemma assurance_pass_clean:
  assumes "record_ok jcs r" "rtype r = EXECUTION_ASSURANCE"
    and "dict_get (rec_fields r) ''assurance_status'' = PStr ''PASS''"
  shows "dict_get (rec_fields r) ''unmet_properties'' = PTuple []
    \<and> dict_get (rec_fields r) ''reasons'' = PTuple []"
  using assms(1)
proof (rule record_type_rules)
  fix d
  assume d: "\<And>k. dict_get (rec_fields r) k = freeze_json (dict_get d k)"
    and v: "validate_type_rules jcs (rtype r) d = Inr ()"
  from v assms(2) have "validate_execution_assurance d = Inr ()" by (simp add: validate_type_rules_def)
  moreover have "dict_get d ''assurance_status'' = PStr ''PASS''" using assms(3) d by simp
  ultimately have "dict_get d ''unmet_properties'' = PList []" "dict_get d ''reasons'' = PList []"
    by (auto simp: validate_execution_assurance_def Let_def run_checks_eq_Inr list_items_Nil)
  then show ?thesis by (simp add: d)
qed

section \<open>Round trips\<close>

lemma map_of_rev_distinct: "distinct (map fst d) \<Longrightarrow> map_of (rev d) = map_of d"
  by (intro map_of_inject_set [THEN iffD2]) (auto simp: rev_map [symmetric])

lemma metadata_wf [simp]: "dict_wf (metadata_dict rt v)"
  by (simp add: metadata_dict_def less_char_def)

lemma map_of_with_metadata:
  "dict_wf d \<Longrightarrow> map_of (dict_update (metadata_dict rt v) d) = map_of (metadata_dict rt v) ++ map_of d"
  by (simp add: map_of_dict_update map_of_rev_distinct dict_wf_distinct)

lemma keys_map_of: "k \<notin> set (keys d) \<longleftrightarrow> map_of d k = None"
  by (simp add: keys_def map_of_eq_None_iff)

lemma map_of_metadata:
  "map_of (metadata_dict rt v) k =
    (if k = ''record_type'' then Some (PStr (record_type_value rt))
     else if k = ''schema_version'' then Some (PStr v) else None)"
  by (simp add: metadata_dict_def)

lemma strip_metadata:
  assumes "dict_wf d" "''record_type'' \<notin> set (keys d)" "''schema_version'' \<notin> set (keys d)"
  shows "dict_del ''schema_version'' (dict_del ''record_type'' (dict_update (metadata_dict rt v) d)) = d"
proof (rule dict_eqI)
  show "map_of (dict_del ''schema_version'' (dict_del ''record_type'' (dict_update (metadata_dict rt v) d))) = map_of d"
    using assms by (auto simp: map_of_with_metadata keys_map_of fun_eq_iff map_of_metadata map_add_def
        split: option.splits)
qed (use assms in simp_all)

lemma get_metadata:
  assumes "dict_wf d" "''record_type'' \<notin> set (keys d)" "''schema_version'' \<notin> set (keys d)"
  shows "dict_get (dict_update (metadata_dict rt v) d) ''record_type'' = PStr (record_type_value rt)"
    "dict_get (dict_update (metadata_dict rt v) d) ''schema_version'' = PStr v"
  using assms by (simp_all add: dict_get_def map_of_with_metadata keys_map_of map_add_def map_of_metadata)

lemma to_json_model: "plain (PDict d) \<Longrightarrow> to_json (model rt d v) = dict_update (metadata_dict rt v) d"
  by (simp add: to_json_def)

text \<open>A dictionary whose values are already JSON values is left alone by \<open>json_object\<close>.\<close>

definition json_fixed :: "dict \<Rightarrow> bool" where
  "json_fixed d = (\<forall>p \<in> set d. as_json_value 1 (snd p) = Inr (snd p))"

lemma json_object_fixed: "json_object v = Inr e \<Longrightarrow> json_fixed e"
proof -
  assume "json_object v = Inr e"
  then have "as_json_value 0 (PDict e) = Inr (PDict e)" using json_object_Inr json_object_idem by blast
  then obtain ps where ps: "rmap (json_item 1) e = Inr ps" "e = dict_of ps" by (auto simp: as_json_dict)
  show "json_fixed e"
  proof (unfold json_fixed_def, intro ballI)
    fix q assume "q \<in> set e"
    then have "q \<in> set ps" using ps(2) set_dict_of by blast
    with rmap_mem [OF ps(1)] obtain p where "json_item 1 p = Inr q" by blast
    then show "as_json_value 1 (snd q) = Inr (snd q)" using as_json_value_idem by (auto simp: json_item_Inr)
  qed
qed

lemma fixed_json_object: "dict_wf d \<Longrightarrow> json_fixed d \<Longrightarrow> json_object (PDict d) = Inr d"
proof -
  assume d: "dict_wf d" "json_fixed d"
  then have "rmap (json_item 1) d = Inr d" by (intro rmap_fixed) (simp add: json_fixed_def)
  with d show ?thesis by (simp add: json_object_Inr as_json_dict)
qed

lemma json_fixed_put: "json_fixed d \<Longrightarrow> as_json_value 1 v = Inr v \<Longrightarrow> json_fixed (dict_put k v d)"
  using set_dict_put [of k v d] by (auto simp: json_fixed_def)

lemma json_fixed_metadata: "json_fixed d \<Longrightarrow> json_fixed (dict_update (metadata_dict rt v) d)"
  using set_dict_update [of "metadata_dict rt v" d]
  by (fastforce simp: json_fixed_def metadata_dict_def as_json_scalar)

lemma filter_dict_put: "(\<And>v. \<not> P (k, v)) \<Longrightarrow> filter P (dict_put k v d) = filter P d"
  by (induction k v d rule: dict_put.induct) auto

lemma identity_projection_put:
  assumes "RECORD_SPECS rt = Some spec" "identity_field spec = Some f"
  shows "identity_projection rt (dict_put f v d) = identity_projection rt d"
  using assms by (simp add: identity_projection_def spec_of_def filter_dict_put)

lemma derive_put:
  assumes "RECORD_SPECS rt = Some spec" "identity_field spec = Some f"
  shows "derive_record_identity rt (dict_put f v d) = derive_record_identity rt d"
  using assms(1) by (simp add: derive_record_identity_def spec_of_def identity_projection_put [OF assms]
      split: option.splits)

lemma identified_derive:
  assumes "RECORD_SPECS rt = Some spec" "identified rt spec norm d" "identity_field spec = Some f"
  shows "\<exists>i. derive_record_identity rt d = Inr i \<and> dict_get d f = PStr i"
  using assms derive_put [OF assms(1,3)] by (auto simp: identified_def)

lemma normalize_current:
  assumes "RECORD_SPECS rt = Some spec" "dict_wf d" "json_fixed d" "plain (PDict d)"
    and "validate_fields jcs rt d = Inr ()"
    and "\<And>f. identity_field spec = Some f \<Longrightarrow> \<exists>i. derive_record_identity rt d = Inr i \<and> dict_get d f = PStr i"
  shows "normalize jcs rt (PDict (to_json (model rt d CURRENT_SCHEMA_VERSION)))
    = Inr (model rt d CURRENT_SCHEMA_VERSION)"
proof -
  let ?j = "dict_update (metadata_dict rt CURRENT_SCHEMA_VERSION) d"
  note meta = validate_no_metadata [OF assms(5)]
  have "json_object (PDict ?j) = Inr ?j"
    by (intro fixed_json_object json_fixed_metadata assms(3)) simp
  then show ?thesis
    using assms get_metadata [OF assms(2)] strip_metadata [OF assms(2)] meta
    by (auto simp: normalize_def to_json_model Let_def spec_of_def CURRENT_SCHEMA_VERSION_def
        LEGACY_SCHEMA_VERSION_def split: option.splits)
qed

lemma identified_fixed: "identified rt spec norm d \<Longrightarrow> json_fixed norm \<Longrightarrow> json_fixed d"
  by (auto simp: identified_def as_json_scalar intro: json_fixed_put split: option.splits)

lemma new_record_normalize:
  assumes "new_record jcs rt flds = Inr r"
  shows "normalize jcs rt (PDict (to_json r)) = Inr r"
  using assms
proof (rule new_recordE)
  fix norm spec d
  assume a: "json_object (PDict flds) = Inr norm" "RECORD_SPECS rt = Some spec" "identified rt spec norm d"
    "validate_fields jcs rt d = Inr ()" "r = model rt d CURRENT_SCHEMA_VERSION" "plain (PDict d)"
  have "json_fixed d" using a(3) json_object_fixed [OF a(1)] by (rule identified_fixed)
  with a show ?thesis using normalize_current [OF a(2) _ _ a(6) a(4)] identified_derive [OF a(2,3)] by simp
qed

lemma rmap_same:
  "rmap f xs = Inr ys \<Longrightarrow> (\<And>x y. x \<in> set xs \<Longrightarrow> f x = Inr y \<Longrightarrow> y = x) \<Longrightarrow> ys = xs"
  by (induction xs arbitrary: ys) auto

lemma as_json_value_same: "json_val v \<Longrightarrow> as_json_value n v = Inr w \<Longrightarrow> w = v"
proof (induction v arbitrary: n w rule: pyval_induct)
  case (list xs)
  then obtain ys where ys: "rmap (as_json_value (n + 1)) xs = Inr ys" "w = PList ys"
    by (auto simp only: as_json_list)
  have "ys = xs" by (rule rmap_same [OF ys(1)]) (rule list.IH, assumption, use list.prems(1) in simp, assumption)
  with ys show ?case by simp
next
  case (dict d)
  then obtain ps where ps: "rmap (json_item (n + 1)) d = Inr ps" "w = PDict (dict_of ps)"
    by (auto simp only: as_json_dict)
  have "ps = d"
    by (rule rmap_same [OF ps(1)]) (use dict in \<open>fastforce simp: json_item_Inr prod_eq_iff\<close>)
  with ps dict.prems show ?case by simp
qed (auto simp: as_json_scalar)

lemma utf8_ok_sha256: "utf8_ok (sha256 bs)"
proof (rule utf8_ok_ascii, intro ballI)
  fix c assume "c \<in> set (sha256 bs)"
  then have "c \<in> set ''0123456789abcdef''" using sha256_hex64 [of bs] by (simp add: is_hex64_def list_all_iff)
  then show "of_char c < (128::nat)" by auto
qed

lemma utf8_ok_identity_prefix:
  "RECORD_SPECS rt = Some spec \<Longrightarrow> identity_prefix spec = Some p \<Longrightarrow> utf8_ok p"
  by (cases rt) (auto simp: spec_defs)

lemma after_colon_Cons [simp]: "after_colon (c # s) = (if c = CHR '':'' then s else after_colon s)"
  by (simp add: after_colon_def)

lemma derive_shape:
  assumes "derive_record_identity rt d = Inr i"
  obtains spec p proj where "RECORD_SPECS rt = Some spec" "identity_prefix spec = Some p"
    "identity_projection rt d = Inr proj" "encodable (PDict proj)" "i = p @ sha256 (enc (PDict proj))"
  using assms by (auto simp: derive_record_identity_def spec_of_cases local_json_identity_def
      canonical_bytes_def split: option.splits if_splits)

lemma derive_utf8: "derive_record_identity rt d = Inr i \<Longrightarrow> utf8_ok i"
  by (erule derive_shape) (simp add: utf8_ok_append utf8_ok_identity_prefix utf8_ok_sha256)

lemma utf8_ok_identity_field:
  "RECORD_SPECS rt = Some spec \<Longrightarrow> identity_field spec = Some f \<Longrightarrow> utf8_ok f"
  by (cases rt) (auto simp: spec_defs)

lemma json_val_put: "json_val (PDict d) \<Longrightarrow> utf8_ok k \<Longrightarrow> json_val v \<Longrightarrow> json_val (PDict (dict_put k v d))"
  using set_dict_put [of k v d] by auto

lemma json_val_metadata:
  assumes "json_val (PDict d)" "utf8_ok v"
  shows "json_val (PDict (dict_update (metadata_dict rt v) d))"
proof -
  have "utf8_ok (record_type_value rt)" by (cases rt) (auto intro: utf8_ok_ascii)
  moreover have "utf8_ok ''record_type''" "utf8_ok ''schema_version''" by (auto intro: utf8_ok_ascii)
  ultimately have "\<forall>p \<in> set (metadata_dict rt v) \<union> set d. utf8_ok (fst p) \<and> json_val (snd p)"
    using assms by (auto simp: metadata_dict_def)
  then show ?thesis using set_dict_update [of "metadata_dict rt v" d] by auto
qed

lemma identified_json_val:
  assumes "RECORD_SPECS rt = Some spec" "identified rt spec norm d" "json_val (PDict norm)"
  shows "json_val (PDict d)"
proof (cases "identity_field spec")
  case None
  then show ?thesis using assms(2,3) by (simp add: identified_def)
next
  case (Some f)
  then obtain i where "derive_record_identity rt norm = Inr i" "d = dict_put f (PStr i) norm"
    using assms(2) by (auto simp: identified_def)
  then show ?thesis
    using json_val_put [OF assms(3) utf8_ok_identity_field [OF assms(1) Some], of "PStr i"] derive_utf8
    by simp
qed

lemma new_record_json_val:
  assumes "new_record jcs rt flds = Inr r" "json_val (PDict flds)"
  shows "json_val (PDict (to_json r))"
  using assms(1)
proof (rule new_recordE)
  fix norm spec d
  assume a: "json_object (PDict flds) = Inr norm" "RECORD_SPECS rt = Some spec" "identified rt spec norm d"
    "r = model rt d CURRENT_SCHEMA_VERSION" "plain (PDict d)"
  have "norm = flds" using as_json_value_same [OF assms(2)] a(1) by (auto simp: json_object_Inr)
  then have "json_val (PDict d)" using identified_json_val [OF a(2,3)] assms(2) by simp
  then have "json_val (PDict (dict_update (metadata_dict rt CURRENT_SCHEMA_VERSION) d))"
    by (rule json_val_metadata) (simp add: CURRENT_SCHEMA_VERSION_def)
  then show ?thesis by (simp only: a(4) to_json_model [OF a(5)])
qed

text \<open>A record written with \<open>canonical_bytes\<close> and a newline is read back as the same record.\<close>

lemma record_file_roundtrip:
  assumes "new_record jcs rt flds = Inr r" "json_val (PDict flds)"
    and "map_of RECORD_GROUP_TYPES grp = Some rt" "canonical_bytes (PDict (to_json r)) = Inr bs"
    and "length bs + 1 \<le> cap"
  shows "load_record_file jcs grp cap (Some (bs @ [NL])) = Inr r"
proof -
  note j = new_record_json_val [OF assms(1,2)]
  from assms(4) have "bs = enc (PDict (to_json r))"
    by (simp add: canonical_bytes_def del: enc.simps split: if_splits)
  with read_json_enc_line [OF j] assms(5) have "read_json cap (Some (bs @ [NL])) = Inr (PDict (to_json r))"
    by blast
  with assms(3) new_record_normalize [OF assms(1)] show ?thesis by (simp add: load_record_file_def)
qed

lemma canonical_bytes_record:
  "new_record jcs rt flds = Inr r \<Longrightarrow> json_val (PDict flds) \<Longrightarrow>
    canonical_bytes (PDict (to_json r)) = Inr (enc (PDict (to_json r)))"
  using new_record_json_val json_val_encodable by (simp only: canonical_bytes_def if_True)

section \<open>Identities bind content\<close>

text \<open>The content a record's identity is derived from.\<close>

definition bound_content :: "forge_record \<Rightarrow> dict res" where
  "bound_content r = identity_projection (rtype r) (thaw_items (rec_fields r))"

lemma normalize_identity:
  assumes "normalize jcs rt raw = Inr r" "schema_version r = CURRENT_SCHEMA_VERSION"
    and "RECORD_SPECS rt = Some spec" "identity_field spec = Some f"
  shows "\<exists>i. derive_record_identity rt (thaw_items (rec_fields r)) = Inr i \<and> dict_get (rec_fields r) f = PStr i"
proof -
  from assms(1) obtain obj where obj: "json_object raw = Inr obj" by (auto simp: normalize_def)
  let ?d = "dict_del ''schema_version'' (dict_del ''record_type'' obj)"
  have p: "plain (PDict ?d)" by (intro plain_del json_object_plain [OF obj])
  have "legacy jcs b rt ?d \<noteq> Inr r" for b
    using assms(2) by (auto simp: legacy_def CURRENT_SCHEMA_VERSION_def LEGACY_SCHEMA_VERSION_def)
  with assms obj have "r = model rt ?d CURRENT_SCHEMA_VERSION"
    "\<exists>i. derive_record_identity rt ?d = Inr i \<and> dict_get ?d f = PStr i"
    by (auto simp: normalize_def Let_def spec_of_def split: if_splits)
  then show ?thesis using p by auto
qed

lemma identity_binds:
  assumes "normalize jcs rt raw1 = Inr r" "normalize jcs rt raw2 = Inr s"
    and "schema_version r = CURRENT_SCHEMA_VERSION" "schema_version s = CURRENT_SCHEMA_VERSION"
    and "RECORD_SPECS rt = Some spec" "identity_field spec = Some f"
    and "dict_get (rec_fields r) f = dict_get (rec_fields s) f"
    and "bound_content r = Inr p" "bound_content s = Inr q" "json_val (PDict p)" "json_val (PDict q)"
  shows "p = q \<or> collision (enc (PDict p)) (enc (PDict q))"
proof -
  obtain i where i: "derive_record_identity rt (thaw_items (rec_fields r)) = Inr i"
      "dict_get (rec_fields r) f = PStr i"
    using normalize_identity [OF assms(1,3,5,6)] by blast
  obtain j where j: "derive_record_identity rt (thaw_items (rec_fields s)) = Inr j"
      "dict_get (rec_fields s) f = PStr j"
    using normalize_identity [OF assms(2,4,5,6)] by blast
  have t: "rtype r = rt" "rtype s = rt" using assms(1,2) normalize_ok by blast+
  have "sha256 (enc (PDict p)) = sha256 (enc (PDict q))"
    using i j assms(5,7,8,9) t by (elim derive_shape) (auto simp: bound_content_def simp del: enc.simps)
  then show ?thesis using sha256_eqD json.enc_inj [OF assms(10,11)] by blast
qed

section \<open>Paths\<close>

text \<open>A record file name is one path component: it has no separator and is not a directory link.\<close>

lemma safe_record_identity_component:
  assumes "safe_record_identity identity = Inr s"
  shows "s \<noteq> [] \<and> list_all safe_char s \<and> CHR ''/'' \<notin> set s"
proof -
  have "s = map (\<lambda>c. if safe_char c then c else CHR ''_'') (filter (\<lambda>c. \<not> utf8_cont c) identity)" "s \<noteq> []"
    using assms by (auto simp: safe_record_identity_def Let_def split: if_splits)
  moreover have "safe_char (CHR ''_'')" "\<not> safe_char (CHR ''/'')" by (auto simp: safe_char_def)
  ultimately show ?thesis by (auto simp: list_all_iff split: if_splits)
qed

end
