(* ===== verification/HashChain.thy ===== *)
theory HashChain
  imports Sha256
begin

text \<open>
  Hash-linked logs. The interface is a locale: entries have bytes that are hashed, the digest of their
  predecessor and a position, and the bytes determine the entry. Clients get the laws of the log: a
  verified log is verified at every prefix, appending extends it, and two verified logs with the
  same head are the same log unless two of their own entries collide (or an entry hashes to the
  genesis value).
\<close>

section \<open>Linked sequences\<close>

text \<open>
  \<open>linked hash prev pos n p es h\<close>: the entries \<open>es\<close>, numbered from \<open>n\<close>, are linked from the digest
  \<open>p\<close> to the digest \<open>h\<close>.
\<close>

fun linked ::
  "('e \<Rightarrow> string) \<Rightarrow> ('e \<Rightarrow> string \<Rightarrow> bool) \<Rightarrow> ('e \<Rightarrow> nat \<Rightarrow> bool) \<Rightarrow> nat \<Rightarrow> string \<Rightarrow> 'e list \<Rightarrow> string \<Rightarrow> bool"
where
  "linked hash prev pos n p [] h = (h = p)"
| "linked hash prev pos n p (e # es) h = (prev e p \<and> pos e n \<and> linked hash prev pos (n + 1) (hash e) es h)"

lemma linked_append:
  "linked hash prev pos n p (xs @ ys) h \<longleftrightarrow>
    (\<exists>g. linked hash prev pos n p xs g \<and> linked hash prev pos (n + length xs) g ys h)"
  by (induction xs arbitrary: n p) auto

lemma linked_head:
  "linked hash prev pos n p xs h \<Longrightarrow> h = (if xs = [] then p else hash (last xs))"
  by (induction xs arbitrary: n p) auto

lemma linked_snoc:
  "linked hash prev pos n p (xs @ [e]) h \<longleftrightarrow>
    (\<exists>g. linked hash prev pos n p xs g \<and> prev e g \<and> pos e (n + length xs) \<and> h = hash e)"
  by (auto simp: linked_append)

locale hash_log =
  fixes content :: "'e \<Rightarrow> bytes"
    and prev :: "'e \<Rightarrow> string \<Rightarrow> bool"
    and pos :: "'e \<Rightarrow> nat \<Rightarrow> bool"
    and valid :: "'e \<Rightarrow> bool"
    and genesis :: string
  assumes content_inj: "valid e \<Longrightarrow> valid f \<Longrightarrow> content e = content f \<Longrightarrow> e = f"
    and prev_det: "prev e p \<Longrightarrow> prev e q \<Longrightarrow> p = q"
    and pos_det: "pos e m \<Longrightarrow> pos e n \<Longrightarrow> m = n"
begin

abbreviation log :: "'e list \<Rightarrow> string \<Rightarrow> bool" where
  "log es h \<equiv> linked (\<lambda>e. sha256 (content e)) prev pos 1 genesis es h"

lemma log_prefix: "log (xs @ ys) h \<Longrightarrow> \<exists>g. log xs g"
  by (auto simp: linked_append)

lemma log_extend:
  "log xs g \<Longrightarrow> prev e g \<Longrightarrow> pos e (length xs + 1) \<Longrightarrow> log (xs @ [e]) (sha256 (content e))"
  by (auto simp: linked_snoc)

lemma log_last_eq:
  assumes "valid x" "valid y" "sha256 (content x) = sha256 (content y)"
    and "\<not> collision (content x) (content y)"
  shows "x = y"
  using assms content_inj by (auto simp: collision_def)

text \<open>The head of a verified log determines the whole log.\<close>

lemma log_head_determines:
  assumes "log xs h" "log ys h"
    and "\<forall>x \<in> set xs. valid x" "\<forall>y \<in> set ys. valid y"
  shows "xs = ys
    \<or> (\<exists>x \<in> set xs. \<exists>y \<in> set ys. collision (content x) (content y))
    \<or> (\<exists>e \<in> set xs \<union> set ys. sha256 (content e) = genesis)"
  using assms
proof (induction xs arbitrary: ys h rule: rev_induct)
  case Nil
  then show ?case by (cases ys rule: rev_cases) (auto simp: linked_snoc)
next
  case (snoc x xs)
  show ?case
  proof (cases ys rule: rev_cases)
    case Nil
    with snoc.prems show ?thesis by (auto simp: linked_snoc)
  next
    case ys: (snoc ys' y)
    from snoc.prems(1) obtain g where g: "log xs g" "prev x g" "h = sha256 (content x)"
      by (auto simp: linked_snoc)
    from snoc.prems(2) ys obtain g' where g': "log ys' g'" "prev y g'" "h = sha256 (content y)"
      by (auto simp: linked_snoc)
    show ?thesis
    proof (cases "collision (content x) (content y)")
      case False
      have "x = y" by (rule log_last_eq) (use snoc.prems ys g g' False in auto)
      with g g' have "log ys' g" using prev_det by blast
      with snoc.IH [OF g(1) this] snoc.prems ys \<open>x = y\<close> show ?thesis by auto
    qed (use ys in auto)
  qed
qed

text \<open>Two verified logs with the same head have the same number of entries, under the same proviso.\<close>

lemma log_head_length:
  assumes "log (xs @ [x]) h" "log (ys @ [y]) h" "valid x" "valid y"
    and "\<not> collision (content x) (content y)"
  shows "length xs = length ys"
proof -
  have "x = y" by (rule log_last_eq) (use assms in \<open>auto simp: linked_snoc\<close>)
  with assms(1,2) show ?thesis using pos_det by (fastforce simp: linked_snoc)
qed

end

end
