(* ===== verification/Ledger.thy ===== *)
theory Ledger
  imports RecordFacts HashChain
begin

text \<open>
  The hash-linked ledger (ledger.py). Raw entries are the dictionaries parsed from the lines of
  \<open>ledger.jsonl\<close>; \<open>verify_from\<close> is the verification loop; the \<open>Ledger\<close> object is the record of its
  caches, and its methods take the object and the files and return a result with the new object.
  The lock is held around every method, so methods are atomic steps.

  The files of the state directory are a record: the ledger, the derived index, the immutable
  records by path, and the transaction directories. \<open>datetime.now(UTC).isoformat()\<close> is the argument
  \<open>now\<close>. Every caller hands \<open>_verify_raw_records\<close> the list \<open>_read_unlocked_raw\<close> has just returned, so
  the identity test against the cached list is an equality test here.
\<close>

section \<open>Files\<close>

record tx =
  record_stage :: "bytes option"
  ledger_stage :: "bytes option"
  journal_file :: "bytes option"

record disk =
  ledger_file :: "bytes option"
  index_file :: "bytes option"
  record_files :: "string list \<rightharpoonup> bytes"
  transactions :: "(string \<times> tx) list"

definition GENESIS :: string where
  "GENESIS = replicate 64 (CHR ''0'')"

definition LEDGER_LINE_BYTE_CAP :: nat where
  "LEDGER_LINE_BYTE_CAP = 16000000"

definition IMMUTABLE_RECORD_BYTE_CAP :: nat where
  "IMMUTABLE_RECORD_BYTE_CAP = 4000000"

section \<open>Reading\<close>

text \<open>\<open>bytes.splitlines(keepends=True)\<close>: a line ends after \<open>\n\<close>, \<open>\r\n\<close> or \<open>\r\<close>.\<close>

fun take_line :: "bytes \<Rightarrow> bytes \<times> bytes" where
  "take_line [] = ([], [])"
| "take_line (c # cs) =
     (if c = NL then ([c], cs)
      else if c = CR
      then (case cs of
              d # ds \<Rightarrow> if d = NL then ([c, d], ds) else ([c], cs)
            | [] \<Rightarrow> ([c], []))
      else (let (l, r) = take_line cs in (c # l, r)))"

lemma take_line_append: "fst (take_line s) @ snd (take_line s) = s"
proof (induction s rule: take_line.induct)
  case (2 c cs)
  consider "c = NL" | "c = CR" | "c \<noteq> NL" "c \<noteq> CR" by blast
  then show ?case
  proof cases
    case 2
    then show ?thesis by (cases cs) auto
  next
    case 3
    then show ?thesis using 2 by (auto split: prod.split)
  qed simp
qed simp

lemma take_line_length: "s \<noteq> [] \<Longrightarrow> length (snd (take_line s)) < length s"
proof -
  assume "s \<noteq> []"
  then have "fst (take_line s) \<noteq> []" proof (cases s)
    case (Cons c cs)
    then show ?thesis
      by (simp add: take_line.simps(2) [of c cs] del: take_line.simps split: list.split prod.split)
  qed simp
  then show ?thesis using arg_cong [OF take_line_append [of s], of length] by (cases "fst (take_line s)") auto
qed

function split_lines :: "bytes \<Rightarrow> bytes list" where
  "split_lines s = (if s = [] then [] else fst (take_line s) # split_lines (snd (take_line s)))"
  by pat_completeness auto
termination
  by (relation "measure length") (auto simp: take_line_length)

declare split_lines.simps [simp del]

definition parse_line :: "bytes \<Rightarrow> dict res" where
  "parse_line line =
     (if last line \<noteq> NL then raise ''LEDGER_TRUNCATED''
      else if length line > LEDGER_LINE_BYTE_CAP then raise ''LEDGER_MALFORMED''
      else case json_loads False True line of
             Some (PDict d) \<Rightarrow> Inr d
           | _ \<Rightarrow> raise ''LEDGER_MALFORMED'')"

definition parse_ledger :: "bytes \<Rightarrow> dict list res" where
  "parse_ledger bs = rmap parse_line (split_lines bs)"

record ledger_object =
  cached_digest :: "string option"
  cached_raw :: "dict list option"
  verified_digest :: "string option"
  verified_head :: "string option"

definition new_ledger :: ledger_object where
  "new_ledger = \<lparr>cached_digest = None, cached_raw = None, verified_digest = None, verified_head = None\<rparr>"

definition read_unlocked_raw :: "ledger_object \<Rightarrow> bytes option \<Rightarrow> dict list res \<times> ledger_object" where
  "read_unlocked_raw lg file =
     (case file of
        None \<Rightarrow> (Inr [], lg\<lparr>cached_digest := Some (sha256 []), cached_raw := Some []\<rparr>)
      | Some bs \<Rightarrow>
          (case cached_raw lg of
             Some rs \<Rightarrow>
               if cached_digest lg = Some (sha256 bs) then (Inr rs, lg)
               else (case parse_ledger bs of
                       Inl e \<Rightarrow> (Inl e, lg)
                     | Inr rs' \<Rightarrow> (Inr rs', lg\<lparr>cached_digest := Some (sha256 bs), cached_raw := Some rs'\<rparr>))
           | None \<Rightarrow>
               (case parse_ledger bs of
                  Inl e \<Rightarrow> (Inl e, lg)
                | Inr rs' \<Rightarrow> (Inr rs', lg\<lparr>cached_digest := Some (sha256 bs), cached_raw := Some rs'\<rparr>))))"

section \<open>Verification\<close>

definition entry_hash_of :: "dict \<Rightarrow> string res" where
  "entry_hash_of body = rbind (canonical_bytes (PDict body)) (\<lambda>bs. Inr (sha256 bs))"

fun verify_from :: "int \<Rightarrow> string \<Rightarrow> dict list \<Rightarrow> string res" where
  "verify_from index previous [] = Inr previous"
| "verify_from index previous (entry # rest) =
     rbind (entry_hash_of (dict_del ''entry_hash'' entry)) (\<lambda>expected.
       if \<not> py_eq (dict_get entry ''sequence'') (PInt index) then raise ''LEDGER_SEQUENCE''
       else if dict_get entry ''previous_hash'' \<noteq> PStr previous then raise ''LEDGER_LINK''
       else if dict_get entry ''entry_hash'' \<noteq> PStr expected then raise ''LEDGER_TAMPER''
       else verify_from (index + 1) expected rest)"

definition verify_records :: "dict list \<Rightarrow> string res" where
  "verify_records rs = verify_from 1 GENESIS rs"

definition verify_raw_records :: "ledger_object \<Rightarrow> dict list \<Rightarrow> string res \<times> ledger_object" where
  "verify_raw_records lg rs =
     (case verified_head lg of
        Some h \<Rightarrow>
          if cached_raw lg = Some rs \<and> cached_digest lg = verified_digest lg then (Inr h, lg)
          else (case verify_records rs of
                  Inl e \<Rightarrow> (Inl e, lg)
                | Inr h' \<Rightarrow>
                    (Inr h', if cached_raw lg = Some rs
                             then lg\<lparr>verified_digest := cached_digest lg, verified_head := Some h'\<rparr>
                             else lg))
      | None \<Rightarrow>
          (case verify_records rs of
             Inl e \<Rightarrow> (Inl e, lg)
           | Inr h' \<Rightarrow>
               (Inr h', if cached_raw lg = Some rs
                        then lg\<lparr>verified_digest := cached_digest lg, verified_head := Some h'\<rparr>
                        else lg)))"

definition require_recovered :: "disk \<Rightarrow> unit res" where
  "require_recovered dk = ensure (transactions dk = []) ''RECOVERY_REQUIRED''"

text \<open>Sequencing of methods that change the object and may raise.\<close>

definition sbind :: "'a res \<times> 's \<Rightarrow> ('a \<Rightarrow> 's \<Rightarrow> 'b res \<times> 's) \<Rightarrow> 'b res \<times> 's" where
  "sbind p f = (case p of (Inl e, s) \<Rightarrow> (Inl e, s) | (Inr x, s) \<Rightarrow> f x s)"

text \<open>The result of \<open>verify_chain\<close> and \<open>verify\<close>: number of entries and head.\<close>

definition verify_chain :: "ledger_object \<Rightarrow> disk \<Rightarrow> (nat \<times> string) res \<times> ledger_object" where
  "verify_chain lg dk =
     sbind (require_recovered dk, lg) (\<lambda>_ lg.
       sbind (read_unlocked_raw lg (ledger_file dk)) (\<lambda>rs lg.
         sbind (verify_raw_records lg rs) (\<lambda>head lg. (Inr (length rs, head), lg))))"

text \<open>
  The companion file of one entry. Only a \<open>ForgeError\<close> of the loader is turned into
  \<open>RECORD_FILE_MALFORMED\<close>; other exceptions pass through.
\<close>

definition verify_immutable_record :: "jcs \<Rightarrow> (string list \<rightharpoonup> bytes) \<Rightarrow> ledger_entry \<Rightarrow> unit res" where
  "verify_immutable_record jcs files entry =
     (case map_of PERSISTED_RECORD_CONTEXTS (kind entry) of
        None \<Rightarrow> Inl (PyExc ''KeyError'')
      | Some ctx \<Rightarrow>
          (case as_text (rget (payload entry) (ctx_identity_field ctx)) of
             Some identity \<Rightarrow>
               if identity = [] then raise ''RECORD_IDENTITY''
               else
                 rbind (immutable_record_path (group ctx) identity) (\<lambda>path.
                   case files path of
                     None \<Rightarrow> raise ''RECORD_FILE_MISSING''
                   | Some bs \<Rightarrow>
                       (case load_record_file jcs (group ctx) IMMUTABLE_RECORD_BYTE_CAP (Some bs) of
                          Inl (ForgeError _) \<Rightarrow> raise ''RECORD_FILE_MALFORMED''
                        | Inl e \<Rightarrow> Inl e
                        | Inr record \<Rightarrow>
                            if \<not> py_eq (PDict (to_json record)) (PDict (to_json (payload entry)))
                            then raise ''RECORD_FILE_MISMATCH''
                            else if entry_schema_version entry = CURRENT_SCHEMA_VERSION
                            then rbind (canonical_bytes (PDict (to_json (payload entry)))) (\<lambda>expected.
                                   ensure (bs = expected @ [NL]) ''RECORD_FILE_MISMATCH'')
                            else Inr ()))
           | None \<Rightarrow> raise ''RECORD_IDENTITY''))"

definition verify_immutable_records :: "jcs \<Rightarrow> (string list \<rightharpoonup> bytes) \<Rightarrow> ledger_entry list \<Rightarrow> unit res" where
  "verify_immutable_records jcs files entries =
     run_checks (map (verify_immutable_record jcs files) entries)"

definition verify :: "jcs \<Rightarrow> ledger_object \<Rightarrow> disk \<Rightarrow> (nat \<times> string) res \<times> ledger_object" where
  "verify jcs lg dk =
     sbind (require_recovered dk, lg) (\<lambda>_ lg.
       sbind (read_unlocked_raw lg (ledger_file dk)) (\<lambda>rs lg.
         sbind (verify_raw_records lg rs) (\<lambda>head lg.
           (rbind (rmap (\<lambda>e. normalize_ledger_entry jcs (PDict e)) rs) (\<lambda>entries.
              rthen (verify_immutable_records jcs (record_files dk) entries) (Inr (length rs, head))), lg))))"

section \<open>Appending\<close>

definition last_hash :: "dict list \<Rightarrow> pyval" where
  "last_hash rs = (if rs = [] then PStr GENESIS else dict_get (last rs) ''entry_hash'')"

definition entry_body :: "string \<Rightarrow> forge_record \<Rightarrow> dict list \<Rightarrow> string \<Rightarrow> dict" where
  "entry_body knd pl rs now =
     dict_of
       [(''record_type'', PStr (record_type_value LEDGER_ENTRY)),
        (''schema_version'', PStr CURRENT_SCHEMA_VERSION),
        (''sequence'', PInt (int (length rs) + 1)),
        (''timestamp'', PStr now),
        (''kind'', PStr knd),
        (''previous_hash'', last_hash rs),
        (''payload'', PDict (to_json pl))]"

definition check_entry_context :: "string \<Rightarrow> forge_record \<Rightarrow> unit res" where
  "check_entry_context knd pl =
     (case map_of LEDGER_KIND_TYPES knd of
        None \<Rightarrow> raise ''RECORD_CONTEXT''
      | Some expected_type \<Rightarrow>
          run_checks
            [ensure (rtype pl = expected_type) ''RECORD_TYPE_MISMATCH'',
             ensure (schema_version pl = CURRENT_SCHEMA_VERSION) ''RECORD_VERSION_WRITE''])"

definition raw_entry :: "string \<Rightarrow> forge_record \<Rightarrow> dict list \<Rightarrow> string \<Rightarrow> dict res" where
  "raw_entry knd pl rs now =
     (let body = entry_body knd pl rs now
      in rbind (entry_hash_of body) (\<lambda>h. Inr (dict_put ''entry_hash'' (PStr h) body)))"

definition build_entry :: "jcs \<Rightarrow> string \<Rightarrow> forge_record \<Rightarrow> dict list \<Rightarrow> string \<Rightarrow> (dict \<times> ledger_entry) res" where
  "build_entry jcs knd pl rs now =
     rthen (check_entry_context knd pl)
       (rbind (raw_entry knd pl rs now) (\<lambda>raw.
          rbind (normalize_ledger_entry jcs (PDict raw)) (\<lambda>entry. Inr (raw, entry))))"

text \<open>
  The low-level append. The file is extended before the returned entry is normalised, so the file
  part of the result is kept when normalisation raises.
\<close>

definition append :: "jcs \<Rightarrow> string \<Rightarrow> ledger_object \<Rightarrow> bytes option \<Rightarrow> string \<Rightarrow> forge_record
    \<Rightarrow> ledger_entry res \<times> ledger_object \<times> bytes option" where
  "append jcs now lg file knd pl =
     (case check_entry_context knd pl of
        Inl e \<Rightarrow> (Inl e, lg, file)
      | Inr _ \<Rightarrow>
          (case sbind (read_unlocked_raw lg file) (\<lambda>rs lg.
                  if rs = [] then (Inr rs, lg)
                  else sbind (verify_raw_records lg rs) (\<lambda>_ lg. (Inr rs, lg))) of
             (Inl e, lg') \<Rightarrow> (Inl e, lg', file)
           | (Inr rs, lg') \<Rightarrow>
               (case rbind (raw_entry knd pl rs now)
                       (\<lambda>raw. rbind (canonical_bytes (PDict raw)) (\<lambda>bs. Inr (raw, bs))) of
                  Inl e \<Rightarrow> (Inl e, lg', file)
                | Inr (raw, bs) \<Rightarrow>
                    (normalize_ledger_entry jcs (PDict raw), lg',
                     Some ((case file of None \<Rightarrow> [] | Some old \<Rightarrow> old) @ bs @ [NL])))))"

section \<open>Selection\<close>

text \<open>\<open>[entry for entry in raw_records if entry.get("kind") in kinds]\<close>.\<close>

fun filter_kinds :: "string list \<Rightarrow> dict list \<Rightarrow> dict list res" where
  "filter_kinds kinds [] = Inr []"
| "filter_kinds kinds (e # es) =
     rbind (in_strs (dict_get e ''kind'') kinds) (\<lambda>b.
       rbind (filter_kinds kinds es) (\<lambda>r. Inr (if b then e # r else r)))"

definition valid_sequence :: "dict list \<Rightarrow> string \<Rightarrow> pyval \<Rightarrow> bool" where
  "valid_sequence rs knd v =
     (case v of
        PInt i \<Rightarrow> 1 \<le> i \<and> i \<le> int (length rs) \<and> dict_get (rs ! nat (i - 1)) ''kind'' = PStr knd
      | _ \<Rightarrow> False)"

fun sequence_number :: "pyval \<Rightarrow> nat" where
  "sequence_number (PInt i) = nat i"
| "sequence_number _ = 0"

definition kind_sequences :: "dict \<Rightarrow> string \<Rightarrow> pyval" where
  "kind_sequences by_kind knd = (case map_of by_kind knd of None \<Rightarrow> PList [] | Some v \<Rightarrow> v)"

text \<open>\<open>None\<close> stands for the exceptions after which the authoritative history is used.\<close>

definition index_sequences :: "bytes option \<Rightarrow> string option \<Rightarrow> dict list \<Rightarrow> string list \<Rightarrow> nat list option" where
  "index_sequences index digest rs kinds =
     (case index of
        None \<Rightarrow> None
      | Some bs \<Rightarrow>
          (case json_loads True True bs of
             Some (PDict obj) \<Rightarrow>
               (case dict_get obj ''sequences_by_kind'' of
                  PDict by_kind \<Rightarrow>
                    if py_eq (dict_get obj ''schema_version'') (PInt 1)
                       \<and> dict_get obj ''ledger_sha256'' = (case digest of None \<Rightarrow> PNone | Some s \<Rightarrow> PStr s)
                       \<and> py_eq (dict_get obj ''ledger_head'') (last_hash rs)
                       \<and> py_eq (dict_get obj ''entry_count'') (PInt (int (length rs)))
                       \<and> list_all (\<lambda>knd. is_plist (kind_sequences by_kind knd)
                            \<and> list_all (valid_sequence rs knd) (list_items (kind_sequences by_kind knd))) kinds
                    then Some (sorted_set (concat (map (\<lambda>knd.
                           map sequence_number (list_items (kind_sequences by_kind knd))) kinds)))
                    else None
                | _ \<Rightarrow> None)
           | _ \<Rightarrow> None))"

definition select_with_index :: "bytes option \<Rightarrow> string option \<Rightarrow> dict list \<Rightarrow> string list \<Rightarrow> dict list res" where
  "select_with_index index digest rs kinds =
     (case index_sequences index digest rs kinds of
        Some ns \<Rightarrow> Inr (map (\<lambda>n. rs ! (n - 1)) ns)
      | None \<Rightarrow> filter_kinds kinds rs)"

definition verified_snapshot :: "ledger_object \<Rightarrow> disk \<Rightarrow> dict list res \<times> ledger_object" where
  "verified_snapshot lg dk =
     sbind (require_recovered dk, lg) (\<lambda>_ lg.
       sbind (read_unlocked_raw lg (ledger_file dk)) (\<lambda>rs lg.
         sbind (verify_raw_records lg rs) (\<lambda>_ lg. (Inr rs, lg))))"

definition records :: "jcs \<Rightarrow> ledger_object \<Rightarrow> disk \<Rightarrow> string option \<Rightarrow> ledger_entry list res \<times> ledger_object" where
  "records jcs lg dk knd =
     sbind (verified_snapshot lg dk) (\<lambda>rs lg.
       (rbind (case knd of
                 None \<Rightarrow> Inr rs
               | Some k \<Rightarrow> select_with_index (index_file dk) (cached_digest lg) rs [k])
          (rmap (\<lambda>e. normalize_ledger_entry jcs (PDict e))), lg))"

definition records_for :: "jcs \<Rightarrow> ledger_object \<Rightarrow> disk \<Rightarrow> string list \<Rightarrow> ledger_entry list res \<times> ledger_object" where
  "records_for jcs lg dk kinds =
     sbind (verified_snapshot lg dk) (\<lambda>rs lg.
       (rbind (select_with_index (index_file dk) (cached_digest lg) rs kinds)
          (rmap (\<lambda>e. normalize_ledger_entry jcs (PDict e))), lg))"

end
