(* ===== verification/LedgerFacts.thy ===== *)
theory LedgerFacts
  imports Ledger
begin

text \<open>
  Correctness of the ledger: canonical lines survive line splitting, the verification loop is the
  linking relation of \<open>HashChain\<close>, appended entries extend a verified ledger, the head of a
  verified ledger determines its entries, the caches are transparent, and selection through the
  index agrees with the authoritative history.
\<close>

section \<open>Lines\<close>

definition printable :: "char \<Rightarrow> bool" where
  "printable c = (32 \<le> (of_char c :: nat))"

lemma printable_not_break: "printable c \<Longrightarrow> c \<noteq> NL \<and> c \<noteq> CR"
  by (auto simp: printable_def NL_def CR_def)

lemma printable_marks [simp]:
  "printable (CHR ''['')" "printable (CHR '']'')" "printable (CHR ''{'')" "printable (CHR ''}'')"
  "printable (CHR '','')" "printable (CHR '':'')" "printable (CHR ''-'')"
  by (simp_all add: printable_def)

lemma printable_digits: "\<forall>c \<in> set ds. is_digit c \<Longrightarrow> list_all printable ds"
  by (auto simp: list_all_iff is_digit_def printable_def)

lemma printable_hex: "n < 16 \<Longrightarrow> printable (hex_char n)"
  using hex_cases [of n] by (auto simp: hex_char_def printable_def)

lemma printable_esc: "list_all printable (esc_char c)"
proof -
  have "(of_char c :: nat) < 256" by (rule nat_of_char_less_256)
  then have "printable (hex_char (of_char c div 16))" "printable (hex_char (of_char c mod 16))"
    by (auto intro!: printable_hex simp: less_mult_imp_div_less)
  then show ?thesis by (simp add: esc_char_def printable_def)
qed

lemma printable_enc_str: "list_all printable (enc_str s)"
  using printable_esc by (induction s) (auto simp: enc_str_def printable_def list_all_iff)

lemma printable_float: "list_all float_text s \<Longrightarrow> list_all printable s"
  by (auto simp: list_all_iff float_text_def is_digit_def printable_def)

lemma printable_enc: "json_val v \<Longrightarrow> list_all printable (enc v)"
proof (induction v rule: pyval_induct)
  case (int i)
  then show ?case using digits_of_digits
    by (auto simp: int_repr_def intro!: printable_digits)
next
  case (float f)
  then obtain s m e where "f = PFin s m e" by (cases f) (auto simp: wf_float_def)
  moreover have "list_all printable (decimal_repr m e)"
    by (rule printable_float) (rule float_text_decimal)
  ultimately show ?case by simp
next
  case (str s)
  then show ?case using printable_enc_str by simp
next
  case (list xs)
  have "(\<forall>x \<in> set xs. list_all printable (enc x)) \<Longrightarrow> list_all printable (enc_list xs)" for xs
    by (induction xs) auto
  with list show ?case by auto
next
  case (dict d)
  have "(\<forall>p \<in> set d. list_all printable (enc (snd p))) \<Longrightarrow> list_all printable (enc_items d)" for d
    using printable_enc_str by (induction d) auto
  with dict show ?case by force
qed (auto simp: printable_def)

lemma take_line_plain:
  "list_all printable l \<Longrightarrow> take_line (l @ NL # r) = (l @ [NL], r)"
  by (induction l) (auto dest: printable_not_break)

lemma split_line: "list_all printable l \<Longrightarrow> split_lines (l @ [NL]) = [l @ [NL]]"
  using take_line_plain [of l "[]"] by (simp add: split_lines.simps [of "l @ [NL]"] split_lines.simps [of "[]"])

lemma take_line_extend:
  "s \<noteq> [] \<Longrightarrow> last s = NL \<Longrightarrow>
    take_line (s @ t) = (fst (take_line s), snd (take_line s) @ t)
    \<and> (snd (take_line s) = [] \<or> last (snd (take_line s)) = NL)"
proof (induction s)
  case (Cons c cs)
  consider "c = NL" | "c = CR" | "c \<noteq> NL" "c \<noteq> CR" by blast
  then show ?case
  proof cases
    case 1
    then show ?thesis using Cons.prems by (auto split: if_splits)
  next
    case 2
    with Cons.prems show ?thesis by (cases cs) (auto split: if_splits)
  next
    case 3
    with Cons.prems have "cs \<noteq> []" "last cs = NL" by (auto split: if_splits)
    with Cons.IH 3 show ?thesis by (auto split: prod.split)
  qed
qed simp

text \<open>Text appended after a complete line adds its own lines and changes none before it.\<close>

lemma split_lines_extend:
  "s = [] \<or> last s = NL \<Longrightarrow> split_lines (s @ t) = split_lines s @ split_lines t"
proof (induction s rule: split_lines.induct)
  case (1 s)
  show ?case
  proof (cases "s = []")
    case False
    with 1(2) have l: "last s = NL" by simp
    have "split_lines (snd (take_line s) @ t) = split_lines (snd (take_line s)) @ split_lines t"
      by (rule 1(1)) (use False take_line_extend [OF False l] in auto)
    then show ?thesis using False take_line_extend [OF False l, of t]
      by (simp add: split_lines.simps [of "s @ t"] split_lines.simps [of s])
  qed (simp add: split_lines.simps [of "[]"])
qed

lemma parse_ledger_Nil [simp]: "parse_ledger [] = Inr []"
  by (simp add: parse_ledger_def split_lines.simps [of "[]"])

lemma last_line: "s \<noteq> [] \<Longrightarrow> last (concat (split_lines s)) = last s \<and> concat (split_lines s) = s"
proof -
  have "concat (split_lines s) = s"
    by (induction s rule: split_lines.induct)
      (subst split_lines.simps, auto simp: take_line_append)
  then show ?thesis by simp
qed

lemma split_lines_nonempty: "l \<in> set (split_lines s) \<Longrightarrow> l \<noteq> []"
proof (induction s rule: split_lines.induct)
  case (1 s)
  have "fst (take_line s) \<noteq> []" if "s \<noteq> []"
    using take_line_length [OF that] take_line_append [of s] by (metis append_Nil less_irrefl)
  with 1 show ?case by (subst (asm) (2) split_lines.simps) (auto split: if_splits)
qed

text \<open>A ledger that parses ends with a complete line.\<close>

lemma parse_ledger_ends:
  assumes "parse_ledger bs = Inr rs"
  shows "bs = [] \<or> last bs = NL"
proof (cases "split_lines bs" rule: rev_cases)
  case Nil
  then show ?thesis by (auto simp: split_lines.simps [of bs] split: if_splits)
next
  case (snoc ls l)
  with assms have "\<exists>e. parse_line l = Inr e" by (auto simp: parse_ledger_def rmap_append)
  then have "last l = NL" by (auto simp: parse_line_def split: if_splits)
  moreover have "l \<noteq> []" using split_lines_nonempty [of l bs] snoc by simp
  ultimately show ?thesis using last_line [of bs] snoc by (cases "bs = []") auto
qed

lemma parse_line_enc:
  assumes "json_val (PDict e)" "length (enc (PDict e)) + 1 \<le> LEDGER_LINE_BYTE_CAP"
  shows "parse_line (enc (PDict e) @ [NL]) = Inr e"
proof -
  have "json_loads False True (enc (PDict e) @ [NL]) = Some (PDict e)"
    by (rule json_loads_enc_line [OF assms(1)])
  then show ?thesis using assms(2) by (simp add: parse_line_def del: enc.simps)
qed

section \<open>Verification is linking\<close>

definition entry_content :: "dict \<Rightarrow> bytes" where
  "entry_content e = enc (PDict (dict_del ''entry_hash'' e))"

definition entry_prev :: "dict \<Rightarrow> string \<Rightarrow> bool" where
  "entry_prev e p = (dict_get e ''previous_hash'' = PStr p)"

definition entry_pos :: "dict \<Rightarrow> nat \<Rightarrow> bool" where
  "entry_pos e n = py_eq (dict_get e ''sequence'') (PInt (int n))"

definition entry_sealed :: "dict \<Rightarrow> bool" where
  "entry_sealed e =
     (encodable (PDict (dict_del ''entry_hash'' e)) \<and> dict_get e ''entry_hash'' = PStr (sha256 (entry_content e)))"

definition entry_valid :: "dict \<Rightarrow> bool" where
  "entry_valid e = (json_val (PDict e) \<and> dict_get e ''entry_hash'' = PStr (sha256 (entry_content e)))"

lemma entry_hash_of_eq:
  "entry_hash_of (dict_del ''entry_hash'' e) = Inr h \<longleftrightarrow>
    encodable (PDict (dict_del ''entry_hash'' e)) \<and> h = sha256 (entry_content e)"
  by (auto simp: entry_hash_of_def canonical_bytes_def entry_content_def)

lemma verify_from_linked:
  "verify_from (int n) p rs = Inr h \<longleftrightarrow>
    linked (\<lambda>e. sha256 (entry_content e)) entry_prev entry_pos n p rs h \<and> (\<forall>e \<in> set rs. entry_sealed e)"
proof (induction rs arbitrary: n p)
  case (Cons e rs)
  have "verify_from (int n) p (e # rs) = Inr h \<longleftrightarrow>
      entry_sealed e \<and> entry_prev e p \<and> entry_pos e n
      \<and> verify_from (int (n + 1)) (sha256 (entry_content e)) rs = Inr h"
    by (auto simp: entry_hash_of_eq entry_sealed_def entry_prev_def entry_pos_def add.commute
        simp del: encodable.simps split: if_splits)
  also have "\<dots> \<longleftrightarrow> linked (\<lambda>e. sha256 (entry_content e)) entry_prev entry_pos n p (e # rs) h
      \<and> (\<forall>e \<in> set (e # rs). entry_sealed e)"
    unfolding Cons.IH by auto
  finally show ?case .
qed auto

lemma verify_records_linked:
  "verify_records rs = Inr h \<longleftrightarrow>
    linked (\<lambda>e. sha256 (entry_content e)) entry_prev entry_pos 1 GENESIS rs h \<and> (\<forall>e \<in> set rs. entry_sealed e)"
  using verify_from_linked [of 1] by (simp add: verify_records_def)

lemma num_eq_int: "num_eq x (m, 0) \<Longrightarrow> num_eq x (n, 0) \<Longrightarrow> m = n"
proof -
  assume a: "num_eq x (m, 0)" "num_eq x (n, 0)"
  obtain a e where x: "x = (a, e)" by (cases x)
  let ?k = "nat (0 - min e 0)"
  have "m * 10 ^ ?k = n * 10 ^ ?k" using a x by (simp add: num_eq_def Let_def)
  then show "m = n" by simp
qed

lemma num_py_eq_int: "num_py_eq v (PInt m) \<Longrightarrow> num_py_eq v (PInt n) \<Longrightarrow> m = n"
  by (auto simp: num_py_eq_def split: option.splits dest: num_eq_int)

lemma py_eq_int_det: "py_eq v (PInt m) \<Longrightarrow> py_eq v (PInt n) \<Longrightarrow> m = n"
proof (cases v)
  case (PFloat f)
  assume "py_eq v (PInt m)" "py_eq v (PInt n)"
  with PFloat show ?thesis by (cases f) (auto dest: num_py_eq_int)
qed (auto dest: num_py_eq_int)

lemma json_val_del: "json_val (PDict e) \<Longrightarrow> json_val (PDict (dict_del k e))"
  by (auto simp: dict_del_def dict_wf_del [unfolded dict_del_def])

lemma dict_del_get_inj:
  assumes "dict_wf e" "dict_wf f" "dict_del k e = dict_del k f"
    and "dict_get e k = v" "dict_get f k = v" "v \<noteq> PNone"
  shows "e = f"
proof (rule dict_eqI [OF assms(1,2)])
  have "map_of e x = map_of f x" if "x \<noteq> k" for x
    using arg_cong [OF assms(3), of "\<lambda>d. map_of d x"] that by simp
  moreover have "map_of e k = map_of f k"
    using assms(4-6) by (auto simp: dict_get_def split: option.splits)
  ultimately show "map_of e = map_of f" by (metis ext)
qed

interpretation raw_log: hash_log entry_content entry_prev entry_pos entry_valid GENESIS
proof
  fix e f
  assume v: "entry_valid e" "entry_valid f" and c: "entry_content e = entry_content f"
  have "json_val (PDict (dict_del ''entry_hash'' e))" "json_val (PDict (dict_del ''entry_hash'' f))"
    using v json_val_del unfolding entry_valid_def by blast+
  with c have "dict_del ''entry_hash'' e = dict_del ''entry_hash'' f"
    using json.enc_inj [of "PDict (dict_del ''entry_hash'' e)" "PDict (dict_del ''entry_hash'' f)"]
    unfolding entry_content_def by simp
  then show "e = f"
    by (rule dict_del_get_inj [rotated 2]) (use v c in \<open>auto simp: entry_valid_def\<close>)
next
  show "entry_prev e p \<Longrightarrow> entry_prev e q \<Longrightarrow> p = q" for e p q by (simp add: entry_prev_def)
next
  show "entry_pos e m \<Longrightarrow> entry_pos e n \<Longrightarrow> m = n" for e m n
    using py_eq_int_det by (fastforce simp: entry_pos_def)
qed

text \<open>Entries read from a file and verified are values the canonical encoding is injective on.\<close>

lemma sealed_encodable:
  assumes "entry_sealed e" "dict_wf e"
  shows "encodable (PDict e)"
proof -
  have "utf8_ok (fst p) \<and> encodable (snd p)" if p: "p \<in> set e" for p
  proof (cases "fst p = ''entry_hash''")
    case False
    with p have "p \<in> set (dict_del ''entry_hash'' e)" by (simp add: dict_del_def)
    then show ?thesis using assms(1) by (auto simp: entry_sealed_def)
  next
    case True
    then have "map_of e ''entry_hash'' = Some (snd p)"
      using p by (metis dict_wf_distinct [OF assms(2)] map_of_is_SomeI prod.collapse)
    then have "snd p = PStr (sha256 (entry_content e))" using assms(1) by (simp add: entry_sealed_def dict_get_def)
    then show ?thesis using True utf8_ok_sha256 by simp
  qed
  then show ?thesis by simp
qed

lemma json_loads_dict_wf: "json_loads nonfin dups s = Some (PDict d) \<Longrightarrow> dict_wf d"
proof -
  assume "json_loads nonfin dups s = Some (PDict d)"
  then obtain n t r where "pval nonfin dups (Suc n) t = Some (PDict d, r)"
    by (simp only: json_loads_def Let_def add_2_eq_Suc')
      (auto simp del: pval.simps split: if_splits option.splits)
  then show "dict_wf d"
  proof (cases rule: pval_SucE)
    case const
    then have False by (auto simp: pconst_def pnum_def Let_def split: option.splits if_splits prod.splits)
    then show ?thesis ..
  qed auto
qed

lemma parse_line_Inr: "parse_line l = Inr e \<Longrightarrow> json_loads False True l = Some (PDict e)"
  by (auto simp: parse_line_def split: if_splits option.splits pyval.splits)

lemma parsed_entries:
  assumes "parse_ledger bs = Inr rs" "e \<in> set rs"
  obtains l where "json_loads False True l = Some (PDict e)"
  using rmap_mem [OF assms(1) [unfolded parse_ledger_def] assms(2)] parse_line_Inr by blast

lemma parsed_sealed_valid:
  assumes "parse_ledger bs = Inr rs" "e \<in> set rs" "entry_sealed e"
  shows "entry_valid e"
proof -
  obtain l where "json_loads False True l = Some (PDict e)" using parsed_entries [OF assms(1,2)] .
  moreover from this have "encodable (PDict e)" using assms(3) json_loads_dict_wf sealed_encodable by blast
  ultimately show ?thesis using json_loads_json_val assms(3) unfolding entry_valid_def entry_sealed_def by blast
qed

lemma verified_ledger:
  assumes "parse_ledger bs = Inr rs" "verify_records rs = Inr h"
  shows "raw_log.log rs h" "\<forall>e \<in> set rs. entry_valid e"
  using assms parsed_sealed_valid unfolding verify_records_linked by blast+

lemma log_verified: "raw_log.log rs h \<Longrightarrow> \<forall>e \<in> set rs. entry_valid e \<Longrightarrow> verify_records rs = Inr h"
  unfolding verify_records_linked entry_valid_def entry_sealed_def
  using json_val_del json_val_encodable by blast

text \<open>Two ledger files with the same verified head hold the same entries.\<close>

lemma ledger_head_determines:
  assumes "parse_ledger bs1 = Inr rs1" "verify_records rs1 = Inr h"
    and "parse_ledger bs2 = Inr rs2" "verify_records rs2 = Inr h"
  shows "rs1 = rs2
    \<or> (\<exists>x \<in> set rs1. \<exists>y \<in> set rs2. collision (entry_content x) (entry_content y))
    \<or> (\<exists>e \<in> set rs1 \<union> set rs2. sha256 (entry_content e) = GENESIS)"
  using raw_log.log_head_determines verified_ledger [OF assms(1,2)] verified_ledger [OF assms(3,4)] by blast

lemma verify_prefix: "verify_records (xs @ ys) = Inr h \<Longrightarrow> \<exists>g. verify_records xs = Inr g"
  unfolding verify_records_linked using raw_log.log_prefix by fastforce

section \<open>Appending\<close>

lemma verified_head_last: "verify_records rs = Inr h \<Longrightarrow> last_hash rs = PStr h"
  unfolding verify_records_linked
  by (auto simp: last_hash_def entry_sealed_def dest: linked_head)

lemma entry_body_get [simp]:
  "dict_get (entry_body knd pl rs now) ''previous_hash'' = last_hash rs"
  "dict_get (entry_body knd pl rs now) ''sequence'' = PInt (int (length rs) + 1)"
  "dict_get (entry_body knd pl rs now) ''kind'' = PStr knd"
  "dict_get (entry_body knd pl rs now) ''payload'' = PDict (to_json pl)"
  "dict_get (entry_body knd pl rs now) ''timestamp'' = PStr now"
  "dict_get (entry_body knd pl rs now) ''entry_hash'' = PNone"
  by (simp_all add: entry_body_def dict_of_def dict_get_def map_of_dict_update)

lemma entry_body_wf [simp]: "dict_wf (entry_body knd pl rs now)"
  by (simp add: entry_body_def)

lemma dict_del_put: "dict_wf d \<Longrightarrow> map_of d k = None \<Longrightarrow> dict_del k (dict_put k v d) = d"
  by (rule dict_eqI) (auto simp: fun_eq_iff)

lemma raw_entry_Inr:
  assumes "raw_entry knd pl rs now = Inr raw"
  shows "raw = dict_put ''entry_hash'' (PStr (sha256 (entry_content raw))) (entry_body knd pl rs now)"
    "dict_del ''entry_hash'' raw = entry_body knd pl rs now" "encodable (PDict (entry_body knd pl rs now))"
proof -
  let ?b = "entry_body knd pl rs now"
  have n: "map_of ?b ''entry_hash'' = None"
    by (simp add: entry_body_def dict_of_def map_of_dict_update)
  from assms have e: "encodable (PDict ?b)" "raw = dict_put ''entry_hash'' (PStr (sha256 (enc (PDict ?b)))) ?b"
    by (auto simp: raw_entry_def Let_def entry_hash_of_def canonical_bytes_def simp del: enc.simps
        encodable.simps split: if_splits)
  show "dict_del ''entry_hash'' raw = ?b" using n by (simp add: e(2) dict_del_put)
  then show "raw = dict_put ''entry_hash'' (PStr (sha256 (entry_content raw))) ?b"
    using e(2) by (simp add: entry_content_def)
  show "encodable (PDict ?b)" by (rule e(1))
qed

lemma raw_entry_extends:
  assumes "verify_records rs = Inr h" "raw_entry knd pl rs now = Inr raw"
  shows "verify_records (rs @ [raw]) = Inr (sha256 (entry_content raw))"
proof -
  let ?b = "entry_body knd pl rs now"
  have get: "dict_get raw k = dict_get ?b k" if "k \<noteq> ''entry_hash''" for k
    using raw_entry_Inr(1) [OF assms(2)] that by (metis dict_get_put)
  have "entry_prev raw h" using verified_head_last [OF assms(1)] by (simp add: entry_prev_def get)
  moreover have "entry_pos raw (1 + length rs)"
    by (simp add: entry_pos_def get add.commute del: py_eq.simps)
  moreover have "entry_sealed raw"
    using raw_entry_Inr [OF assms(2)] unfolding entry_sealed_def by (metis dict_get_put)
  ultimately show ?thesis using assms(1) by (auto simp: verify_records_linked linked_snoc)
qed

text \<open>The file extended by the canonical line of the new entry parses to the extended list.\<close>

lemma parse_ledger_extend:
  assumes "parse_ledger bs = Inr rs" "json_val (PDict e)" "length (enc (PDict e)) + 1 \<le> LEDGER_LINE_BYTE_CAP"
  shows "parse_ledger (bs @ enc (PDict e) @ [NL]) = Inr (rs @ [e])"
proof -
  have "split_lines (bs @ enc (PDict e) @ [NL]) = split_lines bs @ [enc (PDict e) @ [NL]]"
    using split_lines_extend [OF parse_ledger_ends [OF assms(1)]] split_line [OF printable_enc [OF assms(2)]]
    by simp
  then show ?thesis using assms(1) parse_line_enc [OF assms(2,3)] by (simp add: parse_ledger_def rmap_append)
qed

section \<open>The caches are transparent\<close>

definition file_bytes :: "bytes option \<Rightarrow> bytes" where
  "file_bytes file = (case file of None \<Rightarrow> [] | Some bs \<Rightarrow> bs)"

lemma file_bytes_simps [simp]: "file_bytes None = []" "file_bytes (Some bs) = bs"
  by (simp_all add: file_bytes_def)

definition collision_free :: "bytes set \<Rightarrow> bool" where
  "collision_free S = (\<forall>x \<in> S. \<forall>y \<in> S. \<not> collision x y)"

lemma collision_free_eq: "collision_free S \<Longrightarrow> x \<in> S \<Longrightarrow> y \<in> S \<Longrightarrow> sha256 x = sha256 y \<Longrightarrow> x = y"
  by (auto simp: collision_free_def collision_def)

text \<open>The caches hold what some content of \<open>S\<close> parses and verifies to.\<close>

definition cache_ok :: "bytes set \<Rightarrow> ledger_object \<Rightarrow> bool" where
  "cache_ok S lg =
     ((\<forall>rs. cached_raw lg = Some rs \<longrightarrow>
         (\<exists>bs \<in> S. cached_digest lg = Some (sha256 bs) \<and> parse_ledger bs = Inr rs))
      \<and> (\<forall>h. verified_head lg = Some h \<longrightarrow>
           (\<exists>bs \<in> S. \<exists>rs. verified_digest lg = Some (sha256 bs) \<and> parse_ledger bs = Inr rs
              \<and> verify_records rs = Inr h)))"

lemma cache_ok_new [simp]: "cache_ok S new_ledger"
  by (simp add: cache_ok_def new_ledger_def)

lemma cache_ok_mono: "cache_ok S lg \<Longrightarrow> S \<subseteq> T \<Longrightarrow> cache_ok T lg"
  unfolding cache_ok_def by blast

lemma read_transparent:
  assumes "cache_ok S lg" "collision_free S" "file_bytes file \<in> S"
    and "read_unlocked_raw lg file = (r, lg')"
  shows "r = parse_ledger (file_bytes file)" "cache_ok S lg'"
    "r = Inr rs \<Longrightarrow> cached_raw lg' = Some rs \<and> cached_digest lg' = Some (sha256 (file_bytes file))"
proof -
  have "r = parse_ledger (file_bytes file) \<and> cache_ok S lg'
    \<and> (\<forall>rs. r = Inr rs \<longrightarrow> cached_raw lg' = Some rs \<and> cached_digest lg' = Some (sha256 (file_bytes file)))"
  proof (cases "file")
    case None
    then have "r = Inr []" "lg' = lg\<lparr>cached_digest := Some (sha256 []), cached_raw := Some []\<rparr>"
      using assms(4) by (simp_all add: read_unlocked_raw_def)
    with None assms(1,3) show ?thesis by (auto simp: cache_ok_def)
  next
    case (Some bs)
    show ?thesis
    proof (cases "cached_raw lg \<noteq> None \<and> cached_digest lg = Some (sha256 bs)")
      case True
      then obtain rs where rs: "cached_raw lg = Some rs" "cached_digest lg = Some (sha256 bs)" by auto
      with assms(1) obtain bs' where b: "bs' \<in> S" "sha256 bs = sha256 bs'" "parse_ledger bs' = Inr rs"
        by (auto simp: cache_ok_def)
      then have "bs' = bs" using collision_free_eq [OF assms(2)] assms(3) Some by auto
      moreover have "read_unlocked_raw lg file = (Inr rs, lg)"
        using rs Some by (simp add: read_unlocked_raw_def)
      ultimately show ?thesis using rs b(3) Some assms(1,4) by auto
    next
      case False
      then have m: "read_unlocked_raw lg file =
          (case parse_ledger bs of Inl e \<Rightarrow> (Inl e, lg)
           | Inr rs \<Rightarrow> (Inr rs, lg\<lparr>cached_digest := Some (sha256 bs), cached_raw := Some rs\<rparr>))"
        using Some by (auto simp: read_unlocked_raw_def split: option.splits)
      then show ?thesis using assms(1,3) assms(4) [unfolded m] Some
        by (cases "parse_ledger bs") (auto simp: cache_ok_def)
    qed
  qed
  then show "r = parse_ledger (file_bytes file)" "cache_ok S lg'"
    "r = Inr rs \<Longrightarrow> cached_raw lg' = Some rs \<and> cached_digest lg' = Some (sha256 (file_bytes file))" by blast+
qed

lemma verify_transparent:
  assumes "cache_ok S lg" "collision_free S" "cached_raw lg = Some rs"
    and "verify_raw_records lg rs = (r, lg')"
  shows "r = verify_records rs" "cache_ok S lg'" "cached_digest lg' = cached_digest lg"
    "cached_raw lg' = cached_raw lg"
proof -
  from assms(1,3) obtain bs where bs: "bs \<in> S" "cached_digest lg = Some (sha256 bs)" "parse_ledger bs = Inr rs"
    by (auto simp: cache_ok_def)
  have "r = verify_records rs \<and> cache_ok S lg' \<and> cached_digest lg' = cached_digest lg
    \<and> cached_raw lg' = cached_raw lg"
  proof (cases "verified_head lg \<noteq> None \<and> cached_digest lg = verified_digest lg")
    case True
    then obtain h where h: "verified_head lg = Some h" by auto
    with assms(1) obtain bs' rs' where b: "bs' \<in> S" "verified_digest lg = Some (sha256 bs')"
      "parse_ledger bs' = Inr rs'" "verify_records rs' = Inr h" by (auto simp: cache_ok_def)
    with True bs have "bs' = bs" using collision_free_eq [OF assms(2)] by auto
    with b bs h True assms show ?thesis by (simp add: verify_raw_records_def)
  next
    case False
    then have m: "verify_raw_records lg rs =
        (case verify_records rs of Inl e \<Rightarrow> (Inl e, lg)
         | Inr h \<Rightarrow> (Inr h, lg\<lparr>verified_digest := cached_digest lg, verified_head := Some h\<rparr>))"
      using assms(3) by (auto simp: verify_raw_records_def split: option.split sum.split)
    show ?thesis using assms(1,4) bs
      by (cases "verify_records rs") (auto simp: m cache_ok_def)
  qed
  then show "r = verify_records rs" "cache_ok S lg'" "cached_digest lg' = cached_digest lg"
    "cached_raw lg' = cached_raw lg" by blast+
qed

text \<open>What a verified snapshot is without any cache.\<close>

definition snapshot_spec :: "disk \<Rightarrow> dict list res" where
  "snapshot_spec dk =
     rthen (require_recovered dk)
       (rbind (parse_ledger (file_bytes (ledger_file dk))) (\<lambda>rs.
          rbind (verify_records rs) (\<lambda>_. Inr rs)))"

lemma sbind_simps [simp]: "sbind (Inl e, s) f = (Inl e, s)" "sbind (Inr x, s) f = f x s"
  by (simp_all add: sbind_def)

lemma snapshot_transparent:
  assumes "cache_ok S lg" "collision_free S" "file_bytes (ledger_file dk) \<in> S"
    and "verified_snapshot lg dk = (r, lg')"
  shows "r = snapshot_spec dk" "cache_ok S lg'"
    "r = Inr rs \<Longrightarrow> cached_digest lg' = Some (sha256 (file_bytes (ledger_file dk)))"
proof -
  obtain r1 lg1 where rd: "read_unlocked_raw lg (ledger_file dk) = (r1, lg1)" by force
  note t = read_transparent [OF assms(1-3) rd]
  have "r = snapshot_spec dk \<and> cache_ok S lg' \<and>
    (\<forall>rs. r = Inr rs \<longrightarrow> cached_digest lg' = Some (sha256 (file_bytes (ledger_file dk))))"
  proof (cases "require_recovered dk")
    case (Inl e)
    then show ?thesis using assms by (auto simp: verified_snapshot_def snapshot_spec_def)
  next
    case (Inr u)
    show ?thesis
    proof (cases r1)
      case (Inl e)
      then have p: "parse_ledger (file_bytes (ledger_file dk)) = Inl e" using t(1) by simp
      have "verified_snapshot lg dk = (Inl e, lg1)"
        using Inr Inl by (simp add: verified_snapshot_def rd)
      moreover have "snapshot_spec dk = Inl e" using Inr p by (simp add: snapshot_spec_def)
      ultimately show ?thesis using assms(4) t(2) by simp
    next
      case r1: (Inr rs)
      obtain r2 lg2 where v: "verify_raw_records lg1 rs = (r2, lg2)" by force
      note c = t(3) [OF r1]
      note w = verify_transparent [OF t(2) assms(2) _ v]
      have p: "parse_ledger (file_bytes (ledger_file dk)) = Inr rs" using t(1) r1 by simp
      have "r2 = verify_records rs" using w(1) c by simp
      then have "verified_snapshot lg dk = (rbind (verify_records rs) (\<lambda>_. Inr rs), lg2)"
        using Inr r1 by (cases "verify_records rs") (simp_all add: verified_snapshot_def rd v)
      moreover have "snapshot_spec dk = rbind (verify_records rs) (\<lambda>_. Inr rs)"
        using Inr p by (simp add: snapshot_spec_def)
      ultimately show ?thesis using assms(4) w(2,3) c by simp
    qed
  qed
  then show "r = snapshot_spec dk" "cache_ok S lg'"
    "r = Inr rs \<Longrightarrow> cached_digest lg' = Some (sha256 (file_bytes (ledger_file dk)))" by blast+
qed

text \<open>A ledger object used over a sequence of states of the directory, whoever changed them.\<close>

fun run_snapshots :: "ledger_object \<Rightarrow> disk list \<Rightarrow> dict list res list" where
  "run_snapshots lg [] = []"
| "run_snapshots lg (dk # dks) = (case verified_snapshot lg dk of (r, lg') \<Rightarrow> r # run_snapshots lg' dks)"

lemma run_snapshots_transparent:
  "cache_ok S lg \<Longrightarrow> collision_free S \<Longrightarrow> (\<lambda>dk. file_bytes (ledger_file dk)) ` set dks \<subseteq> S \<Longrightarrow>
    run_snapshots lg dks = map snapshot_spec dks"
proof (induction dks arbitrary: lg)
  case (Cons dk dks)
  obtain r lg' where v: "verified_snapshot lg dk = (r, lg')" by force
  from Cons.prems have "file_bytes (ledger_file dk) \<in> S" by simp
  note t = snapshot_transparent [OF Cons.prems(1,2) this v]
  have "run_snapshots lg' dks = map snapshot_spec dks"
    by (rule Cons.IH) (use Cons.prems t in auto)
  with t v show ?case by simp
qed simp

section \<open>Selection\<close>

definition has_kind :: "string list \<Rightarrow> dict \<Rightarrow> bool" where
  "has_kind kinds e = (\<exists>k \<in> set kinds. dict_get e ''kind'' = PStr k)"

lemma filter_kinds_eq:
  "(\<And>e. e \<in> set rs \<Longrightarrow> is_pstr (dict_get e ''kind'')) \<Longrightarrow> filter_kinds kinds rs = Inr (filter (has_kind kinds) rs)"
proof (induction rs)
  case (Cons e rs)
  have "is_pstr (dict_get e ''kind'')" using Cons.prems by simp
  then obtain s where "dict_get e ''kind'' = PStr s" by (auto simp: is_pstr_iff)
  with Cons show ?case by (auto simp: in_strs_def has_kind_def)
qed simp

lemma filter_kinds_sound: "filter_kinds kinds rs = Inr out \<Longrightarrow> out = filter (has_kind kinds) rs"
  by (induction rs arbitrary: out) (auto simp: in_strs_def has_kind_def split: if_splits)

lemma filter_nth: "filter P xs = map (\<lambda>i. xs ! i) (filter (\<lambda>i. P (xs ! i)) [0..<length xs])"
proof -
  have "filter P (map (\<lambda>i. xs ! i) [0..<length xs]) = map (\<lambda>i. xs ! i) (filter (\<lambda>i. P (xs ! i)) [0..<length xs])"
    by (simp add: filter_map comp_def)
  then show ?thesis by (simp add: map_nth)
qed

text \<open>Reading the entries at the positions of a set gives the filtered list, in order.\<close>

lemma positions_filter:
  assumes "set ns = {Suc i | i. i < length rs \<and> P (rs ! i)}"
  shows "map (\<lambda>n. rs ! (n - 1)) (sorted_set ns) = filter P rs"
proof -
  let ?js = "map Suc (filter (\<lambda>i. P (rs ! i)) [0..<length rs])"
  have "sorted_set ns = ?js"
  proof (rule sorted_distinct_set_unique)
    show "sorted (sorted_set ns)" "distinct (sorted_set ns)" by (simp_all add: sorted_set_def)
    show "sorted ?js" by (simp add: sorted_map sorted_wrt_filter)
    show "distinct ?js" by (simp add: distinct_map)
    show "set (sorted_set ns) = set ?js" using assms by auto
  qed
  then show ?thesis by (simp add: filter_nth [of P rs] comp_def)
qed

lemma index_positions_sound:
  assumes "index_sequences index digest rs kinds = Some ns" "n \<in> set ns"
  shows "1 \<le> n \<and> n \<le> length rs \<and> has_kind kinds (rs ! (n - 1))"
proof -
  from assms(1) obtain by_kind where b: "ns = sorted_set (concat (map (\<lambda>knd.
        map sequence_number (list_items (kind_sequences by_kind knd))) kinds))"
    "\<forall>knd \<in> set kinds. \<forall>v \<in> set (list_items (kind_sequences by_kind knd)). valid_sequence rs knd v"
    by (auto simp: index_sequences_def list_all_iff split: option.splits pyval.splits if_splits)
  with assms(2) obtain knd v where v: "knd \<in> set kinds" "valid_sequence rs knd v" "n = sequence_number v" by auto
  then obtain i where i: "v = PInt i" "1 \<le> i" "i \<le> int (length rs)" "dict_get (rs ! nat (i - 1)) ''kind'' = PStr knd"
    by (auto simp: valid_sequence_def split: pyval.splits)
  moreover have "nat (i - 1) = nat i - 1" by simp
  ultimately show ?thesis using v by (auto simp: has_kind_def)
qed

text \<open>Whatever the index says, selection returns entries of the ledger of the requested kinds.\<close>

lemma select_sound:
  assumes "select_with_index index digest rs kinds = Inr out" "e \<in> set out"
  shows "e \<in> set rs \<and> has_kind kinds e"
proof (cases "index_sequences index digest rs kinds")
  case None
  with assms show ?thesis by (auto simp: select_with_index_def dest: filter_kinds_sound)
next
  case (Some ns)
  with assms obtain n where n: "n \<in> set ns" "e = rs ! (n - 1)" by (auto simp: select_with_index_def)
  with index_positions_sound [OF Some n(1)] show ?thesis by auto
qed

end
