(* ===== verification/RecordStore.thy ===== *)
theory RecordStore
  imports LedgerFacts
begin

text \<open>
  The recoverable record store (record_store.py): one immutable record plus one ledger append per
  transaction. Operations take the files of the state directory and return a result with the new
  files.

  A commit is a list of durable steps, each of which changes one file or directory entry; a file
  that is written in place passes through every prefix of its bytes. A crash leaves the files after
  some prefix of the steps. \<open>_atomic_write\<close> and \<open>os.replace\<close> are one step each; the temporary files
  of \<open>_atomic_write\<close>, which nothing reads, are not represented, nor are directory syncs.
  \<open>uuid.uuid4().hex\<close> is the argument \<open>txid\<close>. The ledger is read without its caches, which are
  transparent (\<open>LedgerFacts\<close>).
\<close>

section \<open>Transaction directories\<close>

definition TRANSACTION_SCHEMA_VERSION :: int where
  "TRANSACTION_SCHEMA_VERSION = 1"

definition INDEX_SCHEMA_VERSION :: int where
  "INDEX_SCHEMA_VERSION = 1"

definition empty_tx :: tx where
  "empty_tx = \<lparr>record_stage = None, ledger_stage = None, journal_file = None\<rparr>"

definition tx_create :: "string \<Rightarrow> disk \<Rightarrow> disk" where
  "tx_create name dk = dk\<lparr>transactions := insort_key fst (name, empty_tx) (transactions dk)\<rparr>"

definition tx_update :: "string \<Rightarrow> (tx \<Rightarrow> tx) \<Rightarrow> disk \<Rightarrow> disk" where
  "tx_update name f dk =
     dk\<lparr>transactions := map (\<lambda>p. if fst p = name then (name, f (snd p)) else p) (transactions dk)\<rparr>"

definition tx_remove :: "string \<Rightarrow> disk \<Rightarrow> disk" where
  "tx_remove name dk = dk\<lparr>transactions := filter (\<lambda>p. fst p \<noteq> name) (transactions dk)\<rparr>"

definition tx_get :: "string \<Rightarrow> disk \<Rightarrow> tx" where
  "tx_get name dk = (case map_of (transactions dk) name of None \<Rightarrow> empty_tx | Some t \<Rightarrow> t)"

definition put_record :: "string list \<Rightarrow> bytes \<Rightarrow> disk \<Rightarrow> disk" where
  "put_record path bs dk = dk\<lparr>record_files := (record_files dk)(path \<mapsto> bs)\<rparr>"

section \<open>Reading the ledger and the derived index\<close>

definition ledger_bytes :: "disk \<Rightarrow> bytes" where
  "ledger_bytes dk = file_bytes (ledger_file dk)"

definition read_ledger :: "disk \<Rightarrow> dict list res" where
  "read_ledger dk = parse_ledger (ledger_bytes dk)"

definition read_verified :: "disk \<Rightarrow> (dict list \<times> string) res" where
  "read_verified dk =
     rbind (read_ledger dk) (\<lambda>rs. rbind (verify_records rs) (\<lambda>head. Inr (rs, head)))"

definition append_sequence :: "string \<Rightarrow> int \<Rightarrow> dict \<Rightarrow> dict" where
  "append_sequence knd sq by_kind =
     dict_put knd (PList (list_items (kind_sequences by_kind knd) @ [PInt sq])) by_kind"

fun index_entries :: "ledger_entry list \<Rightarrow> dict \<times> dict \<Rightarrow> (dict \<times> dict) res" where
  "index_entries [] acc = Inr acc"
| "index_entries (e # es) acc =
     (case map_of PERSISTED_RECORD_CONTEXTS (kind e) of
        None \<Rightarrow> Inl (PyExc ''KeyError'')
      | Some ctx \<Rightarrow>
          index_entries es
            (append_sequence (kind e) (sequence e) (fst acc),
             case rget (payload e) (ctx_identity_field ctx) of
               PStr identity \<Rightarrow> dict_put (kind e @ '':'' @ identity) (PInt (sequence e)) (snd acc)
             | _ \<Rightarrow> snd acc))"

definition index_data :: "jcs \<Rightarrow> bytes \<Rightarrow> dict list \<Rightarrow> dict res" where
  "index_data jcs bs rs =
     rbind (rmap (\<lambda>e. normalize_ledger_entry jcs (PDict e)) rs) (\<lambda>entries.
       rbind (index_entries entries ([], [])) (\<lambda>(by_kind, identities).
         Inr (dict_of
           [(''schema_version'', PInt INDEX_SCHEMA_VERSION),
            (''ledger_sha256'', PStr (sha256 bs)),
            (''ledger_size'', PInt (int (length bs))),
            (''ledger_head'', last_hash rs),
            (''entry_count'', PInt (int (length rs))),
            (''sequences_by_kind'', PDict by_kind),
            (''identity_sequences'', PDict identities)])))"

definition ensure_index :: "jcs \<Rightarrow> dict list \<Rightarrow> disk \<Rightarrow> unit res \<times> disk" where
  "ensure_index jcs rs dk =
     (case index_data jcs (ledger_bytes dk) rs of
        Inl e \<Rightarrow> (Inl e, dk)
      | Inr expected \<Rightarrow>
          (let current = (case index_file dk of None \<Rightarrow> None | Some bs \<Rightarrow> json_loads True True bs)
           in if (case current of None \<Rightarrow> False | Some v \<Rightarrow> py_eq v (PDict expected)) then (Inr (), dk)
              else (case canonical_bytes (PDict expected) of
                      Inl e \<Rightarrow> (Inl e, dk)
                    | Inr bs \<Rightarrow> (Inr (), dk\<lparr>index_file := Some (bs @ [NL])\<rparr>))))"

definition rebuild_index :: "jcs \<Rightarrow> disk \<Rightarrow> unit res \<times> disk" where
  "rebuild_index jcs dk =
     sbind (read_verified dk, dk) (\<lambda>(rs, _) dk. ensure_index jcs rs dk)"

section \<open>Committing\<close>

definition record_bytes :: "forge_record \<Rightarrow> bytes res" where
  "record_bytes r = rbind (canonical_bytes (PDict (to_json r))) (\<lambda>bs. Inr (bs @ [NL]))"

definition posix_path :: "string list \<Rightarrow> string" where
  "posix_path parts = concat (map (\<lambda>p. p @ ''/'') (butlast parts)) @ last parts"

record commit_plan =
  plan_tx :: string
  plan_path :: "string list"
  plan_record :: bytes
  plan_before :: bytes
  plan_after :: bytes
  plan_journal :: dict
  plan_entry :: ledger_entry

datatype commit_decision = Existing ledger_entry | Fresh commit_plan

text \<open>The checks made before any file is touched: context, type, version, identity, path, size.\<close>

definition check_commit :: "string \<Rightarrow> string \<Rightarrow> forge_record
    \<Rightarrow> (persisted_context \<times> string \<times> string list \<times> bytes) res" where
  "check_commit grp knd r =
     rbind (persisted_record_context grp knd) (\<lambda>ctx.
       rthen (ensure (rtype r = ctx_record_type ctx) ''RECORD_TYPE_MISMATCH'')
       (rthen (ensure (schema_version r = CURRENT_SCHEMA_VERSION) ''RECORD_VERSION_WRITE'')
       (case as_text (rget r (ctx_identity_field ctx)) of
          Some identity \<Rightarrow>
            if identity = [] then raise ''RECORD_IDENTITY''
            else
              rbind (immutable_record_path grp identity) (\<lambda>path.
                rbind (record_bytes r) (\<lambda>bs.
                  rthen (ensure (length bs \<le> IMMUTABLE_RECORD_BYTE_CAP) ''RECORD_SIZE'')
                    (Inr (ctx, identity, path, bs))))
        | None \<Rightarrow> raise ''RECORD_IDENTITY'')))"

definition same_identity :: "string \<Rightarrow> string \<Rightarrow> string \<Rightarrow> dict \<Rightarrow> bool" where
  "same_identity knd field identity raw =
     (dict_get raw ''kind'' = PStr knd
      \<and> (case dict_get raw ''payload'' of PDict p \<Rightarrow> dict_get p field = PStr identity | _ \<Rightarrow> False))"

definition resolve_duplicate :: "bytes option \<Rightarrow> forge_record \<Rightarrow> bytes \<Rightarrow> ledger_entry list \<Rightarrow> ledger_entry res" where
  "resolve_duplicate persisted r bs entries =
     (case (entries, persisted) of
        ([e], Some old) \<Rightarrow>
          if old \<noteq> bs \<or> \<not> py_eq (PDict (to_json (payload e))) (PDict (to_json r))
          then raise ''RECORD_EXISTS'' else Inr e
      | _ \<Rightarrow> raise ''RECORD_STORAGE_CONFLICT'')"

definition journal_dict :: "string \<Rightarrow> string \<Rightarrow> string \<Rightarrow> string \<Rightarrow> string list \<Rightarrow> bytes \<Rightarrow> bytes \<Rightarrow> bytes
    \<Rightarrow> ledger_entry \<Rightarrow> dict" where
  "journal_dict txid grp knd identity path bs before after entry =
     dict_of
       [(''schema_version'', PInt TRANSACTION_SCHEMA_VERSION),
        (''transaction_id'', PStr txid),
        (''state'', PStr ''PREPARED''),
        (''record_group'', PStr grp),
        (''ledger_kind'', PStr knd),
        (''record_identity'', PStr identity),
        (''record_destination'', PStr (posix_path path)),
        (''record_sha256'', PStr (sha256 bs)),
        (''ledger_before_sha256'', PStr (sha256 before)),
        (''ledger_after_sha256'', PStr (sha256 after)),
        (''expected_sequence'', PInt (sequence entry)),
        (''expected_previous_hash'', PStr (previous_hash entry)),
        (''entry_hash'', PStr (entry_hash entry))]"

definition decide_commit :: "jcs \<Rightarrow> string \<Rightarrow> string \<Rightarrow> string \<Rightarrow> string \<Rightarrow> forge_record \<Rightarrow> disk
    \<Rightarrow> commit_decision res" where
  "decide_commit jcs now txid grp knd r dk =
     rbind (check_commit grp knd r) (\<lambda>(ctx, identity, path, bs).
       rbind (read_verified dk) (\<lambda>(rs, _).
         rbind (rmap (\<lambda>e. normalize_ledger_entry jcs (PDict e))
                  (filter (same_identity knd (ctx_identity_field ctx) identity) rs)) (\<lambda>existing.
           if record_files dk path \<noteq> None \<or> existing \<noteq> []
           then rbind (resolve_duplicate (record_files dk path) r bs existing) (\<lambda>e. Inr (Existing e))
           else
             rbind (build_entry jcs knd r rs now) (\<lambda>(raw, entry).
               rbind (canonical_bytes (PDict raw)) (\<lambda>line.
                 rthen (ensure (length line + 1 \<le> LEDGER_LINE_BYTE_CAP) ''RECORD_SIZE'')
                   (let before = ledger_bytes dk; after = before @ line @ [NL]
                    in Inr (Fresh
                      \<lparr>plan_tx = txid, plan_path = path, plan_record = bs, plan_before = before,
                       plan_after = after,
                       plan_journal = journal_dict txid grp knd identity path bs before after entry,
                       plan_entry = entry\<rparr>)))))))"

definition journal_bytes :: "dict \<Rightarrow> bytes" where
  "journal_bytes j = enc (PDict j) @ [NL]"

definition write_steps :: "string \<Rightarrow> (bytes option \<Rightarrow> tx \<Rightarrow> tx) \<Rightarrow> bytes \<Rightarrow> (disk \<Rightarrow> disk) list" where
  "write_steps name upd bs = map (\<lambda>n. tx_update name (upd (Some (take n bs)))) [0..<length bs + 1]"

definition prepare_steps :: "commit_plan \<Rightarrow> (disk \<Rightarrow> disk) list" where
  "prepare_steps p =
     [tx_create (plan_tx p)]
     @ write_steps (plan_tx p) (\<lambda>b t. t\<lparr>record_stage := b\<rparr>) (plan_record p)
     @ write_steps (plan_tx p) (\<lambda>b t. t\<lparr>ledger_stage := b\<rparr>) (plan_after p)"

definition publish_steps :: "commit_plan \<Rightarrow> (disk \<Rightarrow> disk) list" where
  "publish_steps p =
     [tx_update (plan_tx p) (\<lambda>t. t\<lparr>journal_file := Some (journal_bytes (plan_journal p))\<rparr>),
      \<lambda>dk. put_record (plan_path p) (plan_record p)
             (tx_update (plan_tx p) (\<lambda>t. t\<lparr>record_stage := None\<rparr>) dk),
      \<lambda>dk. (tx_update (plan_tx p) (\<lambda>t. t\<lparr>ledger_stage := None\<rparr>) dk)\<lparr>ledger_file := Some (plan_after p)\<rparr>,
      tx_update (plan_tx p) (\<lambda>t. t\<lparr>journal_file :=
         Some (journal_bytes (dict_put ''state'' (PStr ''COMMITTED'') (plan_journal p)))\<rparr>)]"

definition cleanup_steps :: "string \<Rightarrow> (disk \<Rightarrow> disk) list" where
  "cleanup_steps name = [tx_update name (\<lambda>t. t\<lparr>journal_file := None\<rparr>), tx_remove name]"

definition run_steps :: "(disk \<Rightarrow> disk) list \<Rightarrow> disk \<Rightarrow> disk" where
  "run_steps ss dk = fold (\<lambda>f d. f d) ss dk"

definition assert_expected_ledger :: "dict \<Rightarrow> bytes \<Rightarrow> disk \<Rightarrow> unit res" where
  "assert_expected_ledger j expected dk =
     rthen (ensure (ledger_bytes dk = expected
              \<and> PStr (sha256 (ledger_bytes dk)) = dict_get j ''ledger_before_sha256'')
              ''TRANSACTION_LEDGER_CONFLICT'')
       (rbind (read_verified dk) (\<lambda>(rs, head).
          ensure (dict_get j ''expected_sequence'' = PInt (int (length rs) + 1)
              \<and> dict_get j ''expected_previous_hash'' = PStr head) ''TRANSACTION_LEDGER_CONFLICT''))"

section \<open>Recovery\<close>

definition JOURNAL_REQUIRED :: "string list" where
  "JOURNAL_REQUIRED =
     [''schema_version'', ''transaction_id'', ''state'', ''record_group'', ''ledger_kind'',
      ''record_identity'', ''record_destination'', ''record_sha256'', ''ledger_before_sha256'',
      ''ledger_after_sha256'', ''expected_sequence'', ''expected_previous_hash'', ''entry_hash'']"

definition JOURNAL_HASHES :: "string list" where
  "JOURNAL_HASHES =
     [''record_sha256'', ''ledger_before_sha256'', ''ledger_after_sha256'',
      ''expected_previous_hash'', ''entry_hash'']"

definition journal_text :: "dict \<Rightarrow> string \<Rightarrow> string" where
  "journal_text j k = py_str (dict_get j k)"

text \<open>
  The values are tested left to right and the first failure decides, except that a state that is not
  hashable raises \<open>TypeError\<close>.
\<close>

definition load_journal :: "string \<Rightarrow> bytes option \<Rightarrow> dict res" where
  "load_journal name file =
     (case file of
        None \<Rightarrow> raise ''RECOVERY_JOURNAL_MALFORMED''
      | Some bs \<Rightarrow>
          (case json_loads True True bs of
             Some (PDict j) \<Rightarrow>
               rthen (run_checks
                 [ensure (set (keys j) = set JOURNAL_REQUIRED) ''RECOVERY_JOURNAL_MALFORMED'',
                  ensure (py_eq (dict_get j ''schema_version'') (PInt TRANSACTION_SCHEMA_VERSION)
                      \<and> dict_get j ''transaction_id'' = PStr name) ''RECOVERY_JOURNAL_MALFORMED'',
                  ensure_in (dict_get j ''state'') [''PREPARED'', ''COMMITTED''] ''RECOVERY_JOURNAL_MALFORMED'',
                  ensure (case dict_get j ''expected_sequence'' of PInt i \<Rightarrow> 1 \<le> i | _ \<Rightarrow> False)
                    ''RECOVERY_JOURNAL_MALFORMED'',
                  ensure (list_all (\<lambda>k. k \<in> {''schema_version'', ''expected_sequence''}
                      \<or> is_pstr (dict_get j k)) JOURNAL_REQUIRED) ''RECOVERY_JOURNAL_MALFORMED'',
                  ensure (list_all (\<lambda>k. is_hex64 (journal_text j k)) JOURNAL_HASHES)
                    ''RECOVERY_JOURNAL_MALFORMED'']) (Inr j)
           | _ \<Rightarrow> raise ''RECOVERY_JOURNAL_MALFORMED''))"

text \<open>
  A declared destination is joined to the state directory; empty and \<open>.\<close> components vanish as in
  \<open>pathlib\<close>. An absolute one leaves the state directory. Destinations that resolve outside it and
  destinations that are not the canonical path are refused with the same code.
\<close>

function split_slash :: "string \<Rightarrow> string list" where
  "split_slash s =
     (case dropWhile (\<lambda>c. c \<noteq> CHR ''/'') s of
        [] \<Rightarrow> [s]
      | _ # r \<Rightarrow> takeWhile (\<lambda>c. c \<noteq> CHR ''/'') s # split_slash r)"
  by pat_completeness auto
termination
proof (relation "measure length")
  fix s :: string and c r
  assume "dropWhile (\<lambda>c. c \<noteq> CHR ''/'') s = c # r"
  then have "length (c # r) \<le> length s" using length_dropWhile_le [of "\<lambda>c. c \<noteq> CHR ''/''" s] by simp
  then show "(r, s) \<in> measure length" by simp
qed simp

declare split_slash.simps [simp del]

definition path_parts :: "string \<Rightarrow> string list option" where
  "path_parts s =
     (case s of
        c # _ \<Rightarrow> if c = CHR ''/'' then None
                 else Some (filter (\<lambda>p. p \<noteq> [] \<and> p \<noteq> ''.'') (split_slash s))
      | [] \<Rightarrow> Some [])"

definition validate_recovery_file :: "bytes option \<Rightarrow> string \<Rightarrow> unit res" where
  "validate_recovery_file file expected =
     (case file of
        None \<Rightarrow> raise ''RECOVERY_AMBIGUOUS''
      | Some bs \<Rightarrow> ensure (sha256 bs = expected) ''RECOVERY_STAGE_MISMATCH'')"

definition assert_recovery_predecessor :: "dict \<Rightarrow> disk \<Rightarrow> unit res" where
  "assert_recovery_predecessor j dk =
     rbind (read_verified dk) (\<lambda>(rs, head).
       ensure (dict_get j ''expected_sequence'' = PInt (int (length rs) + 1)
           \<and> dict_get j ''expected_previous_hash'' = PStr head) ''RECOVERY_LEDGER_CONFLICT'')"

definition recovery_target :: "dict \<Rightarrow> (persisted_context \<times> string list) res" where
  "recovery_target j =
     rbind (persisted_record_context (journal_text j ''record_group'') (journal_text j ''ledger_kind'')) (\<lambda>ctx.
       rbind (immutable_record_path (journal_text j ''record_group'') (journal_text j ''record_identity''))
         (\<lambda>path.
            rthen (ensure (path_parts (journal_text j ''record_destination'') = Some path)
                     ''RECOVERY_JOURNAL_MALFORMED'') (Inr (ctx, path))))"

text \<open>The ledger is still the old one: publish what is not published yet.\<close>

definition roll_forward :: "string \<Rightarrow> string list \<Rightarrow> dict \<Rightarrow> disk \<Rightarrow> unit res \<times> disk" where
  "roll_forward name path j dk =
     sbind (rthen (ensure (dict_get j ''state'' \<noteq> PStr ''COMMITTED'') ''RECOVERY_AMBIGUOUS'')
              (validate_recovery_file (ledger_stage (tx_get name dk)) (journal_text j ''ledger_after_sha256'')), dk)
       (\<lambda>_ dk.
          let dk1 = (if record_files dk path = None
                     then (case record_stage (tx_get name dk) of
                             None \<Rightarrow> dk
                           | Some bs \<Rightarrow>
                               put_record path bs (tx_update name (\<lambda>t. t\<lparr>record_stage := None\<rparr>) dk))
                     else dk)
          in sbind (assert_recovery_predecessor j dk1, dk1) (\<lambda>_ dk1.
               (Inr (), (tx_update name (\<lambda>t. t\<lparr>ledger_stage := None\<rparr>) dk1)
                          \<lparr>ledger_file := ledger_stage (tx_get name dk1)\<rparr>)))"

definition check_recovered :: "jcs \<Rightarrow> persisted_context \<Rightarrow> string list \<Rightarrow> dict \<Rightarrow> disk \<Rightarrow> unit res" where
  "check_recovered jcs ctx path j dk =
     rthen (ensure (sha256 (ledger_bytes dk) = journal_text j ''ledger_after_sha256'') ''RECOVERY_LEDGER_CONFLICT'')
     (rthen (ensure (record_files dk path \<noteq> None) ''RECOVERY_AMBIGUOUS'')
     (rthen (validate_recovery_file (record_files dk path) (journal_text j ''record_sha256''))
     (rbind (read_verified dk) (\<lambda>(rs, _).
        let n = (case dict_get j ''expected_sequence'' of PInt i \<Rightarrow> i | _ \<Rightarrow> 0)
        in rthen (ensure (n \<le> int (length rs)) ''RECOVERY_AMBIGUOUS'')
           (rbind (normalize_ledger_entry jcs (PDict (rs ! nat (n - 1)))) (\<lambda>entry.
              rthen (ensure (entry_hash entry = journal_text j ''entry_hash''
                       \<and> kind entry = journal_text j ''ledger_kind'') ''RECOVERY_AMBIGUOUS'')
              (rbind (load_record_file jcs (group ctx) IMMUTABLE_RECORD_BYTE_CAP (record_files dk path)) (\<lambda>r.
                 ensure (py_eq (PDict (to_json r)) (PDict (to_json (payload entry)))) ''RECOVERY_AMBIGUOUS''))))))))"

definition recover_transaction :: "jcs \<Rightarrow> string \<Rightarrow> dict \<Rightarrow> disk \<Rightarrow> unit res \<times> disk" where
  "recover_transaction jcs name j dk =
     sbind (recovery_target j, dk) (\<lambda>(ctx, path) dk.
       sbind (validate_recovery_file
                (if record_files dk path \<noteq> None then record_files dk path else record_stage (tx_get name dk))
                (journal_text j ''record_sha256''), dk) (\<lambda>_ dk.
         sbind (if sha256 (ledger_bytes dk) = journal_text j ''ledger_before_sha256''
                then roll_forward name path j dk else (Inr (), dk)) (\<lambda>_ dk.
           sbind (check_recovered jcs ctx path j dk, dk) (\<lambda>_ dk.
             sbind (rebuild_index jcs (tx_update name (\<lambda>t. t\<lparr>journal_file :=
                      Some (journal_bytes (dict_put ''state'' (PStr ''COMMITTED'') j))\<rparr>) dk)) (\<lambda>_ dk.
               (Inr (), run_steps (cleanup_steps name) dk))))))"

text \<open>The counts of completed and abandoned transactions.\<close>

fun recover_list :: "jcs \<Rightarrow> string list \<Rightarrow> nat \<times> nat \<Rightarrow> disk \<Rightarrow> (nat \<times> nat) res \<times> disk" where
  "recover_list jcs [] counts dk = (Inr counts, dk)"
| "recover_list jcs (name # names) counts dk =
     (case journal_file (tx_get name dk) of
        None \<Rightarrow> recover_list jcs names (fst counts, snd counts + 1) (tx_remove name dk)
      | Some bs \<Rightarrow>
          sbind (load_journal name (Some bs), dk) (\<lambda>j dk.
            sbind (recover_transaction jcs name j dk) (\<lambda>_ dk.
              recover_list jcs names (fst counts + 1, snd counts) dk)))"

definition recover_unlocked :: "jcs \<Rightarrow> disk \<Rightarrow> (nat \<times> nat) res \<times> disk" where
  "recover_unlocked jcs dk = recover_list jcs (map fst (transactions dk)) (0, 0) dk"

definition recover :: "jcs \<Rightarrow> disk \<Rightarrow> (nat \<times> nat) res \<times> disk" where
  "recover jcs dk =
     sbind (recover_unlocked jcs dk) (\<lambda>counts dk.
       sbind (rbind (read_verified dk) (\<lambda>(rs, _).
                rbind (rmap (\<lambda>e. normalize_ledger_entry jcs (PDict e)) rs) (\<lambda>entries.
                  rthen (verify_immutable_records jcs (record_files dk) entries) (Inr rs))), dk) (\<lambda>rs dk.
         if index_file dk = None then (Inr counts, dk)
         else sbind (ensure_index jcs rs dk) (\<lambda>_ dk. (Inr counts, dk))))"

section \<open>The commit operation\<close>

definition execute_plan :: "jcs \<Rightarrow> commit_plan \<Rightarrow> disk \<Rightarrow> ledger_entry res \<times> disk" where
  "execute_plan jcs p dk =
     (let dk1 = run_steps (prepare_steps p @ take 2 (publish_steps p)) dk
      in sbind (assert_expected_ledger (plan_journal p) (plan_before p) dk1, dk1) (\<lambda>_ dk1.
           sbind (rebuild_index jcs (run_steps (drop 2 (publish_steps p)) dk1)) (\<lambda>_ dk2.
             (Inr (plan_entry p), run_steps (cleanup_steps (plan_tx p)) dk2))))"

definition commit :: "jcs \<Rightarrow> string \<Rightarrow> string \<Rightarrow> string \<Rightarrow> string \<Rightarrow> forge_record \<Rightarrow> disk
    \<Rightarrow> ledger_entry res \<times> disk" where
  "commit jcs now txid grp knd r dk =
     (case check_commit grp knd r of
        Inl e \<Rightarrow> (Inl e, dk)
      | Inr _ \<Rightarrow>
          sbind (recover_unlocked jcs dk) (\<lambda>_ dk.
            sbind (decide_commit jcs now txid grp knd r dk, dk) (\<lambda>decision dk.
              case decision of
                Existing e \<Rightarrow> (Inr e, dk)
              | Fresh p \<Rightarrow> execute_plan jcs p dk)))"

text \<open>The files after a crash that let only the first \<open>n\<close> steps of a commit happen.\<close>

definition commit_steps :: "jcs \<Rightarrow> commit_plan \<Rightarrow> (disk \<Rightarrow> disk) list" where
  "commit_steps jcs p =
     prepare_steps p @ publish_steps p @ [\<lambda>dk. snd (rebuild_index jcs dk)] @ cleanup_steps (plan_tx p)"

definition crashed :: "jcs \<Rightarrow> commit_plan \<Rightarrow> disk \<Rightarrow> nat \<Rightarrow> disk" where
  "crashed jcs p dk n = run_steps (take n (commit_steps jcs p)) dk"

end
