(* ===== verification/RecordStoreFacts.thy ===== *)
theory RecordStoreFacts
  imports RecordStore
begin

text \<open>
  Correctness of the record store: entries and journals survive encoding, the derived index is
  rebuilt from any readable ledger and selects exactly the entries of a kind, commits are atomic
  across crashes, and recovery completes or abandons every interrupted commit.
\<close>

section \<open>JSON values of entries and records\<close>

lemma json_val_dict_of:
  "\<forall>p \<in> set ps. utf8_ok (fst p) \<and> json_val (snd p) \<Longrightarrow> json_val (PDict (dict_of ps))"
  using set_dict_of [of ps] by auto

lemma utf8_ok_GENESIS: "utf8_ok GENESIS"
  by (rule utf8_ok_ascii) (auto simp: GENESIS_def)

lemma is_hex64_GENESIS: "is_hex64 GENESIS"
  by (simp add: is_hex64_def GENESIS_def list_all_iff)

lemma verified_head_hex: "verify_records rs = Inr h \<Longrightarrow> is_hex64 h"
  unfolding verify_records_linked using sha256_hex64 is_hex64_GENESIS by (auto dest!: linked_head)

lemma hex64_utf8: "is_hex64 h \<Longrightarrow> utf8_ok h"
proof (rule utf8_ok_ascii, intro ballI)
  fix c assume "is_hex64 h" "c \<in> set h"
  then have "c \<in> set ''0123456789abcdef''" by (simp add: is_hex64_def list_all_iff)
  then show "of_char c < (128::nat)" by auto
qed

lemma utf8_ok_ledger_kind: "map_of LEDGER_KIND_TYPES knd = Some rt \<Longrightarrow> utf8_ok knd"
  by (auto simp: LEDGER_KIND_TYPES_def split: if_splits)

lemma entry_body_json_val:
  assumes "verify_records rs = Inr h" "json_val (PDict (to_json pl))" "utf8_ok now" "utf8_ok knd"
  shows "json_val (PDict (entry_body knd pl rs now))"
  unfolding entry_body_def
  using assms verified_head_last [OF assms(1)] hex64_utf8 [OF verified_head_hex [OF assms(1)]]
  by (intro json_val_dict_of) (simp add: CURRENT_SCHEMA_VERSION_def)

lemma raw_entry_json_val:
  assumes "raw_entry knd pl rs now = Inr raw" "verify_records rs = Inr h"
    and "json_val (PDict (to_json pl))" "utf8_ok now" "utf8_ok knd"
  shows "json_val (PDict raw)"
  using raw_entry_Inr(1) [OF assms(1)] entry_body_json_val [OF assms(2-5)] utf8_ok_sha256
    json_val_put [of "entry_body knd pl rs now" "''entry_hash''" "PStr (sha256 (entry_content raw))"]
  by simp

section \<open>Normalising an entry\<close>

lemma normalize_ledger_entry_Inr:
  assumes "normalize_ledger_entry jcs (PDict raw) = Inr e" "json_val (PDict raw)"
  obtains pr rt where "dict_get raw ''sequence'' = PInt (sequence e)" "dict_get raw ''timestamp'' = PStr (timestamp e)"
    "dict_get raw ''kind'' = PStr (kind e)" "dict_get raw ''previous_hash'' = PStr (previous_hash e)"
    "dict_get raw ''entry_hash'' = PStr (entry_hash e)" "dict_get raw ''payload'' = PDict pr"
    "map_of LEDGER_KIND_TYPES (kind e) = Some rt" "normalize jcs rt (PDict pr) = Inr (payload e)"
proof -
  let ?data = "dict_del ''schema_version'' (dict_del ''record_type'' raw)"
  have "json_object (PDict raw) \<noteq> Inl x" for x
    using assms(1) by (auto simp: normalize_ledger_entry_def)
  then obtain obj where o: "json_object (PDict raw) = Inr obj" by (cases "json_object (PDict raw)") auto
  then have obj: "obj = raw" using as_json_value_same [OF assms(2)] by (auto simp: json_object_Inr)
  have f: "entry_fields ?data = entry_fields raw" by (simp add: entry_fields_def)
  from assms(1) obtain sq ts kd ph eh pr where g: "entry_fields raw = Some (sq, ts, kd, ph, eh, pr)"
    by (cases "entry_fields raw") (auto simp: normalize_ledger_entry_def o obj Let_def f)
  from assms(1) obtain rt where "map_of LEDGER_KIND_TYPES kd = Some rt" "normalize jcs rt (PDict pr) = Inr (payload e)"
      "sequence e = sq" "timestamp e = ts" "kind e = kd" "previous_hash e = ph" "entry_hash e = eh"
    by (auto simp: normalize_ledger_entry_def o obj Let_def f g split: option.splits)
  with g that show thesis by (simp add: entry_fields_def bind_eq_Some_conv)
qed

lemma build_entry_facts:
  assumes "build_entry jcs knd r rs now = Inr (raw, entry)" "verify_records rs = Inr head"
    and "json_val (PDict (to_json r))" "utf8_ok now"
    and "normalize jcs (rtype r) (PDict (to_json r)) = Inr r'"
  shows "raw_entry knd r rs now = Inr raw" "json_val (PDict raw)"
    "normalize_ledger_entry jcs (PDict raw) = Inr entry"
    "sequence entry = int (length rs) + 1" "previous_hash entry = head" "kind entry = knd"
    "entry_hash entry = sha256 (entry_content raw)" "payload entry = r'"
proof -
  show raw: "raw_entry knd r rs now = Inr raw" and n: "normalize_ledger_entry jcs (PDict raw) = Inr entry"
    using assms(1) by (auto simp: build_entry_def)
  have k: "map_of LEDGER_KIND_TYPES knd = Some (rtype r)"
    using assms(1) by (auto simp: build_entry_def check_entry_context_def run_checks_eq_Inr split: option.splits)
  show j: "json_val (PDict raw)"
    by (rule raw_entry_json_val [OF raw assms(2-4) utf8_ok_ledger_kind [OF k]])
  have g: "dict_get raw x = dict_get (entry_body knd r rs now) x" if "x \<noteq> ''entry_hash''" for x
    using raw_entry_Inr(1) [OF raw] that by (metis dict_get_put)
  have h: "dict_get raw ''entry_hash'' = PStr (sha256 (entry_content raw))"
    using raw_entry_Inr(1) [OF raw] by (metis dict_get_put)
  obtain pr rt where f: "dict_get raw ''sequence'' = PInt (sequence entry)" "dict_get raw ''timestamp'' = PStr (timestamp entry)"
    "dict_get raw ''kind'' = PStr (kind entry)" "dict_get raw ''previous_hash'' = PStr (previous_hash entry)"
    "dict_get raw ''entry_hash'' = PStr (entry_hash entry)" "dict_get raw ''payload'' = PDict pr"
    "map_of LEDGER_KIND_TYPES (kind entry) = Some rt" "normalize jcs rt (PDict pr) = Inr (payload entry)"
    by (rule normalize_ledger_entry_Inr [OF n j])
  show "sequence entry = int (length rs) + 1" "kind entry = knd" using f(1,3) by (auto simp: g)
  show "previous_hash entry = head" using f(4) verified_head_last [OF assms(2)] by (auto simp: g)
  show "entry_hash entry = sha256 (entry_content raw)" using f(5) h by simp
  have "pr = to_json r" "rt = rtype r" using f(3,6,7) k by (auto simp: g)
  with f(8) assms(5) show "payload entry = r'" by simp
qed

section \<open>Normalised records stay encodable\<close>

lemma json_val_filter: "json_val (PDict d) \<Longrightarrow> json_val (PDict (filter P d))"
  by (auto simp: dict_wf_filter)

lemma json_val_get: "json_val (PDict d) \<Longrightarrow> json_val (dict_get d k)"
  by (auto simp: dict_get_def split: option.splits dest!: map_of_SomeD)

lemma json_val_items: "json_val v \<Longrightarrow> json_val (PDict (dict_items v))"
  by (cases v) auto

lemma preserve_unknowns_json_val:
  assumes "preserve_unknowns spec d = Inr e" "json_val (PDict d)"
  shows "json_val (PDict e)"
proof (cases "filter (\<lambda>p. fst p \<notin> set (allowed spec)) d = []")
  case False
  let ?kept = "filter (\<lambda>p. fst p \<in> set (allowed spec)) d"
  let ?ext = "dict_items (dict_get ?kept ''extensions'')"
  have kept: "json_val (PDict ?kept)" by (rule json_val_filter [OF assms(2)])
  then have "json_val (PDict ?ext)" by (intro json_val_items json_val_get)
  then have "json_val (PDict (dict_put ''legacy_unknown_fields''
      (PDict (filter (\<lambda>p. fst p \<notin> set (allowed spec)) d)) ?ext))"
    by (rule json_val_put) (simp, rule json_val_filter [OF assms(2)])
  with json_val_put [OF kept _ this, of "''extensions''"] assms(1) False show ?thesis
    unfolding preserve_unknowns_def Let_def by (auto simp del: json_val.simps(4) split: if_splits)
qed (use assms in \<open>auto simp: preserve_unknowns_def\<close>)

lemma normalize_json_val:
  assumes "normalize jcs rt raw = Inr r" "json_val raw"
  shows "json_val (PDict (thaw_items (rec_fields r)))"
proof -
  from assms(1) obtain obj where obj: "json_object raw = Inr obj" by (auto simp: normalize_def)
  then have "raw = PDict obj" using as_json_value_same [OF assms(2)] by (auto simp: json_object_Inr)
  then have o: "json_val (PDict obj)" using assms(2) by simp
  let ?d = "dict_del ''schema_version'' (dict_del ''record_type'' obj)"
  have d: "json_val (PDict ?d)" by (intro json_val_del o)
  have m: "json_val (PDict (thaw_items (rec_fields (model rt e v))))" if "json_val (PDict e)" for e v
    using that thaw_freeze_items [OF json_val_plain [OF that]] by (simp only: model_simps)
  have l: "json_val (PDict (thaw_items (rec_fields s)))" if "legacy jcs b rt ?d = Inr s" for b s
  proof -
    have "json_val (PDict (default_subject rt ?d))"
      using json_val_put [OF d, of "''subject_type''" "PStr ''candidate''"] d unfolding default_subject_def by simp
    with that m show ?thesis
      by (auto simp: legacy_def simp del: json_val.simps(4) dest!: preserve_unknowns_json_val)
  qed
  show ?thesis using assms(1) obj m [OF d] l
    by (auto simp: normalize_def Let_def simp del: json_val.simps(4) split: if_splits)
qed

section \<open>The derived index\<close>

lemma kind_context:
  "map_of LEDGER_KIND_TYPES k = Some rt \<Longrightarrow>
    \<exists>ctx. map_of PERSISTED_RECORD_CONTEXTS k = Some ctx \<and> ctx_record_type ctx = rt \<and> ledger_kind ctx = k"
  by (auto simp: LEDGER_KIND_TYPES_def PERSISTED_RECORD_CONTEXTS_def split: if_splits)

lemma context_field_not_metadata:
  "map_of PERSISTED_RECORD_CONTEXTS k = Some ctx \<Longrightarrow>
    ctx_identity_field ctx \<noteq> ''record_type'' \<and> ctx_identity_field ctx \<noteq> ''schema_version''"
  by (auto simp: PERSISTED_RECORD_CONTEXTS_def split: if_splits)

text \<open>What the index needs of an entry: a known kind and an identity that is valid text.\<close>

definition indexable :: "ledger_entry \<Rightarrow> bool" where
  "indexable e =
     (case map_of PERSISTED_RECORD_CONTEXTS (kind e) of
        None \<Rightarrow> False
      | Some ctx \<Rightarrow> utf8_ok (kind e)
          \<and> (\<forall>s. rget (payload e) (ctx_identity_field ctx) = PStr s \<longrightarrow> utf8_ok s))"

lemma dict_get_thaw: "dict_get (thaw_items d) k = thaw_json (dict_get d k)"
  by (auto simp: dict_get_def thaw_items_def map_of_map_snd split: option.splits)

lemma normalized_indexable:
  assumes "normalize_ledger_entry jcs (PDict raw) = Inr e" "json_val (PDict raw)"
  shows "indexable e"
proof -
  obtain pr rt where f: "dict_get raw ''payload'' = PDict pr" "map_of LEDGER_KIND_TYPES (kind e) = Some rt"
      "normalize jcs rt (PDict pr) = Inr (payload e)"
    by (rule normalize_ledger_entry_Inr [OF assms])
  have "json_val (PDict pr)" using json_val_get [OF assms(2), of "''payload''"] f(1) by simp
  note j = normalize_json_val [OF f(3) this]
  obtain ctx where c: "map_of PERSISTED_RECORD_CONTEXTS (kind e) = Some ctx" using kind_context [OF f(2)] by blast
  have "utf8_ok s" if "rget (payload e) (ctx_identity_field ctx) = PStr s" for s
    using that json_val_get [OF j, of "ctx_identity_field ctx"] context_field_not_metadata [OF c]
    by (simp add: rget_def dict_get_thaw)
  with c utf8_ok_ledger_kind [OF f(2)] show ?thesis by (auto simp: indexable_def)
qed

lemma append_sequence_json_val:
  assumes "json_val (PDict d)" "utf8_ok k"
  shows "json_val (PDict (append_sequence k i d))"
proof -
  have "json_val (kind_sequences d k)"
    using assms(1) by (auto simp: kind_sequences_def split: option.splits dest!: map_of_SomeD)
  then have "json_val (PList (list_items (kind_sequences d k) @ [PInt i]))"
    by (cases "kind_sequences d k") auto
  with json_val_put [OF assms] show ?thesis unfolding append_sequence_def by blast
qed

lemma index_entries_ok:
  "\<forall>e \<in> set es. indexable e \<Longrightarrow> json_val (PDict (fst acc)) \<Longrightarrow> json_val (PDict (snd acc)) \<Longrightarrow>
    \<exists>b i. index_entries es acc = Inr (b, i) \<and> json_val (PDict b) \<and> json_val (PDict i)"
proof (induction es arbitrary: acc)
  case Nil
  then show ?case by (cases acc) auto
next
  case (Cons e es)
  have "indexable e" using Cons.prems(1) by simp
  then obtain ctx where c: "map_of PERSISTED_RECORD_CONTEXTS (kind e) = Some ctx" "utf8_ok (kind e)"
    "\<And>s. rget (payload e) (ctx_identity_field ctx) = PStr s \<Longrightarrow> utf8_ok s"
    by (auto simp: indexable_def split: option.splits)
  let ?i = "case rget (payload e) (ctx_identity_field ctx) of
               PStr identity \<Rightarrow> dict_put (kind e @ '':'' @ identity) (PInt (sequence e)) (snd acc)
             | _ \<Rightarrow> snd acc"
  have "json_val (PDict ?i)"
    using Cons.prems(3) c(2,3) json_val_put [OF Cons.prems(3), of _ "PInt (sequence e)"]
    by (auto simp: utf8_ok_append simp del: json_val.simps(4) split: pyval.split)
  moreover have "json_val (PDict (append_sequence (kind e) (sequence e) (fst acc)))"
    by (rule append_sequence_json_val [OF Cons.prems(2) c(2)])
  ultimately show ?case using Cons.IH [of "(append_sequence (kind e) (sequence e) (fst acc), ?i)"] Cons.prems(1) c(1)
    by simp
qed

definition entry_sequences :: "string \<Rightarrow> ledger_entry list \<Rightarrow> pyval list" where
  "entry_sequences k es = map (\<lambda>e. PInt (sequence e)) (filter (\<lambda>e. kind e = k) es)"

lemma kind_sequences_append:
  "kind_sequences (append_sequence k i d) k' =
    (if k' = k then PList (list_items (kind_sequences d k) @ [PInt i]) else kind_sequences d k')"
  by (simp add: kind_sequences_def append_sequence_def)

lemma index_entries_sequences:
  "index_entries es acc = Inr (b, i) \<Longrightarrow> is_plist (kind_sequences (fst acc) k) \<Longrightarrow>
    kind_sequences b k = PList (list_items (kind_sequences (fst acc) k) @ entry_sequences k es)"
proof (induction es arbitrary: acc)
  case Nil
  then show ?case by (cases "kind_sequences b k") (auto simp: entry_sequences_def)
next
  case (Cons e es)
  from Cons.prems(1) obtain acc' where a: "index_entries es acc' = Inr (b, i)"
    "fst acc' = append_sequence (kind e) (sequence e) (fst acc)"
    by (auto split: option.splits)
  have "is_plist (kind_sequences (fst acc') k)" using Cons.prems(2) a(2) by (simp add: kind_sequences_append)
  from Cons.IH [OF a(1) this] a(2) show ?case
    by (simp add: kind_sequences_append entry_sequences_def)
qed

lemma index_entries_sequences0:
  "index_entries es ([], []) = Inr (b, i) \<Longrightarrow> kind_sequences b k = PList (entry_sequences k es)"
  using index_entries_sequences [of es "([], [])" b i k] by (simp add: kind_sequences_def)

definition normalized :: "jcs \<Rightarrow> dict list \<Rightarrow> ledger_entry list \<Rightarrow> bool" where
  "normalized jcs rs es = (rmap (\<lambda>e. normalize_ledger_entry jcs (PDict e)) rs = Inr es)"

lemma normalized_snoc:
  "normalized jcs rs es \<Longrightarrow> normalize_ledger_entry jcs (PDict raw) = Inr e \<Longrightarrow> normalized jcs (rs @ [raw]) (es @ [e])"
  by (simp add: normalized_def rmap_append)

lemma normalized_mem:
  "normalized jcs rs es \<Longrightarrow> e \<in> set es \<Longrightarrow> \<exists>raw \<in> set rs. normalize_ledger_entry jcs (PDict raw) = Inr e"
  unfolding normalized_def by (rule rmap_mem)

lemma normalized_nth:
  "normalized jcs rs es \<Longrightarrow> i < length rs \<Longrightarrow> normalize_ledger_entry jcs (PDict (rs ! i)) = Inr (es ! i)"
  by (simp add: normalized_def rmap_eq_Inr list_all2_conv_all_nth)

lemma normalized_length: "normalized jcs rs es \<Longrightarrow> length es = length rs"
  unfolding normalized_def by (rule rmap_length)

definition index_dict :: "bytes \<Rightarrow> dict list \<Rightarrow> dict \<Rightarrow> dict \<Rightarrow> dict" where
  "index_dict bs rs by_kind identities =
     dict_of
       [(''schema_version'', PInt INDEX_SCHEMA_VERSION),
        (''ledger_sha256'', PStr (sha256 bs)),
        (''ledger_size'', PInt (int (length bs))),
        (''ledger_head'', last_hash rs),
        (''entry_count'', PInt (int (length rs))),
        (''sequences_by_kind'', PDict by_kind),
        (''identity_sequences'', PDict identities)]"

lemma index_data_ok:
  assumes "normalized jcs rs es" "\<forall>e \<in> set rs. json_val (PDict e)" "verify_records rs = Inr head"
  shows "\<exists>b i. index_data jcs bs rs = Inr (index_dict bs rs b i) \<and> index_entries es ([], []) = Inr (b, i)
    \<and> json_val (PDict (index_dict bs rs b i))"
proof -
  have "\<forall>e \<in> set es. indexable e"
    using normalized_mem [OF assms(1)] normalized_indexable assms(2) by blast
  then obtain b i where bi: "index_entries es ([], []) = Inr (b, i)" "json_val (PDict b)" "json_val (PDict i)"
    using index_entries_ok [of es "([], [])"] by auto
  have "json_val (PDict (index_dict bs rs b i))"
    unfolding index_dict_def using bi(2,3) verified_head_last [OF assms(3)]
      hex64_utf8 [OF verified_head_hex [OF assms(3)]] utf8_ok_sha256
    by (intro json_val_dict_of) (simp del: json_val.simps(4))
  moreover have "index_data jcs bs rs = Inr (index_dict bs rs b i)"
    using assms(1) bi(1) by (simp add: index_data_def index_dict_def normalized_def)
  ultimately show ?thesis using bi(1) by blast
qed

text \<open>The index file agrees with what the store would compute from the ledger.\<close>

definition index_current :: "jcs \<Rightarrow> dict list \<Rightarrow> disk \<Rightarrow> bool" where
  "index_current jcs rs dk =
     (\<exists>idx bs v. index_data jcs (ledger_bytes dk) rs = Inr idx \<and> index_file dk = Some bs
        \<and> json_loads True True bs = Some v \<and> py_eq v (PDict idx))"

lemma json_val_no_nan: "json_val v \<Longrightarrow> no_nan v"
proof (induction v rule: pyval_induct)
  case (float f)
  then show ?case by (cases f) (auto simp: wf_float_def)
qed auto

lemma json_val_py_eq_refl: "json_val v \<Longrightarrow> py_eq v v"
  by (rule py_eq_refl) (rule json_val_no_nan)

lemma ensure_index_ok:
  assumes "index_data jcs (ledger_bytes dk) rs = Inr idx" "json_val (PDict idx)"
  obtains i where "ensure_index jcs rs dk = (Inr (), dk\<lparr>index_file := i\<rparr>)"
    "index_current jcs rs (dk\<lparr>index_file := i\<rparr>)"
proof -
  let ?cur = "case index_file dk of None \<Rightarrow> None | Some bs \<Rightarrow> json_loads True True bs"
  have c: "canonical_bytes (PDict idx) = Inr (enc (PDict idx))"
    using json_val_encodable [OF assms(2)] by (simp only: canonical_bytes_def if_True)
  show thesis
  proof (cases "case ?cur of None \<Rightarrow> False | Some v \<Rightarrow> py_eq v (PDict idx)")
    case True
    then have "index_current jcs rs dk"
      using assms(1) by (auto simp: index_current_def simp del: py_eq.simps split: option.splits)
    with True that [of "index_file dk"] assms(1) show thesis
      by (simp add: ensure_index_def Let_def del: py_eq.simps)
  next
    case False
    let ?i = "Some (enc (PDict idx) @ [NL])"
    have "index_current jcs rs (dk\<lparr>index_file := ?i\<rparr>)"
      using assms(1) json_loads_enc_line [OF assms(2), of True True] json_val_py_eq_refl [OF assms(2)]
      unfolding index_current_def ledger_bytes_def by (intro exI [of _ idx]) (simp del: enc.simps py_eq.simps)
    with that [of ?i] False assms(1) c show thesis
      by (simp add: ensure_index_def Let_def del: py_eq.simps enc.simps)
  qed
qed

lemma ledger_bytes_index [simp]: "ledger_bytes (dk\<lparr>index_file := i\<rparr>) = ledger_bytes dk"
  by (simp add: ledger_bytes_def)

text \<open>A disk whose ledger can be read, verified and normalised.\<close>

definition readable :: "jcs \<Rightarrow> disk \<Rightarrow> dict list \<Rightarrow> string \<Rightarrow> ledger_entry list \<Rightarrow> bool" where
  "readable jcs dk rs head es = (read_verified dk = Inr (rs, head) \<and> normalized jcs rs es)"

lemma readableD:
  assumes "readable jcs dk rs head es"
  shows "parse_ledger (ledger_bytes dk) = Inr rs" "verify_records rs = Inr head"
    "\<forall>e \<in> set rs. json_val (PDict e)" "normalized jcs rs es"
proof -
  show p: "parse_ledger (ledger_bytes dk) = Inr rs" and v: "verify_records rs = Inr head"
    using assms by (auto simp: readable_def read_verified_def read_ledger_def)
  show "\<forall>e \<in> set rs. json_val (PDict e)"
    using verified_ledger(2) [OF p v] unfolding entry_valid_def by blast
  show "normalized jcs rs es" using assms by (simp add: readable_def)
qed

lemma rebuild_index_ok:
  assumes "readable jcs dk rs head es"
  obtains i where "rebuild_index jcs dk = (Inr (), dk\<lparr>index_file := i\<rparr>)"
    "index_current jcs rs (dk\<lparr>index_file := i\<rparr>)"
proof -
  note d = readableD [OF assms]
  obtain b i where x: "index_data jcs (ledger_bytes dk) rs = Inr (index_dict (ledger_bytes dk) rs b i)"
      "json_val (PDict (index_dict (ledger_bytes dk) rs b i))"
    using index_data_ok [OF d(4,3,2)] by blast
  obtain j where "ensure_index jcs rs dk = (Inr (), dk\<lparr>index_file := j\<rparr>)"
      "index_current jcs rs (dk\<lparr>index_file := j\<rparr>)"
    by (rule ensure_index_ok [OF x])
  with that show thesis using assms by (simp add: rebuild_index_def readable_def)
qed

section \<open>Selection through a current index\<close>

lemma py_eq_items_get:
  "py_eq_items d e \<Longrightarrow> (map_of d k = None \<longleftrightarrow> map_of e k = None)
    \<and> (\<forall>v w. map_of d k = Some v \<longrightarrow> map_of e k = Some w \<longrightarrow> py_eq v w)"
proof (induction d arbitrary: e)
  case (Cons p d)
  obtain k' v' where p: "p = (k', v')" by (cases p)
  with Cons.prems obtain w' e' where e: "e = (k', w') # e'" "py_eq v' w'" "py_eq_items d e'"
    by (cases e) (auto split: prod.splits)
  with Cons.IH [OF e(3)] p show ?case by auto
qed (auto split: list.splits)

lemma py_eq_list_mem: "py_eq_list xs ys \<Longrightarrow> y \<in> set ys \<Longrightarrow> \<exists>x \<in> set xs. py_eq x y"
proof (induction xs arbitrary: ys)
  case (Cons x xs)
  then obtain y' ys' where "ys = y' # ys'" "py_eq x y'" "py_eq_list xs ys'" by (cases ys) auto
  with Cons show ?case by auto
qed simp

lemma py_eq_PList: "py_eq v (PList ys) \<Longrightarrow> is_plist v \<Longrightarrow> py_eq_list (list_items v) ys"
  by (cases v) auto

lemma py_eq_PDict: "py_eq (PDict d) (PDict e) \<longleftrightarrow> py_eq_items d e"
  by simp

lemma index_by_kind:
  assumes "py_eq (PDict vd) (PDict (index_dict bs rs b i))"
    and "dict_get vd ''sequences_by_kind'' = PDict by_kind"
  shows "py_eq_items by_kind b"
proof -
  have "map_of (index_dict bs rs b i) ''sequences_by_kind'' = Some (PDict b)"
    by (simp add: index_dict_def dict_of_def map_of_dict_update)
  moreover have "map_of vd ''sequences_by_kind'' = Some (PDict by_kind)"
    using assms(2) by (auto simp: dict_get_def split: option.splits)
  ultimately have "py_eq (PDict by_kind) (PDict b)"
    using py_eq_items_get [of vd "index_dict bs rs b i" "''sequences_by_kind''"] assms(1) by auto
  then show ?thesis by simp
qed

lemma kind_sequences_py_eq:
  assumes "py_eq_items by_kind b" "kind_sequences b k = PList ys" "is_plist (kind_sequences by_kind k)"
  shows "py_eq_list (list_items (kind_sequences by_kind k)) ys"
proof (cases "map_of b k")
  case None
  then show ?thesis using assms py_eq_items_get [OF assms(1), of k] by (auto simp: kind_sequences_def)
next
  case (Some w)
  then obtain v where "map_of by_kind k = Some v" "py_eq v w"
    using py_eq_items_get [OF assms(1), of k] by (cases "map_of by_kind k") auto
  with Some assms(2,3) show ?thesis using py_eq_PList by (auto simp: kind_sequences_def)
qed

text \<open>Entry number \<open>i\<close> of a verified ledger has sequence \<open>i\<close>.\<close>

lemma linked_pos_nth: "linked hash prev pos n p rs h \<Longrightarrow> i < length rs \<Longrightarrow> pos (rs ! i) (n + i)"
proof (induction rs arbitrary: n p i)
  case (Cons e rs)
  show ?case
  proof (cases i)
    case 0
    then show ?thesis using Cons.prems by simp
  next
    case (Suc j)
    then show ?thesis using Cons.IH [of "n + 1" "hash e" j] Cons.prems by simp
  qed
qed simp

lemma entry_sequence_nth:
  assumes "readable jcs dk rs head es" "i < length rs"
  shows "sequence (es ! i) = int i + 1" "dict_get (rs ! i) ''kind'' = PStr (kind (es ! i))"
proof -
  note d = readableD [OF assms(1)]
  have "json_val (PDict (rs ! i))" using d(3) assms(2) nth_mem by blast
  note n = normalized_nth [OF d(4) assms(2)]
  obtain pr rt where f: "dict_get (rs ! i) ''sequence'' = PInt (sequence (es ! i))"
      "dict_get (rs ! i) ''kind'' = PStr (kind (es ! i))"
    by (rule normalize_ledger_entry_Inr [OF n \<open>json_val (PDict (rs ! i))\<close>])
  have "entry_pos (rs ! i) (1 + i)"
    using d(2) assms(2) unfolding verify_records_linked by (blast intro: linked_pos_nth)
  then show "sequence (es ! i) = int i + 1" using f(1) by (simp add: entry_pos_def del: py_eq.simps)
  show "dict_get (rs ! i) ''kind'' = PStr (kind (es ! i))" by (rule f(2))
qed

lemma index_positions_complete:
  assumes "readable jcs dk rs head es" "index_current jcs rs dk"
    and "index_sequences (index_file dk) digest rs kinds = Some ns" "i < length rs" "has_kind kinds (rs ! i)"
  shows "Suc i \<in> set ns"
proof -
  note d = readableD [OF assms(1)]
  from assms(2,3) obtain bs vd by_kind idx where v: "index_file dk = Some bs"
      "json_loads True True bs = Some (PDict vd)" "py_eq (PDict vd) (PDict idx)"
      "index_data jcs (ledger_bytes dk) rs = Inr idx" "dict_get vd ''sequences_by_kind'' = PDict by_kind"
      "\<forall>knd \<in> set kinds. is_plist (kind_sequences by_kind knd)
        \<and> list_all (valid_sequence rs knd) (list_items (kind_sequences by_kind knd))"
      "ns = sorted_set (concat (map (\<lambda>knd. map sequence_number (list_items (kind_sequences by_kind knd))) kinds))"
    by (auto simp: index_current_def index_sequences_def list_all_iff simp del: py_eq.simps
        split: option.splits pyval.splits if_splits)
  obtain b j where x: "idx = index_dict (ledger_bytes dk) rs b j" "index_entries es ([], []) = Inr (b, j)"
    using index_data_ok [OF d(4,3,2), of "ledger_bytes dk"] v(4) by auto
  have items: "py_eq_items by_kind b" by (rule index_by_kind [OF v(3) [unfolded x(1)] v(5)])
  obtain k where k: "k \<in> set kinds" "kind (es ! i) = k"
    using assms(5) entry_sequence_nth(2) [OF assms(1,4)] by (auto simp: has_kind_def)
  have "es ! i \<in> set (filter (\<lambda>e. kind e = k) es)"
    using k assms(4) normalized_length [OF d(4)] by simp
  then have "PInt (sequence (es ! i)) \<in> set (entry_sequences k es)"
    unfolding entry_sequences_def by (force simp del: set_filter)
  then have "PInt (int i + 1) \<in> set (entry_sequences k es)" using entry_sequence_nth(1) [OF assms(1,4)] by simp
  moreover have "py_eq_list (list_items (kind_sequences by_kind k)) (entry_sequences k es)"
    using kind_sequences_py_eq [OF items index_entries_sequences0 [OF x(2)]] v(6) k(1) by blast
  ultimately obtain u where u: "u \<in> set (list_items (kind_sequences by_kind k))" "py_eq u (PInt (int i + 1))"
    using py_eq_list_mem by blast
  then have "valid_sequence rs k u" using v(6) k(1) by (auto simp: list_all_iff)
  then obtain m where "u = PInt m" by (cases u) (auto simp: valid_sequence_def)
  with u(2) have "sequence_number u = Suc i" by (simp del: py_eq.simps)
  with u(1) k(1) show ?thesis unfolding v(7) by (force simp: image_iff)
qed

lemma select_current:
  assumes "readable jcs dk rs head es" "index_current jcs rs dk"
  shows "select_with_index (index_file dk) digest rs kinds = Inr (filter (has_kind kinds) rs)"
proof (cases "index_sequences (index_file dk) digest rs kinds")
  case None
  have "is_pstr (dict_get e ''kind'')" if "e \<in> set rs" for e
    using that entry_sequence_nth(2) [OF assms(1)] by (auto simp: in_set_conv_nth)
  with None show ?thesis by (simp add: select_with_index_def filter_kinds_eq)
next
  case (Some ns)
  obtain ms where ms: "ns = sorted_set ms"
    using Some by (auto simp: index_sequences_def split: option.splits pyval.splits if_splits)
  have "set ms = {Suc i | i. i < length rs \<and> has_kind kinds (rs ! i)}"
  proof (intro set_eqI iffI)
    fix n assume "n \<in> set ms"
    then have "n \<in> set ns" using ms by simp
    from index_positions_sound [OF Some this] show "n \<in> {Suc i | i. i < length rs \<and> has_kind kinds (rs ! i)}"
      by (cases n) auto
  next
    fix n assume "n \<in> {Suc i | i. i < length rs \<and> has_kind kinds (rs ! i)}"
    then show "n \<in> set ms" using index_positions_complete [OF assms Some] ms by auto
  qed
  from positions_filter [OF this] show ?thesis by (simp add: select_with_index_def Some ms)
qed

section \<open>Paths and journals\<close>

lemma split_slash_plain: "CHR ''/'' \<notin> set s \<Longrightarrow> split_slash s = [s]"
proof -
  assume "CHR ''/'' \<notin> set s"
  then have "dropWhile (\<lambda>c. c \<noteq> CHR ''/'') s = []" by (auto simp: dropWhile_eq_Nil_conv)
  then show ?thesis by (simp only: split_slash.simps [of s] list.case)
qed

lemma split_slash_Cons: "CHR ''/'' \<notin> set p \<Longrightarrow> split_slash (p @ CHR ''/'' # s) = p # split_slash s"
proof -
  assume "CHR ''/'' \<notin> set p"
  then have "dropWhile (\<lambda>c. c \<noteq> CHR ''/'') (p @ CHR ''/'' # s) = CHR ''/'' # s
    \<and> takeWhile (\<lambda>c. c \<noteq> CHR ''/'') (p @ CHR ''/'' # s) = p"
    by (induction p) auto
  then show ?thesis by (simp only: split_slash.simps [of "p @ CHR ''/'' # s"] list.case)
qed

definition path_component :: "string \<Rightarrow> bool" where
  "path_component p = (p \<noteq> [] \<and> p \<noteq> ''.'' \<and> CHR ''/'' \<notin> set p)"

lemma path_parts_posix:
  assumes "path_component a" "path_component b" "path_component c"
  shows "path_parts (posix_path [a, b, c]) = Some [a, b, c]"
proof -
  have s: "split_slash (posix_path [a, b, c]) = [a, b, c]"
    using assms split_slash_Cons [of a "b @ CHR ''/'' # c"] split_slash_Cons [of b c] split_slash_plain [of c]
    by (simp add: posix_path_def path_component_def)
  obtain x xs where x: "a = x # xs" "x \<noteq> CHR ''/''" using assms(1) by (cases a) (auto simp: path_component_def)
  then have "posix_path [a, b, c] = x # (xs @ ''/'' @ b @ ''/'' @ c)" by (simp add: posix_path_def)
  with s x(2) assms show ?thesis by (simp add: path_parts_def path_component_def)
qed

lemma group_component: "map_of PERSISTED_RECORD_CONTEXTS k = Some ctx \<Longrightarrow> path_component (group ctx) \<and> utf8_ok (group ctx)"
  by (auto simp: PERSISTED_RECORD_CONTEXTS_def path_component_def split: if_splits)

lemma safe_char_ascii: "safe_char c \<Longrightarrow> of_char c < (128::nat)"
  by (auto simp: safe_char_def)

lemma immutable_record_path_parts:
  assumes "immutable_record_path grp identity = Inr path" "path_component grp" "utf8_ok grp"
  shows "path_parts (posix_path path) = Some path" "utf8_ok (posix_path path)"
proof -
  from assms(1) obtain s where s: "safe_record_identity identity = Inr s" "path = [''records'', grp, s @ ''.json'']"
    by (auto simp: immutable_record_path_def)
  note c = safe_record_identity_component [OF s(1)]
  have "path_component ''records''" "path_component (s @ ''.json'')"
    using c by (auto simp: path_component_def)
  then show "path_parts (posix_path path) = Some path" unfolding s(2) using assms(2) by (intro path_parts_posix)
  have "utf8_ok s" using c safe_char_ascii by (intro utf8_ok_ascii) (auto simp: list_all_iff)
  then have "utf8_ok (grp @ CHR ''/'' # s @ ''.json'')" using assms(3) by (simp add: utf8_ok_append)
  then show "utf8_ok (posix_path path)" by (simp add: posix_path_def s(2))
qed

text \<open>A journal of the store is read back as it was written.\<close>

definition journal_state :: "dict \<Rightarrow> bool \<Rightarrow> dict" where
  "journal_state j committed = (if committed then dict_put ''state'' (PStr ''COMMITTED'') j else j)"

lemma journal_get [simp]:
  "dict_get (journal_dict txid grp knd identity path bs before after entry) ''schema_version'' = PInt TRANSACTION_SCHEMA_VERSION"
    "dict_get (journal_dict txid grp knd identity path bs before after entry) ''transaction_id'' = PStr txid" "dict_get (journal_dict txid grp knd identity path bs before after entry) ''state'' = PStr ''PREPARED''"
    "dict_get (journal_dict txid grp knd identity path bs before after entry) ''record_group'' = PStr grp" "dict_get (journal_dict txid grp knd identity path bs before after entry) ''ledger_kind'' = PStr knd"
    "dict_get (journal_dict txid grp knd identity path bs before after entry) ''record_identity'' = PStr identity" "dict_get (journal_dict txid grp knd identity path bs before after entry) ''record_destination'' = PStr (posix_path path)"
    "dict_get (journal_dict txid grp knd identity path bs before after entry) ''record_sha256'' = PStr (sha256 bs)" "dict_get (journal_dict txid grp knd identity path bs before after entry) ''ledger_before_sha256'' = PStr (sha256 before)"
    "dict_get (journal_dict txid grp knd identity path bs before after entry) ''ledger_after_sha256'' = PStr (sha256 after)"
    "dict_get (journal_dict txid grp knd identity path bs before after entry) ''expected_sequence'' = PInt (sequence (entry :: ledger_entry))"
    "dict_get (journal_dict txid grp knd identity path bs before after entry) ''expected_previous_hash'' = PStr (previous_hash entry)"
    "dict_get (journal_dict txid grp knd identity path bs before after entry) ''entry_hash'' = PStr (entry_hash entry)"
  by (simp_all add: journal_dict_def dict_of_def dict_get_def map_of_dict_update)

lemma journal_state_get [simp]:
  "dict_get (journal_state j c) x = (if c \<and> x = ''state'' then PStr ''COMMITTED'' else dict_get j x)"
  by (simp add: journal_state_def)

lemma load_journal_bytes:
  assumes "j = journal_dict txid grp knd identity path bs before after entry"
    and "utf8_ok txid" "utf8_ok grp" "utf8_ok knd" "utf8_ok identity" "utf8_ok (posix_path path)"
    and "is_hex64 (previous_hash entry)" "is_hex64 (entry_hash entry)" "1 \<le> sequence entry"
  shows "load_journal txid (Some (journal_bytes (journal_state j c))) = Inr (journal_state j c)"
proof -
  have "json_val (PDict j)"
    unfolding assms(1) journal_dict_def using assms(2-6) hex64_utf8 [OF assms(7)] hex64_utf8 [OF assms(8)] utf8_ok_sha256
    by (intro json_val_dict_of) (simp del: json_val.simps(4))
  then have v: "json_val (PDict (journal_state j c))"
    using json_val_put [of j "''state''" "PStr ''COMMITTED''"] by (simp add: journal_state_def)
  have k0: "fst ` set j = set JOURNAL_REQUIRED"
    by (simp add: assms(1) journal_dict_def keys_dict_of JOURNAL_REQUIRED_def)
  have "''state'' \<in> set JOURNAL_REQUIRED" by (simp add: JOURNAL_REQUIRED_def)
  then have k: "set (keys (journal_state j c)) = set JOURNAL_REQUIRED"
    by (simp add: keys_def journal_state_def keys_dict_put k0 insert_absorb)
  show ?thesis
    using json_loads_enc_line [OF v, of True True] k assms(7-9) sha256_hex64
    by (simp add: load_journal_def journal_bytes_def run_checks_eq_Inr assms(1) JOURNAL_REQUIRED_def
        JOURNAL_HASHES_def journal_text_def TRANSACTION_SCHEMA_VERSION_def
        del: enc.simps py_eq.simps)
qed

section \<open>Sound plans\<close>

text \<open>What is known of a plan for a fresh record on a directory without pending transactions.\<close>

definition plan_sound :: "jcs \<Rightarrow> commit_plan \<Rightarrow> disk \<Rightarrow> dict list \<Rightarrow> string \<Rightarrow> ledger_entry list
    \<Rightarrow> persisted_context \<Rightarrow> string \<Rightarrow> string \<Rightarrow> string \<Rightarrow> dict \<Rightarrow> forge_record \<Rightarrow> bool" where
  "plan_sound jcs p dk rs head es ctx grp knd identity raw r =
     (transactions dk = [] \<and> readable jcs dk rs head es
      \<and> plan_before p = ledger_bytes dk
      \<and> persisted_record_context grp knd = Inr ctx
      \<and> immutable_record_path grp identity = Inr (plan_path p)
      \<and> plan_journal p = journal_dict (plan_tx p) grp knd identity (plan_path p) (plan_record p)
           (plan_before p) (plan_after p) (plan_entry p)
      \<and> record_files dk (plan_path p) = None
      \<and> parse_ledger (plan_after p) = Inr (rs @ [raw])
      \<and> verify_records (rs @ [raw]) = Inr (entry_hash (plan_entry p))
      \<and> normalize_ledger_entry jcs (PDict raw) = Inr (plan_entry p)
      \<and> sequence (plan_entry p) = int (length rs) + 1
      \<and> previous_hash (plan_entry p) = head \<and> kind (plan_entry p) = knd \<and> payload (plan_entry p) = r
      \<and> load_record_file jcs grp IMMUTABLE_RECORD_BYTE_CAP (Some (plan_record p)) = Inr r
      \<and> json_val (PDict (to_json r)) \<and> utf8_ok (plan_tx p) \<and> utf8_ok identity
      \<and> sha256 (plan_before p) \<noteq> sha256 (plan_after p))"

lemma persisted_context_Inr:
  "persisted_record_context grp knd = Inr ctx \<longleftrightarrow> map_of PERSISTED_RECORD_CONTEXTS knd = Some ctx \<and> group ctx = grp"
  by (auto simp: persisted_record_context_def split: option.splits if_splits)

lemma context_tables:
  "map_of PERSISTED_RECORD_CONTEXTS knd = Some ctx \<Longrightarrow>
    map_of LEDGER_KIND_TYPES knd = Some (ctx_record_type ctx)
    \<and> map_of RECORD_GROUP_TYPES (group ctx) = Some (ctx_record_type ctx) \<and> utf8_ok knd"
proof -
  have "list_all (\<lambda>p. map_of LEDGER_KIND_TYPES (fst p) = Some (ctx_record_type (snd p))
    \<and> map_of RECORD_GROUP_TYPES (group (snd p)) = Some (ctx_record_type (snd p)) \<and> utf8_ok (fst p))
    PERSISTED_RECORD_CONTEXTS"
    by (simp add: PERSISTED_RECORD_CONTEXTS_def LEDGER_KIND_TYPES_def RECORD_GROUP_TYPES_def)
  then show "map_of PERSISTED_RECORD_CONTEXTS knd = Some ctx \<Longrightarrow>
    map_of LEDGER_KIND_TYPES knd = Some (ctx_record_type ctx)
    \<and> map_of RECORD_GROUP_TYPES (group ctx) = Some (ctx_record_type ctx) \<and> utf8_ok knd"
    unfolding list_all_iff by (metis fst_conv map_of_SomeD snd_conv)
qed

lemma check_commit_Inr:
  assumes "check_commit grp knd r = Inr (ctx, identity, path, bs)"
  shows "persisted_record_context grp knd = Inr ctx" "rtype r = ctx_record_type ctx"
    "schema_version r = CURRENT_SCHEMA_VERSION" "rget r (ctx_identity_field ctx) = PStr identity"
    "immutable_record_path grp identity = Inr path" "record_bytes r = Inr bs"
    "length bs \<le> IMMUTABLE_RECORD_BYTE_CAP"
  using assms by (auto simp: check_commit_def split: option.splits if_splits)

lemma record_bytes_Inr:
  "record_bytes r = Inr bs \<Longrightarrow> json_val (PDict (to_json r)) \<Longrightarrow>
    bs = enc (PDict (to_json r)) @ [NL] \<and> canonical_bytes (PDict (to_json r)) = Inr (enc (PDict (to_json r)))"
  using json_val_encodable [of "PDict (to_json r)"]
  by (simp add: record_bytes_def canonical_bytes_def del: enc.simps encodable.simps json_val.simps)

lemma to_json_get:
  assumes "record_ok jcs r" "rget r f = PStr s"
  shows "dict_get (to_json r) f = PStr s"
proof -
  obtain d where d: "r = model (rtype r) d (schema_version r)" "plain (PDict d)" "validate_fields jcs (rtype r) d = Inr ()"
    using assms(1) by (rule record_okE)
  note m = validate_no_metadata [OF d(3)]
  have "to_json r = dict_update (metadata_dict (rtype r) (schema_version r)) d"
    by (subst d(1)) (rule to_json_model [OF d(2)])
  moreover have "dict_get (dict_update (metadata_dict (rtype r) (schema_version r)) d) f = PStr s"
    using assms(2) m d(2) get_metadata [of d]
    by (subst (asm) d(1)) (auto simp: rget_def dict_get_def map_of_with_metadata map_add_def map_of_metadata
        keys_map_of freeze_items_def map_of_map_snd split: if_splits option.splits)
  ultimately show ?thesis by simp
qed

lemma record_identity_utf8:
  "json_val (PDict (to_json r)) \<Longrightarrow> record_ok jcs r \<Longrightarrow> rget r f = PStr s \<Longrightarrow> utf8_ok s"
  using to_json_get json_val_get [of "to_json r" f] by fastforce

lemma decide_commit_sound:
  assumes "decide_commit jcs now txid grp knd r dk = Inr (Fresh p)"
    and "transactions dk = []" "readable jcs dk rs head es"
    and "new_record jcs rt flds = Inr r" "json_val (PDict flds)" "utf8_ok txid" "utf8_ok now"
    and "\<not> collision (plan_before p) (plan_after p)"
  obtains ctx identity raw where "plan_sound jcs p dk rs head es ctx grp knd identity raw r"
    "raw_entry knd r rs now = Inr raw" "plan_after p = ledger_bytes dk @ enc (PDict raw) @ [NL]"
    "check_commit grp knd r = Inr (ctx, identity, plan_path p, plan_record p)"
    "filter (same_identity knd (ctx_identity_field ctx) identity) rs = []"
proof -
  note rd = readableD [OF assms(3)]
  note j = new_record_json_val [OF assms(4,5)]
  from assms(1,3) obtain ctx identity path bs raw entry line where
      c: "check_commit grp knd r = Inr (ctx, identity, path, bs)" "record_files dk path = None"
        "build_entry jcs knd r rs now = Inr (raw, entry)" "canonical_bytes (PDict raw) = Inr line"
        "length line + 1 \<le> LEDGER_LINE_BYTE_CAP"
        "rmap (\<lambda>e. normalize_ledger_entry jcs (PDict e))
           (filter (same_identity knd (ctx_identity_field ctx) identity) rs) = Inr []"
      and p: "p = \<lparr>plan_tx = txid, plan_path = path, plan_record = bs, plan_before = ledger_bytes dk,
         plan_after = ledger_bytes dk @ line @ [NL],
         plan_journal = journal_dict txid grp knd identity path bs (ledger_bytes dk)
           (ledger_bytes dk @ line @ [NL]) entry, plan_entry = entry\<rparr>"
    by (auto simp: decide_commit_def readable_def Let_def split: if_splits)
  note cc = check_commit_Inr [OF c(1)]
  have rt: "rtype r = rt" "record_ok jcs r" using new_record_ok [OF assms(4)] by auto
  note be = build_entry_facts [OF c(3) rd(2) j assms(7) new_record_normalize [OF assms(4), folded rt(1)]]
  have line: "line = enc (PDict raw)" using c(4) by (simp add: canonical_bytes_def del: enc.simps split: if_splits)
  have pa: "parse_ledger (ledger_bytes dk @ line @ [NL]) = Inr (rs @ [raw])"
    using parse_ledger_extend [OF rd(1) be(2)] c(5) line by simp
  have ctx: "map_of PERSISTED_RECORD_CONTEXTS knd = Some ctx" "group ctx = grp"
    using cc(1) by (auto simp: persisted_context_Inr)
  have "load_record_file jcs grp IMMUTABLE_RECORD_BYTE_CAP (Some bs) = Inr r"
  proof -
    have b: "bs = enc (PDict (to_json r)) @ [NL]" "canonical_bytes (PDict (to_json r)) = Inr (enc (PDict (to_json r)))"
      using record_bytes_Inr [OF cc(6) j] by auto
    have "map_of RECORD_GROUP_TYPES grp = Some rt" using context_tables [OF ctx(1)] ctx(2) cc(2) rt(1) by simp
    with record_file_roundtrip [OF assms(4,5) this b(2), of IMMUTABLE_RECORD_BYTE_CAP] cc(7) show ?thesis
      unfolding b(1) by (simp del: enc.simps)
  qed
  moreover have "sha256 (ledger_bytes dk) \<noteq> sha256 (ledger_bytes dk @ line @ [NL])"
    using assms(8) p by (auto simp: collision_def)
  ultimately have "plan_sound jcs p dk rs head es ctx grp knd identity raw r"
    using assms(2,3,6) cc(1,5) c(2) p pa raw_entry_extends [OF rd(2) be(1)] be j
      record_identity_utf8 [OF j rt(2) cc(4)] by (simp add: plan_sound_def)
  moreover have "filter (same_identity knd (ctx_identity_field ctx) identity) rs = []"
    using rmap_length [OF c(6)] by simp
  ultimately show thesis using that be(1) p line c(1) by simp
qed

end
