(* ===== verification/CrashRecovery.thy ===== *)
theory CrashRecovery
  imports RecordStoreFacts
begin

text \<open>
  Atomicity of commits: the states a commit passes through, recovery from each of them, and the
  outcome of commits that are not interrupted or that repeat a committed record.
\<close>

section \<open>The steps of a commit\<close>

lemma run_steps_Nil [simp]: "run_steps [] dk = dk"
  by (simp add: run_steps_def)

lemma run_steps_Cons [simp]: "run_steps (f # fs) dk = run_steps fs (f dk)"
  by (simp add: run_steps_def)

lemma run_steps_append [simp]: "run_steps (fs @ gs) dk = run_steps gs (run_steps fs dk)"
  by (simp add: run_steps_def)

lemma run_steps_invariant: "P dk \<Longrightarrow> (\<And>f d. f \<in> set fs \<Longrightarrow> P d \<Longrightarrow> P (f d)) \<Longrightarrow> P (run_steps fs dk)"
  by (induction fs arbitrary: dk) auto

text \<open>A directory with one transaction.\<close>

definition with_tx :: "disk \<Rightarrow> string \<Rightarrow> tx \<Rightarrow> disk" where
  "with_tx dk name t = dk\<lparr>transactions := [(name, t)]\<rparr>"

lemma with_tx_simps [simp]:
  "tx_update name f (with_tx dk name t) = with_tx dk name (f t)"
  "tx_remove name (with_tx dk name t) = dk\<lparr>transactions := []\<rparr>"
  "tx_get name (with_tx dk name t) = t"
  "ledger_file (with_tx dk name t) = ledger_file dk" "record_files (with_tx dk name t) = record_files dk"
  "index_file (with_tx dk name t) = index_file dk" "ledger_bytes (with_tx dk name t) = ledger_bytes dk"
  "transactions (with_tx dk name t) = [(name, t)]"
  "read_verified (with_tx dk name t) = read_verified dk"
  by (simp_all add: with_tx_def tx_update_def tx_remove_def tx_get_def ledger_bytes_def read_verified_def read_ledger_def)

lemma with_tx_updates [simp]:
  "(with_tx dk name t)\<lparr>ledger_file := l\<rparr> = with_tx (dk\<lparr>ledger_file := l\<rparr>) name t"
  "(with_tx dk name t)\<lparr>index_file := i\<rparr> = with_tx (dk\<lparr>index_file := i\<rparr>) name t"
  "put_record path bs (with_tx dk name t) = with_tx (put_record path bs dk) name t"
  by (simp_all add: with_tx_def put_record_def)

lemma tx_create_empty: "transactions dk = [] \<Longrightarrow> tx_create name dk = with_tx dk name empty_tx"
  by (simp add: tx_create_def with_tx_def)

lemma write_steps_journal:
  assumes "\<And>b t. journal_file (upd b t) = journal_file t"
  shows "\<exists>t'. run_steps (take n (write_steps name upd bs)) (with_tx dk name t) = with_tx dk name t'
    \<and> journal_file t' = journal_file t"
proof (rule run_steps_invariant [where P = "\<lambda>d. \<exists>t'. d = with_tx dk name t' \<and> journal_file t' = journal_file t"])
  fix f d
  assume "f \<in> set (take n (write_steps name upd bs))" "\<exists>t'. d = with_tx dk name t' \<and> journal_file t' = journal_file t"
  moreover from this obtain b where "f = tx_update name (upd b)"
    by (auto simp: write_steps_def dest!: in_set_takeD)
  ultimately show "\<exists>t'. f d = with_tx dk name t' \<and> journal_file t' = journal_file t" using assms by auto
qed blast

lemma write_steps_done:
  assumes "\<And>b b' t. upd b (upd b' t) = upd b t"
  shows "run_steps (write_steps name upd bs) (with_tx dk name t) = with_tx dk name (upd (Some bs) t)"
proof -
  have "write_steps name upd bs = map (\<lambda>n. tx_update name (upd (Some (take n bs)))) [0..<length bs]
      @ [tx_update name (upd (Some bs))]"
    by (simp add: write_steps_def)
  moreover have "\<exists>t'. run_steps (map (\<lambda>n. tx_update name (upd (Some (take n bs)))) [0..<length bs]) (with_tx dk name t)
      = with_tx dk name t' \<and> upd (Some bs) t' = upd (Some bs) t"
    by (rule run_steps_invariant [where P = "\<lambda>d. \<exists>t'. d = with_tx dk name t' \<and> upd (Some bs) t' = upd (Some bs) t"])
      (auto simp: assms)
  ultimately show ?thesis by auto
qed

lemma prepare_steps_done:
  "transactions dk = [] \<Longrightarrow> run_steps (prepare_steps p) dk =
    with_tx dk (plan_tx p) \<lparr>record_stage = Some (plan_record p), ledger_stage = Some (plan_after p), journal_file = None\<rparr>"
  by (simp add: prepare_steps_def tx_create_empty write_steps_done empty_tx_def)

lemma prepare_steps_prefix:
  assumes "transactions dk = []"
  shows "run_steps (take n (prepare_steps p)) dk = dk \<or>
    (\<exists>t. run_steps (take n (prepare_steps p)) dk = with_tx dk (plan_tx p) t \<and> journal_file t = None)"
proof (cases n)
  case (Suc m)
  let ?w1 = "write_steps (plan_tx p) (\<lambda>b t. t\<lparr>record_stage := b\<rparr>) (plan_record p)"
  let ?w2 = "write_steps (plan_tx p) (\<lambda>b t. t\<lparr>ledger_stage := b\<rparr>) (plan_after p)"
  obtain t1 where t1: "run_steps (take m ?w1) (with_tx dk (plan_tx p) empty_tx) = with_tx dk (plan_tx p) t1"
      "journal_file t1 = None"
    using write_steps_journal [of "\<lambda>b t. t\<lparr>record_stage := b\<rparr>" m "plan_tx p" "plan_record p" dk empty_tx]
    by (auto simp: empty_tx_def)
  obtain t2 where "run_steps (take (m - length ?w1) ?w2) (with_tx dk (plan_tx p) t1) = with_tx dk (plan_tx p) t2"
      "journal_file t2 = None"
    using write_steps_journal [of "\<lambda>b t. t\<lparr>ledger_stage := b\<rparr>" "m - length ?w1" "plan_tx p" "plan_after p" dk t1] t1(2)
    by auto
  with t1 Suc assms show ?thesis by (auto simp: prepare_steps_def tx_create_empty)
qed simp

section \<open>Recovery of one transaction\<close>

text \<open>The directory with the record and the ledger of the plan published.\<close>

definition published :: "commit_plan \<Rightarrow> disk \<Rightarrow> disk" where
  "published p dk =
     (put_record (plan_path p) (plan_record p) dk)\<lparr>ledger_file := Some (plan_after p)\<rparr>"

lemma published_simps [simp]:
  "ledger_bytes (published p dk) = plan_after p" "record_files (published p dk) (plan_path p) = Some (plan_record p)"
  "index_file (published p dk) = index_file dk" "transactions (published p dk) = transactions dk"
  "ledger_file (published p dk) = Some (plan_after p)"
  by (simp_all add: published_def put_record_def ledger_bytes_def)

lemma plan_readable:
  "plan_sound jcs p dk rs head es ctx grp knd identity raw r \<Longrightarrow> ledger_bytes d = plan_after p \<Longrightarrow>
    readable jcs d (rs @ [raw]) (entry_hash (plan_entry p)) (es @ [plan_entry p])"
  by (auto simp: plan_sound_def readable_def read_verified_def read_ledger_def intro: normalized_snoc)

lemma plan_target:
  assumes "plan_sound jcs p dk rs head es ctx grp knd identity raw r"
  shows "recovery_target (journal_state (plan_journal p) c) = Inr (ctx, plan_path p)"
proof -
  have p: "persisted_record_context grp knd = Inr ctx" "immutable_record_path grp identity = Inr (plan_path p)"
    using assms by (auto simp: plan_sound_def)
  then have "path_component grp" "utf8_ok grp" using group_component by (auto simp: persisted_context_Inr)
  from immutable_record_path_parts(1) [OF p(2) this] p assms show ?thesis
    by (simp add: recovery_target_def plan_sound_def journal_text_def)
qed

lemma plan_journal_load:
  assumes "plan_sound jcs p dk rs head es ctx grp knd identity raw r"
  shows "load_journal (plan_tx p) (Some (journal_bytes (journal_state (plan_journal p) c)))
    = Inr (journal_state (plan_journal p) c)"
proof -
  have c: "map_of PERSISTED_RECORD_CONTEXTS knd = Some ctx" "group ctx = grp"
    and i: "immutable_record_path grp identity = Inr (plan_path p)"
    using assms by (auto simp: plan_sound_def persisted_context_Inr)
  have g: "path_component grp" "utf8_ok grp" using group_component [OF c(1)] c(2) by auto
  have v: "verify_records (rs @ [raw]) = Inr (entry_hash (plan_entry p))" "verify_records rs = Inr head"
    using assms readableD(2) by (auto simp: plan_sound_def)
  show ?thesis
    by (rule load_journal_bytes [of _ _ grp knd identity "plan_path p" "plan_record p" "plan_before p" "plan_after p" "plan_entry p"])
      (use assms g context_tables [OF c(1)] immutable_record_path_parts(2) [OF i g] verified_head_hex [OF v(1)]
         verified_head_hex [OF v(2)] in \<open>auto simp: plan_sound_def\<close>)
qed

lemma check_recovered_published:
  assumes "plan_sound jcs p dk rs head es ctx grp knd identity raw r"
    and "ledger_bytes d = plan_after p" "record_files d (plan_path p) = Some (plan_record p)"
  shows "check_recovered jcs ctx (plan_path p) (journal_state (plan_journal p) c) d = Inr ()"
proof -
  have "read_verified d = Inr (rs @ [raw], entry_hash (plan_entry p))"
    using plan_readable [OF assms(1,2)] by (simp add: readable_def)
  moreover have "py_eq (PDict (to_json r)) (PDict (to_json r))"
    using assms(1) json_val_py_eq_refl unfolding plan_sound_def by blast
  ultimately show ?thesis using assms
    by (simp add: check_recovered_def plan_sound_def journal_text_def validate_recovery_file_def Let_def
        persisted_context_Inr nth_append del: py_eq.simps)
qed

text \<open>The outcome of a completed transaction: everything published, the index current, nothing pending.\<close>

definition completed :: "jcs \<Rightarrow> commit_plan \<Rightarrow> disk \<Rightarrow> dict list \<Rightarrow> disk \<Rightarrow> bool" where
  "completed jcs p dk rs d =
     (\<exists>i. d = (published p dk)\<lparr>index_file := i, transactions := []\<rparr> \<and> index_current jcs rs d)"

lemma index_current_transactions:
  "index_current jcs rs (d\<lparr>transactions := ts\<rparr>) = index_current jcs rs d"
  "index_current jcs rs (with_tx d name t) = index_current jcs rs d"
  by (simp_all add: index_current_def ledger_bytes_def with_tx_def)

text \<open>Rebuilding the index and removing the transaction directory.\<close>

lemma index_and_cleanup:
  assumes "plan_sound jcs p dk rs head es ctx grp knd identity raw r"
  obtains d where "rebuild_index jcs (with_tx ((published p dk)\<lparr>index_file := i\<rparr>) (plan_tx p) t)
      = (Inr (), with_tx d (plan_tx p) t)" "completed jcs p dk (rs @ [raw]) (d\<lparr>transactions := []\<rparr>)"
proof -
  let ?d = "with_tx ((published p dk)\<lparr>index_file := i\<rparr>) (plan_tx p) t"
  have "readable jcs ?d (rs @ [raw]) (entry_hash (plan_entry p)) (es @ [plan_entry p])"
    by (rule plan_readable [OF assms]) simp
  then obtain i' where i': "rebuild_index jcs ?d = (Inr (), ?d\<lparr>index_file := i'\<rparr>)"
      "index_current jcs (rs @ [raw]) (?d\<lparr>index_file := i'\<rparr>)"
    by (rule rebuild_index_ok)
  show thesis
  proof (rule that [of "(published p dk)\<lparr>index_file := i'\<rparr>"])
    show "rebuild_index jcs ?d = (Inr (), with_tx ((published p dk)\<lparr>index_file := i'\<rparr>) (plan_tx p) t)"
      using i'(1) by simp
    show "completed jcs p dk (rs @ [raw]) ((published p dk)\<lparr>index_file := i'\<rparr>\<lparr>transactions := []\<rparr>)"
      using i'(2) unfolding completed_def by (intro exI [of _ i']) (simp add: index_current_transactions)
  qed
qed

lemma cleanup_steps_run: "run_steps (cleanup_steps name) (with_tx d name t) = d\<lparr>transactions := []\<rparr>"
  by (simp add: cleanup_steps_def)

lemma recover_published:
  assumes "plan_sound jcs p dk rs head es ctx grp knd identity raw r"
  obtains d where "recover_transaction jcs (plan_tx p) (journal_state (plan_journal p) c)
      (with_tx ((published p dk)\<lparr>index_file := i\<rparr>) (plan_tx p) t) = (Inr (), d)"
    "completed jcs p dk (rs @ [raw]) d"
proof -
  let ?j = "journal_state (plan_journal p) c" and ?d0 = "(published p dk)\<lparr>index_file := i\<rparr>"
  let ?t = "t\<lparr>journal_file := Some (journal_bytes (dict_put ''state'' (PStr ''COMMITTED'') ?j))\<rparr>"
  obtain d where d: "rebuild_index jcs (with_tx ?d0 (plan_tx p) ?t) = (Inr (), with_tx d (plan_tx p) ?t)"
      "completed jcs p dk (rs @ [raw]) (d\<lparr>transactions := []\<rparr>)"
    by (rule index_and_cleanup [OF assms])
  have ch: "check_recovered jcs ctx (plan_path p) ?j (with_tx ?d0 (plan_tx p) t) = Inr ()"
    by (rule check_recovered_published [OF assms]) simp_all
  have ne: "sha256 (plan_after p) \<noteq> journal_text ?j ''ledger_before_sha256''"
    "journal_text ?j ''record_sha256'' = sha256 (plan_record p)"
    using assms by (auto simp: plan_sound_def journal_text_def)
  have "recover_transaction jcs (plan_tx p) ?j (with_tx ?d0 (plan_tx p) t)
      = (Inr (), run_steps (cleanup_steps (plan_tx p)) (with_tx d (plan_tx p) ?t))"
    using plan_target [OF assms, of c] ch ne d(1)
    by (simp add: recover_transaction_def validate_recovery_file_def)
  with d(2) that show thesis by (simp add: cleanup_steps_run)
qed

text \<open>Rolling forward from either of the two states with the old ledger publishes everything.\<close>

lemma put_record_simps [simp]:
  "ledger_bytes (put_record path bs d) = ledger_bytes d" "record_files (put_record path bs d) path = Some bs"
  "read_verified (put_record path bs d) = read_verified d"
  by (simp_all add: put_record_def ledger_bytes_def read_verified_def read_ledger_def)

lemma roll_forward_ok:
  assumes "plan_sound jcs p dk rs head es ctx grp knd identity raw r"
    and "ledger_stage t = Some (plan_after p)"
    and "d = dk \<and> record_stage t = Some (plan_record p) \<or> d = put_record (plan_path p) (plan_record p) dk"
  shows "\<exists>t'. roll_forward (plan_tx p) (plan_path p) (plan_journal p) (with_tx d (plan_tx p) t)
    = (Inr (), with_tx (published p dk) (plan_tx p) t')"
proof -
  have v: "read_verified dk = Inr (rs, head)" using assms(1) by (simp add: plan_sound_def readable_def)
  have a: "assert_recovery_predecessor (plan_journal p)
      (with_tx (put_record (plan_path p) (plan_record p) dk) (plan_tx p) t') = Inr ()" for t'
    using assms(1) v by (simp add: assert_recovery_predecessor_def plan_sound_def)
  have f: "record_files dk (plan_path p) = None" "journal_text (plan_journal p) ''ledger_after_sha256'' = sha256 (plan_after p)"
    "dict_get (plan_journal p) ''state'' = PStr ''PREPARED''"
    using assms(1) by (auto simp: plan_sound_def journal_text_def)
  from assms(3) show ?thesis
  proof
    assume d: "d = dk \<and> record_stage t = Some (plan_record p)"
    then show ?thesis using assms(2) a f
      by (simp add: roll_forward_def validate_recovery_file_def Let_def published_def) blast
  next
    assume d: "d = put_record (plan_path p) (plan_record p) dk"
    then show ?thesis using assms(2) a f
      by (simp add: roll_forward_def validate_recovery_file_def Let_def published_def) blast
  qed
qed

lemma recover_prepared:
  assumes "plan_sound jcs p dk rs head es ctx grp knd identity raw r"
    and "ledger_stage t = Some (plan_after p)"
    and "d = dk \<and> record_stage t = Some (plan_record p) \<or> d = put_record (plan_path p) (plan_record p) dk"
  obtains d' where "recover_transaction jcs (plan_tx p) (plan_journal p) (with_tx d (plan_tx p) t) = (Inr (), d')"
    "completed jcs p dk (rs @ [raw]) d'"
proof -
  let ?j = "plan_journal p"
  have j0: "journal_state ?j False = ?j" by (simp add: journal_state_def)
  obtain t' where rf: "roll_forward (plan_tx p) (plan_path p) ?j (with_tx d (plan_tx p) t)
      = (Inr (), with_tx (published p dk) (plan_tx p) t')"
    using roll_forward_ok [OF assms] by blast
  have pub: "(published p dk)\<lparr>index_file := index_file dk\<rparr> = published p dk" by (simp add: published_def put_record_def)
  obtain d' where d': "recover_transaction jcs (plan_tx p) ?j (with_tx (published p dk) (plan_tx p) t') = (Inr (), d')"
      "completed jcs p dk (rs @ [raw]) d'"
    using recover_published [OF assms(1), where c = False and i = "index_file dk" and t = t'] unfolding j0 pub by blast
  have g: "journal_text ?j ''record_sha256'' = sha256 (plan_record p)"
    "journal_text ?j ''ledger_before_sha256'' = sha256 (ledger_bytes dk)"
    "record_files dk (plan_path p) = None" "sha256 (plan_after p) \<noteq> sha256 (ledger_bytes dk)"
    using assms(1) by (auto simp: plan_sound_def journal_text_def)
  have lb: "ledger_bytes d = ledger_bytes dk" using assms(3) by auto
  have "recover_transaction jcs (plan_tx p) ?j (with_tx d (plan_tx p) t)
      = recover_transaction jcs (plan_tx p) ?j (with_tx (published p dk) (plan_tx p) t')"
    using assms(3) rf g lb plan_target [OF assms(1), of False]
    by (auto simp: recover_transaction_def validate_recovery_file_def j0)
  with d' that show thesis by simp
qed

section \<open>Crashes\<close>

lemma recover_unlocked_one:
  assumes "journal_file t = Some bs" "load_journal name (Some bs) = Inr j"
    and "recover_transaction jcs name j (with_tx d name t) = (Inr (), d')"
  shows "recover_unlocked jcs (with_tx d name t) = (Inr (1, 0), d')"
  using assms by (simp add: recover_unlocked_def)

lemma recover_unlocked_abandon:
  "journal_file t = None \<Longrightarrow> recover_unlocked jcs (with_tx d name t) = (Inr (0, 1), d\<lparr>transactions := []\<rparr>)"
  by (simp add: recover_unlocked_def)

lemma recover_unlocked_none: "transactions d = [] \<Longrightarrow> recover_unlocked jcs d = (Inr (0, 0), d)"
  by (simp add: recover_unlocked_def)

lemma with_tx_transactions: "with_tx (d\<lparr>transactions := ts\<rparr>) name t = with_tx d name t"
  by (simp add: with_tx_def)

lemma completed_readable:
  assumes "plan_sound jcs p dk rs head es ctx grp knd identity raw r" "completed jcs p dk (rs @ [raw]) d"
  shows "read_verified d = Inr (rs @ [raw], entry_hash (plan_entry p))"
proof -
  have "ledger_bytes d = plan_after p"
    using assms(2) by (auto simp: completed_def ledger_bytes_def)
  then show ?thesis using plan_readable [OF assms(1)] by (simp add: readable_def)
qed

lemma completed_files:
  "completed jcs p dk rs d \<Longrightarrow> record_files d = (record_files dk)(plan_path p \<mapsto> plan_record p) \<and> index_current jcs rs d"
  by (auto simp: completed_def published_def put_record_def)

lemma completed_transactions: "completed jcs p dk rs d \<Longrightarrow> transactions d = []"
  by (auto simp: completed_def)

lemma completed_with_tx:
  assumes "completed jcs p dk rs (d\<lparr>transactions := []\<rparr>)"
  shows "\<exists>i. with_tx d name t = with_tx ((published p dk)\<lparr>index_file := i\<rparr>) name t"
proof -
  from assms obtain i where "d\<lparr>transactions := []\<rparr> = (published p dk)\<lparr>index_file := i, transactions := []\<rparr>"
    by (auto simp: completed_def)
  then have "with_tx d name t = with_tx ((published p dk)\<lparr>index_file := i\<rparr>) name t"
    by (metis with_tx_transactions)
  then show ?thesis by blast
qed

text \<open>The states in which a commit can be interrupted after its stages are written.\<close>

definition publication_state :: "jcs \<Rightarrow> commit_plan \<Rightarrow> disk \<Rightarrow> nat \<Rightarrow> disk" where
  "publication_state jcs p dk m =
     run_steps (take m (publish_steps p @ [\<lambda>dk. snd (rebuild_index jcs dk)] @ cleanup_steps (plan_tx p)))
       (run_steps (prepare_steps p) dk)"

lemma crashed_split:
  "crashed jcs p dk n =
    (if n \<le> length (prepare_steps p) then run_steps (take n (prepare_steps p)) dk
     else publication_state jcs p dk (n - length (prepare_steps p)))"
  by (simp add: crashed_def commit_steps_def publication_state_def del: run_steps_Cons)

lemma publication_states:
  assumes "transactions dk = []"
  shows "publication_state jcs p dk 1 = with_tx dk (plan_tx p)
      \<lparr>record_stage = Some (plan_record p), ledger_stage = Some (plan_after p),
       journal_file = Some (journal_bytes (plan_journal p))\<rparr>"
    "publication_state jcs p dk 2 = with_tx (put_record (plan_path p) (plan_record p) dk) (plan_tx p)
      \<lparr>record_stage = None, ledger_stage = Some (plan_after p),
       journal_file = Some (journal_bytes (plan_journal p))\<rparr>"
    "publication_state jcs p dk 3 = with_tx (published p dk) (plan_tx p)
      \<lparr>record_stage = None, ledger_stage = None, journal_file = Some (journal_bytes (plan_journal p))\<rparr>"
    "publication_state jcs p dk 4 = with_tx (published p dk) (plan_tx p)
      \<lparr>record_stage = None, ledger_stage = None,
       journal_file = Some (journal_bytes (journal_state (plan_journal p) True))\<rparr>"
  using prepare_steps_done [OF assms, of p]
  by (simp_all add: publication_state_def publish_steps_def published_def journal_state_def)

lemma publication_tail:
  assumes "7 \<le> m"
  shows "publication_state jcs p dk m = publication_state jcs p dk 7"
  using assms by (simp add: publication_state_def publish_steps_def cleanup_steps_def)

lemma publication_index:
  assumes "plan_sound jcs p dk rs head es ctx grp knd identity raw r"
  obtains d where "completed jcs p dk (rs @ [raw]) (d\<lparr>transactions := []\<rparr>)"
    "publication_state jcs p dk 5 = with_tx d (plan_tx p)
      \<lparr>record_stage = None, ledger_stage = None,
       journal_file = Some (journal_bytes (journal_state (plan_journal p) True))\<rparr>"
    "publication_state jcs p dk 6 = with_tx d (plan_tx p)
      \<lparr>record_stage = None, ledger_stage = None, journal_file = None\<rparr>"
    "publication_state jcs p dk 7 = d\<lparr>transactions := []\<rparr>"
    "rebuild_index jcs (publication_state jcs p dk 4) = (Inr (), publication_state jcs p dk 5)"
proof -
  let ?t = "\<lparr>record_stage = None, ledger_stage = None,
       journal_file = Some (journal_bytes (journal_state (plan_journal p) True))\<rparr>"
  let ?s = "publication_state jcs p dk"
  have tr: "transactions dk = []" using assms by (simp add: plan_sound_def)
  have pub: "(published p dk)\<lparr>index_file := index_file dk\<rparr> = published p dk" by (simp add: published_def put_record_def)
  obtain d where d: "rebuild_index jcs (with_tx (published p dk) (plan_tx p) ?t) = (Inr (), with_tx d (plan_tx p) ?t)"
      "completed jcs p dk (rs @ [raw]) (d\<lparr>transactions := []\<rparr>)"
    using index_and_cleanup [OF assms, where i = "index_file dk" and t = ?t] unfolding pub by blast
  have "?s 5 = snd (rebuild_index jcs (?s 4))" "?s 6 = tx_update (plan_tx p) (\<lambda>t. t\<lparr>journal_file := None\<rparr>) (?s 5)"
    "?s 7 = tx_remove (plan_tx p) (?s 6)"
    by (simp_all add: publication_state_def publish_steps_def cleanup_steps_def)
  with publication_states(4) [OF tr] d that show thesis by simp
qed

lemma recover_publication:
  assumes "plan_sound jcs p dk rs head es ctx grp knd identity raw r" "1 \<le> m"
  shows "\<exists>res d. recover_unlocked jcs (publication_state jcs p dk m) = (Inr res, d) \<and> completed jcs p dk (rs @ [raw]) d"
proof -
  have tr: "transactions dk = []" using assms(1) by (simp add: plan_sound_def)
  note st = publication_states [OF tr, of jcs p]
  obtain d where d: "completed jcs p dk (rs @ [raw]) (d\<lparr>transactions := []\<rparr>)"
    and s: "publication_state jcs p dk 5 = with_tx d (plan_tx p)
      \<lparr>record_stage = None, ledger_stage = None,
       journal_file = Some (journal_bytes (journal_state (plan_journal p) True))\<rparr>"
      "publication_state jcs p dk 6 = with_tx d (plan_tx p)
      \<lparr>record_stage = None, ledger_stage = None, journal_file = None\<rparr>"
      "publication_state jcs p dk 7 = d\<lparr>transactions := []\<rparr>"
    by (rule publication_index [OF assms(1)])
  have lF: "load_journal (plan_tx p) (Some (journal_bytes (plan_journal p))) = Inr (plan_journal p)"
    using plan_journal_load [OF assms(1), of False] by (simp add: journal_state_def)
  note lT = plan_journal_load [OF assms(1), of True]
  have pre: ?thesis if "publication_state jcs p dk m = with_tx e (plan_tx p) t" "ledger_stage t = Some (plan_after p)"
      "e = dk \<and> record_stage t = Some (plan_record p) \<or> e = put_record (plan_path p) (plan_record p) dk"
      "journal_file t = Some (journal_bytes (plan_journal p))" for e t
    using recover_prepared [OF assms(1) that(2,3)] recover_unlocked_one [OF that(4) lF] unfolding that(1) by metis
  have post: ?thesis if "publication_state jcs p dk m = with_tx ((published p dk)\<lparr>index_file := i\<rparr>) (plan_tx p) t"
      "journal_file t = Some (journal_bytes (journal_state (plan_journal p) c))" for i t c
    using recover_published [OF assms(1), where c = c and i = i and t = t]
      recover_unlocked_one [OF that(2) plan_journal_load [OF assms(1)]] unfolding that(1) by metis
  have pub: "(published p dk)\<lparr>index_file := index_file dk\<rparr> = published p dk" by (simp add: published_def put_record_def)
  consider "m = 1" | "m = 2" | "m = 3" | "m = 4" | "m = 5" | "m = 6" | "7 \<le> m" using assms(2) by linarith
  then show ?thesis
  proof cases
    case 1
    then have e: "publication_state jcs p dk m = publication_state jcs p dk 1" by simp
    show ?thesis by (rule pre [OF trans [OF e st(1)]]) auto
  next
    case 2
    then have e: "publication_state jcs p dk m = publication_state jcs p dk 2" by simp
    show ?thesis by (rule pre [OF trans [OF e st(2)]]) auto
  next
    case 3
    then have e: "publication_state jcs p dk m = publication_state jcs p dk 3" by simp
    show ?thesis
      by (rule post [where c = False and i = "index_file dk"], unfold pub, rule trans [OF e st(3)])
        (simp add: journal_state_def)
  next
    case 4
    then have e: "publication_state jcs p dk m = publication_state jcs p dk 4" by simp
    show ?thesis
      by (rule post [where c = True and i = "index_file dk"], unfold pub, rule trans [OF e st(4)]) simp
  next
    case 5
    obtain i where "with_tx d (plan_tx p)
      \<lparr>record_stage = None, ledger_stage = None,
       journal_file = Some (journal_bytes (journal_state (plan_journal p) True))\<rparr>
      = with_tx ((published p dk)\<lparr>index_file := i\<rparr>) (plan_tx p)
      \<lparr>record_stage = None, ledger_stage = None,
       journal_file = Some (journal_bytes (journal_state (plan_journal p) True))\<rparr>"
      using completed_with_tx [OF d] by blast
    then show ?thesis using post [where c = True] s(1) 5 by simp
  next
    case 6
    then show ?thesis using d s(2) by (simp add: recover_unlocked_abandon)
  next
    case 7
    then show ?thesis using d s(3) publication_tail [OF 7, of jcs p dk]
      by (simp add: recover_unlocked_none)
  qed
qed

text \<open>
  Whatever step a commit is interrupted at, recovery succeeds and leaves the old state or the state
  of the completed commit; once the journal is durable it is the latter.
\<close>

lemma crash_recovery:
  assumes "plan_sound jcs p dk rs head es ctx grp knd identity raw r"
  shows "\<exists>res d. recover_unlocked jcs (crashed jcs p dk n) = (Inr res, d)
    \<and> (if n \<le> length (prepare_steps p) then d = dk else completed jcs p dk (rs @ [raw]) d)"
proof (cases "n \<le> length (prepare_steps p)")
  case True
  have tr: "transactions dk = []" using assms by (simp add: plan_sound_def)
  then have dk: "dk\<lparr>transactions := []\<rparr> = dk" by simp
  from prepare_steps_prefix [OF tr, of n p] True show ?thesis
    using tr dk by (auto simp: crashed_split recover_unlocked_none recover_unlocked_abandon)
next
  case False
  then show ?thesis using recover_publication [OF assms, of "n - length (prepare_steps p)"]
    by (auto simp: crashed_split)
qed

section \<open>Commits that are not interrupted\<close>

lemma execute_plan_ok:
  assumes "plan_sound jcs p dk rs head es ctx grp knd identity raw r"
  shows "\<exists>d. execute_plan jcs p dk = (Inr (plan_entry p), d) \<and> completed jcs p dk (rs @ [raw]) d"
proof -
  have tr: "transactions dk = []" and v: "read_verified dk = Inr (rs, head)"
    using assms by (auto simp: plan_sound_def readable_def)
  obtain d where d: "completed jcs p dk (rs @ [raw]) (d\<lparr>transactions := []\<rparr>)"
    and s: "publication_state jcs p dk 5 = with_tx d (plan_tx p)
      \<lparr>record_stage = None, ledger_stage = None,
       journal_file = Some (journal_bytes (journal_state (plan_journal p) True))\<rparr>"
    and r: "rebuild_index jcs (publication_state jcs p dk 4) = (Inr (), publication_state jcs p dk 5)"
    by (rule publication_index [OF assms])
  have st2: "run_steps (prepare_steps p @ take 2 (publish_steps p)) dk = publication_state jcs p dk 2"
    and st4: "run_steps (drop 2 (publish_steps p)) (publication_state jcs p dk 2) = publication_state jcs p dk 4"
    by (simp_all add: publication_state_def publish_steps_def)
  have "assert_expected_ledger (plan_journal p) (plan_before p) (publication_state jcs p dk 2) = Inr ()"
    using assms v by (simp add: publication_states(2) [OF tr] assert_expected_ledger_def plan_sound_def)
  then have "execute_plan jcs p dk = (Inr (plan_entry p), run_steps (cleanup_steps (plan_tx p)) (publication_state jcs p dk 5))"
    using r by (simp only: execute_plan_def Let_def st2 st4 sbind_simps)
  with d s show ?thesis by (simp add: cleanup_steps_run)
qed

lemma commit_fresh:
  assumes "transactions dk = []" "readable jcs dk rs head es"
    and "decide_commit jcs now txid grp knd r dk = Inr (Fresh p)"
    and "new_record jcs rt flds = Inr r" "json_val (PDict flds)" "utf8_ok txid" "utf8_ok now"
    and "\<not> collision (plan_before p) (plan_after p)"
  shows "\<exists>d raw. commit jcs now txid grp knd r dk = (Inr (plan_entry p), d)
    \<and> raw_entry knd r rs now = Inr raw
    \<and> read_verified d = Inr (rs @ [raw], entry_hash (plan_entry p))
    \<and> record_files d = (record_files dk)(plan_path p \<mapsto> plan_record p)
    \<and> transactions d = [] \<and> payload (plan_entry p) = r \<and> index_current jcs (rs @ [raw]) d"
proof -
  obtain ctx identity raw where p: "plan_sound jcs p dk rs head es ctx grp knd identity raw r"
      "raw_entry knd r rs now = Inr raw" "check_commit grp knd r = Inr (ctx, identity, plan_path p, plan_record p)"
    by (rule decide_commit_sound [OF assms(3,1,2,4-8)])
  obtain d where d: "execute_plan jcs p dk = (Inr (plan_entry p), d)" "completed jcs p dk (rs @ [raw]) d"
    using execute_plan_ok [OF p(1)] by blast
  have "commit jcs now txid grp knd r dk = (Inr (plan_entry p), d)"
    using p(3) assms(1,3) d(1) by (simp add: commit_def recover_unlocked_none)
  moreover have "read_verified d = Inr (rs @ [raw], entry_hash (plan_entry p))"
    by (rule completed_readable [OF p(1) d(2)])
  moreover have "payload (plan_entry p) = r" using p(1) by (simp add: plan_sound_def)
  ultimately show ?thesis using d(2) p(2) by (auto simp: completed_def published_def put_record_def)
qed

text \<open>Committing the same record again returns the same entry and touches nothing.\<close>

lemma commit_again:
  assumes "transactions dk = []" "readable jcs dk rs head es"
    and "decide_commit jcs now txid grp knd r dk = Inr (Fresh p)"
    and "new_record jcs rt flds = Inr r" "json_val (PDict flds)" "utf8_ok txid" "utf8_ok now"
    and "\<not> collision (plan_before p) (plan_after p)"
    and "commit jcs now txid grp knd r dk = (Inr e, d)"
  shows "commit jcs now' txid' grp knd r d = (Inr e, d)"
proof -
  obtain ctx identity raw where p: "plan_sound jcs p dk rs head es ctx grp knd identity raw r"
      "raw_entry knd r rs now = Inr raw" "check_commit grp knd r = Inr (ctx, identity, plan_path p, plan_record p)"
      "filter (same_identity knd (ctx_identity_field ctx) identity) rs = []"
    by (rule decide_commit_sound [OF assms(3,1,2,4-8)])
  have x: "execute_plan jcs p dk = (Inr e, d)"
    using assms(9) p(3) assms(1,3) by (simp add: commit_def recover_unlocked_none)
  then have e: "e = plan_entry p" and d: "completed jcs p dk (rs @ [raw]) d"
    using execute_plan_ok [OF p(1)] by auto
  have rv: "read_verified d = Inr (rs @ [raw], entry_hash (plan_entry p))"
    by (rule completed_readable [OF p(1) d])
  have "dict_get raw k = dict_get (entry_body knd r rs now) k" if "k \<noteq> ''entry_hash''" for k
    using raw_entry_Inr(1) [OF p(2)] that by (metis dict_get_put)
  moreover have "dict_get (to_json r) (ctx_identity_field ctx) = PStr identity"
    using to_json_get [OF _ check_commit_Inr(4) [OF p(3)], where jcs = jcs] new_record_ok [OF assms(4)] by simp
  ultimately have si: "same_identity knd (ctx_identity_field ctx) identity raw"
    by (simp add: same_identity_def)
  have f: "record_files d (plan_path p) = Some (plan_record p)" using d by (auto simp: completed_def)
  have j: "json_val (PDict (to_json r))" "normalize_ledger_entry jcs (PDict raw) = Inr (plan_entry p)"
      "payload (plan_entry p) = r"
    using p(1) unfolding plan_sound_def by blast+
  have "resolve_duplicate (Some (plan_record p)) r (plan_record p) [plan_entry p] = Inr (plan_entry p)"
    using json_val_py_eq_refl [OF j(1)] j(3) by (simp add: resolve_duplicate_def del: py_eq.simps)
  then have "decide_commit jcs now' txid' grp knd r d = Inr (Existing e)"
    using p(3,4) rv f si j(2) e by (simp add: decide_commit_def)
  then show ?thesis using p(3) completed_transactions [OF d] by (simp add: commit_def recover_unlocked_none)
qed

section \<open>Commits that are accepted\<close>

text \<open>
  The payload of a ledger entry is one level deeper than the record, so a record is accepted when
  its JSON form passes the depth bound from one level down.
\<close>

definition entry_depth_ok :: "forge_record \<Rightarrow> bool" where
  "entry_depth_ok r = (as_json_value 1 (PDict (to_json r)) = Inr (PDict (to_json r)))"

definition sealed_entry :: "string \<Rightarrow> forge_record \<Rightarrow> dict list \<Rightarrow> string \<Rightarrow> dict" where
  "sealed_entry knd r rs now =
     dict_put ''entry_hash'' (PStr (sha256 (enc (PDict (entry_body knd r rs now))))) (entry_body knd r rs now)"

lemma raw_entry_ok:
  assumes "verify_records rs = Inr head" "json_val (PDict (to_json r))" "utf8_ok now" "utf8_ok knd"
  shows "raw_entry knd r rs now = Inr (sealed_entry knd r rs now)"
  using json_val_encodable [OF entry_body_json_val [OF assms]]
  by (simp add: raw_entry_def entry_hash_of_def canonical_bytes_def sealed_entry_def Let_def
      del: enc.simps encodable.simps)

lemma sealed_entry_items:
  "sealed_entry knd r rs now =
     [(''entry_hash'', PStr (sha256 (enc (PDict (entry_body knd r rs now))))), (''kind'', PStr knd),
      (''payload'', PDict (to_json r)), (''previous_hash'', last_hash rs),
      (''record_type'', PStr ''ledger_entry''), (''schema_version'', PStr CURRENT_SCHEMA_VERSION),
      (''sequence'', PInt (int (length rs) + 1)), (''timestamp'', PStr now)]"
  unfolding sealed_entry_def by (subst (2) entry_body_def) (simp add: dict_of_def del: enc.simps)

lemma normalize_sealed_entry:
  assumes "verify_records rs = Inr head" "entry_depth_ok r" "map_of LEDGER_KIND_TYPES knd = Some (rtype r)"
    and "normalize jcs (rtype r) (PDict (to_json r)) = Inr r"
  shows "\<exists>e. normalize_ledger_entry jcs (PDict (sealed_entry knd r rs now)) = Inr e"
proof -
  have lh: "last_hash rs = PStr head" by (rule verified_head_last [OF assms(1)])
  have obj: "json_object (PDict (sealed_entry knd r rs now)) = Inr (sealed_entry knd r rs now)"
  proof (rule fixed_json_object)
    show "dict_wf (sealed_entry knd r rs now)" by (simp add: sealed_entry_def)
    show "json_fixed (sealed_entry knd r rs now)"
      using assms(2) lh
      by (simp add: sealed_entry_items json_fixed_def as_json_scalar entry_depth_ok_def del: enc.simps)
  qed
  show ?thesis
    unfolding normalize_ledger_entry_def obj
    using assms(3,4) lh
    by (simp add: sealed_entry_items ledger_source_def dict_get_def dict_del_def Let_def LEDGER_REQUIRED_def keys_def
        entry_fields_def CURRENT_SCHEMA_VERSION_def LEGACY_SCHEMA_VERSION_def del: enc.simps set_filter)
qed

lemma build_entry_ok:
  assumes "verify_records rs = Inr head" "json_val (PDict (to_json r))" "utf8_ok now"
    and "entry_depth_ok r" "map_of LEDGER_KIND_TYPES knd = Some (rtype r)" "schema_version r = CURRENT_SCHEMA_VERSION"
    and "normalize jcs (rtype r) (PDict (to_json r)) = Inr r"
  shows "\<exists>e. build_entry jcs knd r rs now = Inr (sealed_entry knd r rs now, e)"
proof -
  have k: "utf8_ok knd" by (rule utf8_ok_ledger_kind [OF assms(5)])
  obtain e where "normalize_ledger_entry jcs (PDict (sealed_entry knd r rs now)) = Inr e"
    using normalize_sealed_entry [OF assms(1,4,5,7)] by blast
  then show ?thesis
    using assms(5,6) by (simp add: build_entry_def check_entry_context_def raw_entry_ok [OF assms(1-3) k])
qed

text \<open>A new record whose path and identity are free and whose sizes are within the caps is accepted.\<close>

lemma decide_commit_fresh:
  assumes "readable jcs dk rs head es" "new_record jcs rt flds = Inr r" "json_val (PDict flds)" "utf8_ok now"
    and "check_commit grp knd r = Inr (ctx, identity, path, bs)" "entry_depth_ok r"
    and "record_files dk path = None" "filter (same_identity knd (ctx_identity_field ctx) identity) rs = []"
    and "length (enc (PDict (sealed_entry knd r rs now))) + 1 \<le> LEDGER_LINE_BYTE_CAP"
  shows "\<exists>p. decide_commit jcs now txid grp knd r dk = Inr (Fresh p) \<and> plan_path p = path \<and> plan_record p = bs"
proof -
  note rd = readableD [OF assms(1)]
  note j = new_record_json_val [OF assms(2,3)]
  have rt: "rtype r = rt" "schema_version r = CURRENT_SCHEMA_VERSION" using new_record_ok [OF assms(2)] by auto
  note cc = check_commit_Inr [OF assms(5)]
  have k: "map_of LEDGER_KIND_TYPES knd = Some (rtype r)"
    using cc(1,2) context_tables by (auto simp: persisted_context_Inr)
  obtain e where e: "build_entry jcs knd r rs now = Inr (sealed_entry knd r rs now, e)"
    using build_entry_ok [OF rd(2) j assms(4,6) k rt(2)] new_record_normalize [OF assms(2)] rt(1) by blast
  have "json_val (PDict (sealed_entry knd r rs now))"
    using build_entry_facts(2) [OF e rd(2) j assms(4)] new_record_normalize [OF assms(2)] rt(1) by blast
  then have "canonical_bytes (PDict (sealed_entry knd r rs now)) = Inr (enc (PDict (sealed_entry knd r rs now)))"
    using json_val_encodable by (simp add: canonical_bytes_def del: enc.simps encodable.simps json_val.simps)
  with e assms(1,5,7-9) show ?thesis
    by (simp add: decide_commit_def readable_def Let_def del: enc.simps)
qed

end
