(* ===== verification/LedgerAudit.thy ===== *)
theory LedgerAudit
  imports RecordStoreFacts
begin

text \<open>
  The operations of the ledger object as a whole: \<open>append\<close> extends the verified history by exactly
  one entry, and a successful \<open>verify\<close> has found the immutable companion of every entry.
\<close>

section \<open>Appending\<close>

lemma verify_records_Nil [simp]: "verify_records [] = Inr GENESIS"
  by (simp add: verify_records_def)

text \<open>The entries an append starts from are the verified entries of the file.\<close>

lemma append_reads:
  assumes "cache_ok S lg" "collision_free S" "file_bytes file \<in> S"
    and "sbind (read_unlocked_raw lg file) (\<lambda>rs lg.
           if rs = [] then (Inr rs, lg) else sbind (verify_raw_records lg rs) (\<lambda>_ lg. (Inr rs, lg))) = (Inr rs, lg')"
  shows "parse_ledger (file_bytes file) = Inr rs" "\<exists>h. verify_records rs = Inr h"
proof -
  obtain r lg1 where r: "read_unlocked_raw lg file = (r, lg1)" by fastforce
  note t = read_transparent [OF assms(1-3) r]
  from assms(4) r obtain rs1 where rs1: "r = Inr rs1" by (cases r) (auto simp: sbind_def)
  obtain v lg2 where v: "verify_raw_records lg1 rs1 = (v, lg2)" by fastforce
  have tv: "v = verify_records rs1" using verify_transparent(1) [OF t(2) assms(2) _ v] t(3) rs1 by blast
  have "rs1 = rs \<and> (rs1 = [] \<or> (\<exists>h. v = Inr h))"
    using assms(4) r rs1 v by (cases v) (auto simp: sbind_def split: if_splits)
  with t(1) rs1 tv show "parse_ledger (file_bytes file) = Inr rs" "\<exists>h. verify_records rs = Inr h" by auto
qed

lemma append_sound:
  assumes "cache_ok S lg" "collision_free S" "file_bytes file \<in> S"
    and "append jcs now lg file knd pl = (Inr e, lg', file')"
    and "json_val (PDict (to_json pl))" "utf8_ok now" "normalize jcs (rtype pl) (PDict (to_json pl)) = Inr pl"
    and "length (file_bytes file') \<le> length (file_bytes file) + LEDGER_LINE_BYTE_CAP"
  shows "\<exists>rs h raw. parse_ledger (file_bytes file) = Inr rs \<and> verify_records rs = Inr h
    \<and> file_bytes file' = file_bytes file @ enc (PDict raw) @ [NL]
    \<and> parse_ledger (file_bytes file') = Inr (rs @ [raw]) \<and> verify_records (rs @ [raw]) = Inr (entry_hash e)
    \<and> payload e = pl \<and> kind e = knd \<and> sequence e = int (length rs) + 1 \<and> previous_hash e = h"
proof -
  from assms(4) obtain rs raw bs where
      s: "sbind (read_unlocked_raw lg file) (\<lambda>rs lg.
           if rs = [] then (Inr rs, lg) else sbind (verify_raw_records lg rs) (\<lambda>_ lg. (Inr rs, lg))) = (Inr rs, lg')"
      and c: "check_entry_context knd pl = Inr ()" "raw_entry knd pl rs now = Inr raw" "canonical_bytes (PDict raw) = Inr bs"
        "normalize_ledger_entry jcs (PDict raw) = Inr e" "file_bytes file' = file_bytes file @ bs @ [NL]"
    by (auto simp: append_def file_bytes_def split: sum.splits prod.splits option.splits)
  note rd = append_reads [OF assms(1-3) s]
  obtain h where h: "verify_records rs = Inr h" using rd(2) by blast
  have "build_entry jcs knd pl rs now = Inr (raw, e)" using c by (simp add: build_entry_def)
  note be = build_entry_facts [OF this h assms(5,6,7)]
  have bs: "bs = enc (PDict raw)" using c(3) by (simp add: canonical_bytes_def del: enc.simps split: if_splits)
  have "parse_ledger (file_bytes file') = Inr (rs @ [raw])"
    using parse_ledger_extend [OF rd(1) be(2)] assms(8) c(5) bs by (simp del: enc.simps)
  with rd(1) h c(5) bs raw_entry_extends [OF h be(1)] be show ?thesis by (metis (full_types))
qed

section \<open>Auditing\<close>

text \<open>The immutable companion of an entry is present and carries the payload of the entry.\<close>

definition companion_ok :: "jcs \<Rightarrow> (string list \<rightharpoonup> bytes) \<Rightarrow> ledger_entry \<Rightarrow> bool" where
  "companion_ok jcs files e =
     (\<exists>ctx identity path bs r. map_of PERSISTED_RECORD_CONTEXTS (kind e) = Some ctx
        \<and> rget (payload e) (ctx_identity_field ctx) = PStr identity
        \<and> immutable_record_path (group ctx) identity = Inr path \<and> files path = Some bs
        \<and> load_record_file jcs (group ctx) IMMUTABLE_RECORD_BYTE_CAP (Some bs) = Inr r
        \<and> py_eq (PDict (to_json r)) (PDict (to_json (payload e)))
        \<and> (entry_schema_version e = CURRENT_SCHEMA_VERSION \<longrightarrow>
             (\<exists>c. canonical_bytes (PDict (to_json (payload e))) = Inr c \<and> bs = c @ [NL])))"

lemma verify_immutable_record_ok:
  assumes "verify_immutable_record jcs files e = Inr ()"
  shows "companion_ok jcs files e"
proof -
  from assms obtain ctx where ctx: "map_of PERSISTED_RECORD_CONTEXTS (kind e) = Some ctx"
    unfolding verify_immutable_record_def by (auto split: option.splits)
  from assms ctx obtain identity where i: "rget (payload e) (ctx_identity_field ctx) = PStr identity"
    unfolding verify_immutable_record_def by (auto split: option.splits)
  from assms ctx i obtain path bs where p: "immutable_record_path (group ctx) identity = Inr path" "files path = Some bs"
    unfolding verify_immutable_record_def by (auto split: option.splits if_splits)
  let ?load = "load_record_file jcs (group ctx) IMMUTABLE_RECORD_BYTE_CAP (Some bs)"
  from assms ctx i p obtain r where r: "?load = Inr r"
    unfolding verify_immutable_record_def by (cases ?load) (auto split: exn.splits if_splits)
  from assms ctx i p r have "py_eq (PDict (to_json r)) (PDict (to_json (payload e)))"
      "entry_schema_version e = CURRENT_SCHEMA_VERSION \<longrightarrow>
         (\<exists>c. canonical_bytes (PDict (to_json (payload e))) = Inr c \<and> bs = c @ [NL])"
    unfolding verify_immutable_record_def by (auto simp del: py_eq.simps split: if_splits)
  with ctx i p r show ?thesis unfolding companion_ok_def by blast
qed

lemma verify_audits:
  assumes "cache_ok S lg" "collision_free S" "file_bytes (ledger_file dk) \<in> S"
    and "verify jcs lg dk = (Inr (n, head), lg')"
  shows "\<exists>rs es. read_verified dk = Inr (rs, head) \<and> normalized jcs rs es \<and> n = length rs
    \<and> transactions dk = [] \<and> (\<forall>e \<in> set es. companion_ok jcs (record_files dk) e)"
proof -
  have tr: "transactions dk = []" using assms(4) by (auto simp: verify_def require_recovered_def ensure_def sbind_def split: if_splits)
  obtain r lg1 where r: "read_unlocked_raw lg (ledger_file dk) = (r, lg1)" by fastforce
  note t = read_transparent [OF assms(1-3) r]
  from assms(4) r tr obtain rs where rs: "r = Inr rs"
    by (cases r) (auto simp: verify_def require_recovered_def)
  obtain v lg2 where v: "verify_raw_records lg1 rs = (v, lg2)" by fastforce
  have tv: "v = verify_records rs" using verify_transparent(1) [OF t(2) assms(2) _ v] t(3) rs by blast
  from assms(4) r tr rs v obtain h es where h: "v = Inr h" "normalized jcs rs es" "n = length rs" "h = head"
      "verify_immutable_records jcs (record_files dk) es = Inr ()"
    by (cases v) (auto simp: verify_def require_recovered_def normalized_def)
  have "read_verified dk = Inr (rs, head)"
    using t(1) rs tv h by (simp add: read_verified_def read_ledger_def ledger_bytes_def)
  moreover have "\<forall>e \<in> set es. companion_ok jcs (record_files dk) e"
    using h(5) verify_immutable_record_ok by (auto simp: verify_immutable_records_def run_checks_eq_Inr)
  ultimately show ?thesis using h tr by blast
qed

end
