(* ===== verification/Samples.thy ===== *)
theory Samples
  imports CrashRecovery LedgerAudit
begin

text \<open>
  Concrete records and files: a workflow action, an empty state directory, and the instance of the
  canonicalizer parameter that encodes with the program's own \<open>canonical_bytes\<close>. Digests are kept
  symbolic; only their length is used.
\<close>

definition sample_jcs :: jcs where
  "sample_jcs d = canonical_bytes (PDict d)"

definition sample_fields :: dict where
  "sample_fields =
     [(''candidate_identity'', PStr ''candidate:1''), (''mode'', PStr ''development''),
      (''protocol_request_identity'', PNone), (''requested_at'', PStr ''2024-01-01T00:00:00+00:00''),
      (''workflow'', PStr ''unit-tests'')]"

definition sample_identity :: string where
  "sample_identity = ''workflow-action:'' @ sha256 (enc (PDict
     ((''candidate_identity'', PStr ''candidate:1'') # (''mode'', PStr ''development'') #
      (''protocol_request_identity'', PNone) # (''record_type'', PStr ''workflow_action'') #
      (''requested_at'', PStr ''2024-01-01T00:00:00+00:00'') # (''schema_version'', PStr ''1'') #
      [(''workflow'', PStr ''unit-tests'')])))"

definition sample_record :: forge_record where
  "sample_record = model WORKFLOW_ACTION ((''action_id'', PStr sample_identity) # sample_fields) ''1''"

definition sample_disk :: disk where
  "sample_disk = \<lparr>ledger_file = None, index_file = None, record_files = Map.empty, transactions = []\<rparr>"

definition sample_now :: string where
  "sample_now = ''2024-01-02T00:00:00+00:00''"

definition sample_txid :: string where
  "sample_txid = ''0123456789abcdef0123456789abcdef''"

lemmas sample_defs = sample_fields_def sample_record_def sample_disk_def sample_now_def sample_txid_def

lemma sample_fields_json [simp]: "json_val (PDict sample_fields)"
  by (simp add: sample_fields_def dict_wf_def)

lemma sample_texts [simp]: "utf8_ok sample_now" "utf8_ok sample_txid"
  by (simp_all add: sample_now_def sample_txid_def)

lemma sample_object: "json_object (PDict sample_fields) = Inr sample_fields"
  by (rule fixed_json_object) (simp_all add: sample_fields_def dict_wf_def json_fixed_def as_json_scalar)

lemma sample_derive: "derive_record_identity WORKFLOW_ACTION sample_fields = Inr sample_identity"
  by (simp add: derive_record_identity_def spec_of_def workflow_action_spec_def identity_projection_def sample_fields_def
      as_json_value.simps metadata_dict_def CURRENT_SCHEMA_VERSION_def local_json_identity_def canonical_bytes_def
      sample_identity_def del: enc.simps)

lemma sample_validates:
  "validate_fields jcs WORKFLOW_ACTION ((''action_id'', PStr sample_identity) # sample_fields) = Inr ()"
  by (simp add: sample_fields_def keys_def dict_get_def validate_fields_def spec_of_def workflow_action_spec_def
      validate_shape_def allowed_def workflow_action_strings_def nonempty_str_def status_is_valid_def
      validate_type_rules_def ensure_in_def in_strs_def sample_identity_def)

lemma sample_new_record: "new_record jcs WORKFLOW_ACTION sample_fields = Inr sample_record"
proof -
  have "dict_put ''action_id'' (PStr sample_identity) sample_fields = (''action_id'', PStr sample_identity) # sample_fields"
    "dict_get sample_fields ''action_id'' = PNone" "''record_type'' \<notin> set (keys sample_fields)"
    "''schema_version'' \<notin> set (keys sample_fields)"
    by (simp_all add: sample_fields_def dict_get_def keys_def)
  then show ?thesis
    by (simp add: new_record_def sample_object sample_derive spec_of_def workflow_action_spec_def sample_validates
        sample_record_def CURRENT_SCHEMA_VERSION_def)
qed

lemma sample_ok: "record_ok jcs sample_record" "rtype sample_record = WORKFLOW_ACTION"
    "schema_version sample_record = CURRENT_SCHEMA_VERSION" "json_val (PDict (to_json sample_record))"
  using new_record_ok [OF sample_new_record] new_record_json_val [OF sample_new_record sample_fields_json] by auto

lemma sample_identity_facts: "sample_identity \<noteq> []" "length sample_identity = 80"
    "sample_identity \<notin> {''.'', ''..''}"
  by (simp_all add: sample_identity_def del: enc.simps)

lemma sample_to_json:
  "to_json sample_record =
    [(''action_id'', PStr sample_identity), (''candidate_identity'', PStr ''candidate:1''),
     (''mode'', PStr ''development''), (''protocol_request_identity'', PNone),
     (''record_type'', PStr ''workflow_action''), (''requested_at'', PStr ''2024-01-01T00:00:00+00:00''),
     (''schema_version'', PStr ''1''), (''workflow'', PStr ''unit-tests'')]"
  by (simp add: to_json_def sample_record_def model_def metadata_dict_def thaw_items_def freeze_items_def sample_fields_def)

lemma sample_depth: "entry_depth_ok sample_record"
  by (simp add: entry_depth_ok_def sample_to_json as_json_value.simps dict_of_def)

text \<open>Sizes: an encoded text has at most six bytes per byte, and two quotes.\<close>

lemma length_enc_str: "length (enc_str s) \<le> 6 * length s + 2"
proof -
  have "length (concat (map esc_char s)) \<le> 6 * length s"
  proof (induction s)
    case (Cons c s)
    have "length (esc_char c) \<le> 6" by (simp add: esc_char_def)
    with Cons show ?case by simp
  qed simp
  then show ?thesis by (simp add: enc_str_def)
qed

lemma sample_size: "length (enc (PDict (to_json sample_record))) \<le> 3000"
  using length_enc_str [of sample_identity] by (simp add: sample_to_json sample_identity_facts enc_str_def esc_char_def)

lemma sample_readable: "readable jcs sample_disk [] GENESIS []"
  by (simp add: readable_def read_verified_def read_ledger_def ledger_bytes_def sample_disk_def verify_records_def
      normalized_def)

definition sample_context :: persisted_context where
  "sample_context = \<lparr>group = ''workflow-actions'', ledger_kind = ''workflow_action'',
     ctx_record_type = WORKFLOW_ACTION, ctx_identity_field = ''action_id''\<rparr>"

lemma sample_check_commit:
  "\<exists>path. check_commit ''workflow-actions'' ''workflow_action'' sample_record =
    Inr (sample_context, sample_identity, path, enc (PDict (to_json sample_record)) @ [NL])"
proof -
  have "persisted_record_context ''workflow-actions'' ''workflow_action'' = Inr sample_context"
    by (simp add: persisted_record_context_def PERSISTED_RECORD_CONTEXTS_def sample_context_def)
  moreover have "rget sample_record ''action_id'' = PStr sample_identity"
    by (simp add: sample_record_def sample_fields_def dict_get_def)
  moreover have "\<exists>path. immutable_record_path ''workflow-actions'' sample_identity = Inr path"
  proof -
    have "\<not> utf8_cont (CHR ''w'')" by (simp add: utf8_cont_def)
    then have "filter (\<lambda>c. \<not> utf8_cont c) sample_identity \<noteq> []" by (simp add: sample_identity_def)
    then show ?thesis using sample_identity_facts by (simp add: immutable_record_path_def safe_record_identity_def)
  qed
  moreover have "record_bytes sample_record = Inr (enc (PDict (to_json sample_record)) @ [NL])"
    using json_val_encodable [OF sample_ok(4)]
    by (simp add: record_bytes_def canonical_bytes_def del: enc.simps encodable.simps)
  ultimately show ?thesis
    using sample_size sample_ok sample_identity_facts(1)
    by (auto simp: check_commit_def IMMUTABLE_RECORD_BYTE_CAP_def sample_context_def simp del: enc.simps json_val.simps)
qed

lemma sample_line: "length (enc (PDict (sealed_entry ''workflow_action'' sample_record [] sample_now))) + 1 \<le> LEDGER_LINE_BYTE_CAP"
proof -
  have l: "length (enc_str (sha256 x)) \<le> 386" "length (enc_str GENESIS) \<le> 386" for x
    using length_enc_str [of "sha256 x"] length_enc_str [of GENESIS] by (auto simp: GENESIS_def)
  have "length (enc_items (to_json sample_record)) \<le> 3000" using sample_size by simp
  moreover have "length (enc_str (sha256 (enc (PDict (entry_body ''workflow_action'' sample_record [] sample_now))))) \<le> 386"
    by (rule l(1))
  ultimately show ?thesis using l(2)
    by (simp add: sealed_entry_items last_hash_def LEDGER_LINE_BYTE_CAP_def enc_str_def [of "_ # _"]
        esc_char_def sample_now_def CURRENT_SCHEMA_VERSION_def int_repr_def digits_of.simps [of "Suc 0"])
qed

lemma sample_decide:
  obtains p where "decide_commit jcs sample_now sample_txid ''workflow-actions'' ''workflow_action'' sample_record sample_disk
      = Inr (Fresh p)"
proof -
  obtain path where c: "check_commit ''workflow-actions'' ''workflow_action'' sample_record =
      Inr (sample_context, sample_identity, path, enc (PDict (to_json sample_record)) @ [NL])"
    using sample_check_commit by blast
  have "record_files sample_disk path = None" by (simp add: sample_disk_def)
  then show thesis
    using decide_commit_fresh [OF sample_readable sample_new_record sample_fields_json sample_texts(1) c sample_depth _ _ sample_line, where jcs = jcs and txid = sample_txid]
      that by auto
qed

text \<open>The ledger after that commit.\<close>

definition sample_entry :: dict where
  "sample_entry = sealed_entry ''workflow_action'' sample_record [] sample_now"

lemma sample_entry_facts:
  "raw_entry ''workflow_action'' sample_record [] sample_now = Inr sample_entry" "json_val (PDict sample_entry)"
  "parse_ledger (enc (PDict sample_entry) @ [NL]) = Inr [sample_entry]"
  "verify_records [sample_entry] = Inr (sha256 (entry_content sample_entry))"
proof -
  have k: "utf8_ok ''workflow_action''" by simp
  show r: "raw_entry ''workflow_action'' sample_record [] sample_now = Inr sample_entry"
    unfolding sample_entry_def by (rule raw_entry_ok [OF verify_records_Nil sample_ok(4) sample_texts(1) k])
  show j: "json_val (PDict sample_entry)"
    by (rule raw_entry_json_val [OF r verify_records_Nil sample_ok(4) sample_texts(1) k])
  show "parse_ledger (enc (PDict sample_entry) @ [NL]) = Inr [sample_entry]"
    using parse_ledger_extend [OF parse_ledger_Nil j] sample_line by (simp add: sample_entry_def del: enc.simps)
  show "verify_records [sample_entry] = Inr (sha256 (entry_content sample_entry))"
    using raw_entry_extends [OF verify_records_Nil r] by simp
qed

lemma sample_normalizes: "\<exists>e. normalize_ledger_entry jcs (PDict sample_entry) = Inr e"
proof -
  have "map_of LEDGER_KIND_TYPES ''workflow_action'' = Some (rtype sample_record)"
    by (simp add: LEDGER_KIND_TYPES_def sample_ok)
  moreover have "normalize jcs (rtype sample_record) (PDict (to_json sample_record)) = Inr sample_record"
    unfolding sample_ok(2) by (rule new_record_normalize [OF sample_new_record])
  ultimately show ?thesis
    unfolding sample_entry_def by (rule normalize_sealed_entry [OF verify_records_Nil sample_depth])
qed

lemma sample_append:
  obtains e lg' where "append jcs sample_now new_ledger None ''workflow_action'' sample_record
      = (Inr e, lg', Some (enc (PDict sample_entry) @ [NL]))"
proof -
  obtain e where e: "normalize_ledger_entry jcs (PDict sample_entry) = Inr e" using sample_normalizes by blast
  have "check_entry_context ''workflow_action'' sample_record = Inr ()"
    by (simp add: check_entry_context_def LEDGER_KIND_TYPES_def sample_ok)
  moreover have "canonical_bytes (PDict sample_entry) = Inr (enc (PDict sample_entry))"
    using json_val_encodable [OF sample_entry_facts(2)] by (simp add: canonical_bytes_def del: enc.simps encodable.simps)
  ultimately have "append jcs sample_now new_ledger None ''workflow_action'' sample_record
      = (Inr e, new_ledger\<lparr>cached_digest := Some (sha256 []), cached_raw := Some []\<rparr>, Some (enc (PDict sample_entry) @ [NL]))"
    using sample_entry_facts(1) e by (simp add: append_def read_unlocked_raw_def new_ledger_def del: enc.simps)
  with that show thesis by blast
qed

lemma sample_bound_content: "\<exists>p. bound_content sample_record = Inr p \<and> json_val (PDict p)"
proof -
  have "thaw_items (rec_fields sample_record) = (''action_id'', PStr sample_identity) # sample_fields"
    by (simp add: sample_record_def model_def thaw_items_def freeze_items_def sample_fields_def)
  then show ?thesis
    by (simp add: bound_content_def sample_ok(2) identity_projection_def spec_of_def workflow_action_spec_def sample_fields_def
        as_json_value.simps metadata_dict_def CURRENT_SCHEMA_VERSION_def dict_wf_def)
qed

text \<open>A passing assurance assessment.\<close>

definition sample_assurance_fields :: dict where
  "sample_assurance_fields =
     [(''action_identity'', PStr ''workflow-action:1''), (''action_kind'', PStr ''workflow_action''),
      (''assessed_at'', PStr ''2024-01-01T00:00:00+00:00''), (''assessment_id'', PStr ''execution-assurance:1''),
      (''assurance_status'', PStr ''PASS''), (''binding_identity'', PStr ''execution-receipt-binding:1''),
      (''candidate_identity'', PStr ''candidate:1''), (''policy_identity'', PNone),
      (''project_identity'', PStr ''project:1''), (''reasons'', PList []),
      (''requested_properties'', PList [PStr ''containerization'']), (''unmet_properties'', PList [])]"

definition sample_assurance :: forge_record where
  "sample_assurance = model EXECUTION_ASSURANCE sample_assurance_fields CURRENT_SCHEMA_VERSION"

lemma sample_assurance_ok:
  "record_ok jcs sample_assurance" "rtype sample_assurance = EXECUTION_ASSURANCE"
  "dict_get (rec_fields sample_assurance) ''assurance_status'' = PStr ''PASS''"
proof -
  have "validate_fields jcs EXECUTION_ASSURANCE sample_assurance_fields = Inr ()"
    by (simp add: validate_fields_def spec_of_def execution_assurance_spec_def validate_shape_def allowed_def
        sample_assurance_fields_def keys_def dict_get_def nonempty_str_def execution_assurance_strings_def
        status_is_valid_def STATUSES_def validate_type_rules_def validate_execution_assurance_def Let_def
        RECEIPT_ACTION_KINDS_def ASSURANCE_REQUEST_PROPERTIES_def ensure_in_def in_strs_def)
  moreover have "plain (PDict sample_assurance_fields)" by (simp add: sample_assurance_fields_def dict_wf_def)
  ultimately show "record_ok jcs sample_assurance"
    unfolding sample_assurance_def by (intro record_ok_model) auto
  show "rtype sample_assurance = EXECUTION_ASSURANCE" by (simp add: sample_assurance_def)
  show "dict_get (rec_fields sample_assurance) ''assurance_status'' = PStr ''PASS''"
    by (simp add: sample_assurance_def sample_assurance_fields_def dict_get_def freeze_items_def)
qed

end
