(* ===== verification/StateMachine.thy ===== *)
theory StateMachine
  imports Records
begin

text \<open>
  The lifecycle state machine (state_machine.py): the projection of a ledger history to one coherent
  view, and the inputs it is compared with. The object is the record \<open>state_machine\<close>: the arguments
  of the constructor, the projection it computes, and the preflight flag.

  Blockers are their codes; messages are prose. The payloads of a history are valid records, so a
  field read by subscript is a required field and \<open>rget\<close> does not reach its default. \<open>str\<close> of a
  composite value is the empty text here, which is no identity.

  The native adapter runs an external program. It is a record of functions, one per method the state
  machine calls; a method that \<open>getattr\<close> may not find is an option.
\<close>

section \<open>Data\<close>

datatype lifecycle_stage =
    NO_EPOCH
  | EPOCH_ACTIVE
  | CANDIDATE_REGISTERED
  | EVIDENCE_INCOMPLETE
  | CANDIDATE_READY
  | CANDIDATE_SELECTED
  | CANDIDATE_REJECTED
  | CANDIDATE_FROZEN
  | EVALUATION_COMPLETE
  | BUNDLE_COMPLETE
  | AMBIGUOUS_HISTORY

type_synonym blocker = string

record evidence_readiness =
  ev_required :: "string list"
  ev_present :: "string list"
  ev_missing :: "string list"
  ev_unknown :: "string list"
  ev_failed :: "string list"
  ev_stale :: "string list"
  ev_noncomparable :: "string list"
  ev_records :: "(string \<times> string list) list"
  ev_ready :: bool
  ev_status :: string
  ev_policy_identity :: string
  ev_policy_error :: "string option"

definition evidence_blocker :: "evidence_readiness \<Rightarrow> blocker option" where
  "evidence_blocker ev =
     (if ev_policy_error ev \<noteq> None then Some ''EVIDENCE_PLAN_INVALID''
      else if ev_failed ev \<noteq> [] then Some ''EVIDENCE_FAILED''
      else if ev_missing ev \<noteq> [] then Some ''EVIDENCE_INCOMPLETE''
      else if ev_unknown ev \<noteq> [] then Some ''EVIDENCE_UNKNOWN''
      else if ev_stale ev \<noteq> [] then Some ''EVIDENCE_STALE''
      else if ev_noncomparable ev \<noteq> [] then Some ''EVIDENCE_NOT_COMPARABLE''
      else None)"

record lifecycle_projection =
  stage :: lifecycle_stage
  active_epoch :: "forge_record option"
  epoch_status :: string
  superseded_epochs :: "string list"
  current_candidate :: "forge_record option"
  candidate_status :: string
  candidate_freshness :: string
  candidate_lineage :: "string list"
  evidence :: evidence_readiness
  disposition :: "forge_record option"
  disposition_status :: string
  freeze :: "forge_record option"
  freeze_status :: string
  evaluations :: "forge_record list"
  evaluation_status :: string
  reconciliation_status :: string
  bundles :: "forge_record list"
  bundle_status :: string
  limitations :: "blocker list"

section \<open>The native adapter\<close>

record native_evidence =
  ne_records :: "forge_record list"
  ne_freshness :: string
  ne_comparable :: bool
  ne_environment_match :: bool
  ne_policy_match :: bool
  ne_authority_match :: bool

record native_requirement =
  nr_identity :: bytes
  nr_classification :: string
  nr_observed_count :: nat
  nr_stale :: bool
  nr_noncomparable :: bool

record native_readiness =
  nv_requirements :: "native_requirement list"
  nv_status :: string
  nv_ready :: bool
  nv_valid :: bool

datatype native_event =
    EpochStarted string pyval
  | CandidateRegistered string string pyval
  | EvidenceObserved string string
  | CandidateSelected string
  | CandidateRejected string
  | CandidateFrozen string
  | EvaluationRecorded string string

record native_lifecycle =
  nl_stage :: string
  nl_active_epoch :: bytes
  nl_parent_epoch :: bytes
  nl_current_candidate :: bytes
  nl_parent_candidate :: bytes
  nl_disposition :: string
  nl_freshness :: string
  nl_lineage_ok :: bool

record native_step =
  ns_next_stage :: string
  ns_status :: string
  ns_reason :: int

record bundle_request =
  br_requested_candidate :: "string option"
  br_current_candidate :: "string option"
  br_candidate_present :: bool
  br_candidate_matches :: bool
  br_candidate_current :: bool
  br_selected :: bool
  br_frozen :: bool
  br_freeze_current :: bool
  br_mode :: string
  br_request_valid :: bool
  br_evidence_status :: string
  br_evidence_ready :: bool

record native_bundle =
  nb_ready :: bool
  nb_reason :: string
  nb_valid :: bool

record native_adapter =
  readiness_projection :: "((string \<times> native_evidence) list \<Rightarrow> bool \<Rightarrow> bool \<Rightarrow> native_readiness res) option"
  native_lifecycle_projection :: "(native_event list \<Rightarrow> string \<Rightarrow> nat \<Rightarrow> native_lifecycle res) option"
  lifecycle_preflight :: "string \<Rightarrow> string \<Rightarrow> string \<Rightarrow> native_step res"
  bundle_precondition_projection :: "bundle_request \<Rightarrow> native_bundle res"

section \<open>Inputs\<close>

record machine_inputs =
  mode :: string
  history :: "ledger_entry list"
  current_candidate_identity :: string
  current_authority_identities :: "(string \<times> string) list"
  current_freeze_bindings :: "(string \<times> string) list"
  selection_policy_identity :: string
  required_evidence :: "string list"
  selection_policy_error :: "string option"
  evidence_freshness :: "string \<rightharpoonup> string"
  evidence_comparability :: "string \<rightharpoonup> bool option"
  evidence_environment_keys :: "string \<rightharpoonup> string list"
  evidence_environment_identities :: "string \<rightharpoonup> string"
  evidence_policy_identities :: "string \<rightharpoonup> string"
  native :: "native_adapter option"

record state_machine =
  inputs :: machine_inputs
  projection :: lifecycle_projection
  native_preflight_enabled :: bool

text \<open>What the constructor makes of its arguments: requirements once each, environment keys sorted.\<close>

definition prepare_inputs :: "machine_inputs \<Rightarrow> machine_inputs" where
  "prepare_inputs a =
     a\<lparr>required_evidence := dedup_first (required_evidence a),
       evidence_environment_keys := (\<lambda>name. map_option sort (evidence_environment_keys a name))\<rparr>"

definition indexed :: "machine_inputs \<Rightarrow> (nat \<times> forge_record) list" where
  "indexed m = enumerate 0 (map payload (history m))"

definition indexed_of :: "machine_inputs \<Rightarrow> record_type \<Rightarrow> (nat \<times> forge_record) list" where
  "indexed_of m rt = filter (\<lambda>p. rtype (snd p) = rt) (indexed m)"

text \<open>The class of a record is determined by its type, so the \<open>isinstance\<close> tests repeat the selection.\<close>

definition records_of :: "machine_inputs \<Rightarrow> record_type \<Rightarrow> forge_record list" where
  "records_of m rt = map snd (indexed_of m rt)"

definition identity_text :: "forge_record \<Rightarrow> string" where
  "identity_text r =
     (case record_identity r of
        Some s \<Rightarrow> if s = [] then record_type_value (rtype r) @ '':without-identity'' else s
      | None \<Rightarrow> record_type_value (rtype r) @ '':without-identity'')"

text \<open>\<open>str(record[field])\<close>.\<close>

definition text_of :: "forge_record \<Rightarrow> string \<Rightarrow> string" where
  "text_of r field = py_str (rget r field)"

definition str_dict :: "(string \<times> string) list \<Rightarrow> dict" where
  "str_dict m = dict_of (map (\<lambda>p. (fst p, PStr (snd p))) m)"

text \<open>\<open>isinstance(authority, Mapping) and dict(authority) == expected\<close>.\<close>

definition authority_matches :: "pyval \<Rightarrow> (string \<times> string) list \<Rightarrow> bool" where
  "authority_matches authority expected =
     (case mapping_items authority of
        None \<Rightarrow> False
      | Some d \<Rightarrow> py_eq (PDict d) (PDict (str_dict expected)))"

section \<open>Epochs and candidates\<close>

fun epoch_scan :: "bool \<Rightarrow> string option \<Rightarrow> string list \<Rightarrow> forge_record list \<Rightarrow> bool" where
  "epoch_scan coherent previous known [] = coherent"
| "epoch_scan coherent previous known (raw # rest) =
     (let epoch_id = text_of raw ''epoch_id'';
          parent = rget raw ''parent_epoch'';
          linked = (case previous of None \<Rightarrow> parent = PNone | Some p \<Rightarrow> parent = PStr p)
      in epoch_scan (coherent \<and> epoch_id \<notin> set known \<and> linked) (Some epoch_id) (epoch_id # known) rest)"

text \<open>The active epoch, its status, the superseded epochs, and the limitations found.\<close>

definition epoch_projection :: "machine_inputs \<Rightarrow> forge_record option \<times> string \<times> string list \<times> blocker list" where
  "epoch_projection m =
     (let epochs = records_of m EPOCH;
          coherent = epoch_scan True None [] epochs
      in if epochs = [] then (None, ''absent'', [], [])
         else (Some (last epochs), if coherent then ''active'' else ''ambiguous'',
               map (\<lambda>r. text_of r ''epoch_id'') (butlast epochs),
               if coherent then [] else [''EPOCH_LINEAGE_CONFLICT'']))"

text \<open>\<open>{str(item["candidate_id"]): item for item in candidates}\<close>: the last record of an identity counts.\<close>

definition known_candidates :: "forge_record list \<Rightarrow> (string \<times> forge_record) list" where
  "known_candidates candidates = rev (map (\<lambda>r. (text_of r ''candidate_id'', r)) candidates)"

fun candidate_scan :: "(string \<times> forge_record) list \<Rightarrow> string \<Rightarrow> bool \<Rightarrow> string option \<Rightarrow> forge_record list \<Rightarrow> bool" where
  "candidate_scan known epoch_id coherent previous [] = coherent"
| "candidate_scan known epoch_id coherent previous (item # rest) =
     (let candidate_id = text_of item ''candidate_id'';
          parent = rget item ''parent_candidate'';
          linked = (case previous of None \<Rightarrow> parent = PNone | Some p \<Rightarrow> parent = PStr p);
          placed = (parent = PNone
                    \<or> (case map_of known (py_str parent) of
                         None \<Rightarrow> False
                       | Some r \<Rightarrow> rget r ''source_epoch'' = PStr epoch_id))
      in candidate_scan known epoch_id (coherent \<and> parent \<noteq> PStr candidate_id \<and> linked \<and> placed)
           (Some candidate_id) rest)"

text \<open>
  The walk from a candidate to its ancestors; \<open>known\<close> is keyed by the candidate identity, so the key
  a parent is found under is its identity. The result is the walk and whether it closed a cycle.
\<close>

function lineage_walk :: "(string \<times> forge_record) list \<Rightarrow> string list \<Rightarrow> string \<Rightarrow> forge_record
    \<Rightarrow> string list \<times> bool" where
  "lineage_walk known seen candidate_id cursor =
     (if candidate_id \<in> set seen then ([], True)
      else
        let parent = rget cursor ''parent_candidate''
        in case (if parent = PNone then None else map_of known (py_str parent)) of
             None \<Rightarrow> ([candidate_id], False)
           | Some r \<Rightarrow>
               let (rest, cycle) = lineage_walk known (candidate_id # seen) (py_str parent) r
               in (candidate_id # rest, cycle))"
  by pat_completeness auto
termination
proof (relation "measure (\<lambda>(known, seen, c, r).
    card (fst ` set known - set seen) + (if c \<in> fst ` set known then 0 else 1))")
  fix known :: "(string \<times> forge_record) list" and seen :: "string list" and c :: string
    and cursor r :: forge_record and parent
  assume c: "c \<notin> set seen" and p: "parent = rget cursor ''parent_candidate''"
    and r: "(if parent = PNone then None else map_of known (py_str parent)) = Some r"
  have k: "py_str parent \<in> fst ` set known"
    using r by (auto split: if_splits dest!: map_of_SomeD intro: rev_image_eqI)
  let ?K = "fst ` set known"
  have f: "finite (?K - set seen)" by simp
  show "((known, c # seen, py_str parent, r), known, seen, c, cursor) \<in> measure (\<lambda>(known, seen, c, r).
      card (fst ` set known - set seen) + (if c \<in> fst ` set known then 0 else 1))"
  proof (cases "c \<in> ?K")
    case True
    then have "card (?K - set (c # seen)) < card (?K - set seen)"
      using c by (intro psubset_card_mono) auto
    then show ?thesis using True k by simp
  next
    case False
    then have "?K - set (c # seen) = ?K - set seen" by auto
    then show ?thesis using False k by simp
  qed
qed simp

declare lineage_walk.simps [simp del]

definition candidate_projection :: "machine_inputs \<Rightarrow> forge_record option
    \<Rightarrow> forge_record option \<times> string \<times> string \<times> string list \<times> blocker list" where
  "candidate_projection m active =
     (case active of
        None \<Rightarrow> (None, ''absent'', ''UNKNOWN'', [], [])
      | Some epoch \<Rightarrow>
          let epoch_id = text_of epoch ''epoch_id'';
              positioned = indexed_of m CANDIDATE;
              candidates = map snd positioned;
              active_index = fst (hd (filter (\<lambda>p. rget (snd p) ''epoch_id'' = PStr epoch_id) (indexed_of m EPOCH)));
              superseded = (\<exists>p \<in> set positioned. fst p > active_index \<and> rget (snd p) ''source_epoch'' \<noteq> PStr epoch_id);
              active_candidates = filter (\<lambda>r. rget r ''source_epoch'' = PStr epoch_id) candidates;
              known = known_candidates candidates;
              coherent = candidate_scan known epoch_id True None active_candidates;
              limits = (if superseded then [''EPOCH_SUPERSEDED''] else [])
                @ (if coherent then [] else [''CANDIDATE_LINEAGE_CONFLICT''])
          in if active_candidates = [] then (None, ''absent'', ''UNKNOWN'', [], limits)
             else
               let current = last active_candidates;
                   freshness = (if rget current ''candidate_id'' = PStr (current_candidate_identity m)
                                then ''CURRENT'' else ''STALE'');
                   (lineage, cycle) = lineage_walk known [] (text_of current ''candidate_id'') current
               in (Some current, if coherent \<and> \<not> cycle then ''current'' else ''ambiguous'', freshness,
                   rev lineage, limits @ (if cycle then [''CANDIDATE_LINEAGE_CONFLICT''] else [])))"

section \<open>Evidence\<close>

text \<open>The records under one requirement: workflow results of the candidate, then verifier results.\<close>

definition evidence_for :: "machine_inputs \<Rightarrow> string \<Rightarrow> string \<Rightarrow> forge_record list" where
  "evidence_for m candidate_id requirement =
     filter (\<lambda>r. rget r ''candidate_identity'' = PStr candidate_id \<and> rget r ''subject_type'' \<noteq> PStr ''project''
               \<and> text_of r ''workflow'' = requirement) (records_of m WORKFLOW_RESULT)
     @ filter (\<lambda>r. rget r ''candidate_identity'' = PStr candidate_id \<and> rget r ''mode'' = PStr ''development''
               \<and> text_of r ''verifier_id'' = requirement) (records_of m VERIFIER_RESULT)"

definition status_text :: "forge_record \<Rightarrow> string" where
  "status_text r = (case record_status r of Some s \<Rightarrow> if s = [] then ''UNKNOWN'' else s | None \<Rightarrow> ''UNKNOWN'')"

definition observed_freshness :: "machine_inputs \<Rightarrow> string \<Rightarrow> forge_record \<Rightarrow> string" where
  "observed_freshness m candidate_id r =
     (let verifier_current = (rtype r = VERIFIER_RESULT
            \<and> (case mapping_items (rget r ''input_identities'') of
                 None \<Rightarrow> False
               | Some d \<Rightarrow> dict_get d ''candidate_identity'' = PStr (current_candidate_identity m)))
      in case evidence_freshness m (identity_text r) of
           Some f \<Rightarrow> f
         | None \<Rightarrow> if candidate_id = current_candidate_identity m
                     \<and> (rtype r = WORKFLOW_RESULT \<or> verifier_current)
                   then ''CURRENT'' else ''UNKNOWN'')"

definition declared_comparable :: "machine_inputs \<Rightarrow> forge_record \<Rightarrow> bool" where
  "declared_comparable m r =
     (case evidence_comparability m (identity_text r) of None \<Rightarrow> True | Some b \<Rightarrow> b = Some True)"

text \<open>The recorded environment agrees with the expected one, where one is expected.\<close>

definition environment_matches :: "machine_inputs \<Rightarrow> string \<Rightarrow> forge_record \<Rightarrow> bool" where
  "environment_matches m requirement r =
     (if rtype r = WORKFLOW_RESULT then
        (case evidence_environment_keys m requirement of
           None \<Rightarrow> True
         | Some expected \<Rightarrow>
             (case mapping_items (rget r ''environment'') of
                None \<Rightarrow> False
              | Some env \<Rightarrow>
                  (case sequence_items (dict_get env ''allowlisted_keys'') of
                     None \<Rightarrow> False
                   | Some ks \<Rightarrow> sort (map py_str ks) = expected)))
      else if rtype r = VERIFIER_RESULT then
        (case evidence_environment_identities m requirement of
           None \<Rightarrow> True
         | Some expected \<Rightarrow> rget r ''environment_identity'' = PStr expected)
      else True)"

definition policy_matches :: "machine_inputs \<Rightarrow> string \<Rightarrow> forge_record \<Rightarrow> bool" where
  "policy_matches m requirement r =
     (rtype r = VERIFIER_RESULT \<longrightarrow>
        (case evidence_policy_identities m requirement of
           None \<Rightarrow> True
         | Some expected \<Rightarrow> rget r ''policy_identity'' = PStr expected))"

definition candidate_authority_matches :: "machine_inputs \<Rightarrow> forge_record \<Rightarrow> bool" where
  "candidate_authority_matches m candidate =
     (case filter (\<lambda>r. rget r ''epoch_id'' = rget candidate ''source_epoch'') (rev (records_of m EPOCH)) of
        [] \<Rightarrow> True
      | epoch # _ \<Rightarrow> current_authority_identities m = []
          \<or> authority_matches (rget epoch ''authority_identities'') (current_authority_identities m))"

definition compat_evidence_readiness :: "machine_inputs \<Rightarrow> forge_record option \<Rightarrow> string list option
    \<Rightarrow> evidence_readiness" where
  "compat_evidence_readiness m candidate given =
     (let requirements = (case given of None \<Rightarrow> required_evidence m | Some rs \<Rightarrow> dedup_first rs);
          policy_error = (case given of None \<Rightarrow> selection_policy_error m | Some _ \<Rightarrow> None)
      in case candidate of
           None \<Rightarrow>
             \<lparr>ev_required = requirements, ev_present = [], ev_missing = requirements, ev_unknown = [],
              ev_failed = [], ev_stale = [], ev_noncomparable = [], ev_records = [], ev_ready = False,
              ev_status = ''UNKNOWN'', ev_policy_identity = selection_policy_identity m,
              ev_policy_error = policy_error\<rparr>
         | Some c \<Rightarrow>
             let cid = text_of c ''candidate_id'';
                 matches = evidence_for m cid;
                 has_status = (\<lambda>s q. \<exists>r \<in> set (matches q). status_text r = s);
                 present = filter (\<lambda>q. matches q \<noteq> []) requirements;
                 missing = sorted_set (filter (\<lambda>q. matches q = []) requirements);
                 failed = sorted_set (filter (has_status ''FAIL'') present);
                 unknown = sorted_set (filter (\<lambda>q. \<not> has_status ''FAIL'' q \<and> has_status ''UNKNOWN'' q) present);
                 stale = sorted_set (filter (\<lambda>q. \<exists>r \<in> set (matches q). observed_freshness m cid r = ''STALE'') present);
                 noncomparable = sorted_set (filter (\<lambda>q.
                     (\<exists>r \<in> set (matches q). observed_freshness m cid r \<notin> {''STALE'', ''CURRENT''}
                        \<or> \<not> declared_comparable m r \<or> \<not> environment_matches m q r \<or> \<not> policy_matches m q r)
                     \<or> \<not> candidate_authority_matches m c) present);
                 ready = (policy_error \<in> {None, Some []} \<and> missing = [] \<and> unknown = [] \<and> failed = []
                          \<and> stale = [] \<and> noncomparable = [])
             in \<lparr>ev_required = requirements, ev_present = sort present, ev_missing = missing,
                 ev_unknown = unknown, ev_failed = failed, ev_stale = stale, ev_noncomparable = noncomparable,
                 ev_records = map (\<lambda>q. (q, map identity_text (matches q))) requirements, ev_ready = ready,
                 ev_status = (if failed \<noteq> [] then ''FAIL'' else if ready then ''PASS'' else ''UNKNOWN''),
                 ev_policy_identity = selection_policy_identity m, ev_policy_error = policy_error\<rparr>)"

text \<open>The native path. A requirement is bound by a digest of its label.\<close>

definition is_space :: "char \<Rightarrow> bool" where
  "is_space c = (c \<in> {CHR '' '', CHR 0x09, CHR 0x0A, CHR 0x0B, CHR 0x0C, CHR 0x0D})"

text \<open>\<open>bytes.fromhex\<close>: pairs of digits, with white space before a pair skipped.\<close>

fun from_hex :: "string \<Rightarrow> bytes option" where
  "from_hex [] = Some []"
| "from_hex (c # cs) =
     (if is_space c then from_hex cs
      else case cs of
             [] \<Rightarrow> None
           | d # ds \<Rightarrow>
               (case (hex_val c, hex_val d) of
                  (Some a, Some b) \<Rightarrow> map_option (\<lambda>bs. char_of (16 * a + b :: nat) # bs) (from_hex ds)
                | _ \<Rightarrow> None))"

definition readiness_requirement_identity :: "string \<Rightarrow> bytes res" where
  "readiness_requirement_identity requirement =
     (if requirement = [] then raise ''NATIVE_READINESS_UNKNOWN''
      else case from_hex (sha256 (''mncs-forge.readiness.requirement.v1'' @ [CHR 0x00] @ requirement)) of
             Some bs \<Rightarrow> Inr bs
           | None \<Rightarrow> Inl (PyExc ''ValueError''))"

definition native_evidence_for :: "machine_inputs \<Rightarrow> forge_record option \<Rightarrow> string \<Rightarrow> native_evidence" where
  "native_evidence_for m candidate requirement =
     (let cid = map_option (\<lambda>c. text_of c ''candidate_id'') candidate;
          matches = (case cid of None \<Rightarrow> [] | Some i \<Rightarrow> evidence_for m i requirement);
          observed = map (observed_freshness m (case cid of None \<Rightarrow> [] | Some i \<Rightarrow> i)) matches
      in \<lparr>ne_records = matches,
          ne_freshness = (if ''STALE'' \<in> set observed then ''STALE''
                          else if list_all (\<lambda>f. f = ''CURRENT'') observed then ''CURRENT'' else ''UNKNOWN''),
          ne_comparable = list_all (declared_comparable m) matches,
          ne_environment_match = list_all (environment_matches m requirement) matches,
          ne_policy_match = list_all (policy_matches m requirement) matches,
          ne_authority_match = (case candidate of None \<Rightarrow> True | Some c \<Rightarrow> candidate_authority_matches m c)\<rparr>)"

definition native_classes :: "string list" where
  "native_classes = [''Present'', ''Missing'', ''Unknown'', ''Failed'', ''Stale'', ''NonComparable'']"

text \<open>The answer for one requirement, found by its identity.\<close>

definition native_answer :: "native_requirement list \<Rightarrow> string \<Rightarrow> (string \<times> native_requirement) res" where
  "native_answer answers requirement =
     rbind (readiness_requirement_identity requirement) (\<lambda>identity.
       case filter (\<lambda>a. nr_identity a = identity) answers of
         [] \<Rightarrow> raise ''NATIVE_READINESS_MISMATCH''
       | a # _ \<Rightarrow> rthen (ensure (nr_classification a \<in> set native_classes) ''NATIVE_READINESS_UNKNOWN'')
                    (Inr (requirement, a)))"

definition native_evidence_readiness :: "((string \<times> native_evidence) list \<Rightarrow> bool \<Rightarrow> bool \<Rightarrow> native_readiness res)
    \<Rightarrow> machine_inputs \<Rightarrow> forge_record option \<Rightarrow> string list option \<Rightarrow> evidence_readiness res" where
  "native_evidence_readiness project_native m candidate given =
     (let requirements = (case given of None \<Rightarrow> required_evidence m | Some rs \<Rightarrow> dedup_first rs);
          policy_error = (case given of None \<Rightarrow> selection_policy_error m | Some _ \<Rightarrow> None);
          normalized = map (\<lambda>q. (q, native_evidence_for m candidate q)) requirements
      in rbind (project_native normalized (candidate \<noteq> None) (policy_error = None)) (\<lambda>nv.
           rthen (ensure (nv_valid nv \<and> length (nv_requirements nv) = length requirements) ''NATIVE_READINESS_UNKNOWN'')
           (rthen (ensure (distinct (map nr_identity (nv_requirements nv))) ''NATIVE_READINESS_MISMATCH'')
           (rbind (rmap (native_answer (nv_requirements nv)) requirements) (\<lambda>answers.
              let of_class = (\<lambda>c. map fst (filter (\<lambda>a. nr_classification (snd a) = c) answers))
              in Inr \<lparr>ev_required = requirements,
                   ev_present = sort (map fst (filter (\<lambda>a. nr_observed_count (snd a) > 0) answers)),
                   ev_missing = sort (of_class ''Missing''), ev_unknown = sort (of_class ''Unknown''),
                   ev_failed = sort (of_class ''Failed''),
                   ev_stale = sorted_set (of_class ''Stale'' @ map fst (filter (\<lambda>a. nr_stale (snd a)) answers)),
                   ev_noncomparable =
                     sorted_set (of_class ''NonComparable'' @ map fst (filter (\<lambda>a. nr_noncomparable (snd a)) answers)),
                   ev_records = (if candidate = None then []
                                 else map (\<lambda>(q, e). (q, map identity_text (ne_records e))) normalized),
                   ev_ready = nv_ready nv, ev_status = nv_status nv,
                   ev_policy_identity = selection_policy_identity m, ev_policy_error = policy_error\<rparr>)))))"

definition project_evidence :: "machine_inputs \<Rightarrow> forge_record option \<Rightarrow> string list option \<Rightarrow> evidence_readiness res" where
  "project_evidence m candidate given =
     (case Option.bind (native m) readiness_projection of
        None \<Rightarrow> Inr (compat_evidence_readiness m candidate given)
      | Some project_native \<Rightarrow> native_evidence_readiness project_native m candidate given)"

section \<open>The native lifecycle\<close>

definition native_event_of :: "machine_inputs \<Rightarrow> forge_record \<Rightarrow> native_event list" where
  "native_event_of m r =
     (let subject = text_of r ''candidate_identity'';
          required_label = (\<lambda>field. \<exists>q \<in> set (required_evidence m). rget r field = PStr q);
          status = status_text r
      in case rtype r of
           EPOCH \<Rightarrow> [EpochStarted (text_of r ''epoch_id'') (rget r ''parent_epoch'')]
         | CANDIDATE \<Rightarrow> [CandidateRegistered (text_of r ''source_epoch'') (text_of r ''candidate_id'')
             (rget r ''parent_candidate'')]
         | WORKFLOW_RESULT \<Rightarrow>
             if rget r ''candidate_identity'' \<noteq> PNone \<and> rget r ''subject_type'' \<noteq> PStr ''project''
                \<and> required_label ''workflow''
             then [EvidenceObserved subject status] else []
         | VERIFIER_RESULT \<Rightarrow>
             if rget r ''candidate_identity'' \<noteq> PNone \<and> rget r ''mode'' = PStr ''development''
                \<and> required_label ''verifier_id''
             then [EvidenceObserved subject status] else []
         | CANDIDATE_DISPOSITION \<Rightarrow>
             if rget r ''disposition'' = PStr ''selected'' then [CandidateSelected subject]
             else if rget r ''disposition'' = PStr ''rejected'' then [CandidateRejected subject] else []
         | FREEZE \<Rightarrow> [CandidateFrozen subject]
         | FINAL_EVALUATION \<Rightarrow>
             if rget r ''candidate_identity'' \<noteq> PNone then [EvaluationRecorded subject status] else []
         | _ \<Rightarrow> [])"

definition native_history_events :: "machine_inputs \<Rightarrow> native_event list" where
  "native_history_events m = concat (map (native_event_of m) (map payload (history m)))"

definition zero_digest :: bytes where
  "zero_digest = replicate 32 (CHR 0x00)"

text \<open>\<open>identity.rsplit(":", 1)[-1]\<close>.\<close>

definition after_last_colon :: "string \<Rightarrow> string" where
  "after_last_colon s = rev (takeWhile (\<lambda>c. c \<noteq> CHR '':'') (rev s))"

definition identity_digest :: "pyval \<Rightarrow> bytes res" where
  "identity_digest identity =
     (if identity = PNone \<or> identity = PStr [] then Inr zero_digest
      else case as_text identity of
             None \<Rightarrow> raise ''NATIVE_LIFECYCLE_UNKNOWN''
           | Some s \<Rightarrow>
               (case from_hex (after_last_colon s) of
                  None \<Rightarrow> raise ''NATIVE_LIFECYCLE_UNKNOWN''
                | Some d \<Rightarrow> rthen (ensure (length d = 32) ''NATIVE_LIFECYCLE_UNKNOWN'') (Inr d)))"

definition check_digest :: "bytes \<Rightarrow> pyval \<Rightarrow> unit res" where
  "check_digest observed identity =
     rbind (identity_digest identity) (\<lambda>d. ensure (observed = d) ''NATIVE_LIFECYCLE_MISMATCH'')"

definition native_stages :: "(string \<times> lifecycle_stage) list" where
  "native_stages =
     [(''NoEpoch'', NO_EPOCH), (''EpochActive'', EPOCH_ACTIVE), (''CandidateRegistered'', CANDIDATE_REGISTERED),
      (''EvidenceIncomplete'', EVIDENCE_INCOMPLETE), (''CandidateReady'', CANDIDATE_READY),
      (''CandidateSelected'', CANDIDATE_SELECTED), (''CandidateRejected'', CANDIDATE_REJECTED),
      (''CandidateFrozen'', CANDIDATE_FROZEN), (''EvaluationComplete'', EVALUATION_COMPLETE),
      (''AmbiguousHistory'', AMBIGUOUS_HISTORY)]"

definition native_freshness :: "(string \<times> string) list" where
  "native_freshness =
     [(''NotApplicable'', ''NOT_APPLICABLE''), (''Current'', ''CURRENT''), (''Stale'', ''STALE''), (''Unknown'', ''UNKNOWN'')]"

definition native_dispositions :: "(string \<times> string) list" where
  "native_dispositions =
     [(''Undisposed'', ''undisposed''), (''Selected'', ''selected''), (''Rejected'', ''rejected''), (''Conflict'', ''conflict'')]"

definition look_up :: "(string \<times> 'a) list \<Rightarrow> string \<Rightarrow> 'a res" where
  "look_up table k = (case map_of table k of None \<Rightarrow> Inl (PyExc ''KeyError'') | Some v \<Rightarrow> Inr v)"

text \<open>\<open>str.upper\<close> on ASCII text, which the names of the native variants are.\<close>

definition upper :: "string \<Rightarrow> string" where
  "upper s = map (\<lambda>c. let n = (of_char c :: nat) in if 97 \<le> n \<and> n \<le> 122 then char_of (n - 32) else c) s"

definition check_native_identities :: "lifecycle_projection \<Rightarrow> native_lifecycle \<Rightarrow> unit res" where
  "check_native_identities p nl =
     run_checks
       [case active_epoch p of None \<Rightarrow> Inr ()
        | Some e \<Rightarrow> check_digest (nl_active_epoch nl) (PStr (text_of e ''epoch_id'')),
        case current_candidate p of None \<Rightarrow> Inr ()
        | Some c \<Rightarrow> check_digest (nl_current_candidate nl) (PStr (text_of c ''candidate_id'')),
        case active_epoch p of None \<Rightarrow> Inr ()
        | Some e \<Rightarrow> if nl_parent_epoch nl = zero_digest then Inr ()
                     else check_digest (nl_parent_epoch nl) (rget e ''parent_epoch''),
        case current_candidate p of None \<Rightarrow> Inr ()
        | Some c \<Rightarrow> if nl_parent_candidate nl = zero_digest then Inr ()
                     else check_digest (nl_parent_candidate nl) (rget c ''parent_candidate'')]"

definition merge_native :: "lifecycle_projection \<Rightarrow> native_lifecycle \<Rightarrow> lifecycle_projection res" where
  "merge_native p nl =
     (if \<not> nl_lineage_ok nl then
        Inr (p\<lparr>stage := AMBIGUOUS_HISTORY, candidate_status := ''ambiguous'',
              candidate_freshness := upper (nl_freshness nl),
              limitations := (if ''NATIVE_LINEAGE_CONFLICT'' \<in> set (limitations p) then limitations p
                              else limitations p @ [''NATIVE_LINEAGE_CONFLICT'']),
              reconciliation_status := ''unknown''\<rparr>)
      else
        rbind (if bundles p \<noteq> [] then Inr (stage p) else look_up native_stages (nl_stage nl)) (\<lambda>st.
        rbind (look_up native_freshness (nl_freshness nl)) (\<lambda>fresh.
        rbind (look_up native_dispositions (nl_disposition nl)) (\<lambda>disp.
          Inr (p\<lparr>stage := st,
                candidate_status := (if st = AMBIGUOUS_HISTORY then ''ambiguous'' else candidate_status p),
                candidate_freshness := fresh, disposition_status := disp,
                reconciliation_status :=
                  (if st = AMBIGUOUS_HISTORY then ''unknown'' else reconciliation_status p)\<rparr>)))))"

definition apply_native_projection :: "machine_inputs \<Rightarrow> lifecycle_projection \<Rightarrow> lifecycle_projection res" where
  "apply_native_projection m p =
     (case Option.bind (native m) native_lifecycle_projection of
        None \<Rightarrow> Inr p
      | Some project_native \<Rightarrow>
          rbind (project_native (native_history_events m) (current_candidate_identity m) (length (required_evidence m)))
            (\<lambda>nl. rthen (check_native_identities p nl) (merge_native p nl)))"

section \<open>The projection\<close>

definition conflict_codes :: "blocker list" where
  "conflict_codes =
     [''EPOCH_LINEAGE_CONFLICT'', ''EPOCH_SUPERSEDED'', ''CANDIDATE_LINEAGE_CONFLICT'',
      ''CANDIDATE_DISPOSITION_CONFLICT'', ''FREEZE_CONFLICT'']"

definition records_about :: "machine_inputs \<Rightarrow> record_type \<Rightarrow> forge_record option \<Rightarrow> forge_record list" where
  "records_about m rt candidate =
     filter (\<lambda>r. rget r ''candidate_identity''
                = (case candidate of None \<Rightarrow> PNone | Some c \<Rightarrow> PStr (text_of c ''candidate_id'')))
       (records_of m rt)"

definition freeze_drift :: "machine_inputs \<Rightarrow> forge_record \<Rightarrow> string list" where
  "freeze_drift m r =
     sort (map fst (filter (\<lambda>(name, current). rget r name \<noteq> PStr current) (current_freeze_bindings m)))"

definition only :: "'a list \<Rightarrow> 'a option" where
  "only xs = (if length xs = 1 then Some (last xs) else None)"

definition select_stage :: "blocker list \<Rightarrow> forge_record option \<Rightarrow> forge_record option \<Rightarrow> forge_record list
    \<Rightarrow> forge_record list \<Rightarrow> forge_record option \<Rightarrow> string \<Rightarrow> evidence_readiness \<Rightarrow> lifecycle_stage" where
  "select_stage limits epoch candidate bundle_records evaluation_records frozen disposed ev =
     (if \<exists>c \<in> set limits. c \<in> set conflict_codes then AMBIGUOUS_HISTORY
      else if epoch = None then NO_EPOCH
      else if candidate = None then EPOCH_ACTIVE
      else if bundle_records \<noteq> [] then BUNDLE_COMPLETE
      else if evaluation_records \<noteq> [] then EVALUATION_COMPLETE
      else if frozen \<noteq> None then CANDIDATE_FROZEN
      else if disposed = ''selected'' then CANDIDATE_SELECTED
      else if disposed = ''rejected'' then CANDIDATE_REJECTED
      else if ev_ready ev then CANDIDATE_READY
      else if ev_present ev \<noteq> [] then EVIDENCE_INCOMPLETE
      else CANDIDATE_REGISTERED)"

text \<open>The projection before the native one is merged into it.\<close>

definition base_projection :: "machine_inputs \<Rightarrow> evidence_readiness \<Rightarrow> lifecycle_projection" where
  "base_projection m ev =
     (let (epoch, epoch_st, superseded, limits1) = epoch_projection m;
          (candidate, candidate_st, fresh, lineage, limits2) = candidate_projection m epoch;
          dispositions = records_about m CANDIDATE_DISPOSITION candidate;
          freezes = records_about m FREEZE candidate;
          disposed = (if length dispositions > 1 then ''conflict''
                      else case only dispositions of None \<Rightarrow> ''undisposed'' | Some d \<Rightarrow> text_of d ''disposition'');
          frozen = (if length freezes > 1 then ''conflict''
                    else case only freezes of
                           None \<Rightarrow> ''absent''
                         | Some f \<Rightarrow> if freeze_drift m f = [] then ''current'' else ''drifted'');
          limits = limits1 @ limits2
            @ (if ev_present ev \<noteq> [] then [''EVIDENCE_COMPARABILITY_LIMITED''] else [])
            @ (if length dispositions > 1 then [''CANDIDATE_DISPOSITION_CONFLICT''] else [])
            @ (if length freezes > 1 then [''FREEZE_CONFLICT''] else []);
          evaluation_records = records_about m FINAL_EVALUATION candidate;
          bundle_records = records_about m BUNDLE candidate;
          st = select_stage limits epoch candidate bundle_records evaluation_records (only freezes) disposed ev
      in \<lparr>stage = st, active_epoch = epoch, epoch_status = epoch_st, superseded_epochs = superseded,
          current_candidate = candidate, candidate_status = candidate_st, candidate_freshness = fresh,
          candidate_lineage = lineage, evidence = ev, disposition = only dispositions,
          disposition_status = disposed, freeze = only freezes, freeze_status = frozen,
          evaluations = evaluation_records,
          evaluation_status = (if evaluation_records \<noteq> [] then ''complete'' else ''not_started''),
          reconciliation_status = (if st = AMBIGUOUS_HISTORY then ''unknown'' else ''derived_on_request''),
          bundles = bundle_records,
          bundle_status = (if bundle_records \<noteq> [] then ''complete'' else ''not_started''),
          limitations = limits\<rparr>)"

definition projected_candidate :: "machine_inputs \<Rightarrow> forge_record option" where
  "projected_candidate m = fst (candidate_projection m (fst (epoch_projection m)))"

definition project :: "machine_inputs \<Rightarrow> lifecycle_projection res" where
  "project m =
     rbind (project_evidence m (projected_candidate m) None) (\<lambda>ev.
       apply_native_projection m (base_projection m ev))"

definition new_machine :: "machine_inputs \<Rightarrow> state_machine res" where
  "new_machine a =
     rthen (ensure (mode a \<in> {''development'', ''evaluator''}) ''INVALID_MODE'')
       (let m = prepare_inputs a
        in rbind (project m) (\<lambda>p. Inr \<lparr>inputs = m, projection = p, native_preflight_enabled = True\<rparr>))"

end
