(* ===== verification/Authorization.thy ===== *)
theory Authorization
  imports StateMachine
begin

text \<open>
  The transition authorizers of the lifecycle state machine (state_machine.py). Each takes the
  machine and the arguments of the method and returns what the method returns, or the error it
  raises; none changes the machine.
\<close>

section \<open>Guards\<close>

definition require_mode :: "state_machine \<Rightarrow> string \<Rightarrow> unit res" where
  "require_mode s expected = ensure (mode (inputs s) = expected) ''MODE_FORBIDDEN''"

definition stage_names :: "(lifecycle_stage \<times> string) list" where
  "stage_names =
     [(NO_EPOCH, ''NoEpoch''), (EPOCH_ACTIVE, ''EpochActive''), (CANDIDATE_REGISTERED, ''CandidateRegistered''),
      (EVIDENCE_INCOMPLETE, ''EvidenceIncomplete''), (CANDIDATE_READY, ''CandidateReady''),
      (CANDIDATE_SELECTED, ''CandidateSelected''), (CANDIDATE_REJECTED, ''CandidateRejected''),
      (CANDIDATE_FROZEN, ''CandidateFrozen''), (EVALUATION_COMPLETE, ''EvaluationComplete''),
      (AMBIGUOUS_HISTORY, ''AmbiguousHistory'')]"

definition native_transition :: "state_machine \<Rightarrow> string \<Rightarrow> string \<Rightarrow> string \<Rightarrow> int \<Rightarrow> string \<Rightarrow> unit res" where
  "native_transition s operation next_stage status reason ev =
     (case native (inputs s) of
        None \<Rightarrow> Inr ()
      | Some adapter \<Rightarrow>
          if \<not> native_preflight_enabled s then Inr ()
          else case map_of stage_names (stage (projection s)) of
                 None \<Rightarrow> Inr ()
               | Some name \<Rightarrow>
                   (case lifecycle_preflight adapter name operation ev of
                      Inl (ForgeError _) \<Rightarrow> raise ''NATIVE_LIFECYCLE_UNKNOWN''
                    | Inl e \<Rightarrow> Inl e
                    | Inr observed \<Rightarrow>
                        ensure (ns_next_stage observed = next_stage \<and> ns_status observed = status
                            \<and> ns_reason observed = reason) ''NATIVE_LIFECYCLE_MISMATCH''))"

text \<open>\<open>limitations[0]\<close> of an empty tuple is an \<open>IndexError\<close>.\<close>

definition require_unambiguous :: "state_machine \<Rightarrow> unit res" where
  "require_unambiguous s =
     (if stage (projection s) = AMBIGUOUS_HISTORY
      then (case limitations (projection s) of
              [] \<Rightarrow> Inl (PyExc ''IndexError'')
            | c # _ \<Rightarrow> raise c)
      else Inr ())"

definition candidate_record :: "state_machine \<Rightarrow> string \<Rightarrow> forge_record option" where
  "candidate_record s candidate_id =
     (case filter (\<lambda>r. rget r ''candidate_id'' = PStr candidate_id) (rev (records_of (inputs s) CANDIDATE)) of
        [] \<Rightarrow> None
      | r # _ \<Rightarrow> Some r)"

definition require_candidate :: "state_machine \<Rightarrow> string option \<Rightarrow> forge_record res" where
  "require_candidate s candidate_id =
     (case current_candidate (projection s) of
        None \<Rightarrow> raise ''NO_CANDIDATE''
      | Some candidate \<Rightarrow>
          rthen
            (case candidate_id of
               None \<Rightarrow> Inr ()
             | Some cid \<Rightarrow>
                 if rget candidate ''candidate_id'' = PStr cid then Inr ()
                 else if candidate_record s cid \<noteq> None then raise ''CANDIDATE_NOT_CURRENT''
                 else raise ''RECORD_NOT_FOUND'')
            (rthen (ensure (candidate_freshness (projection s) = ''CURRENT'') ''STALE_CANDIDATE'') (Inr candidate)))"

section \<open>Development transitions\<close>

definition authorize_epoch_begin :: "state_machine \<Rightarrow> string option \<Rightarrow> unit res" where
  "authorize_epoch_begin s parent_epoch =
     rthen (require_mode s ''development'')
     (rthen (require_unambiguous s)
     (case active_epoch (projection s) of
        None \<Rightarrow>
          rthen (ensure (parent_epoch = None) ''EPOCH_PARENT_INVALID'')
            (native_transition s ''BeginEpoch'' ''EpochActive'' ''PASS'' 0 ''UNKNOWN'')
      | Some active \<Rightarrow>
          (case parent_epoch of
             None \<Rightarrow> raise ''EPOCH_PARENT_REQUIRED''
           | Some parent \<Rightarrow>
               rthen (ensure (parent \<notin> set (superseded_epochs (projection s))) ''EPOCH_SUPERSEDED'')
                 (ensure (parent = text_of active ''epoch_id'') ''EPOCH_PARENT_INVALID''))))"

text \<open>An authority field that is not a mapping is refused before it is compared.\<close>

definition authorize_candidate_register :: "state_machine \<Rightarrow> string option \<Rightarrow> string \<Rightarrow> string option
    \<Rightarrow> forge_record res" where
  "authorize_candidate_register s parent_candidate proposed_identity epoch_identity =
     rthen (require_mode s ''development'')
     (rthen (require_unambiguous s)
     (case active_epoch (projection s) of
        None \<Rightarrow> raise ''NO_ACTIVE_EPOCH''
      | Some epoch \<Rightarrow>
          rthen (run_checks
            [case epoch_identity of
               None \<Rightarrow> Inr ()
             | Some e \<Rightarrow> rthen (ensure (e \<notin> set (superseded_epochs (projection s))) ''EPOCH_SUPERSEDED'')
                 (ensure (e = text_of epoch ''epoch_id'') ''EPOCH_PARENT_INVALID''),
             ensure (mapping_items (rget epoch ''authority_identities'') \<noteq> None) ''EPOCH_LINEAGE_CONFLICT'',
             ensure (authority_matches (rget epoch ''authority_identities'') (current_authority_identities (inputs s)))
               ''STALE_BASELINE'',
             ensure (freeze (projection s) = None) ''EPOCH_FROZEN'',
             case current_candidate (projection s) of
               None \<Rightarrow>
                 (case parent_candidate of
                    None \<Rightarrow> native_transition s ''RegisterCandidate'' ''CandidateRegistered'' ''UNKNOWN'' 0 ''UNKNOWN''
                  | Some p \<Rightarrow> if candidate_record s p = None then raise ''CANDIDATE_PARENT_INVALID''
                              else raise ''CANDIDATE_LINEAGE_CONFLICT'')
             | Some current \<Rightarrow>
                 (case parent_candidate of
                    None \<Rightarrow> raise ''CANDIDATE_PARENT_REQUIRED''
                  | Some p \<Rightarrow>
                      if p = proposed_identity then raise ''CANDIDATE_PARENT_INVALID''
                      else if p = text_of current ''candidate_id'' then Inr ()
                      else if candidate_record s p = None then raise ''CANDIDATE_PARENT_INVALID''
                      else raise ''CANDIDATE_LINEAGE_CONFLICT'')])
          (Inr epoch)))"

definition authorize_development_work :: "state_machine \<Rightarrow> string option \<Rightarrow> bool \<Rightarrow> forge_record option res" where
  "authorize_development_work s candidate_id project_scoped =
     rthen (require_mode s ''development'')
     (if project_scoped
      then rthen (ensure (candidate_id = None) ''WORKFLOW_SUBJECT'') (Inr None)
      else rthen (require_unambiguous s)
           (rthen (ensure (freeze (projection s) = None) ''EPOCH_FROZEN'')
             (rbind (require_candidate s candidate_id) (\<lambda>c. Inr (Some c)))))"

definition authorize_candidate_comparison :: "state_machine \<Rightarrow> string list \<Rightarrow> unit res" where
  "authorize_candidate_comparison s candidate_ids =
     rthen (require_mode s ''development'')
     (rthen (require_unambiguous s)
     (case active_epoch (projection s) of
        None \<Rightarrow> raise ''NO_ACTIVE_EPOCH''
      | Some active \<Rightarrow>
          run_checks (map (\<lambda>cid.
            case candidate_record s cid of
              None \<Rightarrow> raise ''RECORD_NOT_FOUND''
            | Some c \<Rightarrow> ensure (rget c ''source_epoch'' = PStr (text_of active ''epoch_id''))
                ''CANDIDATE_LINEAGE_CONFLICT'') candidate_ids)))"

definition require_no_blocker :: "evidence_readiness \<Rightarrow> unit res" where
  "require_no_blocker ev = (case evidence_blocker ev of None \<Rightarrow> Inr () | Some c \<Rightarrow> raise c)"

definition authorize_candidate_disposition :: "state_machine \<Rightarrow> string \<Rightarrow> string
    \<Rightarrow> (forge_record \<times> evidence_readiness) res" where
  "authorize_candidate_disposition s candidate_id disp =
     rthen (require_mode s ''development'')
     (rthen (require_unambiguous s)
     (rthen (ensure (disp \<in> {''selected'', ''rejected''}) ''INVALID_DISPOSITION'')
     (rbind (require_candidate s (Some candidate_id)) (\<lambda>candidate.
        rthen (ensure (disposition_status (projection s) = ''undisposed'') ''CANDIDATE_ALREADY_DISPOSED'')
        (rthen
          (if disp = ''selected''
           then rthen (require_no_blocker (evidence (projection s)))
                  (native_transition s ''SelectCandidate'' ''CandidateSelected'' ''PASS'' 0 ''PASS'')
           else native_transition s ''RejectCandidate'' ''CandidateRejected'' ''FAIL'' 9
                  (ev_status (evidence (projection s))))
          (Inr (candidate, evidence (projection s))))))))"

definition authorize_candidate_freeze :: "state_machine \<Rightarrow> string \<Rightarrow> string list option
    \<Rightarrow> (forge_record \<times> forge_record) res" where
  "authorize_candidate_freeze s candidate_id plan =
     (let p = projection s
      in rthen (require_mode s ''development'')
         (rthen (require_unambiguous s)
         (rbind (require_candidate s (Some candidate_id)) (\<lambda>candidate.
            case active_epoch p of
              None \<Rightarrow> raise ''NO_ACTIVE_EPOCH''
            | Some epoch \<Rightarrow>
                rthen (ensure (authority_matches (rget epoch ''authority_identities'')
                         (current_authority_identities (inputs s))) ''FREEZE_AUTHORITY_STALE'')
                (rthen (ensure (disposition_status p \<noteq> ''rejected'') ''CANDIDATE_REJECTED'')
                (if disposition_status p \<noteq> ''selected'' then raise ''FREEZE_NOT_SELECTED''
                 else case disposition p of
                        None \<Rightarrow> raise ''FREEZE_NOT_SELECTED''
                      | Some d \<Rightarrow>
                          rthen (run_checks
                            [ensure (freeze p = None) ''FREEZE_ALREADY_EXISTS'',
                             require_no_blocker (evidence p),
                             ensure (rget d ''selection_policy_identity'' = PStr (selection_policy_identity (inputs s)))
                               ''FREEZE_SELECTION_STALE'',
                             ensure (rget d ''evidence_status'' = PStr ''PASS'') ''FREEZE_SELECTION_STALE'',
                             ensure (plan \<notin> {None, Some []}) ''FREEZE_EVIDENCE_PLAN_INVALID'',
                             rbind (project_evidence (inputs s) (Some candidate) plan) require_no_blocker,
                             native_transition s ''FreezeCandidate'' ''CandidateFrozen'' ''PASS'' 0 ''PASS''])
                          (Inr (candidate, d)))))))) "

section \<open>Evaluator transitions\<close>

definition authorize_evaluator_entry :: "state_machine \<Rightarrow> string option \<Rightarrow> (forge_record \<times> forge_record) res" where
  "authorize_evaluator_entry s candidate_id =
     (let p = projection s
      in rthen (require_mode s ''evaluator'')
         (rthen (require_unambiguous s)
         (case freeze p of
            None \<Rightarrow> raise ''NO_FREEZE''
          | Some fr \<Rightarrow>
              rthen (case candidate_id of
                       None \<Rightarrow> Inr ()
                     | Some cid \<Rightarrow> ensure (rget fr ''candidate_identity'' = PStr cid) ''EVALUATOR_CANDIDATE_MISMATCH'')
              (rthen (ensure (freeze_drift (inputs s) fr = []) ''FREEZE_DRIFT'')
              (rbind (require_candidate s (Some (text_of fr ''candidate_identity''))) (\<lambda>candidate.
                 if disposition_status p \<noteq> ''selected'' then raise ''FREEZE_NOT_SELECTED''
                 else case disposition p of
                        None \<Rightarrow> raise ''FREEZE_NOT_SELECTED''
                      | Some d \<Rightarrow>
                          rthen (ensure (py_eq (rget fr ''selection_record'') (rget d ''disposition_id''))
                                   ''FREEZE_SELECTION_STALE'')
                            (Inr (fr, candidate))))))))"

definition authorize_reconciliation :: "state_machine \<Rightarrow> string option \<Rightarrow> string option res" where
  "authorize_reconciliation s candidate_id =
     rthen (require_unambiguous s)
     (case candidate_id of
        Some cid \<Rightarrow> if candidate_record s cid = None then raise ''RECORD_NOT_FOUND'' else Inr (Some cid)
      | None \<Rightarrow> Inr (map_option (\<lambda>c. text_of c ''candidate_id'') (current_candidate (projection s))))"

definition bundle_request_of :: "state_machine \<Rightarrow> string option \<Rightarrow> bool \<Rightarrow> bundle_request" where
  "bundle_request_of s candidate_id request_valid =
     (let p = projection s;
          current = map_option (\<lambda>c. text_of c ''candidate_id'') (current_candidate p)
      in \<lparr>br_requested_candidate = candidate_id, br_current_candidate = current,
          br_candidate_present = (current_candidate p \<noteq> None),
          br_candidate_matches = (candidate_id = None \<or> candidate_id = current),
          br_candidate_current = (current_candidate p \<noteq> None \<and> candidate_freshness p = ''CURRENT''),
          br_selected = (disposition p \<noteq> None \<and> disposition_status p = ''selected''),
          br_frozen = (freeze p \<noteq> None), br_freeze_current = (freeze_status p = ''current''),
          br_mode = mode (inputs s), br_request_valid = request_valid,
          br_evidence_status = ev_status (evidence p), br_evidence_ready = ev_ready (evidence p)\<rparr>)"

definition bundle_refusal :: "state_machine \<Rightarrow> string option \<Rightarrow> string \<Rightarrow> string" where
  "bundle_refusal s candidate_id reason =
     (if reason = ''InvalidRequest'' then ''WORKFLOW_CATEGORY''
      else if reason = ''NoCandidate'' then ''NO_CANDIDATE''
      else if reason = ''CandidateMismatch'' then
        (if mode (inputs s) = ''evaluator'' then ''EVALUATOR_CANDIDATE_MISMATCH''
         else if (case candidate_id of None \<Rightarrow> True | Some cid \<Rightarrow> candidate_record s cid \<noteq> None)
         then ''CANDIDATE_NOT_CURRENT'' else ''RECORD_NOT_FOUND'')
      else if reason = ''CandidateStale'' then ''STALE_CANDIDATE''
      else if reason = ''FreezeMissing'' then ''NO_FREEZE''
      else if reason = ''SelectionMissing'' then ''FREEZE_NOT_SELECTED''
      else if reason = ''FreezeStale'' then ''FREEZE_DRIFT''
      else ''NATIVE_BUNDLE_UNKNOWN'')"

definition authorize_bundle_native :: "native_adapter \<Rightarrow> state_machine \<Rightarrow> string option \<Rightarrow> bool \<Rightarrow> forge_record res" where
  "authorize_bundle_native adapter s candidate_id request_valid =
     rthen (ensure (mode (inputs s) \<in> {''development'', ''evaluator''}) ''INVALID_MODE'')
     (rbind (bundle_precondition_projection adapter (bundle_request_of s candidate_id request_valid)) (\<lambda>result.
        rthen (ensure (nb_valid result) ''NATIVE_BUNDLE_UNKNOWN'')
        (if nb_ready result
         then (case current_candidate (projection s) of
                 None \<Rightarrow> raise ''NATIVE_BUNDLE_UNKNOWN''
               | Some c \<Rightarrow> Inr c)
         else raise (bundle_refusal s candidate_id (nb_reason result)))))"

definition authorize_bundle :: "state_machine \<Rightarrow> string option \<Rightarrow> bool \<Rightarrow> forge_record res" where
  "authorize_bundle s candidate_id request_valid =
     rthen (require_unambiguous s)
     (case native (inputs s) of
        Some adapter \<Rightarrow> authorize_bundle_native adapter s candidate_id request_valid
      | None \<Rightarrow>
          if mode (inputs s) = ''evaluator''
          then rbind (authorize_evaluator_entry s candidate_id) (\<lambda>(_, candidate). Inr candidate)
          else rthen (require_mode s ''development'') (require_candidate s candidate_id))"

section \<open>Terminal results of verifier actions\<close>

definition opt_text :: "string option \<Rightarrow> pyval" where
  "opt_text x = (case x of None \<Rightarrow> PNone | Some s \<Rightarrow> PStr s)"

definition authorize_terminal_result_for_recorded_action :: "forge_record \<Rightarrow> ledger_entry list \<Rightarrow> string \<Rightarrow> string
    \<Rightarrow> string option \<Rightarrow> string \<Rightarrow> forge_record res" where
  "authorize_terminal_result_for_recorded_action action existing action_id candidate_id freeze_id md =
     rthen (ensure (rget action ''action_id'' = PStr action_id) ''ACTION_BINDING_MISMATCH'')
     (rthen (ensure (filter (\<lambda>e. rtype (payload e) = VERIFIER_RESULT
                \<and> rget (payload e) ''action_id'' = PStr action_id) existing = []) ''ACTION_ALREADY_TERMINATED'')
     (rthen (ensure (rget action ''candidate_identity'' = PStr candidate_id
                \<and> rget action ''freeze_identity'' = opt_text freeze_id \<and> rget action ''mode'' = PStr md)
              ''ACTION_BINDING_MISMATCH'')
       (Inr action)))"

definition authorize_terminal_result_from_history :: "ledger_entry list \<Rightarrow> string \<Rightarrow> string \<Rightarrow> string option \<Rightarrow> string
    \<Rightarrow> forge_record res" where
  "authorize_terminal_result_from_history hist action_id candidate_id freeze_id md =
     (let actions = filter (\<lambda>r. rtype r = VERIFIER_ACTION \<and> rget r ''action_id'' = PStr action_id)
                      (map payload hist);
          results = filter (\<lambda>e. rtype (payload e) = VERIFIER_RESULT) hist
      in if actions = [] then raise ''ACTION_NOT_RECORDED''
         else authorize_terminal_result_for_recorded_action (last actions) results action_id candidate_id freeze_id md)"

definition authorize_terminal_result :: "state_machine \<Rightarrow> string \<Rightarrow> string \<Rightarrow> string option \<Rightarrow> string \<Rightarrow> forge_record res" where
  "authorize_terminal_result s = authorize_terminal_result_from_history (history (inputs s))"

section \<open>Inspection\<close>

text \<open>
  The code of a refused transition. Only a \<open>ForgeError\<close> is caught; any other exception leaves
  \<open>inspect\<close>.
\<close>

definition blocker_of :: "'a res \<Rightarrow> blocker list res" where
  "blocker_of result =
     (case result of
        Inr _ \<Rightarrow> Inr []
      | Inl (ForgeError c) \<Rightarrow> Inr [c]
      | Inl e \<Rightarrow> Inl e)"

definition unterminated_action :: "machine_inputs \<Rightarrow> forge_record option" where
  "unterminated_action m =
     (let terminal_ids = map (\<lambda>r. text_of r ''action_id'') (records_of m VERIFIER_RESULT)
      in case filter (\<lambda>r. text_of r ''action_id'' \<notin> set terminal_ids) (records_of m VERIFIER_ACTION) of
           [] \<Rightarrow> None
         | r # _ \<Rightarrow> Some r)"

definition record_terminal_result :: "state_machine \<Rightarrow> forge_record res" where
  "record_terminal_result s =
     (case unterminated_action (inputs s) of
        None \<Rightarrow> raise ''ACTION_NOT_RECORDED''
      | Some r \<Rightarrow>
          authorize_terminal_result s (text_of r ''action_id'') (text_of r ''candidate_identity'')
            (if rget r ''freeze_identity'' = PNone then None else Some (text_of r ''freeze_identity''))
            (text_of r ''mode''))"

definition compare_lineage :: "state_machine \<Rightarrow> unit res" where
  "compare_lineage s =
     (let lineage = candidate_lineage (projection s)
      in rthen (ensure (length lineage \<ge> 2) ''COMPARE_INPUT'') (authorize_candidate_comparison s lineage))"

text \<open>The blockers of every operation, in the order of \<open>OPERATIONS\<close>.\<close>

definition operation_blockers :: "state_machine \<Rightarrow> (string \<times> blocker list) list res" where
  "operation_blockers s =
     (let p = projection s;
          candidate_id = map_option (\<lambda>c. text_of c ''candidate_id'') (current_candidate p);
          named = (case candidate_id of None \<Rightarrow> [] | Some c \<Rightarrow> c);
          epoch_id = map_option (\<lambda>e. text_of e ''epoch_id'') (active_epoch p);
          work = blocker_of (authorize_development_work s candidate_id False);
          evaluate = blocker_of (authorize_evaluator_entry s candidate_id)
      in rmap (\<lambda>(name, result). rbind result (\<lambda>bs. Inr (name, bs)))
          [(''begin_epoch'', blocker_of (authorize_epoch_begin s epoch_id)),
           (''register_candidate'',
             blocker_of (authorize_candidate_register s candidate_id ''prospective-candidate-identity'' None)),
           (''run_project_check'', blocker_of (authorize_development_work s None True)),
           (''run_candidate_check'', work),
           (''compare_candidates'', blocker_of (compare_lineage s)),
           (''select_candidate'', blocker_of (authorize_candidate_disposition s named ''selected'')),
           (''reject_candidate'', blocker_of (authorize_candidate_disposition s named ''rejected'')),
           (''freeze_candidate'',
             blocker_of (authorize_candidate_freeze s named (Some (required_evidence (inputs s))))),
           (''run_evaluation'', evaluate),
           (''run_development_verifier'', work),
           (''run_evaluator_verifier'', evaluate),
           (''reconcile_evidence'', blocker_of (authorize_reconciliation s candidate_id)),
           (''build_bundle'', blocker_of (authorize_bundle s candidate_id True)),
           (''record_verifier_result'', blocker_of (record_terminal_result s))])"

text \<open>
  What \<open>inspect\<close> reports of the operations: the allowed ones, sorted, and the blocked ones with their
  blockers. The preflight is off while the operations are probed; the rest of the report copies fields
  of the projection.
\<close>

definition inspect_operations :: "state_machine \<Rightarrow> (string list \<times> (string \<times> blocker list) list) res" where
  "inspect_operations s =
     rbind (operation_blockers (s\<lparr>native_preflight_enabled := False\<rparr>)) (\<lambda>bs.
       Inr (sort (map fst (filter (\<lambda>b. snd b = []) bs)), sort_key fst (filter (\<lambda>b. snd b \<noteq> []) bs)))"

end
