(* ===== verification/LifecycleFacts.thy ===== *)
theory LifecycleFacts
  imports Authorization RecordFacts
begin

text \<open>
  What the lifecycle projection computes, what each authorizer guarantees when it lets a transition
  pass, and the evidence a ready candidate has. The native adapter is absent in the statements that
  say so.
\<close>

section \<open>Selections from a history\<close>

definition payloads :: "machine_inputs \<Rightarrow> forge_record list" where
  "payloads m = map payload (history m)"

definition of_type :: "record_type \<Rightarrow> forge_record list \<Rightarrow> forge_record list" where
  "of_type rt ps = filter (\<lambda>r. rtype r = rt) ps"

lemma map_snd_filter_enumerate: "map snd (filter (\<lambda>p. P (snd p)) (enumerate n xs)) = filter P xs"
  by (induction xs arbitrary: n) auto

lemma records_of_eq [simp]: "records_of m rt = of_type rt (payloads m)"
  unfolding records_of_def indexed_of_def indexed_def payloads_def of_type_def
  by (rule map_snd_filter_enumerate [of "\<lambda>r. rtype r = rt"])

lemma snd_indexed_of [simp]: "map snd (indexed_of m rt) = of_type rt (payloads m)"
  by (rule records_of_eq [unfolded records_of_def])

lemma of_type_simps [simp]:
  "of_type rt [] = []" "of_type rt (ps @ qs) = of_type rt ps @ of_type rt qs"
  "of_type rt [r] = (if rtype r = rt then [r] else [])"
  by (auto simp: of_type_def)

lemma in_of_type [simp]: "r \<in> set (of_type rt ps) \<longleftrightarrow> r \<in> set ps \<and> rtype r = rt"
  by (auto simp: of_type_def)

lemma prepare_inputs_simps [simp]:
  "history (prepare_inputs a) = history a" "mode (prepare_inputs a) = mode a"
  "native (prepare_inputs a) = native a" "payloads (prepare_inputs a) = payloads a"
  "current_candidate_identity (prepare_inputs a) = current_candidate_identity a"
  "current_authority_identities (prepare_inputs a) = current_authority_identities a"
  "selection_policy_error (prepare_inputs a) = selection_policy_error a"
  by (simp_all add: prepare_inputs_def payloads_def)

section \<open>Chains\<close>

text \<open>The parent a record must name after a list of predecessors.\<close>

definition parent_after :: "string option \<Rightarrow> string \<Rightarrow> forge_record list \<Rightarrow> pyval" where
  "parent_after previous field xs =
     (if xs = [] then (case previous of None \<Rightarrow> PNone | Some p \<Rightarrow> PStr p) else PStr (text_of (last xs) field))"

lemma epoch_scan_snoc:
  "epoch_scan c previous known (xs @ [x]) \<longleftrightarrow>
    epoch_scan c previous known xs \<and> text_of x ''epoch_id'' \<notin> set known \<union> (\<lambda>r. text_of r ''epoch_id'') ` set xs
    \<and> rget x ''parent_epoch'' = parent_after previous ''epoch_id'' xs"
proof (induction xs arbitrary: c previous known)
  case Nil
  then show ?case by (auto simp: parent_after_def Let_def split: option.split)
next
  case (Cons y ys)
  then show ?case by (auto simp: parent_after_def Let_def)
qed

definition placed :: "(string \<times> forge_record) list \<Rightarrow> string \<Rightarrow> pyval \<Rightarrow> bool" where
  "placed known epoch_id parent =
     (parent = PNone \<or> (\<exists>r. map_of known (py_str parent) = Some r \<and> rget r ''source_epoch'' = PStr epoch_id))"

lemma placed_case:
  "(parent = PNone \<or> (case map_of known (py_str parent) of None \<Rightarrow> False | Some r \<Rightarrow> rget r ''source_epoch'' = PStr epoch_id))
    = placed known epoch_id parent"
  by (auto simp: placed_def split: option.split)

lemma candidate_scan_Cons:
  "candidate_scan known epoch_id c previous (x # xs) =
    candidate_scan known epoch_id
      (c \<and> rget x ''parent_candidate'' \<noteq> PStr (text_of x ''candidate_id'')
       \<and> rget x ''parent_candidate'' = (case previous of None \<Rightarrow> PNone | Some p \<Rightarrow> PStr p)
       \<and> placed known epoch_id (rget x ''parent_candidate'')) (Some (text_of x ''candidate_id'')) xs"
  by (simp add: Let_def placed_case) (auto split: option.split intro!: arg_cong [of _ _ "\<lambda>b. candidate_scan known epoch_id b _ xs"])

declare candidate_scan.simps(2) [simp del]

lemma candidate_scan_snoc:
  "candidate_scan known epoch_id c previous (xs @ [x]) \<longleftrightarrow>
    candidate_scan known epoch_id c previous xs \<and> rget x ''parent_candidate'' \<noteq> PStr (text_of x ''candidate_id'')
    \<and> rget x ''parent_candidate'' = parent_after previous ''candidate_id'' xs
    \<and> placed known epoch_id (rget x ''parent_candidate'')"
proof (induction xs arbitrary: c previous)
  case Nil
  then show ?case by (auto simp: candidate_scan_Cons parent_after_def)
next
  case (Cons y ys)
  then show ?case by (simp add: candidate_scan_Cons parent_after_def)
qed

lemma candidate_scan_mono:
  assumes "\<And>k r. map_of known k = Some r \<Longrightarrow> map_of known' k = Some r"
  shows "candidate_scan known epoch_id c previous xs \<Longrightarrow> candidate_scan known' epoch_id c previous xs"
proof (induction xs rule: rev_induct)
  case (snoc x xs)
  then show ?case using assms by (auto simp: candidate_scan_snoc placed_def)
qed simp

lemma lineage_walk_step:
  assumes "c \<notin> set seen" "rget r ''parent_candidate'' = PStr p" "map_of known p = Some r'"
  shows "lineage_walk known seen c r =
    (c # fst (lineage_walk known (c # seen) p r'), snd (lineage_walk known (c # seen) p r'))"
  by (subst lineage_walk.simps) (simp add: assms case_prod_beta)

lemma lineage_walk_root:
  "c \<notin> set seen \<Longrightarrow> rget r ''parent_candidate'' = PNone \<Longrightarrow> lineage_walk known seen c r = ([c], False)"
  by (subst lineage_walk.simps) simp

text \<open>A coherent chain is walked back to its first candidate without closing a cycle.\<close>

lemma lineage_walk_chain:
  assumes "candidate_scan known epoch_id True None xs" "xs \<noteq> []"
    and "\<forall>x \<in> set xs. map_of known (text_of x ''candidate_id'') = Some x"
    and "distinct (map (\<lambda>x. text_of x ''candidate_id'') xs)"
    and "\<forall>x \<in> set xs. text_of x ''candidate_id'' \<notin> set seen"
  shows "lineage_walk known seen (text_of (last xs) ''candidate_id'') (last xs)
    = (rev (map (\<lambda>x. text_of x ''candidate_id'') xs), False)"
  using assms
proof (induction xs arbitrary: seen rule: rev_induct)
  case (snoc x ys)
  let ?id = "\<lambda>x. text_of x ''candidate_id''"
  have sc: "candidate_scan known epoch_id True None ys" "rget x ''parent_candidate'' = parent_after None ''candidate_id'' ys"
    using snoc.prems(1) by (auto simp: candidate_scan_snoc)
  show ?case
  proof (cases "ys = []")
    case True
    then show ?thesis using sc(2) snoc.prems(5) by (simp add: parent_after_def lineage_walk_root)
  next
    case False
    have "lineage_walk known (?id x # seen) (?id (last ys)) (last ys) = (rev (map ?id ys), False)"
    proof (rule snoc.IH [OF sc(1) False])
      show "\<forall>x \<in> set ys. map_of known (?id x) = Some x" "distinct (map ?id ys)"
        using snoc.prems(3,4) by simp_all
      show "\<forall>y \<in> set ys. ?id y \<notin> set (?id x # seen)"
        using snoc.prems(4,5) by (simp add: image_iff) metis
    qed
    moreover have "map_of known (?id (last ys)) = Some (last ys)" "rget x ''parent_candidate'' = PStr (?id (last ys))"
      using snoc.prems(3) False sc(2) by (simp_all add: parent_after_def)
    moreover have "?id x \<notin> set seen" using snoc.prems(5) by simp
    ultimately show ?thesis using lineage_walk_step [of "?id x" seen x "?id (last ys)" known "last ys"] by simp
  qed
qed simp

section \<open>Evidence\<close>

text \<open>The records of one requirement leave nothing to object to.\<close>

definition requirement_met :: "machine_inputs \<Rightarrow> forge_record \<Rightarrow> string \<Rightarrow> bool" where
  "requirement_met m candidate q =
     (let cid = text_of candidate ''candidate_id''; matches = evidence_for m cid q
      in matches \<noteq> [] \<and> candidate_authority_matches m candidate
         \<and> (\<forall>r \<in> set matches. status_text r \<notin> {''FAIL'', ''UNKNOWN''} \<and> observed_freshness m cid r = ''CURRENT''
              \<and> declared_comparable m r \<and> environment_matches m q r \<and> policy_matches m q r))"

lemma no_entry_iff:
  "(filter (\<lambda>q. M q = []) R = [] \<and> filter (\<lambda>q. \<not> F q \<and> U q) (filter (\<lambda>q. M q \<noteq> []) R) = []
    \<and> filter F (filter (\<lambda>q. M q \<noteq> []) R) = [] \<and> filter S (filter (\<lambda>q. M q \<noteq> []) R) = []
    \<and> filter N (filter (\<lambda>q. M q \<noteq> []) R) = [])
   \<longleftrightarrow> (\<forall>q \<in> set R. M q \<noteq> [] \<and> \<not> F q \<and> \<not> U q \<and> \<not> S q \<and> \<not> N q)"
  unfolding filter_empty_conv set_filter mem_Collect_eq by (intro iffI conjI ballI; (elim conjE)?) blast+

lemma nothing_listed_iff:
  "(filter (\<lambda>q. M q = []) R = []
    \<and> filter (\<lambda>q. \<not> (\<exists>r \<in> set (M q). fl r) \<and> (\<exists>r \<in> set (M q). un r)) (filter (\<lambda>q. M q \<noteq> []) R) = []
    \<and> filter (\<lambda>q. \<exists>r \<in> set (M q). fl r) (filter (\<lambda>q. M q \<noteq> []) R) = []
    \<and> filter (\<lambda>q. \<exists>r \<in> set (M q). st r) (filter (\<lambda>q. M q \<noteq> []) R) = []
    \<and> filter (\<lambda>q. (\<exists>r \<in> set (M q). nc q r) \<or> \<not> au) (filter (\<lambda>q. M q \<noteq> []) R) = [])
   \<longleftrightarrow> (\<forall>q \<in> set R. M q \<noteq> [] \<and> au \<and> (\<forall>r \<in> set (M q). \<not> fl r \<and> \<not> un r \<and> \<not> st r \<and> \<not> nc q r))"
  unfolding no_entry_iff by (rule ball_cong [OF refl]) blast

lemma compat_ready_iff:
  "ev_ready (compat_evidence_readiness m (Some c) given) \<longleftrightarrow>
    ev_policy_error (compat_evidence_readiness m (Some c) given) \<in> {None, Some []}
    \<and> (\<forall>q \<in> set (ev_required (compat_evidence_readiness m (Some c) given)). requirement_met m c q)"
proof -
  have "requirement_met m c q \<longleftrightarrow>
     (let cid = text_of c ''candidate_id''
      in evidence_for m cid q \<noteq> [] \<and> candidate_authority_matches m c
        \<and> (\<forall>r \<in> set (evidence_for m cid q). \<not> status_text r = ''FAIL'' \<and> \<not> status_text r = ''UNKNOWN''
             \<and> \<not> observed_freshness m cid r = ''STALE''
             \<and> \<not> (observed_freshness m cid r \<notin> {''STALE'', ''CURRENT''}
                \<or> \<not> declared_comparable m r \<or> \<not> environment_matches m q r \<or> \<not> policy_matches m q r)))" for q
    unfolding requirement_met_def Let_def by auto
  then show ?thesis
    unfolding compat_evidence_readiness_def Let_def option.case evidence_readiness.simps sorted_set_Nil nothing_listed_iff
    by simp
qed

text \<open>The blocker is the absence of readiness, and the status says which of the three it is.\<close>

lemma compat_blocker_iff:
  "ev_policy_error (compat_evidence_readiness m (Some c) given) \<noteq> Some [] \<Longrightarrow>
    evidence_blocker (compat_evidence_readiness m (Some c) given) = None \<longleftrightarrow>
    ev_ready (compat_evidence_readiness m (Some c) given)"
  unfolding compat_evidence_readiness_def Let_def evidence_blocker_def by (simp split: if_splits)

lemma compat_status:
  "ev_status (compat_evidence_readiness m (Some c) given) = ''PASS'' \<longleftrightarrow>
    ev_ready (compat_evidence_readiness m (Some c) given)"
  unfolding compat_evidence_readiness_def Let_def by (simp split: if_splits)

lemma valid_status_text:
  assumes "record_ok jcs r" "rtype r \<in> {WORKFLOW_RESULT, VERIFIER_RESULT}" "status_text r \<notin> {''FAIL'', ''UNKNOWN''}"
  shows "rget r ''status'' = PStr ''PASS''"
proof -
  obtain spec where spec: "RECORD_SPECS (rtype r) = Some spec" "status_field spec = Some ''status''"
    using assms(2) by (auto simp: workflow_result_spec_def verifier_result_spec_def)
  obtain s where "s \<in> set STATUSES" "dict_get (rec_fields r) ''status'' = PStr s"
    using record_status_valid [OF assms(1) spec] by blast
  then show ?thesis
    using assms(3) spec by (auto simp: status_text_def record_status_def text_field_def STATUSES_def rget_def)
qed

section \<open>What the authorizers guarantee\<close>

lemma run_checks_Inr [simp]: "run_checks (c # cs) = Inr () \<longleftrightarrow> c = Inr () \<and> run_checks cs = Inr ()"
  by (cases c) auto

lemma require_no_blocker_Inr [simp]: "require_no_blocker ev = Inr u \<longleftrightarrow> evidence_blocker ev = None"
  by (simp add: require_no_blocker_def split: option.split)

lemma require_unambiguous_Inr [simp]: "require_unambiguous s = Inr u \<longleftrightarrow> stage (projection s) \<noteq> AMBIGUOUS_HISTORY"
  by (simp add: require_unambiguous_def split: list.split)

lemma require_mode_Inr [simp]: "require_mode s x = Inr u \<longleftrightarrow> mode (inputs s) = x"
  by (simp add: require_mode_def)

lemma require_candidate_Inr:
  "require_candidate s cid = Inr c \<longleftrightarrow>
    current_candidate (projection s) = Some c \<and> candidate_freshness (projection s) = ''CURRENT''
    \<and> (\<forall>i. cid = Some i \<longrightarrow> rget c ''candidate_id'' = PStr i)"
  by (auto simp: require_candidate_def split: option.splits if_splits)

lemma authorize_disposition_Inr:
  assumes "authorize_candidate_disposition s cid disp = Inr (c, ev)"
  shows "mode (inputs s) = ''development''" "stage (projection s) \<noteq> AMBIGUOUS_HISTORY"
    "current_candidate (projection s) = Some c" "rget c ''candidate_id'' = PStr cid"
    "candidate_freshness (projection s) = ''CURRENT''" "disposition_status (projection s) = ''undisposed''"
    "disp \<in> {''selected'', ''rejected''}" "ev = evidence (projection s)"
    "disp = ''selected'' \<Longrightarrow> evidence_blocker ev = None"
  using assms by (auto simp: authorize_candidate_disposition_def require_candidate_Inr split: if_splits)

lemma authorize_freeze_Inr:
  assumes "authorize_candidate_freeze s cid plan = Inr (c, d)"
  shows "mode (inputs s) = ''development''" "stage (projection s) \<noteq> AMBIGUOUS_HISTORY"
    "current_candidate (projection s) = Some c" "rget c ''candidate_id'' = PStr cid"
    "candidate_freshness (projection s) = ''CURRENT''" "disposition (projection s) = Some d"
    "disposition_status (projection s) = ''selected''" "freeze (projection s) = None"
    "evidence_blocker (evidence (projection s)) = None"
    "rget d ''selection_policy_identity'' = PStr (selection_policy_identity (inputs s))"
    "rget d ''evidence_status'' = PStr ''PASS''" "plan \<notin> {None, Some []}"
    "\<exists>ev. project_evidence (inputs s) (Some c) plan = Inr ev \<and> evidence_blocker ev = None"
    "\<exists>e. active_epoch (projection s) = Some e
      \<and> authority_matches (rget e ''authority_identities'') (current_authority_identities (inputs s))"
  using assms
  by (auto simp: authorize_candidate_freeze_def Let_def require_candidate_Inr split: option.splits if_splits)

lemma authorize_evaluator_Inr:
  assumes "authorize_evaluator_entry s cid = Inr (fr, c)"
  shows "mode (inputs s) = ''evaluator''" "stage (projection s) \<noteq> AMBIGUOUS_HISTORY"
    "freeze (projection s) = Some fr" "freeze_drift (inputs s) fr = []"
    "current_candidate (projection s) = Some c" "rget c ''candidate_id'' = PStr (text_of fr ''candidate_identity'')"
    "candidate_freshness (projection s) = ''CURRENT''" "disposition_status (projection s) = ''selected''"
    "\<And>i. cid = Some i \<Longrightarrow> rget fr ''candidate_identity'' = PStr i"
    "\<exists>d. disposition (projection s) = Some d \<and> py_eq (rget fr ''selection_record'') (rget d ''disposition_id'')"
  using assms
  by (auto simp: authorize_evaluator_entry_def Let_def require_candidate_Inr split: option.splits if_splits)

end
