(* ===== verification/Lifecycle.thy ===== *)
theory Lifecycle
  imports LifecycleFacts
begin

text \<open>
  Coherent histories: the histories the authorized operations produce. A coherent history is never
  projected to an ambiguous stage, its projection is read off its last epoch and the candidates
  since, and each operation that the authorizers allow extends a coherent history to a coherent one.
\<close>

section \<open>Fields of valid records\<close>

lemma rget_text:
  assumes "record_ok jcs r" "f \<in> set (REQUIRED_STRING_FIELDS (rtype r))" "f \<noteq> ''record_type''" "f \<noteq> ''schema_version''"
  shows "rget r f = PStr (text_of r f)"
  using record_text_field [OF assms(1,2)] assms(3,4) by (auto simp: rget_def text_of_def)

lemma epoch_text: "record_ok jcs r \<Longrightarrow> rtype r = EPOCH \<Longrightarrow> rget r ''epoch_id'' = PStr (text_of r ''epoch_id'')"
  by (rule rget_text) (auto simp: epoch_strings_def)

lemma candidate_text:
  "record_ok jcs r \<Longrightarrow> rtype r = CANDIDATE \<Longrightarrow> rget r ''candidate_id'' = PStr (text_of r ''candidate_id'')"
  "record_ok jcs r \<Longrightarrow> rtype r = CANDIDATE \<Longrightarrow> rget r ''source_epoch'' = PStr (text_of r ''source_epoch'')"
  by (rule rget_text; auto simp: candidate_strings_def)+

lemma disposition_text:
  "record_ok jcs r \<Longrightarrow> rtype r = CANDIDATE_DISPOSITION \<Longrightarrow>
    rget r ''candidate_identity'' = PStr (text_of r ''candidate_identity'')"
  by (rule rget_text) (auto simp: candidate_disposition_strings_def)

lemma freeze_text:
  "record_ok jcs r \<Longrightarrow> rtype r = FREEZE \<Longrightarrow> rget r ''candidate_identity'' = PStr (text_of r ''candidate_identity'')"
  by (rule rget_text) (auto simp: freeze_strings_def)

section \<open>The part of a history since its last epoch\<close>

definition since_epoch :: "forge_record list \<Rightarrow> forge_record list" where
  "since_epoch ps = rev (takeWhile (\<lambda>r. rtype r \<noteq> EPOCH) (rev ps))"

lemma since_epoch_snoc [simp]: "since_epoch (ps @ [r]) = (if rtype r = EPOCH then [] else since_epoch ps @ [r])"
  by (simp add: since_epoch_def)

lemma since_epoch_split:
  "of_type EPOCH ps \<noteq> [] \<Longrightarrow>
    \<exists>us. ps = us @ last (of_type EPOCH ps) # since_epoch ps \<and> of_type EPOCH us = butlast (of_type EPOCH ps)"
proof (induction ps rule: rev_induct)
  case (snoc r ps)
  show ?case
  proof (cases "rtype r = EPOCH")
    case False
    then obtain us where u: "ps = us @ last (of_type EPOCH ps) # since_epoch ps"
        "of_type EPOCH us = butlast (of_type EPOCH ps)"
      using snoc by auto
    have "ps @ [r] = us @ last (of_type EPOCH ps) # (since_epoch ps @ [r])"
      using arg_cong [OF u(1), of "\<lambda>xs. xs @ [r]"] by simp
    with u(2) False show ?thesis by auto
  qed auto
qed simp

lemma set_since_epoch: "set (since_epoch ps) \<subseteq> set ps"
  by (auto simp: since_epoch_def dest: set_takeWhileD)

section \<open>Coherence\<close>

abbreviation epoch_ids :: "forge_record list \<Rightarrow> string list" where
  "epoch_ids ps \<equiv> map (\<lambda>r. text_of r ''epoch_id'') (of_type EPOCH ps)"

abbreviation candidate_ids :: "forge_record list \<Rightarrow> string list" where
  "candidate_ids ps \<equiv> map (\<lambda>r. text_of r ''candidate_id'') (of_type CANDIDATE ps)"

definition about :: "record_type \<Rightarrow> pyval \<Rightarrow> forge_record list \<Rightarrow> forge_record list" where
  "about rt subject ps = filter (\<lambda>r. rget r ''candidate_identity'' = subject) (of_type rt ps)"

lemma about_snoc [simp]:
  "about rt subject (ps @ [r]) = about rt subject ps
    @ (if rtype r = rt \<and> rget r ''candidate_identity'' = subject then [r] else [])"
  by (simp add: about_def)

text \<open>The candidates of the last epoch are the ones recorded since, and they form one chain.\<close>

definition active_chain :: "forge_record list \<Rightarrow> bool" where
  "active_chain ps =
     (of_type EPOCH ps = []
      \<or> (let epoch_id = text_of (last (of_type EPOCH ps)) ''epoch_id''; chain = of_type CANDIDATE (since_epoch ps)
          in filter (\<lambda>r. rget r ''source_epoch'' = PStr epoch_id) (of_type CANDIDATE ps) = chain
             \<and> candidate_scan (known_candidates (of_type CANDIDATE ps)) epoch_id True None chain))"

definition coherent :: "jcs \<Rightarrow> forge_record list \<Rightarrow> bool" where
  "coherent jcs ps =
     ((\<forall>r \<in> set ps. record_ok jcs r)
      \<and> epoch_scan True None [] (of_type EPOCH ps)
      \<and> distinct (candidate_ids ps)
      \<and> (\<forall>r \<in> set (of_type CANDIDATE ps). text_of r ''source_epoch'' \<in> set (epoch_ids ps))
      \<and> active_chain ps
      \<and> (\<forall>c. length (about CANDIDATE_DISPOSITION c ps) \<le> 1)
      \<and> (\<forall>c. length (about FREEZE c ps) \<le> 1))"

lemma coherent_Nil: "coherent jcs []"
  by (simp add: coherent_def active_chain_def about_def)

lemma epoch_scan_distinct:
  "epoch_scan True None [] xs \<Longrightarrow> distinct (map (\<lambda>r. text_of r ''epoch_id'') xs)"
  by (induction xs rule: rev_induct) (auto simp: epoch_scan_snoc)

lemma map_of_known:
  assumes "distinct (map (\<lambda>r. text_of r ''candidate_id'') cs)"
  shows "map_of (known_candidates cs) k = Some r \<longleftrightarrow> r \<in> set cs \<and> text_of r ''candidate_id'' = k"
proof -
  have "distinct (map fst (known_candidates cs))"
    using assms by (simp add: known_candidates_def rev_map [symmetric] comp_def)
  then show ?thesis by (auto simp: known_candidates_def image_iff)
qed

section \<open>Projections of coherent histories\<close>

text \<open>The position of the last epoch, when epochs have different identities.\<close>

lemma active_index:
  assumes "coherent jcs (payloads m)" "payloads m = us @ e # vs" "rtype e = EPOCH" "of_type EPOCH vs = []"
  shows "fst (hd (filter (\<lambda>p. rget (snd p) ''epoch_id'' = PStr (text_of e ''epoch_id'')) (indexed_of m EPOCH)))
    = length us"
proof -
  let ?P = "\<lambda>p. rtype (snd p) = EPOCH \<and> rget (snd p) ''epoch_id'' = PStr (text_of e ''epoch_id'')"
  have ok: "\<forall>r \<in> set (payloads m). record_ok jcs r" using assms(1) by (simp add: coherent_def)
  have dist: "distinct (epoch_ids (payloads m))" using assms(1) epoch_scan_distinct by (auto simp: coherent_def)
  have d: "\<forall>u \<in> set us. rtype u = EPOCH \<longrightarrow> text_of u ''epoch_id'' \<noteq> text_of e ''epoch_id''"
  proof (intro ballI impI notI)
    fix u
    assume u: "u \<in> set us" "rtype u = EPOCH" "text_of u ''epoch_id'' = text_of e ''epoch_id''"
    have "text_of e ''epoch_id'' \<notin> set (epoch_ids us)"
      using dist assms(3) unfolding assms(2) by (auto simp: of_type_def)
    moreover have "text_of u ''epoch_id'' \<in> set (epoch_ids us)" using u(1,2) by auto
    ultimately show False using u(3) by simp
  qed
  have "\<not> ?P p" if "p \<in> set (enumerate 0 us)" for p
  proof -
    have "snd p \<in> set us" using that by (metis map_snd_enumerate in_set_zip set_map image_eqI)
    then show ?thesis using d ok assms(2) epoch_text [of jcs "snd p"] by auto
  qed
  then have u: "filter ?P (enumerate 0 us) = []" by (simp add: filter_empty_conv)
  have e: "?P (length us, e)" using ok assms(2,3) epoch_text [of jcs e] by simp
  have "filter (\<lambda>p. rget (snd p) ''epoch_id'' = PStr (text_of e ''epoch_id'')) (indexed_of m EPOCH)
      = filter ?P (enumerate 0 (us @ e # vs))"
    using assms(2) by (simp add: indexed_of_def indexed_def payloads_def)
  also have "\<dots> = (length us, e) # filter ?P (enumerate (Suc (length us)) vs)"
    using u e by (simp add: enumerate_append_eq)
  finally show ?thesis by simp
qed

lemma epoch_projection_coherent:
  assumes "coherent jcs (payloads m)"
  shows "epoch_projection m =
    (if of_type EPOCH (payloads m) = [] then (None, ''absent'', [], [])
     else (Some (last (of_type EPOCH (payloads m))), ''active'', butlast (epoch_ids (payloads m)), []))"
  using assms by (simp add: epoch_projection_def coherent_def map_butlast Let_def)

definition chain_of :: "forge_record list \<Rightarrow> forge_record list" where
  "chain_of ps = of_type CANDIDATE (since_epoch ps)"

lemma candidate_projection_coherent:
  assumes "coherent jcs (payloads m)" "of_type EPOCH (payloads m) \<noteq> []"
  shows "candidate_projection m (Some (last (of_type EPOCH (payloads m)))) =
    (if chain_of (payloads m) = [] then (None, ''absent'', ''UNKNOWN'', [], [])
     else (Some (last (chain_of (payloads m))), ''current'',
           if text_of (last (chain_of (payloads m))) ''candidate_id'' = current_candidate_identity m
           then ''CURRENT'' else ''STALE'',
           map (\<lambda>r. text_of r ''candidate_id'') (chain_of (payloads m)), []))"
proof -
  let ?ps = "payloads m" and ?e = "last (of_type EPOCH (payloads m))" and ?chain = "chain_of (payloads m)"
  let ?id = "text_of ?e ''epoch_id''" and ?known = "known_candidates (of_type CANDIDATE (payloads m))"
  obtain us where us: "?ps = us @ ?e # since_epoch ?ps"
    using since_epoch_split [OF assms(2)] by blast
  have ne: "of_type EPOCH (since_epoch ?ps) = []"
    by (auto simp: of_type_def since_epoch_def filter_empty_conv dest: set_takeWhileD)
  have et: "rtype ?e = EPOCH" using assms(2) last_in_set by fastforce
  have ai: "fst (hd (filter (\<lambda>p. rget (snd p) ''epoch_id'' = PStr ?id) (indexed_of m EPOCH))) = length us"
    by (rule active_index [OF assms(1) us et ne])
  have ch: "filter (\<lambda>r. rget r ''source_epoch'' = PStr ?id) (of_type CANDIDATE ?ps) = ?chain"
      "candidate_scan ?known ?id True None ?chain"
    using assms by (auto simp: coherent_def active_chain_def chain_of_def Let_def)
  have dist: "distinct (candidate_ids ?ps)" and ok: "\<forall>r \<in> set ?ps. record_ok jcs r"
    using assms(1) by (auto simp: coherent_def)
  have no: "\<not> (\<exists>p \<in> set (indexed_of m CANDIDATE). fst p > length us \<and> rget (snd p) ''source_epoch'' \<noteq> PStr ?id)"
  proof
    assume "\<exists>p \<in> set (indexed_of m CANDIDATE). fst p > length us \<and> rget (snd p) ''source_epoch'' \<noteq> PStr ?id"
    then obtain i r where p: "(i, r) \<in> set (indexed_of m CANDIDATE)" "i > length us" "rget r ''source_epoch'' \<noteq> PStr ?id"
      by auto
    then have i: "i < length ?ps" "?ps ! i = r" "rtype r = CANDIDATE"
      by (auto simp: indexed_of_def indexed_def payloads_def in_set_enumerate_eq)
    then have "(us @ ?e # since_epoch ?ps) ! i = r" "i < length (us @ ?e # since_epoch ?ps)"
      using i(1,2) unfolding us [symmetric] by simp_all
    moreover obtain j where j: "i = length us + Suc j" using p(2) less_iff_Suc_add by auto
    ultimately have "since_epoch ?ps ! j = r" "j < length (since_epoch ?ps)"
      unfolding j nth_append_length_plus by (simp_all add: nth_Cons_Suc)
    then have "r \<in> set (since_epoch ?ps)" by (metis nth_mem)
    then have "r \<in> set ?chain" using i(3) by (auto simp: chain_of_def)
    then have "r \<in> set (filter (\<lambda>r. rget r ''source_epoch'' = PStr ?id) (of_type CANDIDATE ?ps))" using ch(1) by simp
    then show False using p(3) by simp
  qed
  have sub: "set ?chain \<subseteq> set (of_type CANDIDATE ?ps)" using ch(1) by (metis filter_is_subset)
  show ?thesis
  proof (cases "?chain = []")
    case True
    then show ?thesis using ai no ch by (simp add: candidate_projection_def Let_def)
  next
    case False
    have "map_of ?known (text_of x ''candidate_id'') = Some x" if "x \<in> set ?chain" for x
      using sub that map_of_known [OF dist] by blast
    moreover have "distinct (map (\<lambda>x. text_of x ''candidate_id'') ?chain)"
      using dist unfolding ch(1) [symmetric] by (rule distinct_map_filter)
    ultimately have "lineage_walk ?known [] (text_of (last ?chain) ''candidate_id'') (last ?chain)
        = (rev (map (\<lambda>x. text_of x ''candidate_id'') ?chain), False)"
      using lineage_walk_chain [OF ch(2) False] by simp
    moreover have "rget (last ?chain) ''candidate_id'' = PStr (text_of (last ?chain) ''candidate_id'')"
      using False sub ok candidate_text(1) [of jcs "last ?chain"] last_in_set by fastforce
    ultimately show ?thesis using ai no ch False by (simp add: candidate_projection_def Let_def)
  qed
qed

lemma candidates_need_epoch:
  "coherent jcs ps \<Longrightarrow> of_type EPOCH ps = [] \<Longrightarrow> of_type CANDIDATE ps = []"
  by (cases "of_type CANDIDATE ps") (auto simp: coherent_def)

definition active_chain_of :: "forge_record list \<Rightarrow> forge_record list" where
  "active_chain_of ps = (if of_type EPOCH ps = [] then [] else chain_of ps)"

definition last_of :: "'a list \<Rightarrow> 'a option" where
  "last_of xs = (if xs = [] then None else Some (last xs))"

lemma last_of_simps [simp]: "last_of [] = None" "last_of (xs @ [x]) = Some x" "last_of xs = None \<longleftrightarrow> xs = []"
  by (simp_all add: last_of_def)

lemma records_about_eq: "records_about m rt c =
    about rt (case c of None \<Rightarrow> PNone | Some r \<Rightarrow> PStr (text_of r ''candidate_id'')) (payloads m)"
  by (simp add: records_about_def about_def)

text \<open>The projection of a coherent history.\<close>

lemma base_projection_coherent:
  assumes "coherent jcs (payloads m)" "chain = active_chain_of (payloads m)" "p = base_projection m ev"
  shows "stage p \<noteq> AMBIGUOUS_HISTORY"
    "active_epoch p = last_of (of_type EPOCH (payloads m))"
    "superseded_epochs p = butlast (epoch_ids (payloads m))"
    "current_candidate p = last_of chain"
    "candidate_lineage p = map (\<lambda>r. text_of r ''candidate_id'') chain"
    "candidate_freshness p = ''CURRENT'' \<longleftrightarrow>
      (\<exists>c. last_of chain = Some c \<and> text_of c ''candidate_id'' = current_candidate_identity m)"
    "chain \<noteq> [] \<Longrightarrow> disposition p = last_of (about CANDIDATE_DISPOSITION (PStr (text_of (last chain) ''candidate_id'')) (payloads m))"
    "chain \<noteq> [] \<Longrightarrow> freeze p = last_of (about FREEZE (PStr (text_of (last chain) ''candidate_id'')) (payloads m))"
    "disposition_status p = (case disposition p of None \<Rightarrow> ''undisposed'' | Some d \<Rightarrow> text_of d ''disposition'')"
    "evidence p = ev"
    "current_candidate p = projected_candidate m"
proof -
  let ?ps = "payloads m"
  have ep: "epoch_projection m = (if of_type EPOCH ?ps = [] then (None, ''absent'', [], [])
      else (Some (last (of_type EPOCH ?ps)), ''active'', butlast (epoch_ids ?ps), []))"
    by (rule epoch_projection_coherent [OF assms(1)])
  obtain cand cst fr lin where cp: "candidate_projection m (fst (epoch_projection m)) = (cand, cst, fr, lin, [])"
      and cand: "cand = last_of chain" "lin = map (\<lambda>r. text_of r ''candidate_id'') chain"
        "fr = ''CURRENT'' \<longleftrightarrow> (\<exists>c. last_of chain = Some c \<and> text_of c ''candidate_id'' = current_candidate_identity m)"
    using candidate_projection_coherent [OF assms(1)] ep
    by (cases "of_type EPOCH ?ps = []")
      (auto simp: candidate_projection_def assms(2) active_chain_of_def last_of_def split: if_splits)
  have one: "length (about CANDIDATE_DISPOSITION c ?ps) \<le> 1" "length (about FREEZE c ?ps) \<le> 1" for c
    using assms(1) by (auto simp: coherent_def)
  have only: "only (about rt c ?ps) = last_of (about rt c ?ps)" if "rt \<in> {CANDIDATE_DISPOSITION, FREEZE}" for rt c
    using that one [of c] by (auto simp: only_def last_of_def le_Suc_eq)
  note lens = one [THEN leD, unfolded One_nat_def]
  show "stage p \<noteq> AMBIGUOUS_HISTORY"
    using cp ep lens unfolding assms(3) base_projection_def Let_def
    by (auto simp: records_about_eq select_stage_def conflict_codes_def split: if_splits)
  show "active_epoch p = last_of (of_type EPOCH ?ps)" "superseded_epochs p = butlast (epoch_ids ?ps)"
    "current_candidate p = last_of chain" "candidate_lineage p = map (\<lambda>r. text_of r ''candidate_id'') chain"
    "candidate_freshness p = ''CURRENT'' \<longleftrightarrow>
      (\<exists>c. last_of chain = Some c \<and> text_of c ''candidate_id'' = current_candidate_identity m)"
    "evidence p = ev" "current_candidate p = projected_candidate m"
    using cp cand ep unfolding assms(3) base_projection_def Let_def projected_candidate_def
    by (auto simp: last_of_def split: if_splits)
  show "chain \<noteq> [] \<Longrightarrow> disposition p = last_of (about CANDIDATE_DISPOSITION (PStr (text_of (last chain) ''candidate_id'')) ?ps)"
    "chain \<noteq> [] \<Longrightarrow> freeze p = last_of (about FREEZE (PStr (text_of (last chain) ''candidate_id'')) ?ps)"
    using cp cand(1) ep only unfolding assms(3) base_projection_def Let_def
    by (auto simp: records_about_eq last_of_def split: if_splits)
  show "disposition_status p = (case disposition p of None \<Rightarrow> ''undisposed'' | Some d \<Rightarrow> text_of d ''disposition'')"
    using cp ep lens only unfolding assms(3) base_projection_def Let_def
    by (auto simp: records_about_eq split: if_splits)
qed

section \<open>Extending a coherent history\<close>

lemma map_of_known_snoc [simp]:
  "map_of (known_candidates (cs @ [r])) k = (if k = text_of r ''candidate_id'' then Some r else map_of (known_candidates cs) k)"
  by (simp add: known_candidates_def)

lemma coherent_add_epoch:
  assumes "coherent jcs ps" "record_ok jcs r" "rtype r = EPOCH" "text_of r ''epoch_id'' \<notin> set (epoch_ids ps)"
    and "rget r ''parent_epoch'' = parent_after None ''epoch_id'' (of_type EPOCH ps)"
  shows "coherent jcs (ps @ [r])"
proof -
  have "rget c ''source_epoch'' \<noteq> PStr (text_of r ''epoch_id'')" if "c \<in> set (of_type CANDIDATE ps)" for c
  proof -
    have "record_ok jcs c" "rtype c = CANDIDATE" "text_of c ''source_epoch'' \<in> set (epoch_ids ps)"
      using assms(1) that by (auto simp: coherent_def)
    then show ?thesis using assms(4) candidate_text(2) [of jcs c] by auto
  qed
  then have "active_chain (ps @ [r])" using assms(3) by (simp add: active_chain_def Let_def filter_empty_conv)
  then show ?thesis using assms by (simp add: coherent_def epoch_scan_snoc)
qed

lemma coherent_add_candidate:
  assumes "coherent jcs ps" "record_ok jcs r" "rtype r = CANDIDATE" "of_type EPOCH ps \<noteq> []"
    and "rget r ''source_epoch'' = PStr (text_of (last (of_type EPOCH ps)) ''epoch_id'')"
    and "text_of r ''candidate_id'' \<notin> set (candidate_ids ps)"
    and "rget r ''parent_candidate'' = parent_after None ''candidate_id'' (chain_of ps)"
  shows "coherent jcs (ps @ [r])"
proof -
  let ?cs = "of_type CANDIDATE ps" and ?id = "text_of (last (of_type EPOCH ps)) ''epoch_id''"
  have ch: "filter (\<lambda>r. rget r ''source_epoch'' = PStr ?id) ?cs = chain_of ps"
      "candidate_scan (known_candidates ?cs) ?id True None (chain_of ps)"
    using assms(1,4) by (auto simp: coherent_def active_chain_def chain_of_def Let_def)
  have dist: "distinct (candidate_ids ps)" using assms(1) by (simp add: coherent_def)
  have sc: "candidate_scan (known_candidates (?cs @ [r])) ?id True None (chain_of ps)"
  proof (rule candidate_scan_mono [OF _ ch(2)])
    show "map_of (known_candidates ?cs) k = Some x \<Longrightarrow> map_of (known_candidates (?cs @ [r])) k = Some x" for k x
      using map_of_known [OF dist, of k x] assms(6) by (cases "k = text_of r ''candidate_id''") (auto simp: image_iff simp del: in_of_type)
  qed
  have last: "last (chain_of ps) \<in> set ?cs \<and> rget (last (chain_of ps)) ''source_epoch'' = PStr ?id" if "chain_of ps \<noteq> []"
  proof -
    have "last (chain_of ps) \<in> set (filter (\<lambda>r. rget r ''source_epoch'' = PStr ?id) ?cs)"
      unfolding ch(1) using that by simp
    then show ?thesis by simp
  qed
  have "rget r ''parent_candidate'' \<noteq> PStr (text_of r ''candidate_id'')"
  proof (cases "chain_of ps = []")
    case False
    then have "text_of (last (chain_of ps)) ''candidate_id'' \<in> set (candidate_ids ps)" 
      unfolding set_map by (intro imageI conjunct1 [OF last [OF False]])
    then show ?thesis using assms(6,7) False by (auto simp: parent_after_def)
  qed (use assms(7) in \<open>simp add: parent_after_def\<close>)
  moreover have "placed (known_candidates (?cs @ [r])) ?id (rget r ''parent_candidate'')"
  proof (cases "chain_of ps = []")
    case False
    then have "map_of (known_candidates ?cs) (text_of (last (chain_of ps)) ''candidate_id'') = Some (last (chain_of ps))"
      using map_of_known [OF dist] last by blast
    then show ?thesis using assms(5,7) last False by (auto simp: placed_def parent_after_def)
  qed (use assms(7) in \<open>simp add: placed_def parent_after_def\<close>)
  ultimately have "candidate_scan (known_candidates (?cs @ [r])) ?id True None (chain_of ps @ [r])"
    using sc assms(7) by (simp add: candidate_scan_snoc)
  then have "active_chain (ps @ [r])"
    using assms(3,5) ch(1) by (simp add: active_chain_def Let_def chain_of_def)
  moreover have "text_of r ''source_epoch'' \<in> set (epoch_ids ps)"
    using assms(4,5) last_in_set [OF assms(4)] by (auto simp: text_of_def)
  ultimately show ?thesis using assms(1-3,6) by (simp add: coherent_def)
qed

lemma active_chain_snoc:
  "rtype r \<notin> {EPOCH, CANDIDATE} \<Longrightarrow> active_chain (ps @ [r]) = active_chain ps"
  by (simp add: active_chain_def)

lemma coherent_add_disposition:
  assumes "coherent jcs ps" "record_ok jcs r" "rtype r = CANDIDATE_DISPOSITION"
    and "about CANDIDATE_DISPOSITION (rget r ''candidate_identity'') ps = []"
  shows "coherent jcs (ps @ [r])"
  using assms by (auto simp: coherent_def active_chain_snoc)

lemma coherent_add_freeze:
  assumes "coherent jcs ps" "record_ok jcs r" "rtype r = FREEZE" "about FREEZE (rget r ''candidate_identity'') ps = []"
  shows "coherent jcs (ps @ [r])"
  using assms by (auto simp: coherent_def active_chain_snoc)

lemma coherent_add_other:
  assumes "coherent jcs ps" "record_ok jcs r" "rtype r \<notin> {EPOCH, CANDIDATE, CANDIDATE_DISPOSITION, FREEZE}"
  shows "coherent jcs (ps @ [r])"
  using assms by (auto simp: coherent_def active_chain_snoc)

section \<open>The authorizers on coherent histories\<close>

lemma new_machine_compat:
  assumes "new_machine a = Inr s" "native a = None"
  shows "inputs s = prepare_inputs a"
    "projection s = base_projection (prepare_inputs a)
       (compat_evidence_readiness (prepare_inputs a) (projected_candidate (prepare_inputs a)) None)"
  using assms by (auto simp: new_machine_def Let_def project_def project_evidence_def apply_native_projection_def)

text \<open>A machine over a coherent history, with what it projects.\<close>

lemma machine_coherent:
  assumes "new_machine a = Inr s" "native a = None" "coherent jcs (payloads a)"
  defines "chain \<equiv> active_chain_of (payloads a)"
  shows "stage (projection s) \<noteq> AMBIGUOUS_HISTORY"
    "active_epoch (projection s) = last_of (of_type EPOCH (payloads a))"
    "superseded_epochs (projection s) = butlast (epoch_ids (payloads a))"
    "current_candidate (projection s) = last_of chain"
    "candidate_lineage (projection s) = map (\<lambda>r. text_of r ''candidate_id'') chain"
    "chain \<noteq> [] \<Longrightarrow> disposition (projection s) =
      last_of (about CANDIDATE_DISPOSITION (PStr (text_of (last chain) ''candidate_id'')) (payloads a))"
    "chain \<noteq> [] \<Longrightarrow> freeze (projection s) =
      last_of (about FREEZE (PStr (text_of (last chain) ''candidate_id'')) (payloads a))"
    "disposition_status (projection s) =
      (case disposition (projection s) of None \<Rightarrow> ''undisposed'' | Some d \<Rightarrow> text_of d ''disposition'')"
    "evidence (projection s) = compat_evidence_readiness (prepare_inputs a) (last_of chain) None"
proof -
  note m = new_machine_compat [OF assms(1,2)]
  have c: "coherent jcs (payloads (prepare_inputs a))" using assms(3) by simp
  note p = base_projection_coherent [OF c refl m(2)]
  show "stage (projection s) \<noteq> AMBIGUOUS_HISTORY"
    "active_epoch (projection s) = last_of (of_type EPOCH (payloads a))"
    "superseded_epochs (projection s) = butlast (epoch_ids (payloads a))"
    "current_candidate (projection s) = last_of chain"
    "candidate_lineage (projection s) = map (\<lambda>r. text_of r ''candidate_id'') chain"
    "chain \<noteq> [] \<Longrightarrow> disposition (projection s) =
      last_of (about CANDIDATE_DISPOSITION (PStr (text_of (last chain) ''candidate_id'')) (payloads a))"
    "chain \<noteq> [] \<Longrightarrow> freeze (projection s) =
      last_of (about FREEZE (PStr (text_of (last chain) ''candidate_id'')) (payloads a))"
    using p(1-5,7,8) by (simp_all add: chain_def)
  show "disposition_status (projection s) =
      (case disposition (projection s) of None \<Rightarrow> ''undisposed'' | Some d \<Rightarrow> text_of d ''disposition'')"
    by (rule p(9))
  show "evidence (projection s) = compat_evidence_readiness (prepare_inputs a) (last_of chain) None"
    using p(4,10,11) by (simp add: chain_def)
qed

lemma epoch_begin_parent:
  assumes "authorize_epoch_begin s parent = Inr ()" "new_machine a = Inr s" "native a = None" "coherent jcs (payloads a)"
  shows "opt_text parent = parent_after None ''epoch_id'' (of_type EPOCH (payloads a))"
proof -
  note p = machine_coherent [OF assms(2-4)]
  show ?thesis using assms(1) p(2)
    by (auto simp: authorize_epoch_begin_def opt_text_def parent_after_def last_of_def split: option.splits if_splits)
qed

lemma candidate_register_parent:
  assumes "authorize_candidate_register s parent proposed eid = Inr e" "new_machine a = Inr s" "native a = None"
    and "coherent jcs (payloads a)"
  shows "of_type EPOCH (payloads a) \<noteq> []" "e = last (of_type EPOCH (payloads a))"
    "opt_text parent = parent_after None ''candidate_id'' (chain_of (payloads a))" "freeze (projection s) = None"
proof -
  note p = machine_coherent [OF assms(2-4)]
  have e: "last_of (of_type EPOCH (payloads a)) = Some e" "freeze (projection s) = None"
    using assms(1) p(2) by (auto simp: authorize_candidate_register_def split: option.splits)
  then show "of_type EPOCH (payloads a) \<noteq> []" "e = last (of_type EPOCH (payloads a))" "freeze (projection s) = None"
    by (auto simp: last_of_def split: if_splits)
  then have c: "current_candidate (projection s) = last_of (chain_of (payloads a))"
    using p(4) by (simp add: active_chain_of_def)
  show "opt_text parent = parent_after None ''candidate_id'' (chain_of (payloads a))"
    using assms(1) c
    by (auto simp: authorize_candidate_register_def opt_text_def parent_after_def last_of_def split: option.splits if_splits)
qed

lemma disposition_value:
  assumes "record_ok jcs r" "rtype r = CANDIDATE_DISPOSITION"
  shows "text_of r ''disposition'' \<in> {''selected'', ''rejected''}"
proof -
  obtain d where d: "\<And>k. dict_get (rec_fields r) k = freeze_json (dict_get d k)" "validate_type_rules jcs (rtype r) d = Inr ()"
    using record_type_rules [OF assms(1)] by blast
  then have "dict_get d ''disposition'' = PStr ''selected'' \<or> dict_get d ''disposition'' = PStr ''rejected''"
    using assms(2) by (auto simp: validate_type_rules_def)
  then show ?thesis using d(1) by (auto simp: text_of_def rget_def)
qed

lemma disposition_first:
  assumes "authorize_candidate_disposition s cid disp = Inr (c, ev)" "new_machine a = Inr s" "native a = None"
    and "coherent jcs (payloads a)"
  shows "about CANDIDATE_DISPOSITION (PStr cid) (payloads a) = []"
proof -
  note p = machine_coherent [OF assms(2-4)] and i = authorize_disposition_Inr [OF assms(1)]
  have ch: "active_chain_of (payloads a) \<noteq> []" "c = last (active_chain_of (payloads a))"
    using i(3) p(4) by (auto simp: last_of_def split: if_splits)
  have "text_of c ''candidate_id'' = cid" using i(4) by (simp add: text_of_def)
  then have d: "disposition (projection s) = last_of (about CANDIDATE_DISPOSITION (PStr cid) (payloads a))"
    using p(6) ch by simp
  show ?thesis
  proof (rule ccontr)
    assume ne: "about CANDIDATE_DISPOSITION (PStr cid) (payloads a) \<noteq> []"
    let ?d = "last (about CANDIDATE_DISPOSITION (PStr cid) (payloads a))"
    have "?d \<in> set (about CANDIDATE_DISPOSITION (PStr cid) (payloads a))" using ne by simp
    then have "record_ok jcs ?d" "rtype ?d = CANDIDATE_DISPOSITION"
      using assms(4) by (auto simp: about_def coherent_def)
    then have "text_of ?d ''disposition'' \<in> {''selected'', ''rejected''}" by (rule disposition_value)
    then show False using i(6) p(8) d ne by (auto simp: last_of_def)
  qed
qed

lemma freeze_first:
  assumes "authorize_candidate_freeze s cid plan = Inr (c, d)" "new_machine a = Inr s" "native a = None"
    and "coherent jcs (payloads a)"
  shows "about FREEZE (PStr cid) (payloads a) = []"
proof -
  note p = machine_coherent [OF assms(2-4)] and i = authorize_freeze_Inr [OF assms(1)]
  have ch: "active_chain_of (payloads a) \<noteq> []" "c = last (active_chain_of (payloads a))"
    using i(3) p(4) by (auto simp: last_of_def split: if_splits)
  have "text_of c ''candidate_id'' = cid" using i(4) by (simp add: text_of_def)
  then show ?thesis using p(7) [symmetric] ch i(8) by simp
qed

end
