(* ===== verification/Services.thy ===== *)
theory Services
  imports Lifecycle RecordStore
begin

text \<open>
  The application services that move a candidate through its lifecycle (application/lifecycle.py,
  application/candidates.py, application/evaluation.py, application/support.py): each builds a
  machine from the verified history and current observations, asks it for authorization, builds one
  record, and commits it.

  The project observer and the configuration read the working tree; they are a record of functions
  and values, one per observation the services make (each may raise), taken once per operation. The
  clock, the transaction name and the rights policy check are arguments.
\<close>

section \<open>Observations\<close>

record project_observer =
  ob_candidate_identity :: "string res"
  ob_authority_identities :: "(string \<times> string) list res"
  ob_freeze_bindings :: "string \<Rightarrow> forge_record option \<Rightarrow> (string \<times> string) list res"
  ob_evidence_policy :: "(string \<times> string list \<times> string option) res"
  ob_evidence_envelopes :: "((string \<rightharpoonup> string list) \<times> (string \<rightharpoonup> string) \<times> (string \<rightharpoonup> string)) res"
  ob_content_identity :: "string \<Rightarrow> string res"
  ob_visible_identities :: "(string \<times> string) list res"
  ob_changed_files :: "string list \<Rightarrow> (string \<times> string) list res"
  ob_resolve :: "string \<Rightarrow> unit res"

record project_config =
  cf_mode :: string
  cf_benefit_objective :: string
  cf_selection_policy :: string
  cf_frozen_path_sets :: dict
  cf_output_cap :: nat
  cf_native :: "native_adapter option"

section \<open>The machine of the moment\<close>

definition current_freeze_of :: "ledger_entry list \<Rightarrow> forge_record option" where
  "current_freeze_of hist =
     (case filter (\<lambda>e. kind e = ''freeze'') (rev hist) of [] \<Rightarrow> None | e # _ \<Rightarrow> Some (payload e))"

definition lifecycle_inputs :: "project_config \<Rightarrow> project_observer \<Rightarrow> bool \<Rightarrow> bool \<Rightarrow> bool \<Rightarrow> ledger_entry list
    \<Rightarrow> machine_inputs res" where
  "lifecycle_inputs cf ob observe_authority observe_bindings observe_policy hist =
     rbind (if observe_policy then ob_evidence_policy ob else Inr ([], [], None)) (\<lambda>(policy, req, policy_err).
     rbind (if observe_policy then ob_evidence_envelopes ob else Inr (Map.empty, Map.empty, Map.empty))
       (\<lambda>(env_keys, env_ids, policy_ids).
     rbind (ob_candidate_identity ob) (\<lambda>cid.
     rbind (if observe_authority then ob_authority_identities ob else Inr []) (\<lambda>authority.
     rbind (if observe_bindings then ob_freeze_bindings ob cid (current_freeze_of hist) else Inr []) (\<lambda>bindings.
       Inr \<lparr>mode = cf_mode cf, history = hist, current_candidate_identity = cid,
            current_authority_identities = authority, current_freeze_bindings = bindings,
            selection_policy_identity = policy, required_evidence = req, selection_policy_error = policy_err,
            evidence_freshness = Map.empty, evidence_comparability = Map.empty,
            evidence_environment_keys = env_keys, evidence_environment_identities = env_ids,
            evidence_policy_identities = policy_ids, native = cf_native cf\<rparr>)))))"

definition lifecycle_machine :: "project_config \<Rightarrow> project_observer \<Rightarrow> bool \<Rightarrow> ledger_entry list \<Rightarrow> state_machine res" where
  "lifecycle_machine cf ob observe_authority hist =
     rbind (lifecycle_inputs cf ob observe_authority True True hist) new_machine"

definition verify_freeze :: "project_config \<Rightarrow> project_observer \<Rightarrow> ledger_entry list \<Rightarrow> pyval \<Rightarrow> unit res" where
  "verify_freeze cf ob hist freeze_id =
     rbind (lifecycle_machine cf ob False hist) (\<lambda>s.
       rbind (authorize_evaluator_entry s None) (\<lambda>(current, _).
         ensure (py_eq (rget current ''freeze_id'') freeze_id) ''FREEZE_SUPERSEDED''))"

definition record_by_id :: "ledger_entry list \<Rightarrow> string \<Rightarrow> string \<Rightarrow> string \<Rightarrow> forge_record res" where
  "record_by_id hist knd identity key =
     (case filter (\<lambda>e. kind e = knd \<and> rget (payload e) key = PStr identity) (rev hist) of
        [] \<Rightarrow> raise ''RECORD_NOT_FOUND''
      | e # _ \<Rightarrow> Inr (payload e))"

definition aggregate_status :: "string list \<Rightarrow> string" where
  "aggregate_status statuses =
     (let vals = filter (\<lambda>s. s \<in> set STATUSES) statuses
      in if vals = [] then ''UNKNOWN''
         else if ''FAIL'' \<in> set vals then ''FAIL''
         else if ''UNKNOWN'' \<in> set vals then ''UNKNOWN''
         else ''PASS'')"

section \<open>Records of the operations\<close>

definition epoch_fields :: "project_observer \<Rightarrow> project_config \<Rightarrow> string \<Rightarrow> string \<Rightarrow> string \<Rightarrow> string option
    \<Rightarrow> string list \<Rightarrow> dict res" where
  "epoch_fields ob cf now generator evaluator parent overlap =
     rbind (ob_content_identity ob ''contracts'') (\<lambda>contract.
     rbind (ob_resolve ob (cf_benefit_objective cf)) (\<lambda>_.
     rbind (ob_content_identity ob ''evaluators'') (\<lambda>default_evaluator.
     rbind (ob_content_identity ob ''baseline'') (\<lambda>baseline.
     rbind (ob_content_identity ob ''objective'') (\<lambda>objective.
     rbind (ob_visible_identities ob) (\<lambda>visible.
     rbind (ob_authority_identities ob) (\<lambda>authority.
       Inr (dict_of
         [(''baseline_identity'', PStr baseline),
          (''generator_identity'', PStr generator),
          (''evaluator_identity'', PStr (if evaluator = [] then default_evaluator else evaluator)),
          (''contract_identity'', PStr contract),
          (''objective_identity'', PStr objective),
          (''visible_partition_identities'', PDict (str_dict visible)),
          (''authority_identities'', PDict (str_dict authority)),
          (''declared_authority_overlap'', PList (map PStr (sort overlap))),
          (''parent_epoch'', opt_text parent),
          (''created_at'', PStr now)]))))))))"

definition begin_epoch_record :: "jcs \<Rightarrow> project_config \<Rightarrow> project_observer \<Rightarrow> string \<Rightarrow> string \<Rightarrow> string
    \<Rightarrow> string option \<Rightarrow> string list \<Rightarrow> ledger_entry list \<Rightarrow> forge_record res" where
  "begin_epoch_record jcs cf ob now generator evaluator parent overlap hist =
     rbind (lifecycle_machine cf ob True hist) (\<lambda>s.
       rthen (authorize_epoch_begin s parent)
         (rbind (epoch_fields ob cf now generator evaluator parent overlap) (new_record jcs EPOCH)))"

definition candidate_fields :: "project_observer \<Rightarrow> project_config \<Rightarrow> string \<Rightarrow> string list \<Rightarrow> string \<Rightarrow> string \<Rightarrow> string
    \<Rightarrow> string option \<Rightarrow> string \<Rightarrow> pyval \<Rightarrow> dict res" where
  "candidate_fields ob cf now changed hypothesis generator generator_config parent current epoch_id =
     rbind (ob_changed_files ob changed) (\<lambda>files.
     rbind (ob_resolve ob (cf_benefit_objective cf)) (\<lambda>_.
     rbind (ob_content_identity ob ''objective'') (\<lambda>objective.
       Inr (dict_of
         [(''candidate_id'', PStr current),
          (''parent_candidate'', opt_text parent),
          (''changed_files'', PList (map PStr (sort (map fst files)))),
          (''declared_hypothesis'', PStr hypothesis),
          (''generator_identity'', PStr generator),
          (''generator_configuration_identity'', PStr generator_config),
          (''source_epoch'', epoch_id),
          (''registered_at'', PStr now),
          (''current_file_identities'', PDict (str_dict files)),
          (''useful_benefit_objective'', PStr (cf_benefit_objective cf)),
          (''objective_identity'', PStr objective),
          (''supersedes'', PNone)]))))"

definition register_record :: "jcs \<Rightarrow> project_config \<Rightarrow> project_observer \<Rightarrow> string \<Rightarrow> string list \<Rightarrow> string \<Rightarrow> string
    \<Rightarrow> string \<Rightarrow> string option \<Rightarrow> string option \<Rightarrow> ledger_entry list \<Rightarrow> forge_record res" where
  "register_record jcs cf ob now changed hypothesis generator generator_config parent expected hist =
     rbind (ob_candidate_identity ob) (\<lambda>current.
       rthen (ensure (expected = None \<or> expected = Some current) ''STALE_CANDIDATE'')
         (rbind (lifecycle_machine cf ob True hist) (\<lambda>s.
            rbind (authorize_candidate_register s parent current None) (\<lambda>epoch.
              rbind (candidate_fields ob cf now changed hypothesis generator generator_config parent current
                       (rget epoch ''epoch_id''))
                (new_record jcs CANDIDATE)))))"

text \<open>
  \<open>refresh\<close>: the current candidate when it already matches; otherwise the
  files to register are known. The previous record is frozen, so its list of files is a tuple and
  the test for a list fails.
\<close>

datatype refresh_decision = Unchanged forge_record | Reregister string "string list"

definition refresh_decide :: "project_config \<Rightarrow> project_observer \<Rightarrow> string list \<Rightarrow> ledger_entry list \<Rightarrow> refresh_decision res" where
  "refresh_decide cf ob changed hist =
     rbind (lifecycle_machine cf ob True hist) (\<lambda>s.
       case current_candidate (projection s) of
         None \<Rightarrow> raise ''NO_CANDIDATE''
       | Some existing \<Rightarrow>
           rbind (ob_candidate_identity ob) (\<lambda>current.
             let existing_id = text_of existing ''candidate_id'' in
             if candidate_freshness (projection s) = ''CURRENT'' \<and> existing_id = current
             then Inr (Unchanged existing)
             else
               let files = (if changed \<noteq> [] then changed
                            else map py_str (filter nonempty_str (list_items (rget existing ''changed_files''))))
               in rthen (ensure (files \<noteq> []) ''INVALID_CHANGED_FILE'') (Inr (Reregister existing_id files))))"

definition disposition_fields :: "project_config \<Rightarrow> string \<Rightarrow> pyval option \<Rightarrow> string \<Rightarrow> string \<Rightarrow> string \<Rightarrow> string
    \<Rightarrow> string \<Rightarrow> dict" where
  "disposition_fields cf now rights candidate_id disp reason policy status =
     dict_of
       ([(''candidate_identity'', PStr candidate_id),
         (''disposition'', PStr disp),
         (''reason'', PStr reason),
         (''selection_rule'', PStr (cf_selection_policy cf)),
         (''selection_policy_identity'', PStr policy),
         (''evidence_status'', PStr status),
         (''recorded_at'', PStr now)]
        @ (case rights of None \<Rightarrow> [] | Some v \<Rightarrow> [(''extensions'', PDict (dict_of [(''rights_provenance'', v)]))]))"

definition disposition_record :: "jcs \<Rightarrow> project_config \<Rightarrow> project_observer \<Rightarrow> string \<Rightarrow> (string \<Rightarrow> pyval res)
    \<Rightarrow> string \<Rightarrow> string \<Rightarrow> string \<Rightarrow> ledger_entry list \<Rightarrow> forge_record res" where
  "disposition_record jcs cf ob now rights_check candidate_id disp reason hist =
     rbind (if disp = ''selected'' then rbind (rights_check candidate_id) (\<lambda>v. Inr (Some v)) else Inr None) (\<lambda>rights.
     rbind (lifecycle_machine cf ob True hist) (\<lambda>s.
     rbind (authorize_candidate_disposition s candidate_id disp) (\<lambda>(_, readiness).
       new_record jcs CANDIDATE_DISPOSITION
         (disposition_fields cf now rights candidate_id disp reason
           (selection_policy_identity (inputs s)) (ev_status readiness)))))"

text \<open>The requirements of an evidence plan file; anything else is no plan.\<close>

definition plan_requirements :: "nat \<Rightarrow> bytes option \<Rightarrow> string list option" where
  "plan_requirements cap plan_bytes =
     (let raw = (case read_json cap plan_bytes of
                   Inr (PDict d) \<Rightarrow>
                     (case map_of d ''required_workflows'' of Some v \<Rightarrow> v | None \<Rightarrow> dict_get d ''required'')
                 | _ \<Rightarrow> PNone);
          items = list_items raw
      in if is_plist raw \<and> items \<noteq> [] \<and> list_all nonempty_str items
         then Some (dedup_first (map py_str items)) else None)"

definition freeze_fields :: "project_observer \<Rightarrow> project_config \<Rightarrow> string \<Rightarrow> string \<Rightarrow> string \<Rightarrow> forge_record
    \<Rightarrow> forge_record \<Rightarrow> dict res" where
  "freeze_fields ob cf now environment evidence_plan candidate selection =
     rbind (ob_content_identity ob ''contracts'') (\<lambda>contract.
     rbind (ob_content_identity ob ''references'') (\<lambda>reference.
     rbind (ob_content_identity ob ''evaluators'') (\<lambda>evaluator.
     rbind (ob_content_identity ob ''acceptance_policies'') (\<lambda>acceptance.
     rbind (ob_content_identity ob ''protected'') (\<lambda>protected.
     rbind (ob_content_identity ob ''evidence_plan'') (\<lambda>plan_identity.
       Inr (dict_of
         [(''candidate_identity'', rget candidate ''candidate_id''),
          (''contract_identity'', PStr contract),
          (''reference_identity'', PStr reference),
          (''evaluator_identity'', PStr evaluator),
          (''acceptance_policy_identity'', PStr acceptance),
          (''protected_identity'', PStr protected),
          (''selection_record'', rget selection ''disposition_id''),
          (''environment'', PStr environment),
          (''required_evidence_plan'', PStr evidence_plan),
          (''required_evidence_plan_identity'', PStr plan_identity),
          (''frozen_path_sets'', PDict (cf_frozen_path_sets cf)),
          (''frozen_at'', PStr now)])))))))"

definition freeze_record :: "jcs \<Rightarrow> project_config \<Rightarrow> project_observer \<Rightarrow> string \<Rightarrow> bytes option \<Rightarrow> string \<Rightarrow> string
    \<Rightarrow> string \<Rightarrow> ledger_entry list \<Rightarrow> forge_record res" where
  "freeze_record jcs cf ob now plan_bytes evidence_plan environment candidate_id hist =
     rthen (ob_resolve ob evidence_plan)
       (rbind (lifecycle_machine cf ob True hist) (\<lambda>s.
          rbind (authorize_candidate_freeze s candidate_id (plan_requirements (cf_output_cap cf) plan_bytes))
            (\<lambda>(candidate, selection).
               rbind (freeze_fields ob cf now environment evidence_plan candidate selection) (new_record jcs FREEZE))))"

section \<open>Operations on the state directory\<close>

text \<open>\<open>records.records()\<close>: the verified history, without the caches.\<close>

definition read_history :: "jcs \<Rightarrow> disk \<Rightarrow> ledger_entry list res" where
  "read_history jcs dk = rbind (snapshot_spec dk) (rmap (\<lambda>e. normalize_ledger_entry jcs (PDict e)))"

text \<open>An operation builds one record from the history and commits it in its storage context.\<close>

definition record_and_commit :: "jcs \<Rightarrow> string \<Rightarrow> string \<Rightarrow> string \<Rightarrow> string \<Rightarrow> (ledger_entry list \<Rightarrow> forge_record res)
    \<Rightarrow> disk \<Rightarrow> forge_record res \<times> disk" where
  "record_and_commit jcs now txid grp knd build dk =
     sbind (rbind (read_history jcs dk) build, dk) (\<lambda>r dk.
       sbind (commit jcs now txid grp knd r dk) (\<lambda>_ dk. (Inr r, dk)))"

definition begin_epoch :: "jcs \<Rightarrow> project_config \<Rightarrow> project_observer \<Rightarrow> string \<Rightarrow> string \<Rightarrow> string \<Rightarrow> string
    \<Rightarrow> string option \<Rightarrow> string list \<Rightarrow> disk \<Rightarrow> forge_record res \<times> disk" where
  "begin_epoch jcs cf ob now txid generator evaluator parent overlap =
     record_and_commit jcs now txid ''epochs'' ''epoch''
       (begin_epoch_record jcs cf ob now generator evaluator parent overlap)"

definition register :: "jcs \<Rightarrow> project_config \<Rightarrow> project_observer \<Rightarrow> string \<Rightarrow> string \<Rightarrow> string list \<Rightarrow> string \<Rightarrow> string
    \<Rightarrow> string \<Rightarrow> string option \<Rightarrow> string option \<Rightarrow> disk \<Rightarrow> forge_record res \<times> disk" where
  "register jcs cf ob now txid changed hypothesis generator generator_config parent expected =
     record_and_commit jcs now txid ''candidates'' ''candidate''
       (register_record jcs cf ob now changed hypothesis generator generator_config parent expected)"

definition dispose :: "jcs \<Rightarrow> project_config \<Rightarrow> project_observer \<Rightarrow> string \<Rightarrow> string \<Rightarrow> (string \<Rightarrow> pyval res) \<Rightarrow> string
    \<Rightarrow> string \<Rightarrow> string \<Rightarrow> disk \<Rightarrow> forge_record res \<times> disk" where
  "dispose jcs cf ob now txid rights_check candidate_id disp reason =
     record_and_commit jcs now txid ''dispositions'' ''disposition''
       (disposition_record jcs cf ob now rights_check candidate_id disp reason)"

definition freeze_candidate :: "jcs \<Rightarrow> project_config \<Rightarrow> project_observer \<Rightarrow> string \<Rightarrow> string \<Rightarrow> bytes option \<Rightarrow> string
    \<Rightarrow> string \<Rightarrow> string \<Rightarrow> disk \<Rightarrow> forge_record res \<times> disk" where
  "freeze_candidate jcs cf ob now txid plan_bytes evidence_plan environment candidate_id =
     record_and_commit jcs now txid ''freezes'' ''freeze''
       (freeze_record jcs cf ob now plan_bytes evidence_plan environment candidate_id)"

text \<open>\<open>refresh\<close> registers the current content as the successor of the current candidate, when it differs.\<close>

definition refresh :: "jcs \<Rightarrow> project_config \<Rightarrow> project_observer \<Rightarrow> string \<Rightarrow> string \<Rightarrow> string list \<Rightarrow> string \<Rightarrow> string
    \<Rightarrow> string \<Rightarrow> disk \<Rightarrow> forge_record res \<times> disk" where
  "refresh jcs cf ob now txid changed hypothesis generator generator_config dk =
     sbind (rbind (read_history jcs dk) (refresh_decide cf ob changed), dk) (\<lambda>d dk.
       case d of
         Unchanged r \<Rightarrow> (Inr r, dk)
       | Reregister parent files \<Rightarrow>
           register jcs cf ob now txid files hypothesis generator generator_config (Some parent) None dk)"

end
