(* ===== verification/ServiceFacts.thy ===== *)
theory ServiceFacts
  imports Services CrashRecovery
begin

text \<open>
  The lifecycle services on the state directory: each operation that succeeds leaves a state
  directory whose history is coherent, extended by at most the one record it built.
\<close>

section \<open>Identities in raw entries and in records\<close>

lemma json_object_id: "json_val (PDict d) \<Longrightarrow> json_object (PDict d) = Inr e \<Longrightarrow> e = d"
  using as_json_value_same by (auto simp: json_object_Inr simp del: json_val.simps)

lemma default_subject_get: "f \<noteq> ''subject_type'' \<Longrightarrow> dict_get (default_subject rt d) f = dict_get d f"
  by (simp add: default_subject_def)

lemma preserve_unknowns_get:
  assumes "preserve_unknowns spec d = Inr e" "f \<in> set (allowed spec)" "f \<noteq> ''extensions''"
  shows "dict_get e f = dict_get d f"
proof -
  have "dict_get (filter (\<lambda>p. fst p \<in> set (allowed spec)) d) f = dict_get d f"
    using assms(2) by (induction d) (auto simp: dict_get_def)
  then show ?thesis using assms by (auto simp: preserve_unknowns_def Let_def split: if_splits)
qed

text \<open>Normalization keeps the fields of the specification, other than the two it may add to.\<close>

lemma normalize_field:
  assumes "normalize jcs rt (PDict pr) = Inr r" "json_val (PDict pr)" "RECORD_SPECS rt = Some spec"
    and "f \<in> set (allowed spec)" "f \<notin> {''subject_type'', ''extensions'', ''record_type'', ''schema_version''}"
  shows "rget r f = freeze_json (dict_get pr f)"
proof -
  obtain obj where obj: "json_object (PDict pr) = Inr obj" using assms(1) by (auto simp: normalize_def)
  have o: "obj = pr" by (rule json_object_id [OF assms(2) obj])
  let ?data = "dict_del ''schema_version'' (dict_del ''record_type'' pr)"
  have g: "dict_get ?data f = dict_get pr f" using assms(5) by simp
  have L: "rget r f = freeze_json (dict_get pr f)" if leg: "legacy jcs b rt ?data = Inr r" for b
  proof -
    from leg assms(3) obtain d where d: "preserve_unknowns spec (default_subject rt ?data) = Inr d"
        "r = model rt d LEGACY_SCHEMA_VERSION"
      by (auto simp: legacy_def spec_of_cases)
    then show ?thesis
      using preserve_unknowns_get [OF d(1) assms(4)] default_subject_get [of f rt ?data] assms(5) g by simp
  qed
  from assms(1) obj o consider b where "legacy jcs b rt ?data = Inr r" | "r = model rt ?data CURRENT_SCHEMA_VERSION"
    by (auto simp: normalize_def Let_def split: if_splits)
  then show ?thesis using L assms(5) g by cases auto
qed

lemma context_field_allowed:
  "map_of PERSISTED_RECORD_CONTEXTS knd = Some ctx \<Longrightarrow>
    \<exists>spec. RECORD_SPECS (ctx_record_type ctx) = Some spec \<and> ctx_identity_field ctx \<in> set (allowed spec)
      \<and> ctx_identity_field ctx \<notin> {''subject_type'', ''extensions'', ''record_type'', ''schema_version''}"
proof -
  have "list_all (\<lambda>p. case RECORD_SPECS (ctx_record_type (snd p)) of None \<Rightarrow> False
      | Some spec \<Rightarrow> ctx_identity_field (snd p) \<in> set (required spec)
          \<and> ctx_identity_field (snd p) \<notin> {''subject_type'', ''extensions'', ''record_type'', ''schema_version''})
      PERSISTED_RECORD_CONTEXTS"
    unfolding PERSISTED_RECORD_CONTEXTS_def
    by (simp add: epoch_spec_def candidate_spec_def provider_probe_spec_def workflow_action_spec_def
        execution_receipt_binding_spec_def execution_assurance_spec_def workflow_result_spec_def verifier_action_spec_def
        verifier_result_spec_def candidate_disposition_spec_def freeze_spec_def final_evaluation_spec_def bundle_spec_def
        compiler_experiment_spec_def compiler_candidate_spec_def concept_evaluation_spec_def WORKFLOW_RESULT_FIELDS_def)
  moreover assume "map_of PERSISTED_RECORD_CONTEXTS knd = Some ctx"
  ultimately show ?thesis
    unfolding list_all_iff by (force dest!: map_of_SomeD simp: allowed_def split: option.splits)
qed

lemma ledger_kinds_inj: "map_of LEDGER_KIND_TYPES a = Some rt \<Longrightarrow> map_of LEDGER_KIND_TYPES b = Some rt \<Longrightarrow> a = b"
proof -
  have "distinct (map snd LEDGER_KIND_TYPES)" by (simp add: LEDGER_KIND_TYPES_def)
  then have "inj_on snd (set LEDGER_KIND_TYPES)" by (simp add: distinct_map)
  then show "map_of LEDGER_KIND_TYPES a = Some rt \<Longrightarrow> map_of LEDGER_KIND_TYPES b = Some rt \<Longrightarrow> a = b"
    by (metis inj_onD map_of_SomeD prod.inject snd_conv)
qed

text \<open>The entries of a readable ledger have the record types of their kinds.\<close>

lemma readable_entry:
  assumes "readable jcs dk rs head es" "e \<in> set es"
  obtains raw pr where "raw \<in> set rs" "dict_get raw ''kind'' = PStr (kind e)" "dict_get raw ''payload'' = PDict pr"
    "json_val (PDict pr)" "map_of LEDGER_KIND_TYPES (kind e) = Some (rtype (payload e))"
    "normalize jcs (rtype (payload e)) (PDict pr) = Inr (payload e)"
proof -
  note rd = readableD [OF assms(1)]
  obtain raw where raw: "raw \<in> set rs" "normalize_ledger_entry jcs (PDict raw) = Inr e"
    using normalized_mem [OF rd(4) assms(2)] by blast
  have j: "json_val (PDict raw)" using rd(3) raw(1) by blast
  obtain pr rt where p: "dict_get raw ''kind'' = PStr (kind e)" "dict_get raw ''payload'' = PDict pr"
      "map_of LEDGER_KIND_TYPES (kind e) = Some rt" "normalize jcs rt (PDict pr) = Inr (payload e)"
    by (rule normalize_ledger_entry_Inr [OF raw(2) j])
  have "json_val (PDict pr)" using json_val_get [OF j, of "''payload''"] p(2) by simp
  then show thesis using that [OF raw(1) p(1,2)] p(3,4) normalize_ok [OF p(4)] by simp
qed

text \<open>No raw entry with the identity means no entry with it.\<close>

lemma fresh_entries:
  assumes "readable jcs dk rs head es" "map_of PERSISTED_RECORD_CONTEXTS knd = Some ctx"
    and "filter (same_identity knd (ctx_identity_field ctx) identity) rs = []"
    and "e \<in> set es" "rtype (payload e) = ctx_record_type ctx"
  shows "rget (payload e) (ctx_identity_field ctx) \<noteq> PStr identity"
proof
  assume i: "rget (payload e) (ctx_identity_field ctx) = PStr identity"
  obtain raw pr where raw: "raw \<in> set rs" "dict_get raw ''kind'' = PStr (kind e)" "dict_get raw ''payload'' = PDict pr"
      "json_val (PDict pr)" "map_of LEDGER_KIND_TYPES (kind e) = Some (rtype (payload e))"
      "normalize jcs (rtype (payload e)) (PDict pr) = Inr (payload e)"
    by (rule readable_entry [OF assms(1,4)])
  obtain spec where spec: "RECORD_SPECS (rtype (payload e)) = Some spec" "ctx_identity_field ctx \<in> set (allowed spec)"
      "ctx_identity_field ctx \<notin> {''subject_type'', ''extensions'', ''record_type'', ''schema_version''}"
    using context_field_allowed [OF assms(2)] assms(5) by auto
  have "dict_get pr (ctx_identity_field ctx) = PStr identity"
    using normalize_field [OF raw(6,4) spec] i by (metis freeze_json_PStr)
  moreover have "kind e = knd"
    using ledger_kinds_inj raw(5) context_tables [OF assms(2)] assms(5) by metis
  ultimately have "same_identity knd (ctx_identity_field ctx) identity raw"
    using raw(2,3) by (simp add: same_identity_def)
  then show False using assms(3) raw(1) by (simp add: filter_empty_conv)
qed

section \<open>Operations\<close>

text \<open>A state directory at rest, with its history.\<close>

definition at_rest :: "jcs \<Rightarrow> disk \<Rightarrow> ledger_entry list \<Rightarrow> bool" where
  "at_rest jcs dk es =
     (transactions dk = [] \<and> (\<exists>rs head. readable jcs dk rs head es) \<and> coherent jcs (map payload es))"

lemma read_history_ok: "transactions dk = [] \<Longrightarrow> readable jcs dk rs head es \<Longrightarrow> read_history jcs dk = Inr es"
  by (auto simp: read_history_def snapshot_spec_def require_recovered_def readable_def read_verified_def read_ledger_def
      ledger_bytes_def normalized_def)

text \<open>
  The history has grown by one entry for the record, whose identity was not in the ledger before.
\<close>

definition grown :: "jcs \<Rightarrow> dict list \<Rightarrow> ledger_entry list \<Rightarrow> string \<Rightarrow> forge_record \<Rightarrow> disk \<Rightarrow> ledger_entry \<Rightarrow> bool" where
  "grown jcs rs es knd r d e =
     (\<exists>raw head ctx identity. transactions d = [] \<and> readable jcs d (rs @ [raw]) head (es @ [e]) \<and> payload e = r
        \<and> map_of PERSISTED_RECORD_CONTEXTS knd = Some ctx \<and> rtype r = ctx_record_type ctx
        \<and> rget r (ctx_identity_field ctx) = PStr identity
        \<and> filter (same_identity knd (ctx_identity_field ctx) identity) rs = [])"

lemma completed_grown:
  assumes "plan_sound jcs p dk rs head es ctx grp knd identity raw r" "completed jcs p dk (rs @ [raw]) d"
    and "check_commit grp knd r = Inr (ctx, identity, path, bs)"
    and "filter (same_identity knd (ctx_identity_field ctx) identity) rs = []"
  shows "grown jcs rs es knd r d (plan_entry p)"
proof -
  have "ledger_bytes d = plan_after p" using assms(2) by (auto simp: completed_def ledger_bytes_def)
  then have "readable jcs d (rs @ [raw]) (entry_hash (plan_entry p)) (es @ [plan_entry p])"
    by (rule plan_readable [OF assms(1)])
  moreover have "payload (plan_entry p) = r" using assms(1) by (simp add: plan_sound_def)
  ultimately show ?thesis
    using completed_transactions [OF assms(2)] assms(4) check_commit_Inr(1,2,4) [OF assms(3)]
    by (auto simp: grown_def persisted_context_Inr)
qed

text \<open>
  A commit, interrupted and recovered or not, extends the history by its record or changes nothing,
  unless two ledgers collide.
\<close>

lemma commit_extends:
  assumes "transactions dk = []" "readable jcs dk rs head es" "commit jcs now txid grp knd r dk = (res, d)"
    and "new_record jcs rt flds = Inr r" "json_val (PDict flds)" "utf8_ok txid" "utf8_ok now"
  shows "d = dk \<or> (\<exists>e. res = Inr e \<and> grown jcs rs es knd r d e) \<or> (\<exists>x y. collision x y)"
proof (cases "check_commit grp knd r")
  case (Inr c)
  with assms(1,3) have sb: "sbind (decide_commit jcs now txid grp knd r dk, dk) (\<lambda>decision dk.
      case decision of Existing e \<Rightarrow> (Inr e, dk) | Fresh p \<Rightarrow> execute_plan jcs p dk) = (res, d)"
    by (simp add: commit_def recover_unlocked_none)
  show ?thesis
  proof (cases "decide_commit jcs now txid grp knd r dk")
    case (Inr decision)
    show ?thesis
    proof (cases decision)
      case (Fresh p)
      then have x: "execute_plan jcs p dk = (res, d)" and f: "decide_commit jcs now txid grp knd r dk = Inr (Fresh p)"
        using sb Inr by auto
      show ?thesis
      proof (cases "collision (plan_before p) (plan_after p)")
        case False
        obtain ctx identity raw where p: "plan_sound jcs p dk rs head es ctx grp knd identity raw r"
            "check_commit grp knd r = Inr (ctx, identity, plan_path p, plan_record p)"
            "filter (same_identity knd (ctx_identity_field ctx) identity) rs = []"
          by (rule decide_commit_sound [OF f assms(1,2,4-7) False])
        then show ?thesis using execute_plan_ok [OF p(1)] x completed_grown [OF p(1) _ p(2,3)] by auto
      qed blast
    qed (use sb Inr in simp)
  qed (use sb in simp)
qed (use assms(3) in \<open>simp add: commit_def\<close>)

lemma crash_extends:
  assumes "transactions dk = []" "readable jcs dk rs head es" "decide_commit jcs now txid grp knd r dk = Inr (Fresh p)"
    and "recover_unlocked jcs (crashed jcs p dk n) = (res, d)"
    and "new_record jcs rt flds = Inr r" "json_val (PDict flds)" "utf8_ok txid" "utf8_ok now"
  shows "d = dk \<or> (\<exists>e. grown jcs rs es knd r d e) \<or> (\<exists>x y. collision x y)"
proof (cases "collision (plan_before p) (plan_after p)")
  case False
  obtain ctx identity raw where p: "plan_sound jcs p dk rs head es ctx grp knd identity raw r"
      "check_commit grp knd r = Inr (ctx, identity, plan_path p, plan_record p)"
      "filter (same_identity knd (ctx_identity_field ctx) identity) rs = []"
    by (rule decide_commit_sound [OF assms(3,1,2,5-8) False])
  then show ?thesis
    using crash_recovery [OF p(1), of n] assms(4) completed_grown [OF p(1) _ p(2,3)] by (auto split: if_splits)
qed blast

text \<open>
  A record continues a history when a new record was built, and it extends the history coherently
  unless its identity is taken.
\<close>

definition continues :: "jcs \<Rightarrow> string \<Rightarrow> ledger_entry list \<Rightarrow> forge_record \<Rightarrow> bool" where
  "continues jcs knd es r =
     ((\<exists>rt flds. new_record jcs rt flds = Inr r \<and> json_val (PDict flds))
      \<and> (\<exists>ctx. map_of PERSISTED_RECORD_CONTEXTS knd = Some ctx
          \<and> ((\<forall>e \<in> set es. rtype (payload e) = rtype r
                \<longrightarrow> rget (payload e) (ctx_identity_field ctx) \<noteq> rget r (ctx_identity_field ctx))
             \<longrightarrow> coherent jcs (map payload es @ [r]))))"

lemma grown_at_rest:
  assumes "readable jcs dk rs head es" "continues jcs knd es r" "grown jcs rs es knd r d e"
  shows "at_rest jcs d (es @ [e]) \<and> payload e = r"
proof -
  obtain raw hd' ctx identity where a: "transactions d = []" "readable jcs d (rs @ [raw]) hd' (es @ [e])" "payload e = r"
      "map_of PERSISTED_RECORD_CONTEXTS knd = Some ctx" "rtype r = ctx_record_type ctx"
      "rget r (ctx_identity_field ctx) = PStr identity"
      "filter (same_identity knd (ctx_identity_field ctx) identity) rs = []"
    using assms(3) by (auto simp: grown_def)
  have "coherent jcs (map payload es @ [r])"
    using assms(2) fresh_entries [OF assms(1) a(4,7)] a(4-6) by (auto simp: continues_def)
  then show ?thesis using a by (auto simp: at_rest_def)
qed

text \<open>An operation whose records continue the history keeps the state directory coherent.\<close>

definition rest_after :: "jcs \<Rightarrow> disk \<Rightarrow> ledger_entry list \<Rightarrow> disk \<Rightarrow> (ledger_entry \<Rightarrow> bool) \<Rightarrow> bool" where
  "rest_after jcs dk es d P =
     (d = dk \<or> (\<exists>e. at_rest jcs d (es @ [e]) \<and> P e) \<or> (\<exists>x y. collision x y))"

lemma operation_rest:
  assumes "at_rest jcs dk es" "record_and_commit jcs now txid grp knd build dk = (res, d)"
    and "\<And>r. build es = Inr r \<Longrightarrow> continues jcs knd es r" "utf8_ok txid" "utf8_ok now"
  shows "rest_after jcs dk es d (\<lambda>e. res = Inr (payload e) \<and> build es = Inr (payload e))"
proof -
  obtain rs head where rd: "transactions dk = []" "readable jcs dk rs head es" using assms(1) by (auto simp: at_rest_def)
  have rh: "read_history jcs dk = Inr es" by (rule read_history_ok [OF rd])
  show ?thesis
  proof (cases "build es")
    case (Inl x)
    then show ?thesis using assms(2) rh by (simp add: record_and_commit_def rest_after_def)
  next
    case (Inr r)
    obtain res' where c: "commit jcs now txid grp knd r dk = (res', d)" "\<And>e. res' = Inr e \<Longrightarrow> res = Inr r"
      using assms(2) rh Inr by (auto simp: record_and_commit_def sbind_def split: sum.splits prod.splits)
    obtain rt flds where flds: "new_record jcs rt flds = Inr r" "json_val (PDict flds)"
      using assms(3) [OF Inr] by (auto simp: continues_def)
    from commit_extends [OF rd c(1) flds assms(4,5)] show ?thesis
      using grown_at_rest [OF rd(2) assms(3) [OF Inr]] c(2) Inr by (fastforce simp: rest_after_def)
  qed
qed

lemma crashed_operation_rest:
  assumes "at_rest jcs dk es" "decide_commit jcs now txid grp knd r dk = Inr (Fresh p)" "continues jcs knd es r"
    and "recover_unlocked jcs (crashed jcs p dk n) = (res, d)" "utf8_ok txid" "utf8_ok now"
  shows "rest_after jcs dk es d (\<lambda>e. payload e = r)"
proof -
  obtain rs head where rd: "transactions dk = []" "readable jcs dk rs head es" using assms(1) by (auto simp: at_rest_def)
  obtain rt flds where flds: "new_record jcs rt flds = Inr r" "json_val (PDict flds)"
    using assms(3) by (auto simp: continues_def)
  from crash_extends [OF rd assms(2,4) flds assms(5,6)] show ?thesis
    using grown_at_rest [OF rd(2) assms(3)] by (fastforce simp: rest_after_def)
qed

end
