(* ===== verification/ServiceCoherence.thy ===== *)
theory ServiceCoherence
  imports ServiceFacts
begin

text \<open>
  The four lifecycle services keep the history coherent: the records they build continue the epoch
  chain, the candidate chain and the single disposition and freeze of a candidate.
\<close>

section \<open>The lifecycle services\<close>

text \<open>Everything the observer reports and the configuration holds is text.\<close>

definition texts_ok :: "(string \<times> string) list \<Rightarrow> bool" where
  "texts_ok m = (\<forall>p \<in> set m. utf8_ok (fst p) \<and> utf8_ok (snd p))"

definition observer_text :: "project_observer \<Rightarrow> project_config \<Rightarrow> bool" where
  "observer_text ob cf =
     ((\<forall>s. ob_candidate_identity ob = Inr s \<longrightarrow> utf8_ok s)
      \<and> (\<forall>l s. ob_content_identity ob l = Inr s \<longrightarrow> utf8_ok s)
      \<and> (\<forall>m. ob_authority_identities ob = Inr m \<longrightarrow> texts_ok m)
      \<and> (\<forall>m. ob_visible_identities ob = Inr m \<longrightarrow> texts_ok m)
      \<and> (\<forall>l m. ob_changed_files ob l = Inr m \<longrightarrow> texts_ok m)
      \<and> (\<forall>policy req err. ob_evidence_policy ob = Inr (policy, req, err) \<longrightarrow> utf8_ok policy)
      \<and> utf8_ok (cf_benefit_objective cf) \<and> utf8_ok (cf_selection_policy cf)
      \<and> json_val (PDict (cf_frozen_path_sets cf)))"

lemma str_dict_json: "texts_ok m \<Longrightarrow> json_val (PDict (str_dict m))"
  unfolding str_dict_def texts_ok_def by (rule json_val_dict_of) auto

lemma opt_text_json: "(\<And>s. x = Some s \<Longrightarrow> utf8_ok s) \<Longrightarrow> json_val (opt_text x)"
  by (auto simp: opt_text_def split: option.split)

lemma json_val_dict_of_list:
  "list_all (\<lambda>p. utf8_ok (fst p) \<and> json_val (snd p)) ps \<Longrightarrow> json_val (PDict (dict_of ps))"
  by (rule json_val_dict_of) (simp add: list_all_iff)

lemma dict_get_of: "dict_get (dict_of ps) f = (case map_of (rev ps) f of None \<Rightarrow> PNone | Some v \<Rightarrow> v)"
  by (simp add: dict_get_def dict_of_def map_of_dict_update)

lemma new_record_fields:
  assumes "new_record jcs rt flds = Inr r" "json_val (PDict flds)" "RECORD_SPECS rt = Some spec"
    and "identity_field spec \<noteq> Some f" "f \<noteq> ''record_type''" "f \<noteq> ''schema_version''"
  shows "rget r f = freeze_json (dict_get flds f)"
proof (rule new_recordE [OF assms(1)])
  fix norm spec' d
  assume a: "json_object (PDict flds) = Inr norm" "RECORD_SPECS rt = Some spec'" "identified rt spec' norm d"
    "r = model rt d CURRENT_SCHEMA_VERSION"
  have "norm = flds" by (rule json_object_id [OF assms(2) a(1)])
  then have "dict_get d f = dict_get flds f"
    using a(2,3) assms(3,4) by (auto simp: identified_def split: option.splits)
  then show ?thesis using a(4) assms(5,6) by simp
qed

lemma lifecycle_machine_Inr:
  assumes "lifecycle_machine cf ob obs hist = Inr s" "cf_native cf = None"
  obtains a where "new_machine a = Inr s" "native a = None" "payloads a = map payload hist"
  using assms by (auto simp: lifecycle_machine_def lifecycle_inputs_def payloads_def)

lemma identity_fresh:
  assumes "record_ok jcs r" "rtype r = rt" "coherent jcs (map payload es)" "f \<in> set (REQUIRED_STRING_FIELDS rt)"
    and "f \<noteq> ''record_type''" "f \<noteq> ''schema_version''"
    and "\<And>e. e \<in> set es \<Longrightarrow> rtype (payload e) = rtype r \<Longrightarrow> rget (payload e) f \<noteq> rget r f"
  shows "text_of r f \<notin> set (map (\<lambda>r. text_of r f) (of_type rt (map payload es)))"
proof
  assume "text_of r f \<in> set (map (\<lambda>r. text_of r f) (of_type rt (map payload es)))"
  then obtain e where e: "e \<in> set es" "rtype (payload e) = rt" "text_of (payload e) f = text_of r f" by auto
  have "record_ok jcs (payload e)" using assms(3) e(1) by (auto simp: coherent_def)
  then have "rget (payload e) f = rget r f"
    using rget_text [OF _ _ assms(5,6), of jcs] assms(1,2,4) e(2,3) by metis
  then show False using assms(7) [OF e(1)] assms(2) e(2) by simp
qed

text \<open>The text fields of the entries of a readable ledger are text.\<close>

definition text_history :: "forge_record list \<Rightarrow> bool" where
  "text_history ps =
     (\<forall>r \<in> set ps. \<forall>spec f s. RECORD_SPECS (rtype r) = Some spec \<and> f \<in> set (allowed spec)
        \<and> f \<notin> {''subject_type'', ''extensions'', ''record_type'', ''schema_version''} \<and> rget r f = PStr s \<longrightarrow> utf8_ok s)"

lemma text_historyD:
  "text_history ps \<Longrightarrow> r \<in> set ps \<Longrightarrow> RECORD_SPECS (rtype r) = Some spec \<Longrightarrow> rget r f = PStr s \<Longrightarrow>
    f \<in> set (allowed spec) \<Longrightarrow> f \<notin> {''subject_type'', ''extensions'', ''record_type'', ''schema_version''} \<Longrightarrow> utf8_ok s"
  unfolding text_history_def by blast

lemma at_rest_text:
  assumes "at_rest jcs dk es"
  shows "text_history (map payload es)"
  unfolding text_history_def
proof (intro ballI allI impI; elim conjE)
  fix r spec f s
  assume a: "r \<in> set (map payload es)" "RECORD_SPECS (rtype r) = Some spec" "f \<in> set (allowed spec)"
    "f \<notin> {''subject_type'', ''extensions'', ''record_type'', ''schema_version''}" "rget r f = PStr s"
  then obtain e where e: "e \<in> set es" "r = payload e" by auto
  obtain rs head where "readable jcs dk rs head es" using assms by (auto simp: at_rest_def)
  from this e(1) obtain raw pr where pr: "json_val (PDict pr)" "normalize jcs (rtype (payload e)) (PDict pr) = Inr (payload e)"
    by (rule readable_entry)
  have "dict_get pr f = PStr s"
    using normalize_field [OF pr(2,1) a(2) [unfolded e(2)] a(3,4)] a(5) e(2) by (metis freeze_json_PStr)
  then show "utf8_ok s" using json_val_get [OF pr(1), of f] by simp
qed

section \<open>Epochs\<close>

lemma begin_epoch_builds:
  assumes "begin_epoch_record jcs cf ob now gen ev parent overlap es = Inr r" "cf_native cf = None"
    and "observer_text ob cf" "utf8_ok now" "utf8_ok gen" "utf8_ok ev" "\<And>p. parent = Some p \<Longrightarrow> utf8_ok p"
    and "\<forall>x \<in> set overlap. utf8_ok x" "coherent jcs (map payload es)"
  shows "\<exists>flds. new_record jcs EPOCH flds = Inr r \<and> json_val (PDict flds)"
    "rget r ''parent_epoch'' = parent_after None ''epoch_id'' (of_type EPOCH (map payload es))"
proof -
  from assms(1) obtain s flds where s: "lifecycle_machine cf ob True es = Inr s" "authorize_epoch_begin s parent = Inr ()"
      and f: "epoch_fields ob cf now gen ev parent overlap = Inr flds" and r: "new_record jcs EPOCH flds = Inr r"
    by (auto simp: begin_epoch_record_def)
  obtain a where a: "new_machine a = Inr s" "native a = None" "payloads a = map payload es"
    by (rule lifecycle_machine_Inr [OF s(1) assms(2)])
  obtain baseline default contract objective visible authority where
      obs: "ob_content_identity ob ''contracts'' = Inr contract" "ob_content_identity ob ''evaluators'' = Inr default"
        "ob_content_identity ob ''baseline'' = Inr baseline" "ob_content_identity ob ''objective'' = Inr objective"
        "ob_visible_identities ob = Inr visible" "ob_authority_identities ob = Inr authority"
      and flds: "flds = dict_of
         [(''baseline_identity'', PStr baseline), (''generator_identity'', PStr gen),
          (''evaluator_identity'', PStr (if ev = [] then default else ev)), (''contract_identity'', PStr contract),
          (''objective_identity'', PStr objective), (''visible_partition_identities'', PDict (str_dict visible)),
          (''authority_identities'', PDict (str_dict authority)),
          (''declared_authority_overlap'', PList (map PStr (sort overlap))), (''parent_epoch'', opt_text parent),
          (''created_at'', PStr now)]"
    using f unfolding epoch_fields_def rbind_eq_Inr by (elim exE conjE) (rule that, assumption+, simp)
  have t: "utf8_ok baseline" "utf8_ok default" "utf8_ok contract" "utf8_ok objective" "texts_ok visible" "texts_ok authority"
    using assms(3) obs unfolding observer_text_def by metis+
  have o: "json_val (opt_text parent)" using assms(7) by (rule opt_text_json)
  have v: "json_val (PDict (str_dict visible))" "json_val (PDict (str_dict authority))"
    by (rule str_dict_json, rule t(5), rule str_dict_json, rule t(6))
  have j: "json_val (PDict flds)"
    unfolding flds
    by (rule json_val_dict_of_list) (simp add: t assms(4-6,8) o v del: json_val.simps(4))
  then show "\<exists>flds. new_record jcs EPOCH flds = Inr r \<and> json_val (PDict flds)" using r by blast
  have "rget r ''parent_epoch'' = freeze_json (opt_text parent)"
    using new_record_fields [OF r j, of epoch_spec "''parent_epoch''"]
    by (simp add: epoch_spec_def flds dict_get_of)
  also have "\<dots> = parent_after None ''epoch_id'' (of_type EPOCH (map payload es))"
    using epoch_begin_parent [OF s(2) a(1,2), of jcs, unfolded a(3), OF assms(9), symmetric]
    by (simp add: opt_text_def split: option.split)
  finally show "rget r ''parent_epoch'' = parent_after None ''epoch_id'' (of_type EPOCH (map payload es))" .
qed

lemma begin_epoch_continues:
  assumes "begin_epoch_record jcs cf ob now gen ev parent overlap es = Inr r" "cf_native cf = None"
    and "observer_text ob cf" "utf8_ok now" "utf8_ok gen" "utf8_ok ev" "\<And>p. parent = Some p \<Longrightarrow> utf8_ok p"
    and "\<forall>x \<in> set overlap. utf8_ok x" "coherent jcs (map payload es)"
  shows "continues jcs ''epoch'' es r"
proof -
  note b = begin_epoch_builds [OF assms]
  from b(1) have ok: "record_ok jcs r" "rtype r = EPOCH" using new_record_ok by blast+
  have "coherent jcs (map payload es @ [r])"
    if "\<And>e. e \<in> set es \<Longrightarrow> rtype (payload e) = rtype r \<Longrightarrow> rget (payload e) ''epoch_id'' \<noteq> rget r ''epoch_id''"
    by (rule coherent_add_epoch [OF assms(9) ok identity_fresh [OF ok assms(9) _ _ _ that] b(2)])
      (auto simp: epoch_strings_def)
  then show ?thesis using b(1) by (auto simp: continues_def PERSISTED_RECORD_CONTEXTS_def)
qed

section \<open>Candidates\<close>

lemma register_builds:
  assumes "register_record jcs cf ob now changed hyp gen gcf parent expected es = Inr r" "cf_native cf = None"
    and "observer_text ob cf" "utf8_ok now" "utf8_ok hyp" "utf8_ok gen" "utf8_ok gcf"
    and "\<And>p. parent = Some p \<Longrightarrow> utf8_ok p" "coherent jcs (map payload es)" "text_history (map payload es)"
  shows "\<exists>flds. new_record jcs CANDIDATE flds = Inr r \<and> json_val (PDict flds)"
    "of_type EPOCH (map payload es) \<noteq> []"
    "rget r ''source_epoch'' = PStr (text_of (last (of_type EPOCH (map payload es))) ''epoch_id'')"
    "rget r ''parent_candidate'' = parent_after None ''candidate_id'' (chain_of (map payload es))"
    "ob_candidate_identity ob = Inr (text_of r ''candidate_id'')"
proof -
  let ?e = "last (of_type EPOCH (map payload es))"
  from assms(1) obtain s cur epoch flds where s: "ob_candidate_identity ob = Inr cur" "lifecycle_machine cf ob True es = Inr s"
        "authorize_candidate_register s parent cur None = Inr epoch"
      and f: "candidate_fields ob cf now changed hyp gen gcf parent cur (rget epoch ''epoch_id'') = Inr flds"
      and r: "new_record jcs CANDIDATE flds = Inr r"
    by (auto simp: register_record_def)
  obtain a where a: "new_machine a = Inr s" "native a = None" "payloads a = map payload es"
    by (rule lifecycle_machine_Inr [OF s(2) assms(2)])
  note reg = candidate_register_parent [OF s(3) a(1,2), of jcs, unfolded a(3), OF assms(9)]
  show ne: "of_type EPOCH (map payload es) \<noteq> []" by (rule reg(1))
  have "?e \<in> set (of_type EPOCH (map payload es))" using ne by (rule last_in_set)
  then have e: "record_ok jcs ?e" "rtype ?e = EPOCH" using assms(9) by (auto simp: coherent_def)
  have eid: "rget epoch ''epoch_id'' = PStr (text_of ?e ''epoch_id'')" using epoch_text [OF e] reg(2) by simp
  have "?e \<in> set (map payload es)" using last_in_set [OF ne] by simp
  then have et: "json_val (rget epoch ''epoch_id'')"
    using text_historyD [OF assms(10) _ _ epoch_text [OF e], of epoch_spec] e(2) eid
    by (simp add: epoch_spec_def allowed_def del: in_of_type)
  obtain files objective where
      obs: "ob_changed_files ob changed = Inr files" "ob_content_identity ob ''objective'' = Inr objective"
      and flds: "flds = dict_of
         [(''candidate_id'', PStr cur), (''parent_candidate'', opt_text parent),
          (''changed_files'', PList (map PStr (sort (map fst files)))), (''declared_hypothesis'', PStr hyp),
          (''generator_identity'', PStr gen), (''generator_configuration_identity'', PStr gcf),
          (''source_epoch'', rget epoch ''epoch_id''), (''registered_at'', PStr now),
          (''current_file_identities'', PDict (str_dict files)),
          (''useful_benefit_objective'', PStr (cf_benefit_objective cf)), (''objective_identity'', PStr objective),
          (''supersedes'', PNone)]"
    using f unfolding candidate_fields_def rbind_eq_Inr by (elim exE conjE) (rule that, assumption+, simp)
  have t: "utf8_ok cur" "utf8_ok objective" "texts_ok files" "utf8_ok (cf_benefit_objective cf)"
    using assms(3) obs s(1) unfolding observer_text_def by metis+
  have o: "json_val (opt_text parent)" using assms(8) by (rule opt_text_json)
  have v: "json_val (PDict (str_dict files))" using t(3) by (rule str_dict_json)
  have fs: "\<forall>x \<in> fst ` set files. utf8_ok x" using t(3) by (auto simp: texts_ok_def)
  have j: "json_val (PDict flds)"
    unfolding flds
    by (rule json_val_dict_of_list) (simp add: t assms(4-7) o v et fs [simplified] del: json_val.simps(4))
  then show "\<exists>flds. new_record jcs CANDIDATE flds = Inr r \<and> json_val (PDict flds)" using r by blast
  note g = new_record_fields [OF r j, of candidate_spec]
  show "rget r ''source_epoch'' = PStr (text_of ?e ''epoch_id'')"
    using g [of "''source_epoch''"] by (simp add: candidate_spec_def flds dict_get_of eid)
  have "rget r ''candidate_id'' = PStr cur"
    using g [of "''candidate_id''"] by (simp add: candidate_spec_def flds dict_get_of)
  then show "ob_candidate_identity ob = Inr (text_of r ''candidate_id'')" using s(1) by (simp add: text_of_def)
  have "rget r ''parent_candidate'' = freeze_json (opt_text parent)"
    using g [of "''parent_candidate''"] by (simp add: candidate_spec_def flds dict_get_of)
  also have "\<dots> = parent_after None ''candidate_id'' (chain_of (map payload es))"
    unfolding reg(3) [symmetric] by (simp add: opt_text_def split: option.split)
  finally show "rget r ''parent_candidate'' = parent_after None ''candidate_id'' (chain_of (map payload es))" .
qed

lemma register_continues:
  assumes "register_record jcs cf ob now changed hyp gen gcf parent expected es = Inr r" "cf_native cf = None"
    and "observer_text ob cf" "utf8_ok now" "utf8_ok hyp" "utf8_ok gen" "utf8_ok gcf"
    and "\<And>p. parent = Some p \<Longrightarrow> utf8_ok p" "coherent jcs (map payload es)" "text_history (map payload es)"
  shows "continues jcs ''candidate'' es r"
proof -
  note b = register_builds [OF assms]
  from b(1) have ok: "record_ok jcs r" "rtype r = CANDIDATE" using new_record_ok by blast+
  have "coherent jcs (map payload es @ [r])"
    if "\<And>e. e \<in> set es \<Longrightarrow> rtype (payload e) = rtype r \<Longrightarrow>
      rget (payload e) ''candidate_id'' \<noteq> rget r ''candidate_id''"
    by (rule coherent_add_candidate [OF assms(9) ok b(2,3) identity_fresh [OF ok assms(9) _ _ _ that] b(4)])
      (auto simp: candidate_strings_def)
  then show ?thesis using b(1) by (auto simp: continues_def PERSISTED_RECORD_CONTEXTS_def)
qed

section \<open>Dispositions\<close>

lemma machine_policy:
  assumes "lifecycle_machine cf ob obs hist = Inr s" "cf_native cf = None"
  shows "\<exists>req err. ob_evidence_policy ob = Inr (selection_policy_identity (inputs s), req, err)"
    "\<exists>c given. evidence (projection s) = compat_evidence_readiness (inputs s) c given"
proof -
  from assms obtain a where a: "new_machine a = Inr s" "native a = None"
      "\<exists>req err. ob_evidence_policy ob = Inr (selection_policy_identity a, req, err)"
    by (auto simp: lifecycle_machine_def lifecycle_inputs_def)
  note m = new_machine_compat [OF a(1,2)]
  show "\<exists>req err. ob_evidence_policy ob = Inr (selection_policy_identity (inputs s), req, err)"
    using a(3) m(1) by (simp add: prepare_inputs_def)
  show "\<exists>c given. evidence (projection s) = compat_evidence_readiness (inputs s) c given"
    using m by (auto simp: base_projection_def Let_def split: prod.split)
qed

lemma compat_status_text: "utf8_ok (ev_status (compat_evidence_readiness m c given))"
  unfolding compat_evidence_readiness_def Let_def by (auto split: option.split)

lemma disposition_builds:
  assumes "disposition_record jcs cf ob now rights cid disp reason es = Inr r" "cf_native cf = None"
    and "observer_text ob cf" "utf8_ok now" "utf8_ok cid" "utf8_ok disp" "utf8_ok reason"
    and "\<And>v. rights cid = Inr v \<Longrightarrow> json_val v" "coherent jcs (map payload es)"
  shows "\<exists>flds. new_record jcs CANDIDATE_DISPOSITION flds = Inr r \<and> json_val (PDict flds)"
    "about CANDIDATE_DISPOSITION (rget r ''candidate_identity'') (map payload es) = []"
proof -
  from assms(1) obtain rp s x where rq: "(if disp = ''selected'' then rbind (rights cid) (\<lambda>v. Inr (Some v)) else Inr None) = Inr rp"
      and s1: "lifecycle_machine cf ob True es = Inr s" "authorize_candidate_disposition s cid disp = Inr x"
      and r1: "new_record jcs CANDIDATE_DISPOSITION
        (disposition_fields cf now rp cid disp reason (selection_policy_identity (inputs s)) (ev_status (snd x))) = Inr r"
    unfolding disposition_record_def rbind_eq_Inr case_prod_beta by blast
  obtain c rd where x: "x = (c, rd)" by (cases x)
  define flds where flds: "flds = disposition_fields cf now rp cid disp reason (selection_policy_identity (inputs s)) (ev_status rd)"
  have s: "lifecycle_machine cf ob True es = Inr s" "authorize_candidate_disposition s cid disp = Inr (c, rd)"
      and r: "new_record jcs CANDIDATE_DISPOSITION flds = Inr r"
    using s1 r1 by (simp_all add: x flds)
  have rp: "rp = None \<or> (\<exists>v. rp = Some v \<and> rights cid = Inr v)" using rq by (auto split: if_splits)
  obtain a where a: "new_machine a = Inr s" "native a = None" "payloads a = map payload es"
    by (rule lifecycle_machine_Inr [OF s(1) assms(2)])
  have st: "utf8_ok (ev_status rd)"
    using machine_policy(2) [OF s(1) assms(2)] authorize_disposition_Inr(8) [OF s(2)] compat_status_text by metis
  have t: "utf8_ok (selection_policy_identity (inputs s))" "utf8_ok (cf_selection_policy cf)"
    using assms(3) machine_policy(1) [OF s(1) assms(2)] unfolding observer_text_def by blast+
  have x: "json_val (PDict (dict_of [(''rights_provenance'', v)]))" if "rights cid = Inr v" for v
    by (rule json_val_dict_of_list) (simp add: assms(8) [OF that])
  have j: "json_val (PDict flds)"
    unfolding flds disposition_fields_def
  proof (rule json_val_dict_of_list, unfold list_all_append, rule conjI)
    show "list_all (\<lambda>p. utf8_ok (fst p) \<and> json_val (snd p))
       (case rp of None \<Rightarrow> [] | Some v \<Rightarrow> [(''extensions'', PDict (dict_of [(''rights_provenance'', v)]))])"
      using rp x by (auto simp del: json_val.simps(4))
  qed (simp add: t st assms(4-7))
  then show "\<exists>flds. new_record jcs CANDIDATE_DISPOSITION flds = Inr r \<and> json_val (PDict flds)" using r by blast
  have "dict_get flds ''candidate_identity'' = PStr cid"
    unfolding flds disposition_fields_def dict_get_of by (simp split: option.split)
  then have "rget r ''candidate_identity'' = PStr cid"
    using new_record_fields [OF r j, of candidate_disposition_spec "''candidate_identity''"]
    by (simp add: candidate_disposition_spec_def)
  then show "about CANDIDATE_DISPOSITION (rget r ''candidate_identity'') (map payload es) = []"
    using disposition_first [OF s(2) a(1,2), of jcs, unfolded a(3), OF assms(9)] by simp
qed

lemma disposition_continues:
  assumes "disposition_record jcs cf ob now rights cid disp reason es = Inr r" "cf_native cf = None"
    and "observer_text ob cf" "utf8_ok now" "utf8_ok cid" "utf8_ok disp" "utf8_ok reason"
    and "\<And>v. rights cid = Inr v \<Longrightarrow> json_val v" "coherent jcs (map payload es)"
  shows "continues jcs ''disposition'' es r"
proof -
  note b = disposition_builds [OF assms]
  from b(1) have ok: "record_ok jcs r" "rtype r = CANDIDATE_DISPOSITION" using new_record_ok by blast+
  have "coherent jcs (map payload es @ [r])" by (rule coherent_add_disposition [OF assms(9) ok b(2)])
  then show ?thesis using b(1) by (auto simp: continues_def PERSISTED_RECORD_CONTEXTS_def)
qed

section \<open>Freezes\<close>

lemma freeze_builds:
  assumes "freeze_record jcs cf ob now plan_bytes plan env cid es = Inr r" "cf_native cf = None"
    and "observer_text ob cf" "utf8_ok now" "utf8_ok plan" "utf8_ok env" "utf8_ok cid"
    and "coherent jcs (map payload es)" "text_history (map payload es)"
  shows "\<exists>flds. new_record jcs FREEZE flds = Inr r \<and> json_val (PDict flds)"
    "about FREEZE (rget r ''candidate_identity'') (map payload es) = []"
proof -
  from assms(1) obtain s c d flds where s: "lifecycle_machine cf ob True es = Inr s"
      "authorize_candidate_freeze s cid (plan_requirements (cf_output_cap cf) plan_bytes) = Inr (c, d)"
      and f: "freeze_fields ob cf now env plan c d = Inr flds" and r: "new_record jcs FREEZE flds = Inr r"
    by (auto simp: freeze_record_def)
  obtain a where a: "new_machine a = Inr s" "native a = None" "payloads a = map payload es"
    by (rule lifecycle_machine_Inr [OF s(1) assms(2)])
  note i = authorize_freeze_Inr [OF s(2)]
  note p = machine_coherent [OF a(1,2), of jcs, unfolded a(3), OF assms(8)]
  have ch: "active_chain_of (map payload es) \<noteq> []" using i(3) p(4) by (auto simp: last_of_def split: if_splits)
  have "d \<in> set (map payload es)" "rtype d = CANDIDATE_DISPOSITION"
    using p(6) [OF ch] i(6) by (auto simp: last_of_def about_def split: if_splits dest!: last_in_set)
  moreover from this have ok: "record_ok jcs d" using assms(8) by (auto simp: coherent_def)
  ultimately have did: "json_val (rget d ''disposition_id'')"
    using rget_text [OF ok, of "''disposition_id''"]
      text_historyD [OF assms(9), of d candidate_disposition_spec "''disposition_id''" "text_of d ''disposition_id''"]
    by (simp add: candidate_disposition_spec_def candidate_disposition_strings_def allowed_def)
  obtain contract reference evaluator acceptance protected plan_identity where
      obs: "ob_content_identity ob ''contracts'' = Inr contract" "ob_content_identity ob ''references'' = Inr reference"
        "ob_content_identity ob ''evaluators'' = Inr evaluator" "ob_content_identity ob ''acceptance_policies'' = Inr acceptance"
        "ob_content_identity ob ''protected'' = Inr protected" "ob_content_identity ob ''evidence_plan'' = Inr plan_identity"
      and flds: "flds = dict_of
         [(''candidate_identity'', rget c ''candidate_id''), (''contract_identity'', PStr contract),
          (''reference_identity'', PStr reference), (''evaluator_identity'', PStr evaluator),
          (''acceptance_policy_identity'', PStr acceptance), (''protected_identity'', PStr protected),
          (''selection_record'', rget d ''disposition_id''), (''environment'', PStr env),
          (''required_evidence_plan'', PStr plan), (''required_evidence_plan_identity'', PStr plan_identity),
          (''frozen_path_sets'', PDict (cf_frozen_path_sets cf)), (''frozen_at'', PStr now)]"
    using f unfolding freeze_fields_def rbind_eq_Inr by (elim exE conjE) (rule that, assumption+, simp)
  have t: "utf8_ok contract" "utf8_ok reference" "utf8_ok evaluator" "utf8_ok acceptance" "utf8_ok protected"
      "utf8_ok plan_identity" "json_val (PDict (cf_frozen_path_sets cf))"
    using assms(3) obs unfolding observer_text_def by metis+
  have j: "json_val (PDict flds)"
    unfolding flds
    by (rule json_val_dict_of_list) (simp add: t assms(4-7) i(4) did del: json_val.simps(4))
  then show "\<exists>flds. new_record jcs FREEZE flds = Inr r \<and> json_val (PDict flds)" using r by blast
  have "rget r ''candidate_identity'' = PStr cid"
    using new_record_fields [OF r j, of freeze_spec "''candidate_identity''"]
    by (simp add: freeze_spec_def flds dict_get_of i(4))
  then show "about FREEZE (rget r ''candidate_identity'') (map payload es) = []"
    using freeze_first [OF s(2) a(1,2), of jcs, unfolded a(3), OF assms(8)] by simp
qed

lemma freeze_continues:
  assumes "freeze_record jcs cf ob now plan_bytes plan env cid es = Inr r" "cf_native cf = None"
    and "observer_text ob cf" "utf8_ok now" "utf8_ok plan" "utf8_ok env" "utf8_ok cid"
    and "coherent jcs (map payload es)" "text_history (map payload es)"
  shows "continues jcs ''freeze'' es r"
proof -
  note b = freeze_builds [OF assms]
  from b(1) have ok: "record_ok jcs r" "rtype r = FREEZE" using new_record_ok by blast+
  have "coherent jcs (map payload es @ [r])" by (rule coherent_add_freeze [OF assms(8) ok b(2)])
  then show ?thesis using b(1) by (auto simp: continues_def PERSISTED_RECORD_CONTEXTS_def)
qed

section \<open>Outcomes\<close>

lemma outcome_continues:
  assumes "new_record jcs rt flds = Inr r" "json_val (PDict flds)" "rt \<notin> {EPOCH, CANDIDATE, CANDIDATE_DISPOSITION, FREEZE}"
    and "map_of PERSISTED_RECORD_CONTEXTS knd = Some ctx" "coherent jcs (map payload es)"
  shows "continues jcs knd es r"
  using assms coherent_add_other [OF assms(5)] new_record_ok [OF assms(1)] by (auto simp: continues_def)

end
