(* ===== verification/Sessions.thy ===== *)
theory Sessions
  imports ServiceCoherence
begin

text \<open>
  Sessions: sequences of requests to the lifecycle services, with the records of outcomes in between
  and with crashes at any point of a commit followed by recovery. Every state directory a session
  reaches has a readable ledger with a coherent history.
\<close>

section \<open>Requests\<close>

datatype request =
    BeginEpoch string string "string option" "string list"
  | Register "string list" string string string "string option" "string option"
  | Dispose string string string
  | Freeze "bytes option" string string string

fun request_target :: "request \<Rightarrow> string \<times> string" where
  "request_target (BeginEpoch _ _ _ _) = (''epochs'', ''epoch'')"
| "request_target (Register _ _ _ _ _ _) = (''candidates'', ''candidate'')"
| "request_target (Dispose _ _ _) = (''dispositions'', ''disposition'')"
| "request_target (Freeze _ _ _ _) = (''freezes'', ''freeze'')"

fun request_record :: "jcs \<Rightarrow> project_config \<Rightarrow> project_observer \<Rightarrow> (string \<Rightarrow> pyval res) \<Rightarrow> string \<Rightarrow> request
    \<Rightarrow> ledger_entry list \<Rightarrow> forge_record res" where
  "request_record jcs cf ob rights now (BeginEpoch gen ev parent overlap) =
     begin_epoch_record jcs cf ob now gen ev parent overlap"
| "request_record jcs cf ob rights now (Register changed hyp gen gcf parent expected) =
     register_record jcs cf ob now changed hyp gen gcf parent expected"
| "request_record jcs cf ob rights now (Dispose cid disp reason) =
     disposition_record jcs cf ob now rights cid disp reason"
| "request_record jcs cf ob rights now (Freeze plan_bytes plan env cid) =
     freeze_record jcs cf ob now plan_bytes plan env cid"

definition handle :: "jcs \<Rightarrow> project_config \<Rightarrow> project_observer \<Rightarrow> (string \<Rightarrow> pyval res) \<Rightarrow> string \<Rightarrow> string \<Rightarrow> request
    \<Rightarrow> disk \<Rightarrow> forge_record res \<times> disk" where
  "handle jcs cf ob rights now txid q =
     record_and_commit jcs now txid (fst (request_target q)) (snd (request_target q))
       (request_record jcs cf ob rights now q)"

text \<open>\<open>handle\<close> is the service of the request.\<close>

lemma handle_services:
  "handle jcs cf ob rights now txid (BeginEpoch gen ev parent overlap) =
     begin_epoch jcs cf ob now txid gen ev parent overlap"
  "handle jcs cf ob rights now txid (Register changed hyp gen gcf parent expected) =
     register jcs cf ob now txid changed hyp gen gcf parent expected"
  "handle jcs cf ob rights now txid (Dispose cid disp reason) = dispose jcs cf ob now txid rights cid disp reason"
  "handle jcs cf ob rights now txid (Freeze plan_bytes plan env cid) =
     freeze_candidate jcs cf ob now txid plan_bytes plan env cid"
  by (simp_all add: handle_def begin_epoch_def register_def dispose_def freeze_candidate_def)

text \<open>The arguments of a request are text, as everything that arrives over the interface is.\<close>

fun request_text :: "request \<Rightarrow> bool" where
  "request_text (BeginEpoch gen ev parent overlap) \<longleftrightarrow>
     utf8_ok gen \<and> utf8_ok ev \<and> (\<forall>p \<in> set_option parent. utf8_ok p) \<and> (\<forall>x \<in> set overlap. utf8_ok x)"
| "request_text (Register changed hyp gen gcf parent expected) \<longleftrightarrow>
     utf8_ok hyp \<and> utf8_ok gen \<and> utf8_ok gcf \<and> (\<forall>p \<in> set_option parent. utf8_ok p)"
| "request_text (Dispose cid disp reason) \<longleftrightarrow> utf8_ok cid \<and> utf8_ok disp \<and> utf8_ok reason"
| "request_text (Freeze plan_bytes plan env cid) \<longleftrightarrow> utf8_ok plan \<and> utf8_ok env \<and> utf8_ok cid"

text \<open>What one step of a session sees of its surroundings.\<close>

definition surroundings_ok :: "project_config \<Rightarrow> project_observer \<Rightarrow> (string \<Rightarrow> pyval res) \<Rightarrow> string \<Rightarrow> string \<Rightarrow> bool" where
  "surroundings_ok cf ob rights now txid =
     (cf_native cf = None \<and> observer_text ob cf \<and> (\<forall>c v. rights c = Inr v \<longrightarrow> json_val v) \<and> utf8_ok now \<and> utf8_ok txid)"

lemma request_continues:
  assumes "request_record jcs cf ob rights now q es = Inr r" "surroundings_ok cf ob rights now txid" "request_text q"
    and "coherent jcs (map payload es)" "text_history (map payload es)"
  shows "continues jcs (snd (request_target q)) es r"
proof (cases q)
  case (BeginEpoch gen ev parent overlap)
  then show ?thesis
    using assms begin_epoch_continues [of jcs cf ob now gen ev parent overlap es r] by (simp add: surroundings_ok_def)
next
  case (Register changed hyp gen gcf parent expected)
  then show ?thesis
    using assms register_continues [of jcs cf ob now changed hyp gen gcf parent expected es r]
    by (simp add: surroundings_ok_def)
next
  case (Dispose cid disp reason)
  then show ?thesis
    using assms disposition_continues [of jcs cf ob now rights cid disp reason es r] by (simp add: surroundings_ok_def)
next
  case (Freeze plan_bytes plan env cid)
  then show ?thesis
    using assms freeze_continues [of jcs cf ob now plan_bytes plan env cid es r] by (simp add: surroundings_ok_def)
qed

section \<open>Sessions\<close>

definition empty_disk :: disk where
  "empty_disk = \<lparr>ledger_file = None, index_file = None, record_files = Map.empty, transactions = []\<rparr>"

definition outcome_type :: "record_type \<Rightarrow> bool" where
  "outcome_type rt = (rt \<notin> {EPOCH, CANDIDATE, CANDIDATE_DISPOSITION, FREEZE})"

text \<open>
  One step: a request, or the commit of an outcome record, each run to its end or cut off by a crash
  after any number of its durable steps and then recovered.
\<close>

inductive step :: "jcs \<Rightarrow> disk \<Rightarrow> disk \<Rightarrow> bool" for jcs where
  request: "surroundings_ok cf ob rights now txid \<Longrightarrow> request_text q \<Longrightarrow>
    handle jcs cf ob rights now txid q dk = (res, dk') \<Longrightarrow> step jcs dk dk'"
| request_crash: "surroundings_ok cf ob rights now txid \<Longrightarrow> request_text q \<Longrightarrow>
    rbind (read_history jcs dk) (request_record jcs cf ob rights now q) = Inr r \<Longrightarrow>
    decide_commit jcs now txid (fst (request_target q)) (snd (request_target q)) r dk = Inr (Fresh p) \<Longrightarrow>
    recover_unlocked jcs (crashed jcs p dk n) = (counts, dk') \<Longrightarrow> step jcs dk dk'"
| outcome: "new_record jcs rt flds = Inr r \<Longrightarrow> json_val (PDict flds) \<Longrightarrow> outcome_type rt \<Longrightarrow>
    utf8_ok now \<Longrightarrow> utf8_ok txid \<Longrightarrow> commit jcs now txid grp knd r dk = (res', dk') \<Longrightarrow> step jcs dk dk'"
| outcome_crash: "new_record jcs rt flds = Inr r \<Longrightarrow> json_val (PDict flds) \<Longrightarrow> outcome_type rt \<Longrightarrow>
    utf8_ok now \<Longrightarrow> utf8_ok txid \<Longrightarrow> decide_commit jcs now txid grp knd r dk = Inr (Fresh p) \<Longrightarrow>
    recover_unlocked jcs (crashed jcs p dk n) = (counts, dk') \<Longrightarrow> step jcs dk dk'"

inductive reachable :: "jcs \<Rightarrow> disk \<Rightarrow> bool" for jcs where
  start: "reachable jcs empty_disk"
| more: "reachable jcs dk \<Longrightarrow> step jcs dk dk' \<Longrightarrow> reachable jcs dk'"

lemma at_rest_empty: "at_rest jcs empty_disk []"
  by (auto simp: at_rest_def empty_disk_def readable_def read_verified_def read_ledger_def ledger_bytes_def
      verify_records_def normalized_def coherent_Nil)

lemma at_rest_request:
  assumes "at_rest jcs dk es" "request_record jcs cf ob rights now q es = Inr r"
    and "surroundings_ok cf ob rights now txid" "request_text q"
  shows "continues jcs (snd (request_target q)) es r"
  using assms(1) by (intro request_continues [OF assms(2-4)] at_rest_text) (auto simp: at_rest_def)

lemma at_rest_outcome:
  assumes "at_rest jcs dk es" "new_record jcs rt flds = Inr r" "json_val (PDict flds)" "outcome_type rt"
    and "grown jcs rs es knd r d e"
  shows "continues jcs knd es r"
  using assms outcome_continues [OF assms(2,3)] by (auto simp: grown_def at_rest_def outcome_type_def)

lemma step_rest:
  assumes "step jcs dk dk'" "at_rest jcs dk es"
  shows "rest_after jcs dk es dk' (\<lambda>_. True)"
proof -
  obtain rs head where rd: "transactions dk = []" "readable jcs dk rs head es" using assms(2) by (auto simp: at_rest_def)
  have rh: "read_history jcs dk = Inr es" by (rule read_history_ok [OF rd])
  have R: "rest_after jcs dk es dk' (\<lambda>_. True)" if "rest_after jcs dk es dk' P" for P
    using that by (auto simp: rest_after_def)
  from assms(1) show ?thesis
  proof cases
    case (request cf ob rights now txid q res)
    have c: "record_and_commit jcs now txid (fst (request_target q)) (snd (request_target q))
       (request_record jcs cf ob rights now q) dk = (res, dk')"
      using request(3) by (simp add: handle_def)
    have "utf8_ok txid" "utf8_ok now" using request(1) by (auto simp: surroundings_ok_def)
    from operation_rest [OF assms(2) c at_rest_request [OF assms(2) _ request(1,2)] this] show ?thesis by (rule R)
  next
    case (request_crash cf ob rights now txid q r p n counts)
    have b: "request_record jcs cf ob rights now q es = Inr r" using request_crash(3) rh by simp
    have "utf8_ok txid" "utf8_ok now" using request_crash(1) by (auto simp: surroundings_ok_def)
    from crashed_operation_rest [OF assms(2) request_crash(4) at_rest_request [OF assms(2) b request_crash(1,2)]
        request_crash(5) this]
    show ?thesis by (rule R)
  next
    case (outcome rt flds r now txid grp knd res')
    from commit_extends [OF rd outcome(6,1,2,5,4)] show ?thesis
      using at_rest_outcome [OF assms(2) outcome(1-3)] grown_at_rest [OF rd(2)] by (fastforce simp: rest_after_def)
  next
    case (outcome_crash rt flds r now txid grp knd p n counts)
    from crash_extends [OF rd outcome_crash(6,7,1,2,5,4)] show ?thesis
      using at_rest_outcome [OF assms(2) outcome_crash(1-3)] grown_at_rest [OF rd(2)]
      by (fastforce simp: rest_after_def)
  qed
qed

lemma reachable_rest: "reachable jcs dk \<Longrightarrow> (\<exists>es. at_rest jcs dk es) \<or> (\<exists>x y. collision x y)"
proof (induction rule: reachable.induct)
  case start
  show ?case using at_rest_empty by blast
next
  case (more dk dk')
  then show ?case using step_rest by (fastforce simp: rest_after_def)
qed

text \<open>In a reachable state directory the lifecycle is never ambiguous.\<close>

lemma reachable_unambiguous:
  assumes "reachable jcs dk" "read_history jcs dk = Inr es" "lifecycle_machine cf ob obs es = Inr s" "cf_native cf = None"
  shows "stage (projection s) \<noteq> AMBIGUOUS_HISTORY \<or> (\<exists>x y. collision x y)"
proof -
  obtain a where a: "new_machine a = Inr s" "native a = None" "payloads a = map payload es"
    by (rule lifecycle_machine_Inr [OF assms(3,4)])
  from reachable_rest [OF assms(1)] show ?thesis
  proof
    assume "\<exists>es'. at_rest jcs dk es'"
    then obtain es' rs head where e: "transactions dk = []" "readable jcs dk rs head es'" "coherent jcs (map payload es')"
      by (auto simp: at_rest_def)
    have "es' = es" using read_history_ok [OF e(1,2)] assms(2) by simp
    then show ?thesis using machine_coherent(1) [OF a(1,2), of jcs] e(3) a(3) by simp
  qed blast
qed

text \<open>The history only grows: every reachable successor has the entries of its predecessors.\<close>

lemma step_history:
  assumes "step jcs dk dk'" "at_rest jcs dk es"
  shows "(\<exists>ys. length ys \<le> 1 \<and> at_rest jcs dk' (es @ ys)) \<or> (\<exists>x y. collision x y)"
  using step_rest [OF assms] assms(2) unfolding rest_after_def by (metis append_Nil2 le_numeral_extra(3) le0 length_Cons list.size(3) One_nat_def order_refl)

end
