(* ===== verification/LifecycleSamples.thy ===== *)
theory LifecycleSamples
  imports Sessions Samples
begin

text \<open>
  Concrete lifecycles: a project with one requirement, its histories up to a ready, a selected and a
  frozen candidate, and the first epoch of an empty state directory.
\<close>

section \<open>Histories\<close>

definition sample_of :: "record_type \<Rightarrow> dict \<Rightarrow> forge_record" where
  "sample_of rt d = model rt (dict_of d) ''1''"

definition sample_line_of :: "forge_record \<Rightarrow> ledger_entry" where
  "sample_line_of r =
     \<lparr>sequence = 1, timestamp = [], kind = record_type_value (rtype r), previous_hash = [], payload = r,
      entry_hash = [], entry_schema_version = ''1''\<rparr>"

definition ready_records :: "forge_record list" where
  "ready_records =
     [sample_of EPOCH
        [(''epoch_id'', PStr ''e1''), (''parent_epoch'', PNone), (''authority_identities'', PDict [(''rules'', PStr ''a'')])],
      sample_of CANDIDATE [(''candidate_id'', PStr ''c1''), (''parent_candidate'', PNone), (''source_epoch'', PStr ''e1'')],
      sample_of CANDIDATE [(''candidate_id'', PStr ''c2''), (''parent_candidate'', PStr ''c1''), (''source_epoch'', PStr ''e1'')],
      sample_of WORKFLOW_RESULT
        [(''result_id'', PStr ''r1''), (''candidate_identity'', PStr ''c2''), (''workflow'', PStr ''tests''),
         (''status'', PStr ''PASS'')]]"

definition sample_selection :: forge_record where
  "sample_selection =
     sample_of CANDIDATE_DISPOSITION
       [(''disposition_id'', PStr ''d1''), (''candidate_identity'', PStr ''c2''), (''disposition'', PStr ''selected''),
        (''selection_policy_identity'', PStr ''policy''), (''evidence_status'', PStr ''PASS'')]"

definition sample_freeze :: forge_record where
  "sample_freeze =
     sample_of FREEZE
       [(''freeze_id'', PStr ''f1''), (''candidate_identity'', PStr ''c2''), (''selection_record'', PStr ''d1''),
        (''contract_identity'', PStr ''k'')]"

definition sample_inputs :: "string \<Rightarrow> forge_record list \<Rightarrow> machine_inputs" where
  "sample_inputs md rs =
     \<lparr>mode = md, history = map sample_line_of rs, current_candidate_identity = ''c2'',
      current_authority_identities = [(''rules'', ''a'')], current_freeze_bindings = [(''contract_identity'', ''k'')],
      selection_policy_identity = ''policy'', required_evidence = [''tests''], selection_policy_error = None,
      evidence_freshness = Map.empty, evidence_comparability = Map.empty, evidence_environment_keys = Map.empty,
      evidence_environment_identities = Map.empty, evidence_policy_identities = Map.empty, native = None\<rparr>"

text \<open>A machine that was built, whatever its inputs.\<close>

definition machine_of :: "machine_inputs \<Rightarrow> state_machine" where
  "machine_of a =
     (case new_machine a of
        Inr s \<Rightarrow> s
      | Inl _ \<Rightarrow> \<lparr>inputs = a, projection = base_projection a (compat_evidence_readiness a None None),
                  native_preflight_enabled = False\<rparr>)"

definition ready_inputs :: machine_inputs where "ready_inputs = sample_inputs ''development'' ready_records"
definition selected_inputs :: machine_inputs where
  "selected_inputs = sample_inputs ''development'' (ready_records @ [sample_selection])"
definition frozen_inputs :: machine_inputs where
  "frozen_inputs = sample_inputs ''evaluator'' (ready_records @ [sample_selection, sample_freeze])"

abbreviation is_Inr :: "'a res \<Rightarrow> bool" where
  "is_Inr r \<equiv> (case r of Inr _ \<Rightarrow> True | Inl _ \<Rightarrow> False)"

lemma machine_of: "is_Inr (new_machine a) \<Longrightarrow> new_machine a = Inr (machine_of a)"
  by (auto simp: machine_of_def split: sum.splits)

lemma is_InrE: "is_Inr r \<Longrightarrow> \<exists>x. r = Inr x"
  by (cases r) auto

lemma sample_machines:
  "new_machine ready_inputs = Inr (machine_of ready_inputs)"
  "new_machine selected_inputs = Inr (machine_of selected_inputs)"
  "new_machine frozen_inputs = Inr (machine_of frozen_inputs)"
  by (rule machine_of, code_simp)+

lemma sample_native: "native ready_inputs = None" "native selected_inputs = None" "native frozen_inputs = None"
  by (simp_all add: ready_inputs_def selected_inputs_def frozen_inputs_def sample_inputs_def)

lemma sample_selected:
  "\<exists>x. authorize_candidate_disposition (machine_of ready_inputs) ''c2'' ''selected'' = Inr x"
  by (rule is_InrE, code_simp)

lemma sample_frozen:
  "\<exists>x. authorize_candidate_freeze (machine_of selected_inputs) ''c2'' (Some [''tests'']) = Inr x"
  by (rule is_InrE, code_simp)

lemma sample_evaluated: "\<exists>x. authorize_evaluator_entry (machine_of frozen_inputs) (Some ''c2'') = Inr x"
  by (rule is_InrE, code_simp)

section \<open>The first epoch\<close>

definition sample_observer :: project_observer where
  "sample_observer =
     \<lparr>ob_candidate_identity = Inr ''c2'', ob_authority_identities = Inr [(''rules'', ''a'')],
      ob_freeze_bindings = (\<lambda>_ _. Inr [(''contract_identity'', ''k'')]), ob_evidence_policy = Inr (''policy'', [''tests''], None),
      ob_evidence_envelopes = Inr (Map.empty, Map.empty, Map.empty), ob_content_identity = (\<lambda>_. Inr ''k''),
      ob_visible_identities = Inr [(''contracts'', ''k'')], ob_changed_files = (\<lambda>fs. Inr [(''lib.py'', ''h'')]),
      ob_resolve = (\<lambda>_. Inr ())\<rparr>"

definition sample_config :: project_config where
  "sample_config =
     \<lparr>cf_mode = ''development'', cf_benefit_objective = ''goal.md'', cf_selection_policy = ''select.json'',
      cf_frozen_path_sets = [], cf_output_cap = 1000, cf_native = None\<rparr>"

lemma sample_surroundings: "surroundings_ok sample_config sample_observer (\<lambda>_. Inr PNone) sample_now sample_txid"
  by (simp add: surroundings_ok_def sample_config_def sample_observer_def observer_text_def texts_ok_def)

lemma sample_begin: "\<exists>s. lifecycle_machine sample_config sample_observer True [] = Inr s
    \<and> authorize_epoch_begin s None = Inr ()"
proof -
  have "case lifecycle_machine sample_config sample_observer True [] of
      Inr s \<Rightarrow> is_Inr (authorize_epoch_begin s None) | Inl _ \<Rightarrow> False"
    by code_simp
  then show ?thesis by (auto split: sum.splits)
qed

definition sample_epoch_fields :: dict where
  "sample_epoch_fields =
     [(''authority_identities'', PDict [(''rules'', PStr ''a'')]), (''baseline_identity'', PStr ''k''),
      (''contract_identity'', PStr ''k''), (''created_at'', PStr sample_now), (''declared_authority_overlap'', PList []),
      (''evaluator_identity'', PStr ''k''), (''generator_identity'', PStr ''gen''), (''objective_identity'', PStr ''k''),
      (''parent_epoch'', PNone), (''visible_partition_identities'', PDict [(''contracts'', PStr ''k'')])]"

lemma sample_epoch_fields: "epoch_fields sample_observer sample_config sample_now ''gen'' [] None [] = Inr sample_epoch_fields"
  by code_simp

lemma sample_epoch_object: "json_object (PDict sample_epoch_fields) = Inr sample_epoch_fields"
  by (rule fixed_json_object)
    (simp_all add: sample_epoch_fields_def dict_wf_def json_fixed_def as_json_value.simps as_json_scalar dict_of_def)

lemma sample_epoch_derive: "\<exists>i. derive_record_identity EPOCH sample_epoch_fields = Inr i \<and> i \<noteq> []"
  by (simp add: derive_record_identity_def spec_of_def epoch_spec_def identity_projection_def sample_epoch_fields_def
      as_json_value.simps metadata_dict_def CURRENT_SCHEMA_VERSION_def local_json_identity_def canonical_bytes_def
      dict_of_def sample_now_def del: enc.simps)

lemma sample_epoch: "\<exists>r. new_record jcs EPOCH sample_epoch_fields = Inr r"
proof -
  obtain i where i: "derive_record_identity EPOCH sample_epoch_fields = Inr i" "i \<noteq> []" using sample_epoch_derive by blast
  have v: "validate_fields jcs EPOCH (dict_put ''epoch_id'' (PStr i) sample_epoch_fields) = Inr ()"
    using i(2)
    by (simp add: sample_epoch_fields_def keys_def dict_get_def validate_fields_def spec_of_def epoch_spec_def
        validate_shape_def allowed_def epoch_strings_def nonempty_str_def status_is_valid_def
        validate_type_rules_def ensure_in_def in_strs_def sample_now_def)
  have "dict_get sample_epoch_fields ''epoch_id'' = PNone" "''record_type'' \<notin> set (keys sample_epoch_fields)"
    "''schema_version'' \<notin> set (keys sample_epoch_fields)"
    by (simp_all add: sample_epoch_fields_def dict_get_def keys_def)
  then show ?thesis
    by (simp add: new_record_def sample_epoch_object i(1) spec_of_def epoch_spec_def v CURRENT_SCHEMA_VERSION_def)
qed

lemma sample_begin_record:
  "\<exists>r. begin_epoch_record jcs sample_config sample_observer sample_now ''gen'' [] None [] [] = Inr r"
proof -
  obtain s where s: "lifecycle_machine sample_config sample_observer True [] = Inr s" "authorize_epoch_begin s None = Inr ()"
    using sample_begin by blast
  obtain r where "new_record jcs EPOCH sample_epoch_fields = Inr r" using sample_epoch by blast
  with s show ?thesis by (simp add: begin_epoch_record_def sample_epoch_fields)
qed

text \<open>A coherent history of one epoch.\<close>

lemma sample_coherent: "\<exists>r. rtype r = EPOCH \<and> coherent jcs [r]"
proof -
  obtain r where r: "begin_epoch_record jcs sample_config sample_observer sample_now ''gen'' [] None [] [] = Inr r"
    using sample_begin_record by blast
  have t: "cf_native sample_config = None" "observer_text sample_observer sample_config"
    using sample_surroundings by (auto simp: surroundings_ok_def)
  have "continues jcs ''epoch'' [] r"
    by (rule begin_epoch_continues [OF r t]) (simp_all add: coherent_Nil)
  moreover have "rtype r = EPOCH" using r new_record_ok by (auto simp: begin_epoch_record_def)
  ultimately show ?thesis by (auto simp: continues_def)
qed

end
