(* ===== verification/LifecycleProperties.thy ===== *)
theory LifecycleProperties
  imports LifecycleSamples
begin

text \<open>
  The properties of the lifecycle: of sessions on a state directory, and of the state machine that
  authorizes each operation.
\<close>

section \<open>Helpers\<close>



lemma compat_required: "ev_required (compat_evidence_readiness m c given)
    = (case given of None \<Rightarrow> required_evidence m | Some rs \<Rightarrow> dedup_first rs)"
  by (simp add: compat_evidence_readiness_def Let_def split: option.split)

lemma compat_error: "ev_policy_error (compat_evidence_readiness m c given)
    = (case given of None \<Rightarrow> selection_policy_error m | Some _ \<Rightarrow> None)"
  by (simp add: compat_evidence_readiness_def Let_def split: option.split)

text \<open>The evidence of a machine without a native adapter is the one of its current candidate.\<close>

lemma machine_evidence:
  assumes "new_machine a = Inr s" "native a = None" "current_candidate (projection s) = Some c"
  shows "evidence (projection s) = compat_evidence_readiness (inputs s) (Some c) None"
proof -
  note m = new_machine_compat [OF assms(1,2)]
  have "current_candidate (projection s) = projected_candidate (inputs s)"
    unfolding m(2) m(1) by (simp add: base_projection_def projected_candidate_def Let_def split: prod.splits)
  then show ?thesis using m assms(3) by (simp add: base_projection_def Let_def split: prod.splits)
qed

lemma blocker_none_met:
  assumes "evidence_blocker (compat_evidence_readiness m (Some c) given) = None"
    and "ev_policy_error (compat_evidence_readiness m (Some c) given) \<noteq> Some []"
    and "q \<in> set (ev_required (compat_evidence_readiness m (Some c) given))"
  shows "requirement_met m c q"
  using assms compat_blocker_iff compat_ready_iff by blast

text \<open>The walk along parents visits no candidate twice.\<close>

lemma lineage_walk_distinct:
  "distinct (fst (lineage_walk known seen c r)) \<and> set (fst (lineage_walk known seen c r)) \<inter> set seen = {}
    \<and> set (fst (lineage_walk known seen c r)) \<subseteq> insert c (fst ` set known)"
proof (induction known seen c r rule: lineage_walk.induct)
  case (1 known seen c r)
  show ?case
  proof (cases "c \<in> set seen")
    case False
    show ?thesis
    proof (cases "if rget r ''parent_candidate'' = PNone then None else map_of known (py_str (rget r ''parent_candidate''))")
      case (Some p)
      have k: "py_str (rget r ''parent_candidate'') \<in> fst ` set known"
        using Some by (auto split: if_splits dest!: map_of_SomeD intro: rev_image_eqI)
      show ?thesis
        using 1 [OF False refl Some] False k
        by (subst (1 2 3) lineage_walk.simps) (auto simp: Let_def Some split: prod.split)
    qed (use False in \<open>subst (1 2 3) lineage_walk.simps, simp add: Let_def\<close>)
  qed (subst (1 2 3) lineage_walk.simps, simp)
qed






section \<open>Sessions\<close>









section \<open>What the state machine authorizes\<close>

text \<open>
  C26. A candidate can be selected only in development mode, on an unambiguous history, while it is
  the current candidate, its content is the current content, and nothing has disposed of it; and
  only when every required check has evidence that is neither FAIL nor UNKNOWN, is current, and
  comes from the declared environment, policy and authority.
\<close>

theorem selection_requires_evidence:
  assumes "new_machine a = Inr s" "native a = None" "selection_policy_error a \<noteq> Some []"
    and "authorize_candidate_disposition s cid ''selected'' = Inr (c, ev)"
  shows "mode a = ''development'' \<and> stage (projection s) \<noteq> AMBIGUOUS_HISTORY
    \<and> current_candidate (projection s) = Some c \<and> rget c ''candidate_id'' = PStr cid
    \<and> candidate_freshness (projection s) = ''CURRENT'' \<and> disposition_status (projection s) = ''undisposed''
    \<and> ev_status ev = ''PASS'' \<and> selection_policy_error a = None
    \<and> (\<forall>q \<in> set (required_evidence a). requirement_met (inputs s) c q)"
proof -
  note i = authorize_disposition_Inr [OF assms(4)] and m = new_machine_compat [OF assms(1,2)]
  have ev: "ev = compat_evidence_readiness (inputs s) (Some c) None"
    using machine_evidence [OF assms(1,2) i(3)] i(8) by simp
  have b: "evidence_blocker (compat_evidence_readiness (inputs s) (Some c) None) = None" using i(9) ev by simp
  have e: "selection_policy_error (inputs s) = selection_policy_error a" "mode (inputs s) = mode a"
      "set (required_evidence (inputs s)) = set (required_evidence a)"
    unfolding m(1) by (simp_all add: prepare_inputs_def)
  have ne: "ev_policy_error (compat_evidence_readiness (inputs s) (Some c) None) \<noteq> Some []"
    using assms(3) e by (simp add: compat_error)
  have "ev_ready (compat_evidence_readiness (inputs s) (Some c) None)" using b ne compat_blocker_iff by blast
  moreover have "requirement_met (inputs s) c q" if "q \<in> set (required_evidence a)" for q
    by (rule blocker_none_met [OF b ne]) (use that e in \<open>simp add: compat_required\<close>)
  ultimately show ?thesis
    using i(1-6) e ev compat_status compat_ready_iff [of "inputs s" c None] ne by (auto simp: compat_error)
qed

theorem selection_requires_evidence_witness:
  "\<exists>c. rget c ''candidate_id'' = PStr ''c2'' \<and> requirement_met (inputs (machine_of ready_inputs)) c ''tests''"
proof -
  obtain c ev where x: "authorize_candidate_disposition (machine_of ready_inputs) ''c2'' ''selected'' = Inr (c, ev)"
    using sample_selected by auto
  have "selection_policy_error ready_inputs \<noteq> Some []" "''tests'' \<in> set (required_evidence ready_inputs)"
    by (simp_all add: ready_inputs_def sample_inputs_def)
  then show ?thesis using selection_requires_evidence [OF sample_machines(1) sample_native(1) _ x] by blast
qed

text \<open>
  C27. A candidate can be frozen only when it is the current, unchanged candidate, is selected under
  the present selection policy with evidence status PASS, is not frozen yet, and every requirement
  of the evidence plan, which is not empty, is met now; and the authority of its epoch is current.
\<close>

theorem freeze_requires_selection:
  assumes "new_machine a = Inr s" "native a = None" "authorize_candidate_freeze s cid plan = Inr (c, d)"
  shows "mode a = ''development'' \<and> current_candidate (projection s) = Some c \<and> rget c ''candidate_id'' = PStr cid
    \<and> candidate_freshness (projection s) = ''CURRENT'' \<and> disposition (projection s) = Some d
    \<and> disposition_status (projection s) = ''selected'' \<and> freeze (projection s) = None
    \<and> rget d ''selection_policy_identity'' = PStr (selection_policy_identity a)
    \<and> rget d ''evidence_status'' = PStr ''PASS''
    \<and> (\<exists>qs. plan = Some qs \<and> qs \<noteq> [] \<and> (\<forall>q \<in> set qs. requirement_met (inputs s) c q))
    \<and> (\<exists>e. active_epoch (projection s) = Some e
        \<and> authority_matches (rget e ''authority_identities'') (current_authority_identities a))"
proof -
  note i = authorize_freeze_Inr [OF assms(3)] and m = new_machine_compat [OF assms(1,2)]
  obtain qs where qs: "plan = Some qs" "qs \<noteq> []" using i(12) by (cases plan) auto
  have e: "mode (inputs s) = mode a" "native (inputs s) = None"
      "selection_policy_identity (inputs s) = selection_policy_identity a"
      "current_authority_identities (inputs s) = current_authority_identities a"
    unfolding m(1) using assms(2) by (simp_all add: prepare_inputs_def)
  have b: "evidence_blocker (compat_evidence_readiness (inputs s) (Some c) (Some qs)) = None"
    using i(13) e(2) qs(1) by (simp add: project_evidence_def)
  have "requirement_met (inputs s) c q" if "q \<in> set qs" for q
    by (rule blocker_none_met [OF b]) (use that in \<open>simp_all add: compat_required compat_error\<close>)
  then show ?thesis using i(1,3-8,10,11,14) e qs by simp
qed

theorem freeze_requires_selection_witness:
  "\<exists>c d. rget d ''evidence_status'' = PStr ''PASS'' \<and> requirement_met (inputs (machine_of selected_inputs)) c ''tests''"
proof -
  obtain c d where x: "authorize_candidate_freeze (machine_of selected_inputs) ''c2'' (Some [''tests'']) = Inr (c, d)"
    using sample_frozen by auto
  then show ?thesis using freeze_requires_selection [OF sample_machines(2) sample_native(2) x] by auto
qed

text \<open>
  C28. Evaluation starts only in evaluator mode on a freeze that has not drifted from the present
  bindings, of the current and unchanged candidate, whose selection is the one the freeze records.
\<close>

theorem evaluation_requires_freeze:
  assumes "new_machine a = Inr s" "native a = None" "authorize_evaluator_entry s cid = Inr (fr, c)"
  shows "mode a = ''evaluator'' \<and> freeze (projection s) = Some fr
    \<and> (\<forall>(name, current) \<in> set (current_freeze_bindings a). rget fr name = PStr current)
    \<and> current_candidate (projection s) = Some c \<and> rget c ''candidate_id'' = PStr (text_of fr ''candidate_identity'')
    \<and> candidate_freshness (projection s) = ''CURRENT'' \<and> disposition_status (projection s) = ''selected''
    \<and> (\<exists>d. disposition (projection s) = Some d \<and> py_eq (rget fr ''selection_record'') (rget d ''disposition_id''))"
proof -
  note i = authorize_evaluator_Inr [OF assms(3)] and m = new_machine_compat [OF assms(1,2)]
  have e: "mode (inputs s) = mode a" "current_freeze_bindings (inputs s) = current_freeze_bindings a"
    unfolding m(1) by (simp_all add: prepare_inputs_def)
  have "filter (\<lambda>(name, current). rget fr name \<noteq> PStr current) (current_freeze_bindings a) = []"
    using arg_cong [OF i(4), of length] by (simp add: freeze_drift_def e(2))
  then have "\<forall>(name, current) \<in> set (current_freeze_bindings a). rget fr name = PStr current"
    by (auto simp: filter_empty_conv)
  then show ?thesis using i(1,3,5-8,10) e(1) by simp
qed

theorem evaluation_requires_freeze_witness:
  "\<exists>fr. rget fr ''contract_identity'' = PStr ''k''"
proof -
  obtain fr c where x: "authorize_evaluator_entry (machine_of frozen_inputs) (Some ''c2'') = Inr (fr, c)"
    using sample_evaluated by auto
  have "(''contract_identity'', ''k'') \<in> set (current_freeze_bindings frozen_inputs)"
    by (simp add: frozen_inputs_def sample_inputs_def)
  then show ?thesis using evaluation_requires_freeze [OF sample_machines(3) sample_native(3) x] by blast
qed

text \<open>
  C29. The readiness the code computes from five sorted lists of requirements is the plain
  condition: no policy error, and every requirement is met.
\<close>

theorem readiness_iff_requirements_met:
  "ev_ready (compat_evidence_readiness m (Some c) given) \<longleftrightarrow>
    (case given of None \<Rightarrow> selection_policy_error m | Some _ \<Rightarrow> None) \<in> {None, Some []}
    \<and> (\<forall>q \<in> set (case given of None \<Rightarrow> required_evidence m | Some qs \<Rightarrow> qs). requirement_met m c q)"
  using compat_ready_iff [of m c given] by (simp add: compat_required compat_error split: option.split)

theorem readiness_iff_requirements_met_witness:
  "requirement_met ready_inputs (sample_of CANDIDATE [(''candidate_id'', PStr ''c2'')]) ''tests''"
proof -
  have "ev_ready (compat_evidence_readiness ready_inputs (Some (sample_of CANDIDATE [(''candidate_id'', PStr ''c2'')])) None)"
    by code_simp
  then show ?thesis
    using readiness_iff_requirements_met [of ready_inputs _ None] by (simp add: ready_inputs_def sample_inputs_def)
qed

text \<open>
  C30. On a coherent history the projection is what the history says directly: the active epoch is
  the last one, all earlier ones are superseded, the current candidate is the last one registered
  since, its lineage is the chain of candidates since, and its disposition and freeze are the last
  records about it.
\<close>

theorem coherent_projection:
  assumes "new_machine a = Inr s" "native a = None" "coherent jcs (payloads a)"
  shows "stage (projection s) \<noteq> AMBIGUOUS_HISTORY
    \<and> active_epoch (projection s) = last_of (of_type EPOCH (payloads a))
    \<and> superseded_epochs (projection s) = butlast (epoch_ids (payloads a))
    \<and> current_candidate (projection s) = last_of (active_chain_of (payloads a))
    \<and> candidate_lineage (projection s) = map (\<lambda>r. text_of r ''candidate_id'') (active_chain_of (payloads a))
    \<and> (active_chain_of (payloads a) \<noteq> [] \<longrightarrow>
        (let subject = PStr (text_of (last (active_chain_of (payloads a))) ''candidate_id'')
         in disposition (projection s) = last_of (about CANDIDATE_DISPOSITION subject (payloads a))
            \<and> freeze (projection s) = last_of (about FREEZE subject (payloads a))))"
proof -
  note p = machine_coherent [OF assms]
  show ?thesis unfolding Let_def by (intro conjI impI p(1-5) p(6,7))
qed

theorem coherent_projection_witness:
  "\<exists>r. rtype r = EPOCH \<and> active_epoch (projection (machine_of (sample_inputs ''development'' [r]))) = Some r"
proof -
  obtain r where r: "rtype r = EPOCH" "coherent sample_jcs [r]" using sample_coherent by blast
  let ?a = "sample_inputs ''development'' [r]"
  have m: "new_machine ?a = Inr (machine_of ?a)" "native ?a = None" "payloads ?a = [r]"
    by (simp_all add: machine_of_def new_machine_def Let_def project_def project_evidence_def apply_native_projection_def
        sample_inputs_def prepare_inputs_def payloads_def sample_line_of_def)
  show ?thesis using coherent_projection [OF m(1,2), of sample_jcs] r m(3) by (auto simp: of_type_def last_of_def)
qed

text \<open>
  C31. The walk to the ancestors of a candidate ends on every history, cyclic or not: it visits no
  candidate twice, and at most the known ones and the candidate it started from.
\<close>

theorem lineage_walk_bounded:
  "distinct (fst (lineage_walk known [] c r)) \<and> length (fst (lineage_walk known [] c r)) \<le> length known + 1"
proof -
  let ?w = "fst (lineage_walk known [] c r)"
  have w: "distinct ?w" "set ?w \<subseteq> insert c (fst ` set known)" using lineage_walk_distinct [of known "[]" c r] by auto
  have "length ?w = card (set ?w)" using w(1) by (simp add: distinct_card)
  also have "\<dots> \<le> card (insert c (fst ` set known))" by (rule card_mono [OF _ w(2)]) simp
  also have "\<dots> \<le> card (fst ` set known) + 1" by (simp add: card_insert_if)
  also have "\<dots> \<le> length known + 1"
    using card_image_le [of "set known" fst] card_length [of known] by simp
  finally show ?thesis using w(1) by simp
qed

text \<open>
  C32. A verifier action gets at most one terminal result: a result is authorized only for an action
  that is recorded, with the same candidate, freeze and mode, and never once a result of that action
  is in the history.
\<close>

theorem terminal_result_once:
  "authorize_terminal_result_from_history hist action_id cid fid md = Inr action \<longleftrightarrow>
    (let actions = filter (\<lambda>r. rtype r = VERIFIER_ACTION \<and> rget r ''action_id'' = PStr action_id) (map payload hist)
     in actions \<noteq> [] \<and> action = last actions
        \<and> rget action ''candidate_identity'' = PStr cid \<and> rget action ''freeze_identity'' = opt_text fid
        \<and> rget action ''mode'' = PStr md)
    \<and> (\<forall>e \<in> set hist. rtype (payload e) = VERIFIER_RESULT \<longrightarrow> rget (payload e) ''action_id'' \<noteq> PStr action_id)"
proof -
  let ?actions = "filter (\<lambda>r. rtype r = VERIFIER_ACTION \<and> rget r ''action_id'' = PStr action_id) (map payload hist)"
  have l: "rget (last ?actions) ''action_id'' = PStr action_id" if "?actions \<noteq> []"
    using last_in_set [OF that] by simp
  show ?thesis
  proof (cases "?actions = []")
    case False
    then show ?thesis
      using l unfolding authorize_terminal_result_from_history_def authorize_terminal_result_for_recorded_action_def Let_def
      by (auto simp: filter_empty_conv)
  qed (simp add: authorize_terminal_result_from_history_def Let_def)
qed

theorem terminal_result_once_witness:
  "\<exists>x. authorize_terminal_result_from_history
      [sample_line_of (sample_of VERIFIER_ACTION
        [(''action_id'', PStr ''a1''), (''candidate_identity'', PStr ''c2''), (''freeze_identity'', PNone),
         (''mode'', PStr ''development'')])] ''a1'' ''c2'' None ''development'' = Inr x"
  unfolding terminal_result_once by (simp add: Let_def) code_simp



end
