(* ===== verification/Paths.thy ===== *)
theory Paths
  imports Records "HOL-Library.Sublist"
begin

text \<open>
  Project-root containment and scopes (paths.py). A path is the list of its parts, below the root of
  the file system when it is absolute. The file system is a record of what the code asks it: the real
  path, existence, kind and bytes of a path, and the paths below a directory.
\<close>

section \<open>Pure paths\<close>

text \<open>\<open>", ".join(xs)\<close>.\<close>

fun join :: "string \<Rightarrow> string list \<Rightarrow> string" where
  "join sep [] = []"
| "join sep [x] = x"
| "join sep (x # y # xs) = x @ sep @ join sep (y # xs)"

fun split_on :: "char \<Rightarrow> string \<Rightarrow> string list" where
  "split_on c [] = [[]]"
| "split_on c (x # xs) =
     (if x = c then [] # split_on c xs
      else case split_on c xs of [] \<Rightarrow> [[x]] | p # ps \<Rightarrow> (x # p) # ps)"

type_synonym path = "string list"

text \<open>\<open>PurePosixPath(value).parts\<close> without the root: empty parts and dots vanish.\<close>

definition pure_parts :: "string \<Rightarrow> path" where
  "pure_parts s = filter (\<lambda>p. p \<noteq> [] \<and> p \<noteq> ''.'') (split_on (CHR ''/'') s)"

definition is_absolute :: "string \<Rightarrow> bool" where
  "is_absolute s = (\<exists>cs. s = CHR ''/'' # cs)"

lemma is_absolute_code [code, simp]:
  "is_absolute [] = False"
  "is_absolute (c # cs) = (c = CHR ''/'')"
  by (auto simp: is_absolute_def)

definition as_posix :: "path \<Rightarrow> string" where
  "as_posix p = (if p = [] then ''.'' else join ''/'' p)"

definition NUL :: char where "NUL = char_of (0 :: nat)"

definition validate_relative_path :: "pyval \<Rightarrow> bool \<Rightarrow> path res" where
  "validate_relative_path v allow_dot =
     (case as_text v of
        None \<Rightarrow> raise ''INVALID_PATH''
      | Some s \<Rightarrow>
          if s = [] then raise ''INVALID_PATH''
          else if is_absolute s then raise ''ABSOLUTE_PATH''
          else if ''..'' \<in> set (pure_parts s) then raise ''PATH_TRAVERSAL''
          else if NUL \<in> set s then raise ''INVALID_PATH''
          else if pure_parts s = [] \<and> \<not> allow_dot then raise ''INVALID_PATH''
          else Inr (pure_parts s))"

section \<open>Scopes\<close>

definition is_within :: "path \<Rightarrow> path list \<Rightarrow> bool" where
  "is_within p scopes = list_ex (\<lambda>scope. p = scope \<or> prefix scope p) scopes"

definition validate_scopes_do_not_overlap :: "path list \<Rightarrow> path list \<Rightarrow> unit res" where
  "validate_scopes_do_not_overlap writable protected =
     run_checks (concat (map (\<lambda>w. concat (map (\<lambda>p.
        [ensure (w \<noteq> p) ''AUTHORITY_OVERLAP'',
         ensure (\<not> (prefix p w \<or> prefix w p)) ''AUTHORITY_OVERLAP'']) protected)) writable))"

section \<open>The file system\<close>

record filesystem =
  fs_resolve :: "path \<Rightarrow> path res"
  fs_exists :: "path \<Rightarrow> bool"
  fs_is_file :: "path \<Rightarrow> bool"
  fs_is_dir :: "path \<Rightarrow> bool"
  fs_is_symlink :: "path \<Rightarrow> bool"
  fs_bytes :: "path \<Rightarrow> bytes option"
  fs_rglob :: "path \<Rightarrow> path list"

text \<open>\<open>resolve(strict=True)\<close> of a path: the real path, which must exist.\<close>

definition resolve_strict :: "filesystem \<Rightarrow> path \<Rightarrow> path res" where
  "resolve_strict fs p = rbind (fs_resolve fs p) (\<lambda>q. if fs_exists fs q then Inr q else Inl (PyExc ''OSError''))"

text \<open>
  \<open>resolve_contained\<close>: an \<open>OSError\<close> of the resolution of the path, not of the root, becomes an error
  of Forge.
\<close>

definition resolve_contained :: "filesystem \<Rightarrow> path \<Rightarrow> pyval \<Rightarrow> bool \<Rightarrow> path res" where
  "resolve_contained fs root v must_exist =
     rbind (validate_relative_path v True) (\<lambda>rel.
     rbind (resolve_strict fs root) (\<lambda>root_real.
     rbind (case (if must_exist then resolve_strict fs (root_real @ rel) else fs_resolve fs (root_real @ rel)) of
              Inl (PyExc n) \<Rightarrow> if n = ''OSError'' then raise ''PATH_RESOLUTION'' else Inl (PyExc n)
            | r \<Rightarrow> r) (\<lambda>resolved.
       rthen (ensure (prefix root_real resolved) ''SYMLINK_ESCAPE'') (Inr resolved))))"

definition validate_tree_containment :: "filesystem \<Rightarrow> path \<Rightarrow> path \<Rightarrow> unit res" where
  "validate_tree_containment fs root p =
     rbind (resolve_strict fs root) (\<lambda>root_real.
       if \<not> fs_exists fs p \<or> fs_is_file fs p then Inr ()
       else run_checks (map (\<lambda>child.
              if fs_is_symlink fs child
              then rbind (fs_resolve fs child) (\<lambda>target. ensure (prefix root_real target) ''SYMLINK_ESCAPE'')
              else Inr ()) (fs_rglob fs p)))"

text \<open>
  The root of a project contains the directory of its configuration. A relative value may climb:
  its dots are resolved by the file system.
\<close>

definition resolve_project_root :: "filesystem \<Rightarrow> path \<Rightarrow> pyval \<Rightarrow> path res" where
  "resolve_project_root fs config_path v =
     (case as_text v of
        None \<Rightarrow> raise ''INVALID_PATH''
      | Some s \<Rightarrow>
          if s = [] then raise ''INVALID_PATH''
          else if is_absolute s then raise ''ABSOLUTE_PATH''
          else if NUL \<in> set s then raise ''INVALID_PATH''
          else rbind (resolve_strict fs config_path) (\<lambda>config_real.
               rbind (resolve_strict fs (butlast config_real @ pure_parts s)) (\<lambda>root.
                 rthen (ensure (prefix root (butlast config_real)) ''PROJECT_ROOT_ESCAPE'') (Inr root))))"

definition resolve_family_module_root :: "filesystem \<Rightarrow> path \<Rightarrow> pyval \<Rightarrow> path res" where
  "resolve_family_module_root fs project_root v =
     (case as_text v of
        None \<Rightarrow> raise ''INVALID_PATH''
      | Some s \<Rightarrow>
          if s = [] \<or> NUL \<in> set s then raise ''INVALID_PATH''
          else if is_absolute s then raise ''ABSOLUTE_PATH''
          else rbind (resolve_strict fs project_root) (\<lambda>root_real.
               rbind (fs_resolve fs (root_real @ pure_parts s)) (\<lambda>candidate.
                 rthen (ensure (prefix (butlast root_real) candidate) ''FAMILY_MODULE_ROOT_ESCAPE'')
                 (rthen (ensure (fs_is_dir fs candidate \<and> \<not> fs_is_symlink fs candidate) ''FAMILY_MODULE_ROOT_MISSING'')
                   (Inr candidate)))))"

section \<open>What the checks establish\<close>

lemma is_within_iff: "is_within p scopes \<longleftrightarrow> (\<exists>scope \<in> set scopes. prefix scope p)"
  by (auto simp: is_within_def list_ex_iff)

lemma no_overlap_iff:
  "validate_scopes_do_not_overlap ws ps = Inr () \<longleftrightarrow>
    (\<forall>w \<in> set ws. \<forall>p \<in> set ps. \<not> prefix p w \<and> \<not> prefix w p)"
  by (auto simp: validate_scopes_do_not_overlap_def run_checks_eq_Inr)

text \<open>Scopes are accepted exactly when no path is within both sides.\<close>

lemma scopes_disjoint:
  "validate_scopes_do_not_overlap ws ps = Inr () \<longleftrightarrow> (\<forall>q. \<not> (is_within q ws \<and> is_within q ps))"
  unfolding no_overlap_iff is_within_iff
  by (meson prefix_order.order_refl prefix_same_cases)

lemma relative_pure_parts:
  "validate_relative_path v allow = Inr p \<Longrightarrow> ''..'' \<notin> set p \<and> ''.'' \<notin> set p \<and> [] \<notin> set p"
  by (auto simp: validate_relative_path_def pure_parts_def split: option.splits if_splits)

lemma split_on_parts: "p \<in> set (split_on c s) \<Longrightarrow> c \<notin> set p"
  by (induction c s arbitrary: p rule: split_on.induct) (fastforce split: if_splits list.splits)+

lemma relative_path_slash: "validate_relative_path v allow = Inr p \<Longrightarrow> q \<in> set p \<Longrightarrow> CHR ''/'' \<notin> set q"
  by (auto simp: validate_relative_path_def pure_parts_def dest: split_on_parts split: option.splits if_splits)

lemma resolve_contained_within:
  "resolve_contained fs root v must = Inr p \<Longrightarrow> \<exists>root_real. resolve_strict fs root = Inr root_real \<and> prefix root_real p"
  by (auto simp: resolve_contained_def rbind_eq_Inr rthen_def)

end
