(* ===== verification/Assurance.thy ===== *)
theory Assurance
  imports Services Paths
begin

text \<open>
  Execution-assurance assessments (application/assurance.py): which of the requested properties the
  runner of an execution established, separate from the result of the program. An assessment reads a
  receipt binding from the history, and is committed as a record of its own.
\<close>

section \<open>Contradictions of a binding\<close>

definition LAUNDERING_RUNNER_KINDS :: "string list" where
  "LAUNDERING_RUNNER_KINDS = [''local-process'']"

definition CONTAINER_PROPERTIES :: "string list" where
  "CONTAINER_PROPERTIES = [''filesystem_isolation'', ''network_isolation'', ''containerization'']"

definition property_map :: "forge_record \<Rightarrow> dict option" where
  "property_map b = mapping_items (rget b ''established_properties'')"

definition structural_contradictions :: "forge_record \<Rightarrow> string list" where
  "structural_contradictions b =
     (case property_map b of
        None \<Rightarrow> [''execution receipt binding has no established property map'']
      | Some ps \<Rightarrow>
          (let missing = filter (\<lambda>k. k \<notin> set (keys ps)) ESTABLISHED_PROPERTY_KEYS
           in if missing = [] then []
              else [''binding property map is incomplete: '' @ join '', '' (sorted_set missing)])
          @ (if rget b ''receipt_completeness'' = PStr ''complete'' \<and> mapping_items (rget b ''mncs_receipt'') = None
             then [''complete binding is missing its MNCS execution-receipt envelope''] else []))"

definition laundering_contradiction :: "forge_record \<Rightarrow> string option" where
  "laundering_contradiction b =
     (case (property_map b, as_text (rget b ''runner_kind'')) of
        (Some ps, Some runner_kind) \<Rightarrow>
          if runner_kind \<in> set LAUNDERING_RUNNER_KINDS
          then (case filter (\<lambda>k. dict_get ps k = PStr ''established'') CONTAINER_PROPERTIES of
                  [] \<Rightarrow> None
                | k # _ \<Rightarrow> Some (k @ '' is claimed established by a '' @ runner_kind @
                                  '' runner, which cannot enforce it''))
          else None
      | _ \<Rightarrow> None)"

section \<open>The assessment\<close>

definition unmet_reason :: "pyval \<Rightarrow> string \<Rightarrow> string" where
  "unmet_reason state k =
     (if state = PStr ''not-established'' then ''requested property was not established by the runner: '' @ k
      else if state = PStr ''unknown'' then ''requested property could not be observed: '' @ k
      else ''requested property has an unreadable state: '' @ k)"

record assessment =
  as_unmet :: "string list"
  as_reasons :: "string list"
  as_status :: string

text \<open>The requested properties are distinct, so a property is appended to \<open>unmet\<close> at most once.\<close>

definition assess_binding :: "forge_record \<Rightarrow> dict \<Rightarrow> string list \<Rightarrow> assessment" where
  "assess_binding b ps requested =
     (let laundering = laundering_contradiction b;
          unmet0 = filter (\<lambda>k. dict_get ps k \<noteq> PStr ''established'') requested;
          complete = (rget b ''receipt_completeness'' = PStr ''complete'');
          reasons = structural_contradictions b
            @ (case laundering of None \<Rightarrow> [] | Some r \<Rightarrow> [r])
            @ map (\<lambda>k. unmet_reason (dict_get ps k) k) unmet0
            @ (if complete then []
               else [''the bound execution is incomplete, so no assurance property can be confirmed'']);
          unmet = unmet0 @ (if complete then [] else filter (\<lambda>k. k \<notin> set unmet0) requested)
      in \<lparr>as_unmet = unmet, as_reasons = reasons,
          as_status = (if laundering \<noteq> None then ''FAIL''
                       else if unmet \<noteq> [] \<or> reasons \<noteq> [] then ''UNKNOWN'' else ''PASS'')\<rparr>)"

definition assessment_fields :: "string \<Rightarrow> string \<Rightarrow> string \<Rightarrow> string list \<Rightarrow> string option \<Rightarrow> forge_record
    \<Rightarrow> assessment \<Rightarrow> dict" where
  "assessment_fields proj now binding_id requested policy b a =
     dict_of
       [(''project_identity'', PStr proj),
        (''candidate_identity'', rget b ''candidate_identity''),
        (''binding_identity'', PStr binding_id),
        (''action_kind'', rget b ''action_kind''),
        (''action_identity'', rget b ''action_identity''),
        (''requested_properties'', PList (map PStr requested)),
        (''unmet_properties'', PList (map PStr (as_unmet a))),
        (''reasons'', PList (map PStr (as_reasons a))),
        (''assurance_status'', PStr (as_status a)),
        (''policy_identity'', opt_text policy),
        (''assessed_at'', PStr now)]"

definition check_request :: "string list \<Rightarrow> unit res" where
  "check_request requested =
     run_checks
       [ensure (requested \<noteq> []) ''ASSURANCE_REQUEST'',
        ensure (distinct requested) ''ASSURANCE_REQUEST'',
        ensure (set requested \<subseteq> set ASSURANCE_REQUEST_PROPERTIES) ''ASSURANCE_REQUEST'']"

definition assessment_record :: "jcs \<Rightarrow> string \<Rightarrow> string \<Rightarrow> string \<Rightarrow> string list \<Rightarrow> string option
    \<Rightarrow> ledger_entry list \<Rightarrow> forge_record res" where
  "assessment_record jcs proj now binding_id requested policy hist =
     rthen (check_request requested)
     (rbind (record_by_id hist ''execution_receipt_binding'' binding_id ''binding_id'') (\<lambda>b.
        rthen (ensure (rget b ''project_identity'' = PStr proj) ''RECORD_MISMATCH'')
        (case property_map b of
           None \<Rightarrow> raise ''RECORD_MALFORMED''
         | Some ps \<Rightarrow>
             new_record jcs EXECUTION_ASSURANCE
               (assessment_fields proj now binding_id requested policy b (assess_binding b ps requested)))))"

definition assess_execution_receipt :: "jcs \<Rightarrow> string \<Rightarrow> string \<Rightarrow> string \<Rightarrow> string \<Rightarrow> string list \<Rightarrow> string option
    \<Rightarrow> disk \<Rightarrow> forge_record res \<times> disk" where
  "assess_execution_receipt jcs proj now txid binding_id requested policy =
     record_and_commit jcs now txid ''assessments'' ''execution_assurance''
       (assessment_record jcs proj now binding_id requested policy)"

text \<open>The assessments in the history about a binding and a candidate, where they are given.\<close>

definition list_assessments :: "string option \<Rightarrow> string option \<Rightarrow> ledger_entry list \<Rightarrow> forge_record list" where
  "list_assessments binding candidate hist =
     filter (\<lambda>r. (case binding of None \<Rightarrow> True | Some b \<Rightarrow> rget r ''binding_identity'' = PStr b)
               \<and> (case candidate of None \<Rightarrow> True | Some c \<Rightarrow> rget r ''candidate_identity'' = PStr c))
       (map payload (filter (\<lambda>e. kind e = ''execution_assurance'') hist))"

section \<open>What the status means\<close>

lemma laundering_iff:
  "laundering_contradiction b \<noteq> None \<longleftrightarrow>
    rget b ''runner_kind'' = PStr ''local-process''
    \<and> (\<exists>ps. property_map b = Some ps \<and> (\<exists>k \<in> set CONTAINER_PROPERTIES. dict_get ps k = PStr ''established''))"
proof (cases "property_map b")
  case (Some ps)
  have f: "filter (\<lambda>k. dict_get ps k = PStr ''established'') CONTAINER_PROPERTIES \<noteq> [] \<longleftrightarrow>
      (\<exists>k \<in> set CONTAINER_PROPERTIES. dict_get ps k = PStr ''established'')"
    by (simp add: filter_empty_conv)
  show ?thesis
  proof (cases "rget b ''runner_kind'' = PStr ''local-process''")
    case True
    then show ?thesis
      using f by (cases "filter (\<lambda>k. dict_get ps k = PStr ''established'') CONTAINER_PROPERTIES")
        (simp_all add: laundering_contradiction_def LAUNDERING_RUNNER_KINDS_def Some)
  next
    case False
    then show ?thesis
      by (cases "rget b ''runner_kind''") (auto simp: laundering_contradiction_def LAUNDERING_RUNNER_KINDS_def Some)
  qed
qed (simp add: laundering_contradiction_def)

lemma structural_Nil:
  "structural_contradictions b = [] \<longleftrightarrow>
    (\<exists>ps. property_map b = Some ps \<and> set ESTABLISHED_PROPERTY_KEYS \<subseteq> set (keys ps)
      \<and> (rget b ''receipt_completeness'' = PStr ''complete'' \<longrightarrow> mapping_items (rget b ''mncs_receipt'') \<noteq> None))"
  by (auto simp: structural_contradictions_def Let_def filter_empty_conv split: option.splits)

lemma assess_unmet:
  "set (as_unmet (assess_binding b ps requested)) \<subseteq> set requested"
  "rget b ''receipt_completeness'' \<noteq> PStr ''complete'' \<Longrightarrow> set (as_unmet (assess_binding b ps requested)) = set requested"
  by (auto simp: assess_binding_def Let_def)

lemma assess_pass:
  assumes "property_map b = Some ps"
  shows "as_status (assess_binding b ps requested) = ''PASS'' \<longleftrightarrow>
    rget b ''receipt_completeness'' = PStr ''complete'' \<and> laundering_contradiction b = None
    \<and> structural_contradictions b = [] \<and> (\<forall>k \<in> set requested. dict_get ps k = PStr ''established'')"
  by (auto simp: assess_binding_def Let_def filter_empty_conv)

lemma assess_fail: "as_status (assess_binding b ps requested) = ''FAIL'' \<longleftrightarrow> laundering_contradiction b \<noteq> None"
  by (auto simp: assess_binding_def Let_def)

lemma assess_status:
  assumes "property_map b = Some ps"
  shows "as_status (assess_binding b ps requested) =
    (if rget b ''runner_kind'' = PStr ''local-process''
        \<and> (\<exists>k \<in> set CONTAINER_PROPERTIES. dict_get ps k = PStr ''established'') then ''FAIL''
     else if rget b ''receipt_completeness'' = PStr ''complete'' \<and> mapping_items (rget b ''mncs_receipt'') \<noteq> None
        \<and> set ESTABLISHED_PROPERTY_KEYS \<subseteq> set (keys ps)
        \<and> (\<forall>k \<in> set requested. dict_get ps k = PStr ''established'') then ''PASS'' else ''UNKNOWN'')"
proof -
  have "as_status (assess_binding b ps requested) = (if laundering_contradiction b \<noteq> None then ''FAIL''
      else if as_status (assess_binding b ps requested) = ''PASS'' then ''PASS'' else ''UNKNOWN'')"
    by (simp add: assess_binding_def Let_def)
  also have "\<dots> = (if laundering_contradiction b \<noteq> None then ''FAIL''
      else if rget b ''receipt_completeness'' = PStr ''complete'' \<and> structural_contradictions b = []
        \<and> (\<forall>k \<in> set requested. dict_get ps k = PStr ''established'') then ''PASS'' else ''UNKNOWN'')"
    unfolding assess_pass [OF assms] by simp
  finally show ?thesis
    unfolding structural_Nil laundering_iff by (simp add: assms)
qed

lemma assess_reasons:
  "as_status (assess_binding b ps requested) = ''PASS'' \<Longrightarrow>
    as_unmet (assess_binding b ps requested) = [] \<and> as_reasons (assess_binding b ps requested) = []"
  "as_status (assess_binding b ps requested) = ''FAIL'' \<Longrightarrow> as_reasons (assess_binding b ps requested) \<noteq> []"
  by (auto simp: assess_binding_def Let_def split: if_splits option.splits)

lemma structural_nonempty: "[] \<notin> set (structural_contradictions b)"
  by (auto simp: structural_contradictions_def Let_def split: option.splits)

lemma laundering_nonempty: "laundering_contradiction b \<noteq> Some []"
  by (auto simp: laundering_contradiction_def split: option.splits list.splits)

lemma reasons_nonempty: "[] \<notin> set (as_reasons (assess_binding b ps requested))"
  using structural_nonempty [of b] laundering_nonempty [of b]
  by (auto simp: assess_binding_def Let_def unmet_reason_def split: option.splits)

text \<open>The validator of assessment records accepts every assessment the service makes.\<close>

lemma assessment_valid:
  assumes "check_request requested = Inr ()" "rget b ''action_kind'' = PStr k" "k \<in> set RECEIPT_ACTION_KINDS"
  shows "validate_execution_assurance
    (assessment_fields proj now binding_id requested policy b (assess_binding b ps requested)) = Inr ()"
proof -
  let ?a = "assess_binding b ps requested"
  let ?d = "assessment_fields proj now binding_id requested policy b ?a"
  have g: "dict_get ?d ''action_kind'' = PStr k" "dict_get ?d ''requested_properties'' = PList (map PStr requested)"
      "dict_get ?d ''unmet_properties'' = PList (map PStr (as_unmet ?a))"
      "dict_get ?d ''reasons'' = PList (map PStr (as_reasons ?a))" "dict_get ?d ''assurance_status'' = PStr (as_status ?a)"
    by (simp_all add: assessment_fields_def dict_of_def dict_get_def assms(2))
  have r: "requested \<noteq> []" "distinct requested" "set requested \<subseteq> set ASSURANCE_REQUEST_PROPERTIES" "[] \<notin> set requested"
    using assms(1) by (auto simp: check_request_def run_checks_eq_Inr ASSURANCE_REQUEST_PROPERTIES_def)
  show ?thesis
    unfolding validate_execution_assurance_def Let_def g run_checks_eq_Inr
    using r assess_unmet(1) [of b ps requested] assess_reasons [of b ps requested] reasons_nonempty [of b ps requested] assms(3)
    by (auto simp: ensure_in_def in_strs_def list_all_iff nonempty_str_def distinct_map inj_on_def)
qed

end
