(* ===== verification/Identity.thy ===== *)
theory Identity
  imports Paths "HOL-Library.Product_Lexorder"
begin

text \<open>
  Content identities of files and trees (identity.py): the digest of a sorted, length-delimited
  inventory of names and file digests, and the identity map of a list of paths. What an identity
  binds is stated against the plain content of a tree: its names and bytes.
\<close>

section \<open>Inventories\<close>

definition file_identity :: "filesystem \<Rightarrow> path \<Rightarrow> string res" where
  "file_identity fs p =
     (case fs_bytes fs p of None \<Rightarrow> raise ''IDENTITY_READ'' | Some b \<Rightarrow> Inr (''sha256:'' @ sha256 b))"

definition relative_name :: "path \<Rightarrow> path \<Rightarrow> string" where
  "relative_name root p = as_posix (drop (length root) p)"

definition inventory_child :: "filesystem \<Rightarrow> path \<Rightarrow> path \<Rightarrow> (string \<times> string) list res" where
  "inventory_child fs root child =
     rthen (if fs_is_symlink fs child
            then rbind (fs_resolve fs child) (\<lambda>target. ensure (prefix root target) ''SYMLINK_ESCAPE'') else Inr ())
       (if fs_is_file fs child
        then rbind (file_identity fs child) (\<lambda>i. Inr [(relative_name root child, i)]) else Inr [])"

definition inventory_path :: "filesystem \<Rightarrow> path \<Rightarrow> path \<Rightarrow> (string \<times> string) list res" where
  "inventory_path fs root configured =
     rbind (fs_resolve fs configured) (\<lambda>resolved.
       rthen (ensure (prefix root resolved) ''PATH_ESCAPE'')
         (if \<not> fs_exists fs resolved then Inr [(relative_name root resolved, ''MISSING'')]
          else if fs_is_file fs resolved
          then rbind (file_identity fs resolved) (\<lambda>i. Inr [(relative_name root resolved, i)])
          else rbind (rmap (inventory_child fs root) (sort (fs_rglob fs resolved))) (\<lambda>xs. Inr (concat xs))))"

definition inventory :: "filesystem \<Rightarrow> path \<Rightarrow> path list \<Rightarrow> (string \<times> string) list res" where
  "inventory fs root paths =
     rbind (resolve_strict fs root) (\<lambda>root_real.
       rbind (rmap (inventory_path fs root_real) paths) (\<lambda>xs. Inr (concat xs)))"

section \<open>The digest\<close>

text \<open>\<open>n.to_bytes(k, "big")\<close> of a number that fits.\<close>

fun to_bytes_big :: "nat \<Rightarrow> nat \<Rightarrow> bytes" where
  "to_bytes_big 0 n = []"
| "to_bytes_big (Suc k) n = char_of (n div 256 ^ k) # to_bytes_big k n"

definition length_prefixed :: "bytes \<Rightarrow> bytes res" where
  "length_prefixed s =
     (if length s < 2 ^ 64 then Inr (to_bytes_big 8 (length s) @ s) else Inl (PyExc ''OverflowError''))"

definition inventory_entry :: "string \<times> string \<Rightarrow> bytes res" where
  "inventory_entry e =
     rbind (length_prefixed (fst e)) (\<lambda>name. rbind (length_prefixed (snd e)) (\<lambda>i. Inr (name @ i)))"

definition tree_digest :: "(string \<times> string) list \<Rightarrow> string res" where
  "tree_digest entries =
     rbind (rmap inventory_entry (sort entries)) (\<lambda>bs. Inr (''forge-tree-sha256-v1:'' @ sha256 (concat bs)))"

definition content_identity :: "filesystem \<Rightarrow> path \<Rightarrow> path list \<Rightarrow> string res" where
  "content_identity fs root paths = rbind (inventory fs root paths) tree_digest"

definition identity_map :: "filesystem \<Rightarrow> path \<Rightarrow> path list \<Rightarrow> (string \<times> string) list res" where
  "identity_map fs root paths =
     rbind (resolve_strict fs root) (\<lambda>root_real.
       rmap (\<lambda>p. rbind (fs_resolve fs p) (\<lambda>resolved.
              if prefix root_real resolved
              then rbind (content_identity fs root_real [resolved]) (\<lambda>i. Inr (relative_name root_real resolved, i))
              else Inl (PyExc ''ValueError''))) paths)"

text \<open>
  The identity of a changed path (verifier_support.py): of a file, a tree, or the recorded absence of
  a path.
\<close>

definition changed_path_identity :: "filesystem \<Rightarrow> path \<Rightarrow> string \<Rightarrow> string res" where
  "changed_path_identity fs root v =
     rbind (resolve_contained fs root (PStr v) False) (\<lambda>resolved.
       if fs_is_file fs resolved then file_identity fs resolved
       else if fs_exists fs resolved then content_identity fs root [resolved]
       else local_json_identity (PDict (dict_of [(''path'', PStr v), (''state'', PStr ''absent'')])))"

section \<open>Length-delimited encoding\<close>

lemma length_to_bytes_big [simp]: "length (to_bytes_big k n) = k"
  by (induction k) simp_all

lemma to_bytes_big_inj: "to_bytes_big k m = to_bytes_big k n \<Longrightarrow> m mod 256 ^ k = n mod 256 ^ k"
proof (induction k)
  case (Suc k)
  have m: "x mod 256 ^ Suc k = x div 256 ^ k mod 256 * 256 ^ k + x mod 256 ^ k" for x :: nat
    using mod_mult2_eq [of x "256 ^ k" 256] by (simp add: mult.commute)
  have c: "of_char (char_of x :: char) = x mod 256" for x :: nat by (rule of_char_of)
  have "char_of (m div 256 ^ k) = (char_of (n div 256 ^ k) :: char)" using Suc.prems by simp
  then have "m div 256 ^ k mod 256 = n div 256 ^ k mod 256" by (metis c)
  then show ?case using Suc.IH Suc.prems unfolding m by simp
qed simp

lemma length_prefixed_inj:
  assumes "length_prefixed s = Inr x" "length_prefixed t = Inr y" "x @ u = y @ v"
  shows "s = t \<and> u = v"
proof -
  have l: "length s < 256 ^ 8" "length t < 256 ^ 8"
    using assms(1,2) by (simp_all add: length_prefixed_def split: if_splits)
  have e: "to_bytes_big 8 (length s) @ s @ u = to_bytes_big 8 (length t) @ t @ v"
    using assms by (auto simp: length_prefixed_def split: if_splits)
  have "to_bytes_big 8 (length s) = to_bytes_big 8 (length t) \<and> s @ u = t @ v"
    using e by (subst (asm) append_eq_append_conv) simp_all
  then show ?thesis using to_bytes_big_inj [of 8 "length s" "length t"] l by simp
qed

lemma inventory_entry_nonempty: "inventory_entry e = Inr a \<Longrightarrow> a \<noteq> []"
  by (auto simp: inventory_entry_def length_prefixed_def rbind_eq_Inr dest!: arg_cong [where f = length] split: if_splits)

lemma inventory_entries_inj:
  "rmap inventory_entry xs = Inr as \<Longrightarrow> rmap inventory_entry ys = Inr bs \<Longrightarrow> concat as = concat bs \<Longrightarrow> xs = ys"
proof (induction xs arbitrary: ys as bs)
  case Nil
  then show ?case by (cases ys) (auto simp: rbind_eq_Inr dest: inventory_entry_nonempty)
next
  case (Cons e xs)
  obtain a as' where a: "inventory_entry e = Inr a" "rmap inventory_entry xs = Inr as'" "as = a # as'"
    using Cons.prems(1) by (auto simp: rbind_eq_Inr)
  have "a \<noteq> []" by (rule inventory_entry_nonempty [OF a(1)])
  then obtain f ys' where y: "ys = f # ys'" using Cons.prems(2,3) a(3) by (cases ys) auto
  obtain b bs' where b: "inventory_entry f = Inr b" "rmap inventory_entry ys' = Inr bs'" "bs = b # bs'"
    using Cons.prems(2) y by (auto simp: rbind_eq_Inr)
  obtain n i where n: "length_prefixed (fst e) = Inr n" "length_prefixed (snd e) = Inr i" "a = n @ i"
    using a(1) by (auto simp: inventory_entry_def rbind_eq_Inr)
  obtain m j where m: "length_prefixed (fst f) = Inr m" "length_prefixed (snd f) = Inr j" "b = m @ j"
    using b(1) by (auto simp: inventory_entry_def rbind_eq_Inr)
  have c: "n @ i @ concat as' = m @ j @ concat bs'" using Cons.prems(3) a(3) b(3) n(3) m(3) by simp
  have "fst e = fst f \<and> i @ concat as' = j @ concat bs'" by (rule length_prefixed_inj [OF n(1) m(1) c])
  then have "fst e = fst f" "snd e = snd f" "concat as' = concat bs'"
    using length_prefixed_inj [OF n(2) m(2)] by blast+
  then show ?case using Cons.IH [OF a(2) b(2)] y by (simp add: prod_eq_iff)
qed

text \<open>Equal digests are digests of the same inventory, or two different inputs of SHA-256 collide.\<close>

lemma tree_digest_inj:
  assumes "tree_digest entries = Inr d" "tree_digest entries' = Inr d"
  shows "sort entries = sort entries' \<or> (\<exists>x y. collision x y)"
proof -
  obtain as bs where ab: "rmap inventory_entry (sort entries) = Inr as" "rmap inventory_entry (sort entries') = Inr bs"
      "sha256 (concat as) = sha256 (concat bs)"
    using assms by (auto simp: tree_digest_def rbind_eq_Inr)
  from sha256_eqD [OF ab(3)] inventory_entries_inj [OF ab(1,2)] show ?thesis by blast
qed

section \<open>What an identity binds\<close>

text \<open>The content of a tree: the names of its files, with their bytes, or \<open>None\<close> for a missing path.\<close>

definition tree_path :: "filesystem \<Rightarrow> path \<Rightarrow> path \<Rightarrow> (string \<times> bytes option) set" where
  "tree_path fs root configured =
     (case fs_resolve fs configured of
        Inl _ \<Rightarrow> {}
      | Inr resolved \<Rightarrow>
          if \<not> fs_exists fs resolved then {(relative_name root resolved, None)}
          else if fs_is_file fs resolved then {(relative_name root resolved, fs_bytes fs resolved)}
          else {(relative_name root c, fs_bytes fs c) | c. c \<in> set (fs_rglob fs resolved) \<and> fs_is_file fs c})"

definition tree_content :: "filesystem \<Rightarrow> path \<Rightarrow> path list \<Rightarrow> (string \<times> bytes option) set" where
  "tree_content fs root paths =
     (case resolve_strict fs root of Inl _ \<Rightarrow> {} | Inr r \<Rightarrow> (\<Union>p \<in> set paths. tree_path fs r p))"

definition entry_of :: "string \<times> bytes option \<Rightarrow> string \<times> string" where
  "entry_of e = (fst e, case snd e of None \<Rightarrow> ''MISSING'' | Some b \<Rightarrow> ''sha256:'' @ sha256 b)"

lemma entry_of_inj:
  assumes "entry_of a = entry_of b"
  shows "a = b \<or> (\<exists>x y. collision x y)"
proof (cases "snd a"; cases "snd b")
  fix x y assume "snd a = Some x" "snd b = Some y"
  then show ?thesis using assms sha256_eqD [of x y] by (auto simp: entry_of_def prod_eq_iff)
qed (use assms in \<open>auto simp: entry_of_def prod_eq_iff\<close>)

lemma file_identity_Inr: "file_identity fs p = Inr i \<longleftrightarrow> (\<exists>b. fs_bytes fs p = Some b \<and> i = ''sha256:'' @ sha256 b)"
  by (auto simp: file_identity_def split: option.splits)

lemma inventory_child_entries:
  "inventory_child fs root c = Inr xs \<Longrightarrow>
    set xs = (if fs_is_file fs c then {entry_of (relative_name root c, fs_bytes fs c)} else {})"
  by (auto simp: inventory_child_def rthen_def rbind_eq_Inr file_identity_Inr entry_of_def split: if_splits)

lemma rmap_sets_of:
  "rmap f xs = Inr ys \<Longrightarrow> (\<And>x y. f x = Inr y \<Longrightarrow> set y = g x) \<Longrightarrow> set (concat ys) = (\<Union>x \<in> set xs. g x)"
proof (induction xs arbitrary: ys)
  case (Cons x xs)
  obtain y ys' where y: "f x = Inr y" "rmap f xs = Inr ys'" "ys = y # ys'" using Cons.prems(1) by (auto simp: rbind_eq_Inr)
  then show ?case using Cons.IH [OF y(2)] Cons.prems(2) by auto
qed simp

lemma inventory_path_entries:
  assumes "inventory_path fs root p = Inr xs"
  shows "set xs = entry_of ` tree_path fs root p"
proof -
  obtain resolved where r: "fs_resolve fs p = Inr resolved" using assms by (auto simp: inventory_path_def rbind_eq_Inr)
  show ?thesis
  proof (cases "fs_exists fs resolved \<and> \<not> fs_is_file fs resolved")
    case False
    then show ?thesis
      using assms r
      by (auto simp: inventory_path_def rthen_def rbind_eq_Inr file_identity_Inr tree_path_def entry_of_def split: if_splits)
  next
    case True
    then obtain ys where y: "rmap (inventory_child fs root) (sort (fs_rglob fs resolved)) = Inr ys" "xs = concat ys"
      using assms r by (auto simp: inventory_path_def rthen_def rbind_eq_Inr)
    have "set xs = (\<Union>c \<in> set (sort (fs_rglob fs resolved)).
        if fs_is_file fs c then {entry_of (relative_name root c, fs_bytes fs c)} else {})"
      unfolding y(2) by (rule rmap_sets_of [OF y(1) inventory_child_entries])
    then show ?thesis using True r by (auto simp: tree_path_def)
  qed
qed

lemma inventory_entries:
  assumes "inventory fs root paths = Inr entries"
  shows "set entries = entry_of ` tree_content fs root paths"
proof -
  obtain r xs where x: "resolve_strict fs root = Inr r" "rmap (inventory_path fs r) paths = Inr xs" "entries = concat xs"
    using assms by (auto simp: inventory_def rbind_eq_Inr)
  have "set entries = (\<Union>p \<in> set paths. entry_of ` tree_path fs r p)"
    unfolding x(3) by (rule rmap_sets_of [OF x(2) inventory_path_entries])
  then show ?thesis by (auto simp: tree_content_def x(1))
qed

lemma tree_identity_binds:
  assumes "content_identity fs root paths = Inr d" "content_identity fs' root' paths' = Inr d"
  shows "tree_content fs root paths = tree_content fs' root' paths' \<or> (\<exists>x y. collision x y)"
proof -
  obtain entries entries' where i: "inventory fs root paths = Inr entries" "inventory fs' root' paths' = Inr entries'"
      "tree_digest entries = Inr d" "tree_digest entries' = Inr d"
    using assms by (auto simp: content_identity_def rbind_eq_Inr)
  show ?thesis
  proof (cases "\<exists>x y. collision x y")
    case False
    then have "sort entries = sort entries'" using tree_digest_inj [OF i(3,4)] by blast
    then have "set entries = set entries'" by (metis set_sort)
    then have "entry_of ` tree_content fs root paths = entry_of ` tree_content fs' root' paths'"
      using inventory_entries [OF i(1)] inventory_entries [OF i(2)] by simp
    moreover have "inj entry_of" using entry_of_inj False by (auto simp: inj_def)
    ultimately show ?thesis by (simp add: inj_image_eq_iff)
  qed blast
qed

end
