(* ===== verification/Config.thy ===== *)
theory Config
  imports Identity
begin

text \<open>
  The project configuration (config.py): workflows, providers and verifiers with the authority checks
  between them, the path sets and scopes, and the environment of a command.

  The parsed TOML document is an argument, and so is the validation by the packaged JSON schema
  (\<open>schema_ok\<close>), whose library is a package of its own. Fields the schema requires are read by
  subscript in the code; the validation has found them, so the default of \<open>dict_get\<close> is not reached.
\<close>

section \<open>Values\<close>

fun py_true :: "pyval \<Rightarrow> bool" where
  "py_true PNone = False"
| "py_true (PBool b) = b"
| "py_true (PInt i) = (i \<noteq> 0)"
| "py_true (PFloat f) = (case f of PFin _ m _ \<Rightarrow> m \<noteq> 0 | _ \<Rightarrow> True)"
| "py_true (PStr s) = (s \<noteq> [])"
| "py_true (PList xs) = (xs \<noteq> [])"
| "py_true (PTuple xs) = (xs \<noteq> [])"
| "py_true (PDict d) = (d \<noteq> [])"
| "py_true (PProxy d) = (d \<noteq> [])"
| "py_true (POther n) = True"

text \<open>\<open>a or b\<close> on values: the first when it is true.\<close>

definition py_or :: "pyval \<Rightarrow> pyval \<Rightarrow> pyval" where
  "py_or v w = (if py_true v then v else w)"

definition get_or :: "dict \<Rightarrow> string \<Rightarrow> pyval \<Rightarrow> pyval" where
  "get_or d k v = (case map_of d k of None \<Rightarrow> v | Some w \<Rightarrow> w)"

definition opt_str :: "dict \<Rightarrow> string \<Rightarrow> string option" where
  "opt_str d k = map_option py_str (map_of d k)"

definition str_list :: "pyval \<Rightarrow> string list" where
  "str_list v = map py_str (list_items v)"

text \<open>\<open>float(v) > float(w)\<close> on the numbers the schema allows.\<close>

definition num_less :: "int \<times> int \<Rightarrow> int \<times> int \<Rightarrow> bool" where
  "num_less x y = (let k = min (snd x) (snd y)
     in fst x * 10 ^ nat (snd x - k) < fst y * 10 ^ nat (snd y - k))"

definition py_greater :: "pyval \<Rightarrow> pyval \<Rightarrow> bool" where
  "py_greater v w = (case (py_num v, py_num w) of (Some x, Some y) \<Rightarrow> num_less y x | _ \<Rightarrow> False)"

text \<open>\<open>validate_argv\<close> (execution.py): a non-empty list of non-empty texts without NUL.\<close>

definition validate_argv :: "pyval \<Rightarrow> string list res" where
  "validate_argv command =
     rthen (ensure (is_plist command \<and> list_items command \<noteq> []) ''INVALID_COMMAND'')
     (rthen (ensure (list_all (\<lambda>v. nonempty_str v \<and> NUL \<notin> set (py_str v)) (list_items command)) ''INVALID_COMMAND'')
       (Inr (map py_str (list_items command))))"

section \<open>Workflows, providers and verifiers\<close>

record workflow =
  wf_name :: string
  wf_category :: string
  wf_mode :: string
  wf_command :: "string list"
  wf_protocol :: bool
  wf_provider :: "string option"
  wf_environment :: dict
  wf_disclosure :: string
  wf_subject :: string

record provider =
  pv_id :: string
  pv_name :: string
  pv_identity :: "string option"
  pv_version :: "string option"
  pv_command :: "string list"
  pv_transport :: string
  pv_required :: bool
  pv_capabilities :: "pyval list"
  pv_supported :: "pyval list"
  pv_unsupported :: "pyval list"
  pv_limitations :: "pyval list"
  pv_executable_identity :: "string option"
  pv_descriptor :: "string option"
  pv_environment :: dict
  pv_module_roots :: "string list"
  pv_python_packages :: "string list"

record verifier =
  vf_id :: string
  vf_version :: string
  vf_workflow :: string
  vf_provider :: string
  vf_method :: string
  vf_claim :: string
  vf_category :: string
  vf_modes :: "string list"
  vf_languages :: "string list"
  vf_artifact_types :: "string list"
  vf_scopes :: "string list"
  vf_input_kinds :: "string list"
  vf_limitations :: "string list"
  vf_assumptions :: "string list"
  vf_timeout :: pyval
  vf_cost :: string
  vf_uncertainty :: "string list"
  vf_tags :: "string list"
  vf_parameter_keys :: "string list"
  vf_disclosure :: string

record forge_config =
  fc_path :: path
  fc_root :: path
  fc_raw :: dict
  fc_paths :: "(string \<times> pyval list) list"
  fc_providers :: "(string \<times> provider) list"
  fc_workflows :: "(string \<times> workflow) list"
  fc_verifiers :: "(string \<times> verifier) list"

definition load_workflow :: "dict \<Rightarrow> workflow res" where
  "load_workflow item =
     rbind (validate_argv (dict_get item ''command'')) (\<lambda>command.
       Inr \<lparr>wf_name = py_str (dict_get item ''name''), wf_category = py_str (dict_get item ''category''),
            wf_mode = py_str (dict_get item ''mode''), wf_command = command,
            wf_protocol = py_true (dict_get item ''provider_protocol''), wf_provider = opt_str item ''provider_id'',
            wf_environment = dict_items (get_or item ''environment'' (PDict [])),
            wf_disclosure = py_str (get_or item ''disclosure'' (PStr ''compact'')),
            wf_subject = py_str (get_or item ''subject'' (PStr ''candidate''))\<rparr>)"

fun load_workflows :: "pyval list \<Rightarrow> (string \<times> workflow) list \<Rightarrow> (string \<times> workflow) list res" where
  "load_workflows [] known = Inr known"
| "load_workflows (item # items) known =
     (let d = dict_items item; name = py_str (dict_get d ''name'')
      in if map_of known name \<noteq> None then raise ''CONFIG_INVALID''
         else rbind (load_workflow d) (\<lambda>w. load_workflows items (known @ [(name, w)])))"

definition load_provider :: "filesystem \<Rightarrow> path \<Rightarrow> dict \<Rightarrow> provider res" where
  "load_provider fs root item =
     rbind (validate_argv (dict_get item ''command'')) (\<lambda>command.
     rbind (case opt_str item ''descriptor'' of
              None \<Rightarrow> Inr [] | Some s \<Rightarrow> resolve_contained fs root (PStr s) False) (\<lambda>_.
     let roots = str_list (get_or item ''module_roots'' (PList []))
     in rthen (run_checks (map (\<lambda>s. rbind (resolve_family_module_root fs root (PStr s)) (\<lambda>_. Inr ())) roots))
       (Inr \<lparr>pv_id = py_str (dict_get item ''id''),
            pv_name = py_str (get_or item ''name'' (PStr (py_str (dict_get item ''id'')))),
            pv_identity = opt_str item ''identity'', pv_version = opt_str item ''version'', pv_command = command,
            pv_transport = py_str (get_or item ''transport'' (PStr ''stdio-jsonl'')),
            pv_required = py_true (get_or item ''required'' (PBool False)),
            pv_capabilities = list_items (get_or item ''capabilities'' (PList [])),
            pv_supported = list_items (get_or item ''supported_constructs'' (PList [])),
            pv_unsupported = list_items (get_or item ''unsupported_constructs'' (PList [])),
            pv_limitations = list_items (get_or item ''limitations'' (PList [])),
            pv_executable_identity = opt_str item ''executable_identity'', pv_descriptor = opt_str item ''descriptor'',
            pv_environment = dict_items (get_or item ''environment'' (PDict [])), pv_module_roots = roots,
            pv_python_packages = str_list (get_or item ''python_packages'' (PList []))\<rparr>)))"

fun load_providers :: "filesystem \<Rightarrow> path \<Rightarrow> pyval list \<Rightarrow> (string \<times> provider) list
    \<Rightarrow> (string \<times> provider) list res" where
  "load_providers fs root [] known = Inr known"
| "load_providers fs root (item # items) known =
     (let d = dict_items item; name = py_str (dict_get d ''id'')
      in if map_of known name \<noteq> None then raise ''CONFIG_INVALID''
         else rbind (load_provider fs root d) (\<lambda>p. load_providers fs root items (known @ [(name, p)])))"

text \<open>A workflow of the provider protocol runs a command that some provider declares.\<close>

definition check_workflow_provider :: "(string \<times> provider) list \<Rightarrow> workflow \<Rightarrow> unit res" where
  "check_workflow_provider providers w =
     rthen (ensure (\<not> (wf_protocol w \<and> wf_command w \<notin> set (map (pv_command \<circ> snd) providers))) ''UNDECLARED_COMMAND'')
       (case (wf_protocol w, wf_provider w) of
          (True, Some pid) \<Rightarrow>
            (case map_of providers pid of
               None \<Rightarrow> raise ''UNDECLARED_PROVIDER''
             | Some p \<Rightarrow> ensure (pv_command p = wf_command w) ''UNDECLARED_COMMAND'')
        | _ \<Rightarrow> Inr ())"

section \<open>Verifiers\<close>

definition workflow_modes :: "workflow \<Rightarrow> string list" where
  "workflow_modes w = (if wf_mode w = ''both'' then [''development'', ''evaluator''] else [wf_mode w])"

definition check_verifier :: "dict \<Rightarrow> pyval \<Rightarrow> bool \<Rightarrow> string \<Rightarrow> provider \<Rightarrow> workflow \<Rightarrow> unit res" where
  "check_verifier item limit may_run provider_id p w =
     (let modes = str_list (dict_get item ''modes'');
          disclosure = py_str (get_or item ''disclosure'' (PStr (wf_disclosure w)))
      in run_checks
           [ensure (wf_protocol w) ''VERIFIER_WORKFLOW'',
            ensure (wf_provider w = Some provider_id \<and> wf_command w = pv_command p) ''VERIFIER_AUTHORITY'',
            ensure (PStr (py_str (dict_get item ''method'')) \<in> set (pv_capabilities p)) ''VERIFIER_METHOD'',
            ensure (set modes \<subseteq> set (workflow_modes w)) ''VERIFIER_MODE'',
            ensure (\<not> (''development'' \<in> set modes \<and> \<not> may_run)) ''VERIFIER_AUTHORITY'',
            ensure (py_str (dict_get item ''category'') = wf_category w) ''VERIFIER_CATEGORY'',
            ensure (\<not> py_greater (get_or item ''timeout_seconds'' limit) limit) ''VERIFIER_LIMIT'',
            ensure (\<not> (wf_disclosure w = ''status-only'' \<and> disclosure \<noteq> ''status-only'')) ''VERIFIER_DISCLOSURE''])"

definition verifier_of :: "dict \<Rightarrow> pyval \<Rightarrow> workflow \<Rightarrow> verifier" where
  "verifier_of item limit w =
     \<lparr>vf_id = py_str (dict_get item ''id''), vf_version = py_str (dict_get item ''version''),
      vf_workflow = py_str (dict_get item ''workflow''), vf_provider = py_str (dict_get item ''provider''),
      vf_method = py_str (dict_get item ''method''), vf_claim = py_str (dict_get item ''claim''),
      vf_category = py_str (dict_get item ''category''), vf_modes = str_list (dict_get item ''modes''),
      vf_languages = str_list (get_or item ''languages'' (PList [])),
      vf_artifact_types = str_list (get_or item ''artifact_types'' (PList [])),
      vf_scopes = str_list (dict_get item ''scopes''), vf_input_kinds = str_list (dict_get item ''input_kinds''),
      vf_limitations = str_list (get_or item ''limitations'' (PList [])),
      vf_assumptions = str_list (get_or item ''assumptions'' (PList [])),
      vf_timeout = get_or item ''timeout_seconds'' limit, vf_cost = py_str (dict_get item ''cost''),
      vf_uncertainty = str_list (get_or item ''uncertainty_classes'' (PList [])),
      vf_tags = str_list (get_or item ''tags'' (PList [])),
      vf_parameter_keys = str_list (get_or item ''parameter_keys'' (PList [])),
      vf_disclosure = py_str (get_or item ''disclosure'' (PStr (wf_disclosure w)))\<rparr>"

definition load_verifier :: "(string \<times> provider) list \<Rightarrow> (string \<times> workflow) list \<Rightarrow> pyval \<Rightarrow> bool \<Rightarrow> dict
    \<Rightarrow> verifier res" where
  "load_verifier providers workflows limit may_run item =
     (let provider_id = py_str (dict_get item ''provider'')
      in case map_of providers provider_id of
           None \<Rightarrow> raise ''UNDECLARED_PROVIDER''
         | Some p \<Rightarrow>
             (case map_of workflows (py_str (dict_get item ''workflow'')) of
                None \<Rightarrow> raise ''UNDECLARED_COMMAND''
              | Some w \<Rightarrow>
                  rthen (check_verifier item limit may_run provider_id p w) (Inr (verifier_of item limit w))))"

fun load_verifiers :: "(string \<times> provider) list \<Rightarrow> (string \<times> workflow) list \<Rightarrow> pyval \<Rightarrow> bool \<Rightarrow> pyval list
    \<Rightarrow> (string \<times> verifier) list \<Rightarrow> (string \<times> verifier) list res" where
  "load_verifiers providers workflows limit may_run [] known = Inr known"
| "load_verifiers providers workflows limit may_run (item # items) known =
     (let d = dict_items item; name = py_str (dict_get d ''id'')
      in if map_of known name \<noteq> None then raise ''CONFIG_INVALID''
         else rbind (load_verifier providers workflows limit may_run d) (\<lambda>v.
           load_verifiers providers workflows limit may_run items (known @ [(name, v)])))"

section \<open>Loading\<close>

definition WRITABLE_KEYS :: "string list" where
  "WRITABLE_KEYS = [''candidates'', ''generated'', ''outputs'']"

definition PROTECTED_KEYS :: "string list" where
  "PROTECTED_KEYS = [''contracts'', ''references'', ''evaluators'', ''acceptance_policies'', ''protected'']"

definition path_list :: "(string \<times> pyval list) list \<Rightarrow> string \<Rightarrow> pyval list" where
  "path_list path_values k = (case map_of path_values k of Some vs \<Rightarrow> vs | None \<Rightarrow> [])"

definition scope_list :: "(string \<times> pyval list) list \<Rightarrow> string list \<Rightarrow> path list res" where
  "scope_list path_values ks = rmap (\<lambda>v. validate_relative_path v False) (concat (map (path_list path_values) ks))"

definition check_path_values :: "filesystem \<Rightarrow> path \<Rightarrow> (string \<times> pyval list) list \<Rightarrow> unit res" where
  "check_path_values fs root path_values =
     run_checks (map (\<lambda>v. rbind (resolve_contained fs root v False) (validate_tree_containment fs root))
       (concat (map snd path_values)))"

text \<open>\<open>str.strip()\<close> of a text is empty when it holds (ASCII) white space only.\<close>

definition is_blank :: "string \<Rightarrow> bool" where
  "is_blank s = list_all (\<lambda>c. c \<in> set '' '' \<or> of_char c \<in> {9 .. 13 :: nat} \<union> {28 .. 31}) s"

definition check_runner :: "dict \<Rightarrow> path list \<Rightarrow> unit res" where
  "check_runner settings protected =
     (if py_str (get_or settings ''kind'' (PStr ''local-process'')) = ''podman-rootless''
      then rthen (ensure (\<not> is_blank (py_str (get_or settings ''image'' (PStr [])))) ''CONFIG_INVALID'')
        (rbind (rmap (\<lambda>v. validate_relative_path v False) (list_items (get_or settings ''writable_paths'' (PList []))))
          (\<lambda>scopes. validate_scopes_do_not_overlap scopes protected))
      else Inr ())"

definition validate_config_data :: "(dict \<Rightarrow> bool) \<Rightarrow> pyval \<Rightarrow> dict res" where
  "validate_config_data schema_ok data =
     (case data of PDict d \<Rightarrow> if schema_ok d then Inr d else raise ''CONFIG_INVALID'' | _ \<Rightarrow> raise ''CONFIG_INVALID'')"

definition config_document :: "(dict \<Rightarrow> bool) \<Rightarrow> filesystem \<Rightarrow> path \<Rightarrow> (path \<Rightarrow> pyval res) \<Rightarrow> (path \<times> dict) res" where
  "config_document schema_ok fs p toml =
     (case rbind (resolve_strict fs p) (\<lambda>config_path. rbind (toml config_path) (\<lambda>v.
             rbind (validate_config_data schema_ok v) (\<lambda>raw. Inr (config_path, raw)))) of
        Inl (PyExc n) \<Rightarrow> if n = ''TOMLDecodeError'' then raise ''CONFIG_INVALID''
                       else if n = ''OSError'' then raise ''CONFIG_READ'' else Inl (PyExc n)
      | r \<Rightarrow> r)"

definition load_declarations :: "filesystem \<Rightarrow> path \<Rightarrow> dict
    \<Rightarrow> ((string \<times> workflow) list \<times> (string \<times> provider) list \<times> (string \<times> verifier) list) res" where
  "load_declarations fs root raw =
     rbind (load_workflows (list_items (dict_get raw ''workflows'')) []) (\<lambda>workflows.
     rbind (load_providers fs root (list_items (get_or raw ''providers'' (PList []))) []) (\<lambda>providers.
     rthen (run_checks (map (check_workflow_provider providers \<circ> snd) workflows))
     (rbind (load_verifiers providers workflows
               (dict_get (dict_items (dict_get raw ''limits'')) ''timeout_seconds'')
               (py_true (dict_get (dict_items (dict_get (dict_items (dict_get raw ''authority'')) ''development''))
                 ''may_run_providers''))
               (list_items (get_or raw ''verifiers'' (PList []))) []) (\<lambda>verifiers.
       Inr (workflows, providers, verifiers)))))"

definition load_config :: "(dict \<Rightarrow> bool) \<Rightarrow> filesystem \<Rightarrow> path \<Rightarrow> (path \<Rightarrow> pyval res) \<Rightarrow> forge_config res" where
  "load_config schema_ok fs p toml =
     rbind (config_document schema_ok fs p toml) (\<lambda>(config_path, raw).
     rbind (resolve_project_root fs config_path
              (PStr (py_str (dict_get (dict_items (dict_get raw ''project'')) ''root'')))) (\<lambda>root.
     let path_values = map (\<lambda>(k, v). (k, list_items v)) (dict_items (dict_get raw ''paths''))
     in rthen (check_path_values fs root path_values)
     (rbind (scope_list path_values WRITABLE_KEYS) (\<lambda>writable.
     rbind (scope_list path_values PROTECTED_KEYS) (\<lambda>protected.
     rthen (validate_scopes_do_not_overlap writable protected)
     (rthen (check_runner (dict_items (get_or raw ''runner'' (PDict []))) protected)
     (rthen (run_checks (map (\<lambda>(_, v). rbind (resolve_contained fs root (PStr (py_str v)) False) (\<lambda>_. Inr ()))
               (dict_items (dict_get raw ''policies''))))
     (rbind (load_declarations fs root raw) (\<lambda>(workflows, providers, verifiers).
       Inr \<lparr>fc_path = config_path, fc_root = root, fc_raw = raw, fc_paths = path_values,
            fc_providers = providers, fc_workflows = workflows, fc_verifiers = verifiers\<rparr>)))))))))"

section \<open>Views of a configuration\<close>

definition project_identity :: "forge_config \<Rightarrow> string" where
  "project_identity fc = py_str (dict_get (dict_items (dict_get (fc_raw fc) ''project'')) ''identity'')"

definition output_cap :: "forge_config \<Rightarrow> nat" where
  "output_cap fc =
     (case as_int (dict_get (dict_items (dict_get (fc_raw fc) ''limits'')) ''output_bytes'') of
        Some i \<Rightarrow> nat i | None \<Rightarrow> 0)"

definition native_execution_mode :: "forge_config \<Rightarrow> string option \<Rightarrow> string res" where
  "native_execution_mode fc override =
     (let configured = py_str (get_or (dict_items (get_or (fc_raw fc) ''native'' (PDict []))) ''mode'' (PStr ''prefer''));
          md = (case override of None \<Rightarrow> configured | Some v \<Rightarrow> v)
      in rthen (ensure (md \<in> {''off'', ''prefer'', ''required''}) ''NATIVE_CONFIG_INVALID'') (Inr md))"

definition config_paths :: "filesystem \<Rightarrow> forge_config \<Rightarrow> string \<Rightarrow> path list res" where
  "config_paths fs fc k =
     (case map_of (fc_paths fc) k of
        None \<Rightarrow> Inl (PyExc ''KeyError'')
      | Some vs \<Rightarrow> rmap (\<lambda>v. resolve_contained fs (fc_root fc) v False) vs)"

definition relative_scopes :: "forge_config \<Rightarrow> string list \<Rightarrow> path list res" where
  "relative_scopes fc ks = scope_list (fc_paths fc) ks"

section \<open>Environments\<close>

text \<open>
  The environment of a command: the allowed variables of the process (\<open>environ\<close>), and the declared
  ones, which must be allowed. The result is a dictionary of texts.
\<close>

definition declared_environment :: "forge_config \<Rightarrow> (string \<times> string) list \<Rightarrow> dict \<Rightarrow> dict res" where
  "declared_environment fc environ declared =
     (let allowed = str_list (get_or (fc_raw fc) ''environment_allowlist'' (PList []));
          inherited = dict_of (concat (map (\<lambda>k. case map_of environ k of None \<Rightarrow> [] | Some v \<Rightarrow> [(k, PStr v)]) allowed))
      in rthen (run_checks (map (\<lambda>p. ensure (fst p \<in> set allowed) ''ENVIRONMENT_FORBIDDEN'') declared))
           (Inr (dict_update inherited declared)))"

text \<open>\<open>Path(token).name\<close>.\<close>

definition path_name :: "string \<Rightarrow> string" where
  "path_name s = (case rev (pure_parts s) of [] \<Rightarrow> [] | p # _ \<Rightarrow> p)"

definition absolute_posix :: "path \<Rightarrow> string" where
  "absolute_posix p = CHR ''/'' # join ''/'' p"

text \<open>A command of the Go tools gets directories of the state directory, which are created first.\<close>

definition environment :: "forge_config \<Rightarrow> path \<Rightarrow> (string \<times> string) list \<Rightarrow> workflow \<Rightarrow> dict res" where
  "environment fc state_dir environ w =
     rbind (declared_environment fc environ (wf_environment w)) (\<lambda>result.
       if list_ex (\<lambda>token. path_name token \<in> {''go'', ''gofmt'', ''go test'', ''go vet''}) (wf_command w)
       then Inr (dict_update result
         [(''HOME'', PStr (absolute_posix (state_dir @ [''runtime'']))),
          (''XDG_CACHE_HOME'', PStr (absolute_posix (state_dir @ [''runtime'', ''cache'']))),
          (''GOCACHE'', PStr (absolute_posix (state_dir @ [''runtime'', ''go-cache''])))])
       else Inr result)"

section \<open>What loading establishes\<close>

definition verifier_authorized :: "(string \<times> provider) list \<Rightarrow> (string \<times> workflow) list \<Rightarrow> pyval \<Rightarrow> bool \<Rightarrow> verifier \<Rightarrow> bool" where
  "verifier_authorized providers workflows limit may_run v =
     (\<exists>p w. map_of providers (vf_provider v) = Some p \<and> map_of workflows (vf_workflow v) = Some w
        \<and> wf_protocol w \<and> wf_provider w = Some (vf_provider v) \<and> wf_command w = pv_command p
        \<and> PStr (vf_method v) \<in> set (pv_capabilities p)
        \<and> set (vf_modes v) \<subseteq> set (workflow_modes w) \<and> (''development'' \<in> set (vf_modes v) \<longrightarrow> may_run)
        \<and> vf_category v = wf_category w \<and> \<not> py_greater (vf_timeout v) limit
        \<and> (wf_disclosure w = ''status-only'' \<longrightarrow> vf_disclosure v = ''status-only''))"

lemma load_verifier_authorized:
  "load_verifier providers workflows limit may_run d = Inr v \<Longrightarrow> verifier_authorized providers workflows limit may_run v"
  by (auto simp: load_verifier_def Let_def rthen_def rbind_eq_Inr check_verifier_def run_checks_eq_Inr verifier_of_def
      verifier_authorized_def split: option.splits)

lemma load_verifier_id: "load_verifier providers workflows limit may_run d = Inr v \<Longrightarrow> vf_id v = py_str (dict_get d ''id'')"
  by (auto simp: load_verifier_def Let_def rthen_def rbind_eq_Inr verifier_of_def split: option.splits)

lemma load_verifiers_ok:
  assumes "load_verifiers providers workflows limit may_run items known = Inr vs"
    and "\<forall>(k, v) \<in> set known. vf_id v = k \<and> verifier_authorized providers workflows limit may_run v"
    and "distinct (map fst known)"
  shows "(\<forall>(k, v) \<in> set vs. vf_id v = k \<and> verifier_authorized providers workflows limit may_run v) \<and> distinct (map fst vs)"
  using assms
proof (induction items arbitrary: known)
  case (Cons item items)
  let ?name = "py_str (dict_get (dict_items item) ''id'')"
  have new: "map_of known ?name = None" using Cons.prems(1) by (auto simp: Let_def split: if_splits)
  then obtain v where v: "load_verifier providers workflows limit may_run (dict_items item) = Inr v"
      "load_verifiers providers workflows limit may_run items (known @ [(?name, v)]) = Inr vs"
    using Cons.prems(1) by (auto simp: Let_def rbind_eq_Inr split: if_splits)
  show ?case
  proof (rule Cons.IH [OF v(2)])
    show "\<forall>(k, v) \<in> set (known @ [(?name, v)]). vf_id v = k \<and> verifier_authorized providers workflows limit may_run v"
      using Cons.prems(2) load_verifier_authorized [OF v(1)] load_verifier_id [OF v(1)] by auto
    show "distinct (map fst (known @ [(?name, v)]))" using Cons.prems(3) new by (simp add: map_of_eq_None_iff)
  qed
qed simp

text \<open>A workflow of the provider protocol runs the command of a declared provider, its own when it names one.\<close>

definition workflow_declared :: "(string \<times> provider) list \<Rightarrow> workflow \<Rightarrow> bool" where
  "workflow_declared providers w =
     (wf_protocol w \<longrightarrow> (\<exists>k p. (k, p) \<in> set providers \<and> pv_command p = wf_command w)
        \<and> (\<forall>pid. wf_provider w = Some pid \<longrightarrow> (\<exists>p. map_of providers pid = Some p \<and> pv_command p = wf_command w)))"

lemma check_workflow_provider_Inr: "check_workflow_provider providers w = Inr () \<Longrightarrow> workflow_declared providers w"
  by (auto simp: check_workflow_provider_def workflow_declared_def rthen_def rbind_eq_Inr split: option.splits bool.splits) metis+

lemma load_declarations_ok:
  assumes "load_declarations fs root raw = Inr (workflows, providers, verifiers)"
  shows "\<forall>(k, w) \<in> set workflows. workflow_declared providers w"
    and "\<forall>(k, v) \<in> set verifiers. vf_id v = k \<and> verifier_authorized providers workflows
      (dict_get (dict_items (dict_get raw ''limits'')) ''timeout_seconds'')
      (py_true (dict_get (dict_items (dict_get (dict_items (dict_get raw ''authority'')) ''development'')) ''may_run_providers'')) v"
    and "distinct (map fst verifiers)"
proof -
  have v: "load_verifiers providers workflows
      (dict_get (dict_items (dict_get raw ''limits'')) ''timeout_seconds'')
      (py_true (dict_get (dict_items (dict_get (dict_items (dict_get raw ''authority'')) ''development'')) ''may_run_providers''))
      (list_items (get_or raw ''verifiers'' (PList []))) [] = Inr verifiers"
    and w: "run_checks (map (check_workflow_provider providers \<circ> snd) workflows) = Inr ()"
    using assms by (auto simp: load_declarations_def rthen_def rbind_eq_Inr)
  show "\<forall>(k, w) \<in> set workflows. workflow_declared providers w"
    using w check_workflow_provider_Inr by (auto simp: run_checks_eq_Inr)
  show "\<forall>(k, v) \<in> set verifiers. vf_id v = k \<and> verifier_authorized providers workflows
      (dict_get (dict_items (dict_get raw ''limits'')) ''timeout_seconds'')
      (py_true (dict_get (dict_items (dict_get (dict_items (dict_get raw ''authority'')) ''development'')) ''may_run_providers'')) v"
    and "distinct (map fst verifiers)"
    using load_verifiers_ok [OF v] by simp_all
qed

lemma load_config_Inr:
  assumes "load_config schema_ok fs p toml = Inr fc"
  obtains writable protected where
    "scope_list (fc_paths fc) WRITABLE_KEYS = Inr writable" "scope_list (fc_paths fc) PROTECTED_KEYS = Inr protected"
    "validate_scopes_do_not_overlap writable protected = Inr ()"
    "load_declarations fs (fc_root fc) (fc_raw fc) = Inr (fc_workflows fc, fc_providers fc, fc_verifiers fc)"
    "check_path_values fs (fc_root fc) (fc_paths fc) = Inr ()"
  using assms by (auto simp: load_config_def Let_def rthen_def rbind_eq_Inr split: prod.splits)

end
