(* ===== verification/Rights.thy ===== *)
theory Rights
  imports Assurance Config
begin

text \<open>
  Rights and provenance evidence (application/rights_provenance.py): a manifest, configured or drafted
  from what the history knows, is assessed in four separate domains, and an enforced policy blocks
  the selection of a candidate whose evidence is not complete.

  The JSON schema validator is a package of its own: it is the parameter \<open>schema_issues\<close>, the rendered
  issues of a manifest under a schema version. The notes of an assessment are values that say what
  each is about; their prose is not modelled.
\<close>

section \<open>Statuses\<close>

definition result_records :: "ledger_entry list \<Rightarrow> string option \<Rightarrow> forge_record list" where
  "result_records hist candidate =
     (let results = map payload (filter (\<lambda>e. kind e = ''result'') hist)
      in case candidate of None \<Rightarrow> results
         | Some c \<Rightarrow> filter (\<lambda>r. rget r ''candidate_identity'' = PStr c) results)"

definition technical_status :: "ledger_entry list \<Rightarrow> string option \<Rightarrow> string" where
  "technical_status hist candidate =
     (case candidate of
        None \<Rightarrow> ''UNKNOWN''
      | Some c \<Rightarrow> aggregate_status (map (\<lambda>r. text_of r ''status'') (result_records hist (Some c))))"

datatype rights_note =
    SchemaIssue string
  | UnsupportedVersion pyval
  | ArtifactMismatch pyval string
  | ProvenanceIncomplete
  | ProvenanceFailed
  | HumanUnresolved
  | HumanRejected
  | RightsBasisUnknown
  | ThirdParty pyval
  | IncompatibleSource pyval
  | UnknownSource pyval

section \<open>The draft of a manifest\<close>

definition receipt_evidence :: "ledger_entry list \<Rightarrow> string option \<Rightarrow> string list" where
  "receipt_evidence hist candidate =
     (case candidate of
        None \<Rightarrow> []
      | Some c \<Rightarrow>
          dedup_first (map py_str (filter nonempty_str
            (map (\<lambda>r. py_or (rget r ''receipt_identity'') (rget r ''binding_id''))
              (filter (\<lambda>r. rget r ''candidate_identity'' = PStr c)
                (map payload (filter (\<lambda>e. kind e = ''execution_receipt_binding'') hist)))))))"

definition candidate_of_draft :: "ledger_entry list \<Rightarrow> string option \<Rightarrow> forge_record option" where
  "candidate_of_draft hist candidate =
     (case candidate of
        None \<Rightarrow> None
      | Some c \<Rightarrow> (case record_by_id hist ''candidate'' c ''candidate_id'' of Inr r \<Rightarrow> Some r | Inl _ \<Rightarrow> None))"

definition text_pair :: "string \<times> string \<Rightarrow> string \<times> pyval" where
  "text_pair p = (fst p, PStr (snd p))"

definition draft_manifest :: "string \<Rightarrow> ledger_entry list \<Rightarrow> string option \<Rightarrow> dict" where
  "draft_manifest proj hist candidate =
     (let r = candidate_of_draft hist candidate;
          participants = (case r of
             Some r \<Rightarrow> if nonempty_str (rget r ''generator_identity'')
               then [PDict (dict_of [(''type'', PStr ''agent''), (''role'', PStr ''generator''),
                                     (''name'', rget r ''generator_identity'')])] else []
           | None \<Rightarrow> []);
          paths = (case r of
             Some r \<Rightarrow> (case rget r ''changed_files'' of PTuple xs \<Rightarrow> map (PStr \<circ> py_str) xs | _ \<Rightarrow> [])
           | None \<Rightarrow> []);
          technical = technical_status hist candidate;
          declared = (if technical = ''PASS'' then ''passed'' else if technical = ''FAIL'' then ''failed'' else ''not-run'')
      in dict_of
           [(''schema_version'', PStr ''0.2.0''),
            (''spec_profile'', PStr ''development''),
            (''artifact'', PDict (dict_of
               [(''id'', PStr (case candidate of Some c \<Rightarrow> if c = [] then ''project:'' @ proj else c
                                | None \<Rightarrow> ''project:'' @ proj)),
                (''class'', PStr ''source-code''), (''paths'', PList paths)])),
            (''provenance'', PDict (dict_of
               [(''origin_classification'', PStr ''origin-uncertain''),
                (''participants'', PList participants),
                (''process_evidence'', PList (map (\<lambda>ref. PDict (dict_of
                   [(''kind'', PStr ''fabric-receipt''), (''reference'', PStr ref)])) (receipt_evidence hist candidate))),
                (''notes'', PStr (''Forge-derived draft: unknown fields remain explicit until supplied evidence '' @
                   ''resolves them.''))])),
            (''rights'', PDict (dict_of
               [(''distribution_license'', PStr ''Apache-2.0''), (''copyright_status'', PStr ''unresolved''),
                (''rights_basis'', PStr ''unknown-needs-review''), (''third_party_material'', PStr ''unknown''),
                (''sources'', PList []),
                (''notes'', PStr ''No legal conclusion is inferred from candidate or execution provenance.'')])),
            (''review'', PDict (dict_of
               [(''technical_validation'', PStr declared), (''provenance_validation'', PStr ''not-run''),
                (''human_acceptance'', PStr ''not-reviewed'')]))])"

section \<open>The policy and the manifest\<close>

definition RIGHTS_MODES :: "string list" where
  "RIGHTS_MODES = [''observe'', ''advisory'', ''enforced'']"

definition SUPPORTED_MANIFEST_VERSIONS :: "string list" where
  "SUPPORTED_MANIFEST_VERSIONS = [''0.2.0'', ''0.1.0'']"

record rights_config =
  rc_table :: pyval
  rc_resolve :: "string \<Rightarrow> string res"
  rc_file :: "string \<Rightarrow> bytes option"
  rc_project :: string
  rc_output_cap :: nat
  rc_schema_issues :: "string \<Rightarrow> dict \<Rightarrow> string list"

definition rights_policy :: "rights_config \<Rightarrow> (string \<times> string option) res" where
  "rights_policy rc =
     (case rc_table rc of
        PDict configured \<Rightarrow>
          (let md = (case map_of configured ''mode'' of None \<Rightarrow> ''observe'' | Some v \<Rightarrow> py_str v)
           in rthen (ensure (md \<in> set RIGHTS_MODES) ''CONFIG_INVALID'')
                (case dict_get configured ''manifest'' of
                   PNone \<Rightarrow> Inr (md, None)
                 | v \<Rightarrow> rbind (rc_resolve rc (py_str v)) (\<lambda>p. Inr (md, Some p))))
      | _ \<Rightarrow> raise ''CONFIG_INVALID'')"

definition load_configured_manifest :: "rights_config \<Rightarrow> string \<Rightarrow> dict res" where
  "load_configured_manifest rc path =
     (if rc_file rc path = None then raise ''RIGHTS_MANIFEST_MISSING''
      else case read_json (rc_output_cap rc) (rc_file rc path) of
             Inl _ \<Rightarrow> raise ''RIGHTS_MANIFEST_INVALID''
           | Inr (PDict d) \<Rightarrow> Inr d
           | Inr _ \<Rightarrow> raise ''RIGHTS_MANIFEST_INVALID'')"

definition validation_errors :: "rights_config \<Rightarrow> dict \<Rightarrow> rights_note list" where
  "validation_errors rc manifest =
     (case as_text (dict_get manifest ''schema_version'') of
        Some v \<Rightarrow>
          if v \<in> set SUPPORTED_MANIFEST_VERSIONS then map SchemaIssue (take 20 (rc_schema_issues rc v manifest))
          else [UnsupportedVersion (PStr v)]
      | None \<Rightarrow> [UnsupportedVersion (dict_get manifest ''schema_version'')])"

section \<open>Assessment\<close>

definition review_status :: "pyval \<Rightarrow> string list \<Rightarrow> string list \<Rightarrow> string res" where
  "review_status v passed failed =
     rbind (in_strs v passed) (\<lambda>p.
       if p then Inr ''PASS''
       else rbind (in_strs v failed) (\<lambda>f. Inr (if f then ''FAIL'' else ''UNKNOWN'')))"

fun assess_sources :: "string \<Rightarrow> pyval list \<Rightarrow> string \<times> rights_note list" where
  "assess_sources status [] = (status, [])"
| "assess_sources status (s # ss) =
     (case mapping_items s of
        None \<Rightarrow> assess_sources status ss
      | Some d \<Rightarrow>
          (let reference = (case map_of d ''reference'' of None \<Rightarrow> PStr ''source'' | Some v \<Rightarrow> v)
           in if dict_get d ''license_status'' = PStr ''incompatible''
              then (let (st, ns) = assess_sources ''FAIL'' ss in (st, IncompatibleSource reference # ns))
              else if dict_get d ''license_status'' = PStr ''unknown''
              then (let (st, ns) = assess_sources (aggregate_status [status, ''UNKNOWN'']) ss
                    in (st, UnknownSource reference # ns))
              else assess_sources status ss))"

definition rights_basis_status :: "dict \<Rightarrow> (string \<times> rights_note list) res" where
  "rights_basis_status rights =
     (let unknown = (dict_get rights ''rights_basis'' = PStr ''unknown-needs-review'');
          st0 = (if unknown then ''UNKNOWN'' else ''PASS'');
          third = dict_get rights ''third_party_material''
      in rbind (in_strs third [''possible'', ''unknown'']) (\<lambda>t.
           let st1 = (if t then aggregate_status [st0, ''UNKNOWN''] else st0);
               (st2, ns) = assess_sources st1 (list_items (dict_get rights ''sources''))
           in Inr (st2, (if unknown then [RightsBasisUnknown] else []) @ (if t then [ThirdParty third] else []) @ ns)))"

record policy_projection =
  pp_blocking :: bool
  pp_disposition :: string
  pp_review_required :: bool
  pp_blocker_count :: "nat option"

definition project_policy :: "string \<Rightarrow> string \<Rightarrow> rights_note list \<Rightarrow> policy_projection" where
  "project_policy md evidence_status blockers =
     (let open_evidence = (evidence_status \<noteq> ''PASS'')
      in if md = ''observe''
         then \<lparr>pp_blocking = False, pp_disposition = ''OBSERVED'', pp_review_required = open_evidence,
               pp_blocker_count = None\<rparr>
         else if md = ''advisory''
         then \<lparr>pp_blocking = False, pp_disposition = (if open_evidence then ''REVIEW_REQUIRED'' else ''NO_ADVISORY''),
               pp_review_required = open_evidence, pp_blocker_count = None\<rparr>
         else \<lparr>pp_blocking = open_evidence,
               pp_disposition = (if open_evidence then ''BLOCKED_BY_RIGHTS_PROVENANCE_POLICY''
                                 else ''RIGHTS_PROVENANCE_EVIDENCE_COMPLETE''),
               pp_review_required = open_evidence, pp_blocker_count = Some (length blockers)\<rparr>)"

record rights_assessment =
  ra_candidate :: "string option"
  ra_source :: string
  ra_manifest_identity :: string
  ra_mode :: string
  ra_evidence :: string
  ra_contract :: string
  ra_provenance :: string
  ra_rights :: string
  ra_human :: string
  ra_technical :: string
  ra_blockers :: "rights_note list"
  ra_policy :: policy_projection

text \<open>The review domains of a manifest without schema errors: statuses and notes.\<close>

definition assess_review :: "dict \<Rightarrow> (string \<times> string \<times> rights_note list) res" where
  "assess_review manifest =
     (case mapping_items (dict_get manifest ''review'') of
        None \<Rightarrow> Inr (''UNKNOWN'', ''UNKNOWN'', [])
      | Some review \<Rightarrow>
          rbind (review_status (dict_get review ''provenance_validation'') [''passed''] [''failed'']) (\<lambda>prov.
          rbind (review_status (dict_get review ''human_acceptance'') [''accepted'', ''not-required''] [''rejected''])
            (\<lambda>human.
               Inr (prov, human,
                    (if prov = ''UNKNOWN'' then [ProvenanceIncomplete] else if prov = ''FAIL'' then [ProvenanceFailed] else [])
                    @ (if human = ''UNKNOWN'' then [HumanUnresolved]
                       else if human = ''FAIL'' then [HumanRejected] else [])))))"

definition assess_artifact :: "dict \<Rightarrow> string option \<Rightarrow> string \<times> rights_note list" where
  "assess_artifact manifest candidate =
     (case (candidate, mapping_items (dict_get manifest ''artifact'')) of
        (Some c, Some artifact) \<Rightarrow>
          if dict_get artifact ''id'' \<noteq> PStr c then (''FAIL'', [ArtifactMismatch (dict_get artifact ''id'') c])
          else (''PASS'', [])
      | _ \<Rightarrow> (''PASS'', []))"

definition assess_domains :: "rights_config \<Rightarrow> dict \<Rightarrow> string option
    \<Rightarrow> (string \<times> string \<times> string \<times> string \<times> rights_note list) res" where
  "assess_domains rc manifest candidate =
     (let errors = validation_errors rc manifest
      in if errors \<noteq> [] then Inr (''FAIL'', ''UNKNOWN'', ''UNKNOWN'', ''UNKNOWN'', errors)
         else
           let (contract, notes1) = assess_artifact manifest candidate
           in rbind (assess_review manifest) (\<lambda>(prov, human, notes2).
              rbind (case mapping_items (dict_get manifest ''rights'') of
                       None \<Rightarrow> Inr (''UNKNOWN'', [])
                     | Some rights \<Rightarrow> rights_basis_status rights)
                (\<lambda>(rights, notes3). Inr (contract, prov, rights, human, notes1 @ notes2 @ notes3))))"

text \<open>The candidate the assessment is about: the given one, or the current one of the lifecycle.\<close>

definition rights_candidate :: "project_config \<Rightarrow> project_observer \<Rightarrow> ledger_entry list \<Rightarrow> string option
    \<Rightarrow> string option res" where
  "rights_candidate cf ob hist given =
     (case given of
        Some c \<Rightarrow> Inr (Some c)
      | None \<Rightarrow>
          rbind (rbind (lifecycle_inputs cf ob False False False hist) new_machine) (\<lambda>s.
            Inr (case current_candidate (projection s) of
                   None \<Rightarrow> None
                 | Some r \<Rightarrow> if rget r ''candidate_id'' = PNone then None else Some (text_of r ''candidate_id''))))"

definition assess_manifest :: "rights_config \<Rightarrow> ledger_entry list \<Rightarrow> string \<Rightarrow> string option \<Rightarrow> string \<Rightarrow> dict
    \<Rightarrow> rights_assessment res" where
  "assess_manifest rc hist md candidate source manifest =
     rbind (assess_domains rc manifest candidate) (\<lambda>(contract, prov, rights, human, notes).
     rbind (local_json_identity (PDict manifest)) (\<lambda>identity.
       let evidence_status = aggregate_status [contract, prov, rights, human]
       in Inr \<lparr>ra_candidate = candidate, ra_source = source, ra_manifest_identity = identity, ra_mode = md,
               ra_evidence = evidence_status, ra_contract = contract, ra_provenance = prov, ra_rights = rights,
               ra_human = human, ra_technical = technical_status hist candidate, ra_blockers = notes,
               ra_policy = project_policy md evidence_status notes\<rparr>))"

definition rights_provenance_status :: "rights_config \<Rightarrow> project_config \<Rightarrow> project_observer \<Rightarrow> ledger_entry list
    \<Rightarrow> string option \<Rightarrow> rights_assessment res" where
  "rights_provenance_status rc cf ob hist given =
     rbind (rights_policy rc) (\<lambda>(md, path).
     rbind (rights_candidate cf ob hist given) (\<lambda>candidate.
       let draft = draft_manifest (rc_project rc) hist candidate
       in case path of
            None \<Rightarrow> assess_manifest rc hist md candidate ''forge-derived-draft'' draft
          | Some p \<Rightarrow>
              (case load_configured_manifest rc p of
                 Inl (ForgeError _) \<Rightarrow> assess_manifest rc hist md candidate ''configured-manifest-unavailable'' draft
               | Inl e \<Rightarrow> Inl e
               | Inr manifest \<Rightarrow> assess_manifest rc hist md candidate ''configured-manifest'' manifest)))"

definition enforce_rights_selection :: "rights_config \<Rightarrow> project_config \<Rightarrow> project_observer \<Rightarrow> ledger_entry list
    \<Rightarrow> string \<Rightarrow> rights_assessment res" where
  "enforce_rights_selection rc cf ob hist candidate =
     rbind (rights_provenance_status rc cf ob hist (Some candidate)) (\<lambda>a.
       rthen (ensure (\<not> pp_blocking (ra_policy a)) ''RIGHTS_PROVENANCE_BLOCKED'') (Inr a))"

section \<open>Aggregation\<close>

lemma aggregate_pass:
  "aggregate_status ss = ''PASS'' \<longleftrightarrow> ''PASS'' \<in> set ss \<and> ''FAIL'' \<notin> set ss \<and> ''UNKNOWN'' \<notin> set ss"
proof -
  have "filter (\<lambda>s. s \<in> set STATUSES) ss = [] \<longleftrightarrow> (\<forall>s \<in> set ss. s \<notin> set STATUSES)" by (simp add: filter_empty_conv)
  then show ?thesis by (auto simp: aggregate_status_def Let_def STATUSES_def)
qed

lemma aggregate_fail: "aggregate_status ss = ''FAIL'' \<longleftrightarrow> ''FAIL'' \<in> set ss"
  by (auto simp: aggregate_status_def Let_def STATUSES_def filter_empty_conv)

lemma aggregate_status_mem: "aggregate_status ss \<in> set STATUSES"
  by (auto simp: aggregate_status_def Let_def STATUSES_def)

text \<open>The largest status of a list dominates: nothing in the list changes a FAIL back.\<close>

lemma aggregate_four:
  assumes "set ss \<subseteq> set STATUSES"
  shows "aggregate_status ss = ''PASS'' \<longleftrightarrow> set ss = {''PASS''}"
proof -
  have sub: "S \<subseteq> {a, b, c} \<Longrightarrow> a \<noteq> b \<Longrightarrow> a \<noteq> c \<Longrightarrow> a \<in> S \<and> b \<notin> S \<and> c \<notin> S \<longleftrightarrow> S = {a}"
    for S :: "string set" and a b c by blast
  show ?thesis
    unfolding aggregate_pass by (rule sub) (use assms in \<open>simp_all add: STATUSES_def\<close>)
qed

section \<open>The domains\<close>

lemma review_status_range: "review_status v p f = Inr s \<Longrightarrow> s \<in> set STATUSES"
  by (auto simp: review_status_def rbind_eq_Inr STATUSES_def split: if_splits)

lemma assess_review_range:
  "assess_review m = Inr (p, h, ns) \<Longrightarrow> p \<in> set STATUSES \<and> h \<in> set STATUSES"
  by (auto simp: assess_review_def rbind_eq_Inr STATUSES_def dest!: review_status_range split: option.splits)

lemma assess_artifact_range: "fst (assess_artifact m c) \<in> set STATUSES"
  by (auto simp: assess_artifact_def STATUSES_def split: option.splits)

lemma statuses_in: "''PASS'' \<in> set STATUSES" "''FAIL'' \<in> set STATUSES" "''UNKNOWN'' \<in> set STATUSES"
  by (simp_all add: STATUSES_def)

lemma sources_Cons:
  "fst (assess_sources status (s # ss)) =
    (case mapping_items s of
       None \<Rightarrow> fst (assess_sources status ss)
     | Some d \<Rightarrow>
         if dict_get d ''license_status'' = PStr ''incompatible'' then fst (assess_sources ''FAIL'' ss)
         else if dict_get d ''license_status'' = PStr ''unknown''
         then fst (assess_sources (aggregate_status [status, ''UNKNOWN'']) ss)
         else fst (assess_sources status ss))"
  by (simp add: Let_def split_def split: option.split)

lemma assess_sources_range: "status \<in> set STATUSES \<Longrightarrow> fst (assess_sources status ss) \<in> set STATUSES"
proof (induction ss arbitrary: status)
  case (Cons s ss)
  show ?case
    using Cons.IH [OF statuses_in(2)] Cons.IH [OF aggregate_status_mem, of "[status, ''UNKNOWN'']"] Cons.IH [OF Cons.prems]
    unfolding sources_Cons by (simp split: option.split)
qed simp

lemma assess_sources_pass:
  "fst (assess_sources status ss) = ''PASS'' \<Longrightarrow>
    status = ''PASS'' \<and> (\<forall>s \<in> set ss. \<forall>d. mapping_items s = Some d \<longrightarrow>
      dict_get d ''license_status'' \<noteq> PStr ''incompatible'' \<and> dict_get d ''license_status'' \<noteq> PStr ''unknown'')"
proof (induction ss arbitrary: status)
  case (Cons s ss)
  have a: "aggregate_status [status, ''UNKNOWN''] \<noteq> ''PASS''" by (simp add: aggregate_pass)
  show ?case
    using Cons.prems Cons.IH [of "''FAIL''"] Cons.IH [of "aggregate_status [status, ''UNKNOWN'']"] Cons.IH [of status] a
    unfolding sources_Cons by (auto split: option.splits if_splits)
qed simp

lemma rights_basis_Inr:
  assumes "rights_basis_status r = Inr (st, ns)"
  obtains st1 where "st1 \<in> set STATUSES" "st = fst (assess_sources st1 (list_items (dict_get r ''sources'')))"
    "st1 = ''PASS'' \<Longrightarrow> dict_get r ''rights_basis'' \<noteq> PStr ''unknown-needs-review''"
proof -
  obtain t where t: "in_strs (dict_get r ''third_party_material'') [''possible'', ''unknown''] = Inr t"
    using assms by (cases "in_strs (dict_get r ''third_party_material'') [''possible'', ''unknown'']")
      (auto simp: rights_basis_status_def Let_def)
  define st0 where "st0 = (if dict_get r ''rights_basis'' = PStr ''unknown-needs-review'' then ''UNKNOWN'' else ''PASS'')"
  define st1 where "st1 = (if t then aggregate_status [st0, ''UNKNOWN''] else st0)"
  have "st0 \<in> set STATUSES" by (simp add: st0_def STATUSES_def)
  then have "st1 \<in> set STATUSES" by (simp add: st1_def aggregate_status_mem)
  moreover have "st = fst (assess_sources st1 (list_items (dict_get r ''sources'')))"
  proof (cases "assess_sources st1 (list_items (dict_get r ''sources''))")
    case (Pair a b)
    then show ?thesis
      using assms unfolding rights_basis_status_def Let_def t st0_def [symmetric] rbind_Inr st1_def [symmetric] by simp
  qed
  moreover have "st1 = ''PASS'' \<Longrightarrow> dict_get r ''rights_basis'' \<noteq> PStr ''unknown-needs-review''"
    by (auto simp: st1_def st0_def aggregate_pass split: if_splits)
  ultimately show ?thesis by (rule that)
qed

lemma rights_basis_range: "rights_basis_status r = Inr (st, ns) \<Longrightarrow> st \<in> set STATUSES"
  by (erule rights_basis_Inr) (simp add: assess_sources_range)

lemma rights_basis_pass:
  assumes "rights_basis_status r = Inr (''PASS'', ns)"
  shows "dict_get r ''rights_basis'' \<noteq> PStr ''unknown-needs-review''"
    and "\<forall>s \<in> set (list_items (dict_get r ''sources'')). \<forall>d. mapping_items s = Some d \<longrightarrow>
      dict_get d ''license_status'' \<noteq> PStr ''incompatible'' \<and> dict_get d ''license_status'' \<noteq> PStr ''unknown''"
  using assms by (auto elim!: rights_basis_Inr dest!: assess_sources_pass [OF sym])

lemma assess_domains_range:
  "assess_domains rc m c = Inr (ct, pv, rt, hm, ns) \<Longrightarrow> set [ct, pv, rt, hm] \<subseteq> set STATUSES"
  using assess_artifact_range [of m c]
  by (auto simp: assess_domains_def Let_def rbind_eq_Inr STATUSES_def split: if_splits prod.splits option.splits
      dest!: assess_review_range rights_basis_range)

section \<open>Enforcement\<close>

text \<open>A draft never says that its provenance was validated.\<close>

lemma draft_review: "assess_review (draft_manifest proj hist c) = Inr (''UNKNOWN'', ''UNKNOWN'', [ProvenanceIncomplete, HumanUnresolved])"
  by (simp add: assess_review_def draft_manifest_def Let_def dict_of_def dict_get_def review_status_def in_strs_def)

lemma draft_open:
  assumes "assess_manifest rc hist md c src (draft_manifest proj hist c) = Inr a"
  shows "ra_evidence a \<noteq> ''PASS''"
proof -
  obtain ct pv rt hm ns where d: "assess_domains rc (draft_manifest proj hist c) c = Inr (ct, pv, rt, hm, ns)"
      "ra_evidence a = aggregate_status [ct, pv, rt, hm]"
    using assms by (auto simp: assess_manifest_def rbind_eq_Inr Let_def)
  have "pv = ''UNKNOWN''"
    using d(1) by (auto simp: assess_domains_def Let_def rbind_eq_Inr draft_review split: if_splits prod.splits)
  then show ?thesis by (simp add: d(2) aggregate_pass)
qed

lemma project_blocking: "pp_blocking (project_policy md st ns) \<longleftrightarrow> md \<noteq> ''observe'' \<and> md \<noteq> ''advisory'' \<and> st \<noteq> ''PASS''"
  by (simp add: project_policy_def Let_def)

lemma rights_policy_mode: "rights_policy rc = Inr (md, path) \<Longrightarrow> md \<in> set RIGHTS_MODES"
  by (auto simp: rights_policy_def Let_def rthen_def rbind_eq_Inr ensure_def split: pyval.splits if_splits)

lemma assess_manifest_Inr:
  assumes "assess_manifest rc hist md c src m = Inr a"
  obtains ns where "assess_domains rc m c = Inr (ra_contract a, ra_provenance a, ra_rights a, ra_human a, ns)"
    "ra_evidence a = aggregate_status [ra_contract a, ra_provenance a, ra_rights a, ra_human a]"
    "ra_policy a = project_policy md (ra_evidence a) ns" "ra_mode a = md" "ra_source a = src" "ra_candidate a = c"
    "ra_blockers a = ns"
  using assms by (auto simp: assess_manifest_def rbind_eq_Inr Let_def)

text \<open>What an assessment with complete evidence says about its manifest.\<close>

lemma review_status_pass: "review_status v passed failed = Inr ''PASS'' \<longleftrightarrow> hashable v \<and> (\<exists>s \<in> set passed. v = PStr s)"
  by (auto simp: review_status_def in_strs_def)

lemma assess_review_pass:
  assumes "assess_review m = Inr (''PASS'', ''PASS'', ns)"
  shows "\<exists>review. mapping_items (dict_get m ''review'') = Some review
      \<and> dict_get review ''provenance_validation'' = PStr ''passed''
      \<and> dict_get review ''human_acceptance'' \<in> {PStr ''accepted'', PStr ''not-required''}"
proof (cases "mapping_items (dict_get m ''review'')")
  case (Some review)
  have "review_status (dict_get review ''provenance_validation'') [''passed''] [''failed''] = Inr ''PASS''"
      "review_status (dict_get review ''human_acceptance'') [''accepted'', ''not-required''] [''rejected''] = Inr ''PASS''"
    using assms by (auto simp: assess_review_def Some rbind_eq_Inr)
  then show ?thesis using Some by (auto simp: review_status_pass)
qed (use assms in \<open>simp add: assess_review_def\<close>)

lemma assess_domains_pass:
  assumes "assess_domains rc m (Some c) = Inr (''PASS'', ''PASS'', ''PASS'', ''PASS'', ns)"
  shows "validation_errors rc m = []"
    and "mapping_items (dict_get m ''artifact'') = Some art \<Longrightarrow> dict_get art ''id'' = PStr c"
    and "\<exists>review. mapping_items (dict_get m ''review'') = Some review
      \<and> dict_get review ''provenance_validation'' = PStr ''passed''
      \<and> dict_get review ''human_acceptance'' \<in> {PStr ''accepted'', PStr ''not-required''}"
    and "\<exists>rights. mapping_items (dict_get m ''rights'') = Some rights
      \<and> dict_get rights ''rights_basis'' \<noteq> PStr ''unknown-needs-review''
      \<and> (\<forall>s \<in> set (list_items (dict_get rights ''sources'')). \<forall>d. mapping_items s = Some d \<longrightarrow>
           dict_get d ''license_status'' \<noteq> PStr ''incompatible'' \<and> dict_get d ''license_status'' \<noteq> PStr ''unknown'')"
proof -
  show e: "validation_errors rc m = []"
    using assms by (simp add: assess_domains_def Let_def split: if_splits)
  obtain notes1 notes2 notes3 where a: "assess_artifact m (Some c) = (''PASS'', notes1)"
      and r: "assess_review m = Inr (''PASS'', ''PASS'', notes2)"
      and b: "(case mapping_items (dict_get m ''rights'') of None \<Rightarrow> Inr (''UNKNOWN'', [])
               | Some rights \<Rightarrow> rights_basis_status rights) = Inr (''PASS'', notes3)"
    using assms e by (cases "assess_artifact m (Some c)") (auto simp: assess_domains_def Let_def rbind_eq_Inr)
  show "dict_get art ''id'' = PStr c" if "mapping_items (dict_get m ''artifact'') = Some art"
    using a that by (simp add: assess_artifact_def split: if_splits)
  show "\<exists>review. mapping_items (dict_get m ''review'') = Some review
      \<and> dict_get review ''provenance_validation'' = PStr ''passed''
      \<and> dict_get review ''human_acceptance'' \<in> {PStr ''accepted'', PStr ''not-required''}"
    by (rule assess_review_pass [OF r])
  obtain rights where s: "mapping_items (dict_get m ''rights'') = Some rights" "rights_basis_status rights = Inr (''PASS'', notes3)"
    using b by (auto split: option.splits)
  show "\<exists>rights. mapping_items (dict_get m ''rights'') = Some rights
      \<and> dict_get rights ''rights_basis'' \<noteq> PStr ''unknown-needs-review''
      \<and> (\<forall>s \<in> set (list_items (dict_get rights ''sources'')). \<forall>d. mapping_items s = Some d \<longrightarrow>
           dict_get d ''license_status'' \<noteq> PStr ''incompatible'' \<and> dict_get d ''license_status'' \<noteq> PStr ''unknown'')"
    using s(1) rights_basis_pass [OF s(2)] by blast
qed

lemma complete_evidence:
  assumes "assess_domains rc m c = Inr (ct, pv, rt, hm, ns)" "aggregate_status [ct, pv, rt, hm] = ''PASS''"
  shows "ct = ''PASS''" "pv = ''PASS''" "rt = ''PASS''" "hm = ''PASS''"
proof -
  have "set [ct, pv, rt, hm] = {''PASS''}"
    using assms(2) aggregate_four [OF assess_domains_range [OF assms(1)]] by blast
  then have "set [ct, pv, rt, hm] \<subseteq> {''PASS''}" by (rule equalityD1)
  then show "ct = ''PASS''" "pv = ''PASS''" "rt = ''PASS''" "hm = ''PASS''" by simp_all
qed

end
