(* ===== verification/Evidence.thy ===== *)
theory Evidence
  imports Rights "HOL-Library.Sublist" "HOL-Library.AList"
begin

text \<open>
  Claim status, claim blockers and reconciliation (application/evidence.py). The statuses of the JSON
  files below the evidence and output paths are collected by claim class; the results of a candidate
  are reconciled by category. The files of a root, in the order the walk lists them, are an argument:
  a path relative to the project and the bytes that could be read.
\<close>

section \<open>Structured statuses\<close>

definition STATUS_KEYS :: "string list" where
  "STATUS_KEYS = [''status'', ''result'', ''overall_status'', ''aggregate_status'']"

fun extract_statuses :: "pyval \<Rightarrow> string list" where
  "extract_statuses (PDict d) =
     concat (map (\<lambda>p. if fst p \<in> set STATUS_KEYS
                      then (case snd p of PStr s \<Rightarrow> if s \<in> set STATUSES then [s] else [] | _ \<Rightarrow> [])
                      else extract_statuses (snd p)) d)"
| "extract_statuses (PList xs) = concat (map extract_statuses xs)"
| "extract_statuses _ = []"

text \<open>
  \<open>path.lower()\<close>, on the letters that occur in the tests below; the lower case of no other letter
  makes one of these texts.
\<close>

definition lower_char :: "char \<Rightarrow> char" where
  "lower_char c = (if CHR ''A'' \<le> c \<and> c \<le> CHR ''Z'' then char_of (of_char c + (32 :: nat)) else c)"

definition classify_record :: "string \<Rightarrow> string" where
  "classify_record path =
     (let lowered = map lower_char path
      in if sublist ''mncds'' lowered \<or> sublist ''development-record'' lowered then ''mncds_development_process_result''
         else if sublist ''independent'' lowered then ''independent_evaluation''
         else if sublist ''holdout'' lowered \<or> sublist ''protected'' lowered then ''protected_holdout''
         else if sublist ''witness'' lowered then ''witnessed_evidence''
         else if sublist ''operational'' lowered \<or> sublist ''monitor'' lowered then ''operational_evidence''
         else if sublist ''governance'' lowered \<or> sublist ''approval'' lowered then ''governance_approval''
         else if sublist ''reproduction'' lowered then ''local_reproduction''
         else ''mncs_implementation_result'')"

record source_record =
  sr_source :: string
  sr_status :: string
  sr_class :: string

definition file_statuses :: "nat \<Rightarrow> string \<times> bytes option \<Rightarrow> source_record list" where
  "file_statuses cap f =
     (case read_json cap (snd f) of
        Inl _ \<Rightarrow> []
      | Inr v \<Rightarrow> map (\<lambda>s. \<lparr>sr_source = fst f, sr_status = s, sr_class = classify_record (fst f)\<rparr>) (extract_statuses v))"

text \<open>The walk reads at most a thousand files, over all roots.\<close>

fun walk_files :: "nat \<Rightarrow> nat \<Rightarrow> (string \<times> bytes option) list \<Rightarrow> source_record list \<times> nat" where
  "walk_files cap seen [] = ([], seen)"
| "walk_files cap seen (f # fs) =
     (if seen \<ge> 1000 then ([], seen)
      else let (rest, n) = walk_files cap (seen + 1) fs in (file_statuses cap f @ rest, n))"

fun walk_roots :: "nat \<Rightarrow> nat \<Rightarrow> (string \<times> bytes option) list list \<Rightarrow> source_record list" where
  "walk_roots cap seen [] = []"
| "walk_roots cap seen (fs # roots) =
     (let (rs, n) = walk_files cap seen fs in rs @ walk_roots cap n roots)"

definition structured_statuses :: "nat \<Rightarrow> (string \<times> bytes option) list list \<Rightarrow> source_record list" where
  "structured_statuses cap roots = walk_roots cap 0 roots"

section \<open>Claims\<close>

definition CLAIM_CLASSES :: "string list" where
  "CLAIM_CLASSES =
     [''mncs_implementation_result'', ''mncds_development_process_result'', ''local_reproduction'',
      ''operator_controlled_reproduction'', ''independent_evaluation'', ''protected_holdout'', ''witnessed_evidence'',
      ''operational_evidence'', ''governance_approval'']"

text \<open>The status map of the claims, in the order it is built; a later entry replaces an earlier one.\<close>

definition class_status :: "source_record list \<Rightarrow> string \<Rightarrow> string" where
  "class_status found c = aggregate_status (map sr_status (filter (\<lambda>r. sr_class r = c) found))"

definition class_sources :: "source_record list \<Rightarrow> string \<Rightarrow> string list" where
  "class_sources found c = take 20 (sorted_set (map sr_source (filter (\<lambda>r. sr_class r = c) found)))"

definition claim_statuses :: "source_record list \<Rightarrow> (string \<times> string) list" where
  "claim_statuses found =
     (let statuses = AList.update ''operator_controlled_reproduction'' ''UNKNOWN''
            (map (\<lambda>c. (c, class_status found c)) CLAIM_CLASSES)
      in AList.update ''promotion_disposition''
           (if list_all (\<lambda>p. snd p = ''PASS'') statuses then ''REVIEW_REQUIRED'' else ''NOT_PROMOTABLE'') statuses)"

record claim_report =
  cs_statuses :: "(string \<times> string) list"
  cs_sources :: "(string \<times> string list) list"
  cs_rights :: rights_assessment

definition claim_status :: "rights_config \<Rightarrow> project_config \<Rightarrow> project_observer \<Rightarrow> (string \<times> bytes option) list list
    \<Rightarrow> ledger_entry list \<Rightarrow> claim_report res" where
  "claim_status rc cf ob roots hist =
     (let found = structured_statuses (cf_output_cap cf) roots
      in rbind (rights_provenance_status rc cf ob hist None) (\<lambda>rights.
           Inr \<lparr>cs_statuses = claim_statuses found,
                cs_sources = map (\<lambda>c. (c, class_sources found c)) CLAIM_CLASSES, cs_rights = rights\<rparr>))"

datatype claim_problem = FailedEvidence | AbsentEvidence | RightsProblem rights_note | RightsUnresolved "rights_note list"

record claim_blocker =
  cb_class :: string
  cb_status :: string
  cb_problem :: claim_problem
  cb_work :: string

record claim_blockers_report =
  br_requested :: string
  br_blockers :: "claim_blocker list"
  br_blocked :: bool
  br_review :: "bool option"
  br_stale :: "string list option"

definition required_claims :: "string \<Rightarrow> string list" where
  "required_claims requested =
     (case map_of
        [(''mncs'', [''mncs_implementation_result'']),
         (''mncds'', [''mncds_development_process_result'']),
         (''independent'', [''independent_evaluation'']),
         (''protected'', [''protected_holdout'']),
         (''promotion'', CLAIM_CLASSES)] requested of
        Some cs \<Rightarrow> cs
      | None \<Rightarrow> [requested])"

definition work_class :: "string \<Rightarrow> string" where
  "work_class c =
     (case map_of
        [(''mncs_implementation_result'', ''locally_executable_work''),
         (''mncds_development_process_result'', ''locally_executable_work''),
         (''local_reproduction'', ''locally_executable_work''),
         (''operator_controlled_reproduction'', ''physical_machine_work''),
         (''independent_evaluation'', ''independent_evaluator_work''),
         (''protected_holdout'', ''protected_custody_work''),
         (''witnessed_evidence'', ''witnessed_work''),
         (''operational_evidence'', ''operational_work''),
         (''governance_approval'', ''governance_work'')] c of
        Some w \<Rightarrow> w
      | None \<Rightarrow> ''unsupported_work'')"

definition status_of :: "(string \<times> string) list \<Rightarrow> string \<Rightarrow> string" where
  "status_of statuses c = (case map_of statuses c of Some s \<Rightarrow> s | None \<Rightarrow> ''UNKNOWN'')"

definition evidence_blockers :: "(string \<times> string) list \<Rightarrow> string list \<Rightarrow> claim_blocker list" where
  "evidence_blockers statuses req =
     map (\<lambda>c. \<lparr>cb_class = c, cb_status = status_of statuses c,
               cb_problem = (if status_of statuses c = ''FAIL'' then FailedEvidence else AbsentEvidence),
               cb_work = work_class c\<rparr>)
       (filter (\<lambda>c. status_of statuses c \<noteq> ''PASS'') req)"

definition rights_blocker :: "rights_assessment \<Rightarrow> claim_problem \<Rightarrow> claim_blocker" where
  "rights_blocker rights p =
     \<lparr>cb_class = ''rights_provenance'', cb_status = ra_evidence rights, cb_problem = p, cb_work = ''governance_work''\<rparr>"

definition claim_blockers :: "rights_config \<Rightarrow> project_config \<Rightarrow> project_observer \<Rightarrow> (string \<times> bytes option) list list
    \<Rightarrow> ledger_entry list \<Rightarrow> string \<Rightarrow> claim_blockers_report res" where
  "claim_blockers rc cf ob roots hist requested =
     rbind (rights_provenance_status rc cf ob hist None) (\<lambda>rights.
       let items = remdups (ra_blockers rights);
           blocking = pp_blocking (ra_policy rights)
       in if requested = ''rights'' \<or> requested = ''rights_provenance''
          then Inr \<lparr>br_requested = requested, br_blockers = map (\<lambda>n. rights_blocker rights (RightsProblem n)) items,
                    br_blocked = blocking, br_review = Some (items \<noteq> []), br_stale = None\<rparr>
          else
            rbind (claim_status rc cf ob roots hist) (\<lambda>report.
              let bs = evidence_blockers (cs_statuses report) (required_claims requested)
                       @ (if requested = ''promotion'' \<and> blocking then [rights_blocker rights (RightsUnresolved items)]
                          else [])
              in Inr \<lparr>br_requested = requested, br_blockers = bs, br_blocked = (bs \<noteq> []), br_review = None,
                      br_stale = Some (take 20 (map sr_source
                        (filter (\<lambda>r. sr_status r = ''FAIL'' \<or> sr_status r = ''UNKNOWN'')
                          (structured_statuses (cf_output_cap cf) roots))))\<rparr>))"

section \<open>Reconciliation\<close>

definition unsupported_values :: "forge_record list \<Rightarrow> string list" where
  "unsupported_values items =
     concat (map (\<lambda>r. map py_str (list_items (thaw_json (rget r ''unsupported_constructs'')))) items)"

definition by_category :: "forge_record list \<Rightarrow> (string \<times> forge_record list) list" where
  "by_category results =
     map (\<lambda>c. (c, filter (\<lambda>r. text_of r ''category'' = c) results))
       (sorted_set (map (\<lambda>r. text_of r ''category'') results))"

record category_report =
  ct_status :: string
  ct_records :: "string list"
  ct_unsupported :: "string list"

record reconciliation =
  rn_categories :: "(string \<times> category_report) list"
  rn_conflicts :: "string list"
  rn_aggregate :: string

definition compat_category :: "forge_record list \<Rightarrow> category_report" where
  "compat_category items =
     \<lparr>ct_status = aggregate_status (map (\<lambda>r. text_of r ''status'') items),
      ct_records = map (\<lambda>r. text_of r ''output_identity'') items,
      ct_unsupported = sorted_set (unsupported_values items)\<rparr>"

definition compat_reconciliation :: "(string \<times> forge_record list) list \<Rightarrow> reconciliation" where
  "compat_reconciliation cats =
     (let categories = map (\<lambda>(c, items). (c, compat_category items)) cats
      in \<lparr>rn_categories = categories,
          rn_conflicts = map fst (filter (\<lambda>(c, items). length (remdups (map (\<lambda>r. text_of r ''status'') items)) > 1) cats),
          rn_aggregate = aggregate_status (map (\<lambda>(c, r). ct_status r) categories)\<rparr>)"

text \<open>The projection of the native kernel, which the host checks against its own counts.\<close>

record native_category =
  nc_status :: string
  nc_pass :: nat
  nc_fail :: nat
  nc_unknown :: nat
  nc_observed :: nat
  nc_conflict :: bool
  nc_unsupported :: nat

record native_reconciliation =
  nr_categories :: "native_category list"
  nr_status :: string
  nr_conflicting :: nat
  nr_unsupported :: nat
  nr_observed :: nat

definition check_native_category :: "(string \<times> forge_record list) \<times> native_category \<Rightarrow> unit res" where
  "check_native_category p =
     (let items = snd (fst p); n = snd p
      in run_checks
           [ensure (nc_observed n = length items) ''NATIVE_RECONCILIATION_MISMATCH'',
            ensure (nc_unsupported n = length (unsupported_values items)) ''NATIVE_RECONCILIATION_MISMATCH'',
            ensure (nc_pass n + nc_fail n + nc_unknown n = length items) ''NATIVE_RECONCILIATION_MISMATCH''])"

definition native_reconciled :: "(string \<times> forge_record list) list \<Rightarrow> native_reconciliation \<Rightarrow> reconciliation res" where
  "native_reconciled cats nr =
     rthen (ensure (length (nr_categories nr) = length cats) ''NATIVE_RECONCILIATION_MISMATCH'')
     (let paired = zip cats (nr_categories nr);
          conflicts = map (fst \<circ> fst) (filter (\<lambda>p. nc_conflict (snd p)) paired)
      in rthen (run_checks (map check_native_category paired))
        (rthen (ensure (nr_observed nr = sum_list (map (\<lambda>(_, items). length items) cats)
                  \<and> nr_unsupported nr = sum_list (map (\<lambda>(_, items). length (unsupported_values items)) cats)
                  \<and> nr_conflicting nr = length conflicts) ''NATIVE_RECONCILIATION_MISMATCH'')
           (Inr \<lparr>rn_categories = map (\<lambda>((c, items), n).
                    (c, \<lparr>ct_status = nc_status n, ct_records = map (\<lambda>r. text_of r ''output_identity'') items,
                         ct_unsupported = sorted_set (unsupported_values items)\<rparr>)) paired,
                 rn_conflicts = conflicts, rn_aggregate = nr_status nr\<rparr>)))"

record reconciliation_report =
  rr_candidate :: "string option"
  rr_reconciliation :: reconciliation
  rr_limited :: bool
  rr_unresolved :: "string list"
  rr_rights :: rights_assessment

text \<open>
  \<open>native_projection\<close> is \<open>reconciliation_projection\<close> of the native adapter, when there is one. A
  reconciliation is returned, never recorded.
\<close>

definition selected_results :: "ledger_entry list \<Rightarrow> string option \<Rightarrow> forge_record list" where
  "selected_results hist candidate =
     (let rs = result_records hist candidate
      in if candidate = None then filter (\<lambda>r. rget r ''subject_type'' = PStr ''project'') rs else rs)"

definition reconcile :: "rights_config \<Rightarrow> project_config \<Rightarrow> project_observer
    \<Rightarrow> ((string \<times> forge_record list) list \<Rightarrow> native_reconciliation res) option \<Rightarrow> ledger_entry list
    \<Rightarrow> string option \<Rightarrow> reconciliation_report res" where
  "reconcile rc cf ob native_projection hist candidate =
     rbind (rbind (lifecycle_machine cf ob True hist) (\<lambda>s. authorize_reconciliation s candidate)) (\<lambda>resolved.
     rbind (let cats = by_category (selected_results hist resolved)
            in case native_projection of
                 None \<Rightarrow> Inr (compat_reconciliation cats)
               | Some f \<Rightarrow> rbind (f cats) (native_reconciled cats)) (\<lambda>rec.
     rbind (rights_provenance_status rc cf ob hist resolved) (\<lambda>rights.
       Inr \<lparr>rr_candidate = resolved, rr_reconciliation = rec, rr_limited = (rn_aggregate rec \<noteq> ''PASS''),
            rr_unresolved = map fst (filter (\<lambda>p. ct_status (snd p) \<noteq> ''PASS'') (rn_categories rec)),
            rr_rights = rights\<rparr>)))"

section \<open>The walk and the claims\<close>

lemma walk_files:
  "walk_files cap seen fs = (concat (map (file_statuses cap) (take (1000 - seen) fs)), seen + length (take (1000 - seen) fs))"
proof (induction fs arbitrary: seen)
  case (Cons f fs)
  have d: "seen < 1000 \<Longrightarrow> 1000 - seen = Suc (1000 - Suc seen)" by simp
  show ?case
  proof (cases "seen < 1000")
    case True
    then show ?thesis by (simp add: Cons.IH d Let_def)
  qed simp
qed simp

lemma walk_roots: "walk_roots cap seen roots = concat (map (file_statuses cap) (take (1000 - seen) (concat roots)))"
proof (induction roots arbitrary: seen)
  case (Cons fs roots)
  have "1000 - (seen + length (take (1000 - seen) fs)) = 1000 - seen - length fs" by auto
  then show ?case by (simp add: walk_files Cons.IH)
qed simp

text \<open>The walk over all roots reads the first thousand files.\<close>

lemma structured_statuses: "structured_statuses cap roots = concat (map (file_statuses cap) (take 1000 (concat roots)))"
  by (simp add: structured_statuses_def walk_roots)

lemma claim_statuses_of:
  "c \<in> set CLAIM_CLASSES \<Longrightarrow> c \<noteq> ''operator_controlled_reproduction'' \<Longrightarrow>
    status_of (claim_statuses found) c = class_status found c"
  "status_of (claim_statuses found) ''operator_controlled_reproduction'' = ''UNKNOWN''"
  "status_of (claim_statuses found) ''promotion_disposition'' = ''NOT_PROMOTABLE''"
  by (auto simp: claim_statuses_def Let_def status_of_def CLAIM_CLASSES_def)

lemma class_status_pass:
  "class_status found c = ''PASS'' \<longleftrightarrow>
    (\<exists>r \<in> set found. sr_class r = c \<and> sr_status r = ''PASS'')
    \<and> (\<forall>r \<in> set found. sr_class r = c \<longrightarrow> sr_status r \<noteq> ''FAIL'' \<and> sr_status r \<noteq> ''UNKNOWN'')"
  by (force simp: class_status_def aggregate_pass)

lemma file_statuses_mem:
  "r \<in> set (file_statuses cap f) \<longleftrightarrow>
    (\<exists>v. read_json cap (snd f) = Inr v \<and> sr_status r \<in> set (extract_statuses v) \<and> sr_source r = fst f
      \<and> sr_class r = classify_record (fst f))"
  by (cases r; cases "read_json cap (snd f)") (auto simp: file_statuses_def)

text \<open>What the files of a class say decides its status.\<close>

lemma class_said:
  "class_status (structured_statuses cap roots) c = ''PASS'' \<longleftrightarrow>
    (let said = {s. \<exists>path content v. (path, content) \<in> set (take 1000 (concat roots)) \<and> classify_record path = c
                  \<and> read_json cap content = Inr v \<and> s \<in> set (extract_statuses v)}
     in ''PASS'' \<in> said \<and> ''FAIL'' \<notin> said \<and> ''UNKNOWN'' \<notin> said)"
proof -
  let ?said = "{s. \<exists>path content v. (path, content) \<in> set (take 1000 (concat roots)) \<and> classify_record path = c
                  \<and> read_json cap content = Inr v \<and> s \<in> set (extract_statuses v)}"
  have m: "(\<exists>r \<in> set (structured_statuses cap roots). sr_class r = c \<and> sr_status r = s) \<longleftrightarrow> s \<in> ?said" (is "?l \<longleftrightarrow> _") for s
  proof
    assume ?l
    then obtain r path content where r: "(path, content) \<in> set (take 1000 (concat roots))"
        "r \<in> set (file_statuses cap (path, content))" "sr_class r = c" "sr_status r = s"
      by (auto simp: structured_statuses)
    then obtain v where "read_json cap content = Inr v" "s \<in> set (extract_statuses v)" "classify_record path = c"
      by (auto simp: file_statuses_mem)
    then show "s \<in> ?said" using r(1) by blast
  next
    assume "s \<in> ?said"
    then obtain path content v where a: "(path, content) \<in> set (take 1000 (concat roots))" "classify_record path = c"
        "read_json cap content = Inr v" "s \<in> set (extract_statuses v)" by blast
    then have "\<lparr>sr_source = path, sr_status = s, sr_class = c\<rparr> \<in> set (file_statuses cap (path, content))"
      by (simp add: file_statuses_mem)
    then show ?l using a(1) by (force simp: structured_statuses)
  qed
  show ?thesis unfolding class_status_pass Let_def m [symmetric] by blast
qed

text \<open>A class without PASS that a claim requires blocks it; promotion requires every class.\<close>

lemma promotion_blockers:
  "status_of statuses ''operator_controlled_reproduction'' \<noteq> ''PASS'' \<Longrightarrow>
    ''operator_controlled_reproduction'' \<in> cb_class ` set (evidence_blockers statuses (required_claims ''promotion''))"
  by (force simp: evidence_blockers_def required_claims_def CLAIM_CLASSES_def)

lemma claim_blockers_promotion:
  assumes "claim_status rc cf ob roots hist = Inr report"
  obtains b more where "claim_blockers rc cf ob roots hist ''promotion'' = Inr b" "br_blocked b = (br_blockers b \<noteq> [])"
    "br_blockers b = evidence_blockers (cs_statuses report) (required_claims ''promotion'') @ more"
proof -
  obtain rights where r: "rights_provenance_status rc cf ob hist None = Inr rights"
    using assms by (auto simp: claim_status_def Let_def rbind_eq_Inr)
  let ?items = "remdups (ra_blockers rights)"
  let ?more = "if pp_blocking (ra_policy rights) then [rights_blocker rights (RightsUnresolved ?items)] else []"
  let ?bs = "evidence_blockers (cs_statuses report) (required_claims ''promotion'') @ ?more"
  have "claim_blockers rc cf ob roots hist ''promotion'' =
      Inr \<lparr>br_requested = ''promotion'', br_blockers = ?bs, br_blocked = (?bs \<noteq> []), br_review = None,
           br_stale = Some (take 20 (map sr_source
             (filter (\<lambda>r. sr_status r = ''FAIL'' \<or> sr_status r = ''UNKNOWN'')
               (structured_statuses (cf_output_cap cf) roots))))\<rparr>"
    unfolding claim_blockers_def r assms rbind_Inr Let_def by simp
  then show thesis by (rule that) simp_all
qed

lemma extract_statuses_range: "set (extract_statuses v) \<subseteq> set STATUSES"
proof (induction v rule: extract_statuses.induct)
  case (1 d)
  then show ?case by (auto split: pyval.splits if_splits)
qed auto

section \<open>Reconciling by category\<close>

lemma aggregate_alt:
  "aggregate_status ss =
    (if ''FAIL'' \<in> set ss then ''FAIL'' else if ''UNKNOWN'' \<in> set ss \<or> ''PASS'' \<notin> set ss then ''UNKNOWN'' else ''PASS'')"
  using aggregate_pass [of ss] aggregate_fail [of ss] aggregate_status_mem [of ss]
  unfolding STATUSES_def by (simp split: if_splits) blast

lemma aggregate_set: "set ss = set ts \<Longrightarrow> aggregate_status ss = aggregate_status ts"
  by (simp add: aggregate_alt)

text \<open>Aggregating groups first loses nothing, when no group is empty and all statuses are known ones.\<close>

lemma aggregate_groups:
  assumes "\<And>ss. ss \<in> set sss \<Longrightarrow> ss \<noteq> [] \<and> set ss \<subseteq> set STATUSES"
  shows "aggregate_status (map aggregate_status sss) = aggregate_status (concat sss)"
proof -
  have k: "''PASS'' \<in> set ss \<or> ''FAIL'' \<in> set ss \<or> ''UNKNOWN'' \<in> set ss" if "ss \<in> set sss" for ss
    using assms [OF that] unfolding STATUSES_def by (cases ss) auto
  have f: "''FAIL'' \<in> set (map aggregate_status sss) \<longleftrightarrow> ''FAIL'' \<in> set (concat sss)"
    using aggregate_fail by (force simp: image_iff)
  have p: "''PASS'' \<in> set (map aggregate_status sss) \<longleftrightarrow>
      (\<exists>ss \<in> set sss. ''PASS'' \<in> set ss \<and> ''FAIL'' \<notin> set ss \<and> ''UNKNOWN'' \<notin> set ss)"
    using aggregate_pass by (force simp: image_iff)
  have u: "''UNKNOWN'' \<in> set (map aggregate_status sss) \<longleftrightarrow>
      (\<exists>ss \<in> set sss. ''FAIL'' \<notin> set ss \<and> (''UNKNOWN'' \<in> set ss \<or> ''PASS'' \<notin> set ss))"
    by (auto simp: image_iff aggregate_alt)
  show ?thesis
    unfolding aggregate_alt [of "map aggregate_status sss"] aggregate_alt [of "concat sss"] f p u
    using k by (auto split: if_splits)
qed

lemma by_category_mem:
  "(c, items) \<in> set (by_category rs) \<longleftrightarrow>
    (\<exists>r \<in> set rs. text_of r ''category'' = c) \<and> items = filter (\<lambda>r. text_of r ''category'' = c) rs"
  by (auto simp: by_category_def)

lemma by_category_set: "set (concat (map snd (by_category rs))) = set rs"
  by (auto simp: by_category_def)

lemma compat_aggregate:
  assumes "\<And>r. r \<in> set rs \<Longrightarrow> text_of r ''status'' \<in> set STATUSES"
  shows "rn_aggregate (compat_reconciliation (by_category rs)) = aggregate_status (map (\<lambda>r. text_of r ''status'') rs)"
proof -
  let ?sss = "map (\<lambda>p. map (\<lambda>r. text_of r ''status'') (snd p)) (by_category rs)"
  have a: "rn_aggregate (compat_reconciliation (by_category rs)) = aggregate_status (map aggregate_status ?sss)"
    by (simp add: compat_reconciliation_def Let_def compat_category_def split_def comp_def)
  have g: "ss \<noteq> [] \<and> set ss \<subseteq> set STATUSES" if "ss \<in> set ?sss" for ss
    using that assms by (auto simp: by_category_def filter_empty_conv)
  have "set (concat ?sss) = (\<lambda>r. text_of r ''status'') ` set (concat (map snd (by_category rs)))" by auto
  then have "set (concat ?sss) = set (map (\<lambda>r. text_of r ''status'') rs)" unfolding by_category_set by simp
  then show ?thesis using a aggregate_groups [of ?sss, OF g] aggregate_set by metis
qed

lemma compat_conflicts:
  "c \<in> set (rn_conflicts (compat_reconciliation (by_category rs))) \<longleftrightarrow>
    (\<exists>r \<in> set rs. \<exists>r' \<in> set rs. text_of r ''category'' = c \<and> text_of r' ''category'' = c
      \<and> text_of r ''status'' \<noteq> text_of r' ''status'')"
proof -
  have n: "length (remdups xs) > 1 \<longleftrightarrow> (\<exists>x \<in> set xs. \<exists>y \<in> set xs. x \<noteq> y)" for xs :: "string list"
  proof
    assume "length (remdups xs) > 1"
    then obtain x y zs where "remdups xs = x # y # zs" by (cases "remdups xs" rule: remdups_adj.cases) auto
    then have "x \<noteq> y" "x \<in> set xs" "y \<in> set xs" using distinct_remdups [of xs] set_remdups [of xs] by auto
    then show "\<exists>x \<in> set xs. \<exists>y \<in> set xs. x \<noteq> y" by blast
  next
    assume "\<exists>x \<in> set xs. \<exists>y \<in> set xs. x \<noteq> y"
    then obtain x y where xy: "{x, y} \<subseteq> set xs" "x \<noteq> y" by auto
    have "card {x, y} \<le> card (set xs)" by (rule card_mono [OF _ xy(1)]) simp
    then have "card (set xs) > 1" using xy(2) by simp
    then show "length (remdups xs) > 1" by (simp add: length_remdups_card_conv)
  qed
  have "c \<in> set (rn_conflicts (compat_reconciliation (by_category rs))) \<longleftrightarrow>
      (\<exists>items. (c, items) \<in> set (by_category rs) \<and> length (remdups (map (\<lambda>r. text_of r ''status'') items)) > 1)"
    by (force simp: compat_reconciliation_def Let_def)
  then show ?thesis unfolding n by_category_mem by auto
qed

end
