(* ===== verification/RecordFields.thy ===== *)
theory RecordFields
  imports ServiceCoherence
begin

text \<open>
  The fields of new records: a record holds the converted values of what it is built from.
\<close>

lemma json_items_keys: "rmap (json_item n) d = Inr norm \<Longrightarrow> map fst norm = map fst d"
  by (induction d arbitrary: norm) (auto simp: rbind_eq_Inr)

lemma json_items_mem:
  "rmap (json_item n) d = Inr norm \<Longrightarrow> (f, v) \<in> set d \<Longrightarrow> \<exists>w. (f, w) \<in> set norm \<and> as_json_value n v = Inr w"
  by (induction d arbitrary: norm) (auto simp: rbind_eq_Inr)

lemma new_record_get:
  assumes "new_record jcs rt flds = Inr r" "RECORD_SPECS rt = Some spec" "dict_wf flds"
    and "identity_field spec \<noteq> Some f" "f \<noteq> ''record_type''" "f \<noteq> ''schema_version''" "map_of flds f = Some v"
  obtains w where "as_json_value 1 v = Inr w" "rget r f = freeze_json w"
proof (rule new_recordE [OF assms(1)])
  fix norm spec' d
  assume a: "json_object (PDict flds) = Inr norm" "RECORD_SPECS rt = Some spec'" "identified rt spec' norm d"
    "r = model rt d CURRENT_SCHEMA_VERSION"
  obtain ps where ps: "rmap (json_item 1) flds = Inr ps" "norm = dict_of ps"
    using a(1) by (auto simp: json_object_Inr as_json_dict)
  obtain w where w: "(f, w) \<in> set ps" "as_json_value 1 v = Inr w"
    using json_items_mem [OF ps(1) map_of_SomeD [OF assms(7)]] by blast
  have "distinct (map fst ps)"
    using dict_wf_distinct [OF assms(3)] json_items_keys [OF ps(1)] by simp
  then have "map_of (rev ps) f = Some w" using w(1) by (simp add: map_of_is_SomeI rev_map [symmetric])
  then have n: "dict_get norm f = w" by (simp add: ps(2) dict_get_of)
  have "dict_get d f = dict_get norm f"
    using a(2,3) assms(2,4) by (auto simp: identified_def split: option.splits)
  then show thesis using that [OF w(2)] n a(4) assms(5,6) by simp
qed

text \<open>A text is kept as it is.\<close>

lemma new_record_text:
  assumes "new_record jcs rt flds = Inr r" "dict_get flds f = PStr s" "RECORD_SPECS rt = Some spec"
    and "identity_field spec \<noteq> Some f" "f \<noteq> ''record_type''" "f \<noteq> ''schema_version''" "dict_wf flds"
  shows "rget r f = PStr s"
proof -
  have "map_of flds f = Some (PStr s)" using assms(2) by (simp add: dict_get_def split: option.splits)
  from new_record_get [OF assms(1,3,7,4-6) this] show ?thesis by (auto simp: as_json_Inr)
qed

text \<open>An object whose members are texts is kept as it is.\<close>

definition text_items :: "dict \<Rightarrow> bool" where
  "text_items d = list_all (is_pstr \<circ> snd) d"

lemma text_items_same: "text_items d \<Longrightarrow> rmap (json_item n) d = Inr ps \<Longrightarrow> ps = d"
  by (induction d arbitrary: ps) (auto simp: text_items_def rbind_eq_Inr is_pstr_iff as_json_Inr)

lemma text_items_freeze: "text_items d \<Longrightarrow> freeze_items d = d"
  by (auto simp: text_items_def freeze_items_def is_pstr_iff list_all_iff intro!: map_idI)

lemma text_items_str_dict: "text_items (str_dict m)"
  using set_dict_of [of "map (\<lambda>p. (fst p, PStr (snd p))) m"] by (fastforce simp: text_items_def str_dict_def list_all_iff)

lemma new_record_str_dict:
  assumes "new_record jcs rt flds = Inr r" "dict_get flds f = PDict (str_dict m)" "RECORD_SPECS rt = Some spec"
    and "identity_field spec \<noteq> Some f" "f \<noteq> ''record_type''" "f \<noteq> ''schema_version''" "dict_wf flds"
  shows "rget r f = PProxy (str_dict m)"
proof -
  have m: "map_of flds f = Some (PDict (str_dict m))" using assms(2) by (simp add: dict_get_def split: option.splits)
  obtain w where w: "as_json_value 1 (PDict (str_dict m)) = Inr w" "rget r f = freeze_json w"
    by (rule new_record_get [OF assms(1,3,7,4-6) m])
  then obtain ps where ps: "rmap (json_item (Suc (Suc 0))) (str_dict m) = Inr ps" "w = PDict (dict_of ps)"
    by (auto simp: as_json_dict)
  have "ps = str_dict m" by (rule text_items_same [OF text_items_str_dict ps(1)])
  then show ?thesis using w(2) ps(2) text_items_freeze [OF text_items_str_dict, of m]
    by (simp add: str_dict_def freeze_items_def)
qed

end
