(* ===== verification/EvidenceProperties.thy ===== *)
theory EvidenceProperties
  imports LifecycleSamples Evidence RecordFields
begin

text \<open>
  The properties of the evidence services: rights enforcement, execution assurance, claims and
  reconciliation.
\<close>

section \<open>Samples\<close>

definition sample_manifest :: dict where
  "sample_manifest =
     [(''artifact'', PDict [(''id'', PStr ''c1'')]),
      (''review'', PDict [(''human_acceptance'', PStr ''accepted''), (''provenance_validation'', PStr ''passed'')]),
      (''rights'', PDict [(''rights_basis'', PStr ''own'')]),
      (''schema_version'', PStr ''0.2.0'')]"

definition sample_rights :: rights_config where
  "sample_rights =
     \<lparr>rc_table = PDict [(''mode'', PStr ''enforced''), (''manifest'', PStr ''rights.json'')], rc_resolve = Inr,
      rc_file = (\<lambda>_. Some (enc (PDict sample_manifest))), rc_project = ''p'', rc_output_cap = 1000,
      rc_schema_issues = (\<lambda>_ _. [])\<rparr>"

lemma sample_manifest_json: "json_val (PDict sample_manifest)"
  by (simp add: sample_manifest_def dict_wf_def)

lemma sample_manifest_enc: "enc (PDict sample_manifest) =
  ''{\"artifact\":{\"id\":\"c1\"},\"review\":{\"human_acceptance\":\"accepted\",\"provenance_validation\":\"passed\"},\"rights\":{\"rights_basis\":\"own\"},\"schema_version\":\"0.2.0\"}''"
  by code_simp

lemma sample_manifest_read: "read_json 1000 (Some (enc (PDict sample_manifest))) = Inr (PDict sample_manifest)"
  by (rule read_json_enc [OF sample_manifest_json]) (simp add: sample_manifest_enc del: enc.simps)

lemma sample_enforced:
  "\<exists>a. enforce_rights_selection sample_rights sample_config sample_observer [] ''c1'' = Inr a \<and> ra_mode a = ''enforced''"
proof -
  have p: "rights_policy sample_rights = Inr (''enforced'', Some ''rights.json'')"
    by (simp add: rights_policy_def sample_rights_def RIGHTS_MODES_def dict_get_def rthen_def)
  have l: "load_configured_manifest sample_rights ''rights.json'' = Inr sample_manifest"
    by (simp add: load_configured_manifest_def sample_rights_def sample_manifest_read del: enc.simps)
  have d: "assess_domains sample_rights sample_manifest (Some ''c1'') = Inr (''PASS'', ''PASS'', ''PASS'', ''PASS'', [])"
    by code_simp
  obtain i where i: "local_json_identity (PDict sample_manifest) = Inr i"
    using sample_manifest_json by (auto simp: local_json_identity_def canonical_bytes_def json_val_encodable)
  have a: "aggregate_status [''PASS'', ''PASS'', ''PASS'', ''PASS''] = ''PASS''" by (simp add: aggregate_pass)
  show ?thesis
    by (simp add: enforce_rights_selection_def rights_provenance_status_def p rights_candidate_def l Let_def
        assess_manifest_def d i a project_blocking rthen_def)
qed

section \<open>Rights\<close>

text \<open>
  C34: Under an enforced rights policy, the check before a selection returns only when the project
  has a configured manifest that could be read, has no schema issue, names the candidate, says that
  its provenance was validated and that a person accepted it or need not, has a known rights basis,
  and declares no source with an incompatible or unknown license. A draft derived from the history
  never satisfies the policy.
\<close>

theorem enforced_rights:
  assumes "enforce_rights_selection rc cf ob hist c = Inr a" "ra_mode a = ''enforced''"
  shows "\<exists>path m review rights.
    rights_policy rc = Inr (''enforced'', Some path) \<and> load_configured_manifest rc path = Inr m
    \<and> validation_errors rc m = []
    \<and> (\<forall>art. mapping_items (dict_get m ''artifact'') = Some art \<longrightarrow> dict_get art ''id'' = PStr c)
    \<and> mapping_items (dict_get m ''review'') = Some review
    \<and> dict_get review ''provenance_validation'' = PStr ''passed''
    \<and> dict_get review ''human_acceptance'' \<in> {PStr ''accepted'', PStr ''not-required''}
    \<and> mapping_items (dict_get m ''rights'') = Some rights
    \<and> dict_get rights ''rights_basis'' \<noteq> PStr ''unknown-needs-review''
    \<and> (\<forall>s \<in> set (list_items (dict_get rights ''sources'')). \<forall>d. mapping_items s = Some d \<longrightarrow>
         dict_get d ''license_status'' \<noteq> PStr ''incompatible'' \<and> dict_get d ''license_status'' \<noteq> PStr ''unknown'')"
proof -
  have st: "rights_provenance_status rc cf ob hist (Some c) = Inr a" and nb: "\<not> pp_blocking (ra_policy a)"
    using assms(1) by (auto simp: enforce_rights_selection_def rbind_eq_Inr rthen_def)
  obtain md path where p: "rights_policy rc = Inr (md, path)"
    using st by (auto simp: rights_provenance_status_def rbind_eq_Inr)
  let ?draft = "draft_manifest (rc_project rc) hist (Some c)"
  have closed: "ra_evidence a = ''PASS''" if "assess_manifest rc hist md (Some c) src m = Inr a" for src m
    using that nb assms(2) by (elim assess_manifest_Inr) (simp add: project_blocking)
  have no_draft: False if "assess_manifest rc hist md (Some c) src ?draft = Inr a" for src
    using closed [OF that] draft_open [OF that] by blast
  obtain p' m where m: "path = Some p'" "load_configured_manifest rc p' = Inr m"
      "assess_manifest rc hist md (Some c) ''configured-manifest'' m = Inr a"
    using st no_draft
    by (auto simp: rights_provenance_status_def rights_candidate_def p Let_def split: option.splits sum.splits exn.splits)
  obtain ns where d: "assess_domains rc m (Some c) = Inr (ra_contract a, ra_provenance a, ra_rights a, ra_human a, ns)"
      "aggregate_status [ra_contract a, ra_provenance a, ra_rights a, ra_human a] = ''PASS''" "md = ''enforced''"
    using m(3) closed [OF m(3)] assms(2) by (elim assess_manifest_Inr) auto
  have pass: "assess_domains rc m (Some c) = Inr (''PASS'', ''PASS'', ''PASS'', ''PASS'', ns)"
    using d(1) complete_evidence [OF d(1,2)] by simp
  show ?thesis
    using assess_domains_pass [OF pass] p m(1,2) d(3) by blast
qed

theorem enforced_rights_witness:
  "\<exists>m. load_configured_manifest sample_rights ''rights.json'' = Inr m \<and> validation_errors sample_rights m = []"
proof -
  obtain a where a: "enforce_rights_selection sample_rights sample_config sample_observer [] ''c1'' = Inr a" "ra_mode a = ''enforced''"
    using sample_enforced by blast
  have "rights_policy sample_rights = Inr (''enforced'', Some ''rights.json'')"
    by (simp add: rights_policy_def sample_rights_def RIGHTS_MODES_def dict_get_def rthen_def)
  then show ?thesis using enforced_rights [OF a] by auto
qed

section \<open>Assurance\<close>

text \<open>An assessment records the status of the binding it is about.\<close>

lemma assessment_recordE:
  assumes "assessment_record jcs proj now bid requested policy hist = Inr r"
  obtains b ps where "check_request requested = Inr ()"
    "record_by_id hist ''execution_receipt_binding'' bid ''binding_id'' = Inr b" "property_map b = Some ps"
    "rget r ''assurance_status'' = PStr (as_status (assess_binding b ps requested))"
proof -
  obtain b ps where b: "check_request requested = Inr ()"
      "record_by_id hist ''execution_receipt_binding'' bid ''binding_id'' = Inr b" "property_map b = Some ps"
      "new_record jcs EXECUTION_ASSURANCE
        (assessment_fields proj now bid requested policy b (assess_binding b ps requested)) = Inr r"
    using assms by (auto simp: assessment_record_def rthen_def rbind_eq_Inr split: option.splits)
  let ?a = "assess_binding b ps requested"
  have "dict_get (assessment_fields proj now bid requested policy b ?a) ''assurance_status'' = PStr (as_status ?a)"
    by (simp add: assessment_fields_def dict_get_of)
  then have "rget r ''assurance_status'' = PStr (as_status ?a)"
    by (rule new_record_text [OF b(4), where spec = execution_assurance_spec])
      (simp_all add: execution_assurance_spec_def assessment_fields_def)
  then show thesis by (rule that [OF b(1-3)])
qed

text \<open>
  C35: An assessment of an execution receipt passes exactly when the receipt is complete and has its
  envelope, the binding has every property key, every requested property was established, and a
  local process does not claim a container property; it fails exactly when a local process claims
  one. Otherwise it is unknown.
\<close>

theorem assurance_status:
  assumes "assessment_record jcs proj now bid requested policy hist = Inr r"
  shows "\<exists>b ps. record_by_id hist ''execution_receipt_binding'' bid ''binding_id'' = Inr b \<and> property_map b = Some ps
    \<and> requested \<noteq> [] \<and> distinct requested
    \<and> (let claimed = (rget b ''runner_kind'' = PStr ''local-process''
             \<and> (\<exists>k \<in> set CONTAINER_PROPERTIES. dict_get ps k = PStr ''established''));
           met = (rget b ''receipt_completeness'' = PStr ''complete'' \<and> mapping_items (rget b ''mncs_receipt'') \<noteq> None
             \<and> set ESTABLISHED_PROPERTY_KEYS \<subseteq> set (keys ps)
             \<and> (\<forall>k \<in> set requested. dict_get ps k = PStr ''established''))
       in rget r ''assurance_status'' = PStr (if claimed then ''FAIL'' else if met then ''PASS'' else ''UNKNOWN''))"
proof -
  obtain b ps where b: "check_request requested = Inr ()"
      "record_by_id hist ''execution_receipt_binding'' bid ''binding_id'' = Inr b" "property_map b = Some ps"
      "rget r ''assurance_status'' = PStr (as_status (assess_binding b ps requested))"
    by (rule assessment_recordE [OF assms])
  then have req: "requested \<noteq> []" "distinct requested"
    by (auto simp: check_request_def run_checks_eq_Inr)
  note status = assess_status [OF b(3), of requested]
  show ?thesis
    using b(2-4) req unfolding Let_def status by (intro exI conjI) auto
qed

definition sample_binding :: forge_record where
  "sample_binding =
     sample_of EXECUTION_RECEIPT_BINDING
       [(''binding_id'', PStr ''b1''), (''project_identity'', PStr ''p''), (''candidate_identity'', PStr ''c2''),
        (''action_kind'', PStr ''workflow_action''), (''action_identity'', PStr ''a1''),
        (''runner_kind'', PStr ''podman''), (''receipt_completeness'', PStr ''complete''), (''mncs_receipt'', PDict []),
        (''established_properties'', PDict (dict_of (map (\<lambda>k. (k, PStr ''established'')) ESTABLISHED_PROPERTY_KEYS)))]"

definition sample_assessment_fields :: dict where
  "sample_assessment_fields =
     [(''action_identity'', PStr ''a1''), (''action_kind'', PStr ''workflow_action''), (''assessed_at'', PStr sample_now),
      (''assurance_status'', PStr ''PASS''), (''binding_identity'', PStr ''b1''), (''candidate_identity'', PStr ''c2''),
      (''policy_identity'', PNone), (''project_identity'', PStr ''p''), (''reasons'', PList []),
      (''requested_properties'', PList [PStr ''containerization'']), (''unmet_properties'', PList [])]"

lemma sample_assessment_build:
  "assessment_fields ''p'' sample_now ''b1'' [''containerization''] None sample_binding
     (assess_binding sample_binding (the (property_map sample_binding)) [''containerization'']) = sample_assessment_fields"
  by code_simp

lemma sample_assessment_object: "json_object (PDict sample_assessment_fields) = Inr sample_assessment_fields"
  by (rule fixed_json_object)
    (simp_all add: sample_assessment_fields_def dict_wf_def json_fixed_def as_json_value.simps as_json_scalar)

lemma sample_assessment_derive: "\<exists>i. derive_record_identity EXECUTION_ASSURANCE sample_assessment_fields = Inr i \<and> i \<noteq> []"
  by (simp add: derive_record_identity_def spec_of_def execution_assurance_spec_def identity_projection_def
      sample_assessment_fields_def as_json_value.simps metadata_dict_def CURRENT_SCHEMA_VERSION_def local_json_identity_def
      canonical_bytes_def dict_of_def sample_now_def del: enc.simps)

lemma sample_assessment: "\<exists>r. new_record jcs EXECUTION_ASSURANCE sample_assessment_fields = Inr r"
proof -
  obtain i where i: "derive_record_identity EXECUTION_ASSURANCE sample_assessment_fields = Inr i" "i \<noteq> []"
    using sample_assessment_derive by blast
  have v: "validate_fields jcs EXECUTION_ASSURANCE (dict_put ''assessment_id'' (PStr i) sample_assessment_fields) = Inr ()"
    using i(2)
    by (simp add: sample_assessment_fields_def keys_def dict_get_def validate_fields_def spec_of_def execution_assurance_spec_def
        validate_shape_def allowed_def execution_assurance_strings_def nonempty_str_def status_is_valid_def STATUSES_def
        validate_type_rules_def validate_execution_assurance_def Let_def RECEIPT_ACTION_KINDS_def
        ASSURANCE_REQUEST_PROPERTIES_def ensure_in_def in_strs_def sample_now_def)
  have "dict_get sample_assessment_fields ''assessment_id'' = PNone" "''record_type'' \<notin> set (keys sample_assessment_fields)"
    "''schema_version'' \<notin> set (keys sample_assessment_fields)"
    by (simp_all add: sample_assessment_fields_def dict_get_def keys_def)
  then show ?thesis
    by (simp add: new_record_def sample_assessment_object i(1) spec_of_def execution_assurance_spec_def v CURRENT_SCHEMA_VERSION_def)
qed

theorem assurance_status_witness:
  "\<exists>r b ps. assessment_record sample_jcs ''p'' sample_now ''b1'' [''containerization''] None
      [sample_line_of sample_binding] = Inr r \<and> property_map b = Some ps
    \<and> record_by_id [sample_line_of sample_binding] ''execution_receipt_binding'' ''b1'' ''binding_id'' = Inr b"
proof -
  obtain r where n: "new_record sample_jcs EXECUTION_ASSURANCE sample_assessment_fields = Inr r"
    using sample_assessment by blast
  have f: "record_by_id [sample_line_of sample_binding] ''execution_receipt_binding'' ''b1'' ''binding_id'' = Inr sample_binding"
      "check_request [''containerization''] = Inr ()" "rget sample_binding ''project_identity'' = PStr ''p''"
      "property_map sample_binding \<noteq> None"
    by code_simp+
  then have "assessment_record sample_jcs ''p'' sample_now ''b1'' [''containerization''] None
      [sample_line_of sample_binding] = Inr r"
    using n sample_assessment_build by (auto simp: assessment_record_def rthen_def)
  then show ?thesis using assurance_status [of sample_jcs] by blast
qed

section \<open>Claims and reconciliation\<close>

text \<open>
  C36: A claim class passes exactly when, among the first thousand evidence files, one of that class
  says PASS and none says FAIL or UNKNOWN. Reproduction under the control of an operator is never
  established, so the promotion disposition is always NOT_PROMOTABLE and promotion is always blocked.
\<close>

theorem claims_never_promote:
  assumes "claim_status rc cf ob roots hist = Inr report"
  shows "status_of (cs_statuses report) ''promotion_disposition'' = ''NOT_PROMOTABLE''
    \<and> status_of (cs_statuses report) ''operator_controlled_reproduction'' = ''UNKNOWN''
    \<and> (\<forall>c \<in> set CLAIM_CLASSES - {''operator_controlled_reproduction''}.
        status_of (cs_statuses report) c = ''PASS'' \<longleftrightarrow>
          (let said = {s. \<exists>path content v. (path, content) \<in> set (take 1000 (concat roots)) \<and> classify_record path = c
                        \<and> read_json (cf_output_cap cf) content = Inr v \<and> s \<in> set (extract_statuses v)}
           in ''PASS'' \<in> said \<and> ''FAIL'' \<notin> said \<and> ''UNKNOWN'' \<notin> said))
    \<and> (\<exists>b. claim_blockers rc cf ob roots hist ''promotion'' = Inr b \<and> br_blocked b
        \<and> ''operator_controlled_reproduction'' \<in> cb_class ` set (br_blockers b))"
proof (intro conjI ballI)
  have st: "cs_statuses report = claim_statuses (structured_statuses (cf_output_cap cf) roots)"
    using assms by (auto simp: claim_status_def Let_def rbind_eq_Inr)
  show "status_of (cs_statuses report) ''promotion_disposition'' = ''NOT_PROMOTABLE''"
    and op: "status_of (cs_statuses report) ''operator_controlled_reproduction'' = ''UNKNOWN''"
    by (simp_all add: st claim_statuses_of)
  fix c assume "c \<in> set CLAIM_CLASSES - {''operator_controlled_reproduction''}"
  then have c: "c \<in> set CLAIM_CLASSES" "c \<noteq> ''operator_controlled_reproduction''" by auto
  show "status_of (cs_statuses report) c = ''PASS'' \<longleftrightarrow>
        (let said = {s. \<exists>path content v. (path, content) \<in> set (take 1000 (concat roots)) \<and> classify_record path = c
                      \<and> read_json (cf_output_cap cf) content = Inr v \<and> s \<in> set (extract_statuses v)}
         in ''PASS'' \<in> said \<and> ''FAIL'' \<notin> said \<and> ''UNKNOWN'' \<notin> said)"
    unfolding st claim_statuses_of(1) [OF c]
    by (rule class_said)
next
  obtain b more where b: "claim_blockers rc cf ob roots hist ''promotion'' = Inr b" "br_blocked b = (br_blockers b \<noteq> [])"
      "br_blockers b = evidence_blockers (cs_statuses report) (required_claims ''promotion'') @ more"
    by (rule claim_blockers_promotion [OF assms])
  have "status_of (cs_statuses report) ''operator_controlled_reproduction'' \<noteq> ''PASS''"
    using assms by (auto simp: claim_status_def Let_def rbind_eq_Inr claim_statuses_of)
  from promotion_blockers [OF this] show "\<exists>b. claim_blockers rc cf ob roots hist ''promotion'' = Inr b \<and> br_blocked b
      \<and> ''operator_controlled_reproduction'' \<in> cb_class ` set (br_blockers b)"
    using b by auto
qed

text \<open>The rights of an empty history, and its claims.\<close>

lemma sample_rights_status: "\<exists>a. rights_provenance_status sample_rights sample_config sample_observer [] None = Inr a"
proof -
  have p: "rights_policy sample_rights = Inr (''enforced'', Some ''rights.json'')"
    by (simp add: rights_policy_def sample_rights_def RIGHTS_MODES_def dict_get_def rthen_def)
  have l: "load_configured_manifest sample_rights ''rights.json'' = Inr sample_manifest"
    by (simp add: load_configured_manifest_def sample_rights_def sample_manifest_read del: enc.simps)
  have c: "rights_candidate sample_config sample_observer [] None = Inr None" by code_simp
  have d: "assess_domains sample_rights sample_manifest None = Inr (''PASS'', ''PASS'', ''PASS'', ''PASS'', [])"
    by code_simp
  obtain i where i: "local_json_identity (PDict sample_manifest) = Inr i"
    using sample_manifest_json by (auto simp: local_json_identity_def canonical_bytes_def json_val_encodable)
  show ?thesis by (simp add: rights_provenance_status_def p l c Let_def assess_manifest_def d i)
qed

theorem claims_never_promote_witness:
  "\<exists>report. claim_status sample_rights sample_config sample_observer [] [] = Inr report
    \<and> status_of (cs_statuses report) ''promotion_disposition'' = ''NOT_PROMOTABLE''"
proof -
  obtain report where "claim_status sample_rights sample_config sample_observer [] [] = Inr report"
    using sample_rights_status by (auto simp: claim_status_def Let_def)
  then show ?thesis using claims_never_promote by blast
qed




end
