(* ===== verification/Observer.thy ===== *)
theory Observer
  imports Services Config
begin

text \<open>
  The observer of a local project (adapters.py, \<open>LocalProjectObserver\<close>): the identities and checks the
  application services take from the working tree, computed from a loaded configuration and the file
  system. It is an instance of the observations the services are built on.
\<close>

section \<open>Path sets\<close>

definition paths_of :: "filesystem \<Rightarrow> forge_config \<Rightarrow> string list \<Rightarrow> path list res" where
  "paths_of fs fc ks = rbind (rmap (config_paths fs fc) ks) (\<lambda>ps. Inr (concat ps))"

definition authority_paths :: "filesystem \<Rightarrow> forge_config \<Rightarrow> path list res" where
  "authority_paths fs fc = paths_of fs fc PROTECTED_KEYS"

definition candidate_paths :: "filesystem \<Rightarrow> forge_config \<Rightarrow> path list res" where
  "candidate_paths fs fc = paths_of fs fc [''candidates'', ''generated'']"

definition identity_of :: "filesystem \<Rightarrow> forge_config \<Rightarrow> path list res \<Rightarrow> string res" where
  "identity_of fs fc paths = rbind paths (content_identity fs (fc_root fc))"

definition policy_value :: "forge_config \<Rightarrow> string \<Rightarrow> string" where
  "policy_value fc k = py_str (dict_get (dict_items (dict_get (fc_raw fc) ''policies'')) k)"

definition contained_path :: "filesystem \<Rightarrow> forge_config \<Rightarrow> string \<Rightarrow> path list res" where
  "contained_path fs fc v = rbind (resolve_contained fs (fc_root fc) (PStr v) False) (\<lambda>p. Inr [p])"

section \<open>Policies and envelopes\<close>

text \<open>The requirements a policy file declares, or what is wrong with it.\<close>

definition declared_requirements :: "pyval res \<Rightarrow> string list \<times> string option" where
  "declared_requirements content =
     (case content of
        Inl _ \<Rightarrow> ([], Some ''selection policy cannot be read'')
      | Inr (PDict d) \<Rightarrow>
          (let raw = (case map_of d ''required_workflows'' of Some v \<Rightarrow> v | None \<Rightarrow> dict_get d ''required'');
               items = list_items raw
           in if is_plist raw \<and> items \<noteq> [] \<and> list_all nonempty_str items
              then (dedup_first (map py_str items), None)
              else ([], Some ''selection policy must declare a non-empty required_workflows or required list''))
      | Inr _ \<Rightarrow> ([], Some ''selection policy must be a JSON object''))"

definition selection_evidence_policy :: "filesystem \<Rightarrow> forge_config \<Rightarrow> (string \<times> string list \<times> string option) res" where
  "selection_evidence_policy fs fc =
     rbind (resolve_contained fs (fc_root fc) (PStr (policy_value fc ''selection'')) False) (\<lambda>p.
     rbind (content_identity fs (fc_root fc) [p]) (\<lambda>i.
       let (req, err) = declared_requirements (read_json (output_cap fc) (fs_bytes fs p)) in Inr (i, req, err)))"

definition evidence_envelopes :: "filesystem \<Rightarrow> forge_config \<Rightarrow> path \<Rightarrow> (string \<times> string) list
    \<Rightarrow> ((string \<rightharpoonup> string list) \<times> (string \<rightharpoonup> string) \<times> (string \<rightharpoonup> string)) res" where
  "evidence_envelopes fs fc state_dir environ =
     rbind (rmap (\<lambda>(name, w). rbind (environment fc state_dir environ w) (\<lambda>env. Inr (name, sort (keys env))))
              (fc_workflows fc)) (\<lambda>env_keys.
     rbind (rmap (\<lambda>(name, v).
              case map_of (fc_workflows fc) (vf_workflow v) of
                None \<Rightarrow> Inl (PyExc ''KeyError'')
              | Some w \<Rightarrow> rbind (environment fc state_dir environ w) (\<lambda>env.
                  rbind (local_json_identity (PDict env)) (\<lambda>i. Inr (name, i)))) (fc_verifiers fc)) (\<lambda>env_ids.
     rbind (config_paths fs fc ''acceptance_policies'') (\<lambda>acceptance.
     rbind (contained_path fs fc (policy_value fc ''selection'')) (\<lambda>selection.
     rbind (contained_path fs fc (policy_value fc ''useful_benefit_objective'')) (\<lambda>objective.
     rbind (content_identity fs (fc_root fc) (acceptance @ selection @ objective)) (\<lambda>policy.
       Inr (map_of env_keys, map_of env_ids, map_of (map (\<lambda>(name, _). (name, policy)) (fc_verifiers fc)))))))))"

section \<open>Freeze bindings and changed files\<close>

definition FROZEN_GROUPS :: "(string \<times> string) list" where
  "FROZEN_GROUPS =
     [(''contract_identity'', ''contracts''), (''reference_identity'', ''references''),
      (''evaluator_identity'', ''evaluators''), (''acceptance_policy_identity'', ''acceptance_policies''),
      (''protected_identity'', ''protected'')]"

definition current_freeze_bindings_of :: "filesystem \<Rightarrow> forge_config \<Rightarrow> string \<Rightarrow> forge_record option
    \<Rightarrow> (string \<times> string) list res" where
  "current_freeze_bindings_of fs fc candidate fr =
     rbind (if candidate = [] then identity_of fs fc (candidate_paths fs fc) else Inr candidate) (\<lambda>cid.
     rbind (rmap (\<lambda>(name, k). rbind (identity_of fs fc (config_paths fs fc k)) (\<lambda>i. Inr (name, i)))
              FROZEN_GROUPS) (\<lambda>groups.
     rbind (case map_option (\<lambda>r. rget r ''required_evidence_plan'') fr of
              Some (PStr plan) \<Rightarrow>
                rbind (identity_of fs fc (contained_path fs fc plan)) (\<lambda>i. Inr [(''required_evidence_plan_identity'', i)])
            | _ \<Rightarrow> Inr []) (\<lambda>plan.
       Inr ((''candidate_identity'', cid) # groups @ plan))))"

definition changed_file :: "filesystem \<Rightarrow> forge_config \<Rightarrow> path list \<Rightarrow> path list \<Rightarrow> string \<Rightarrow> (string \<times> string) res" where
  "changed_file fs fc writable protected v =
     rbind (validate_relative_path (PStr v) False) (\<lambda>relative.
     rthen (ensure (\<not> is_within relative protected) ''PROTECTED_MODIFICATION'')
     (rthen (ensure (is_within relative writable) ''WRITE_BOUNDARY'')
     (rbind (resolve_contained fs (fc_root fc) (PStr v) True) (\<lambda>resolved.
      rthen (ensure (fs_is_file fs resolved) ''INVALID_CHANGED_FILE'')
      (rbind (file_identity fs resolved) (\<lambda>i. Inr (v, i)))))))"

definition validate_changed_files :: "filesystem \<Rightarrow> forge_config \<Rightarrow> string list \<Rightarrow> (string \<times> string) list res" where
  "validate_changed_files fs fc changed =
     rbind (relative_scopes fc [''candidates'', ''generated'']) (\<lambda>writable.
     rbind (relative_scopes fc PROTECTED_KEYS) (\<lambda>protected.
       rmap (changed_file fs fc writable protected) (sorted_set changed)))"

section \<open>The observer\<close>

text \<open>
  \<open>plan\<close> is the evidence plan a freeze names; the path sets the services take identities of have the
  names of the observations.
\<close>

definition observed_paths :: "filesystem \<Rightarrow> forge_config \<Rightarrow> string \<Rightarrow> string \<Rightarrow> path list res" where
  "observed_paths fs fc plan k =
     (if k = ''baseline''
      then rbind (candidate_paths fs fc) (\<lambda>cs. rbind (authority_paths fs fc) (\<lambda>as. Inr (cs @ as)))
      else if k = ''objective'' then contained_path fs fc (policy_value fc ''useful_benefit_objective'')
      else if k = ''evidence_plan'' then contained_path fs fc plan
      else config_paths fs fc k)"

definition local_observer :: "filesystem \<Rightarrow> forge_config \<Rightarrow> path \<Rightarrow> (string \<times> string) list \<Rightarrow> string
    \<Rightarrow> project_observer" where
  "local_observer fs fc state_dir environ plan =
     \<lparr>ob_candidate_identity = identity_of fs fc (candidate_paths fs fc),
      ob_authority_identities = rbind (authority_paths fs fc) (identity_map fs (fc_root fc)),
      ob_freeze_bindings = current_freeze_bindings_of fs fc,
      ob_evidence_policy = selection_evidence_policy fs fc,
      ob_evidence_envelopes = evidence_envelopes fs fc state_dir environ,
      ob_content_identity = (\<lambda>k. identity_of fs fc (observed_paths fs fc plan k)),
      ob_visible_identities =
        rbind (paths_of fs fc [''contracts'', ''references'', ''development_evidence'']) (identity_map fs (fc_root fc)),
      ob_changed_files = validate_changed_files fs fc,
      ob_resolve = (\<lambda>v. rbind (contained_path fs fc v) (\<lambda>_. Inr ()))\<rparr>"

definition local_config :: "forge_config \<Rightarrow> string \<Rightarrow> native_adapter option \<Rightarrow> project_config" where
  "local_config fc md adapter =
     \<lparr>cf_mode = md, cf_benefit_objective = policy_value fc ''useful_benefit_objective'',
      cf_selection_policy = policy_value fc ''selection'',
      cf_frozen_path_sets = dict_of (map (\<lambda>k. (k, PList (path_list (fc_paths fc) k)))
        [''candidates'', ''contracts'', ''references'', ''evaluators'', ''protected'']),
      cf_output_cap = output_cap fc, cf_native = adapter\<rparr>"

section \<open>What the observations bind\<close>

text \<open>An accepted change is a file of a writable scope that no protected scope covers.\<close>

lemma changed_file_Inr:
  "changed_file fs fc writable protected v = Inr e \<Longrightarrow>
    \<exists>p resolved b. e = (v, ''sha256:'' @ sha256 b) \<and> validate_relative_path (PStr v) False = Inr p
      \<and> is_within p writable \<and> \<not> is_within p protected
      \<and> resolve_contained fs (fc_root fc) (PStr v) True = Inr resolved \<and> fs_is_file fs resolved
      \<and> fs_bytes fs resolved = Some b"
  by (auto simp: changed_file_def rthen_def rbind_eq_Inr file_identity_Inr)

text \<open>
  The identities of a path set at two moments are equal only when its content is the same.
\<close>

lemma identity_of_binds:
  assumes "identity_of fs fc paths = Inr d" "identity_of fs' fc' paths' = Inr d"
  obtains ps ps' where "paths = Inr ps" "paths' = Inr ps'"
    "tree_content fs (fc_root fc) ps = tree_content fs' (fc_root fc') ps' \<or> (\<exists>x y. collision x y)"
  using assms tree_identity_binds by (auto simp: identity_of_def rbind_eq_Inr)

text \<open>The path sets whose identities a freeze holds, by the field that holds them.\<close>

lemma rmap_mem_left: "rmap f xs = Inr ys \<Longrightarrow> x \<in> set xs \<Longrightarrow> \<exists>y \<in> set ys. f x = Inr y"
  by (induction xs arbitrary: ys) auto

lemma freeze_bindings_Inr:
  assumes "current_freeze_bindings_of fs fc candidate fr = Inr bs" "(name, k) \<in> set FROZEN_GROUPS"
  shows "\<exists>i. identity_of fs fc (config_paths fs fc k) = Inr i \<and> (name, i) \<in> set bs"
proof -
  obtain x groups plan where g: "rmap (\<lambda>(name, k). rbind (identity_of fs fc (config_paths fs fc k)) (\<lambda>i. Inr (name, i)))
      FROZEN_GROUPS = Inr groups" "bs = (''candidate_identity'', x) # groups @ plan"
    using assms(1) unfolding current_freeze_bindings_of_def rbind_eq_Inr sum.inject
    by (elim exE conjE) (rule that, assumption, rule sym, assumption)
  have "\<exists>y \<in> set groups. (case (name, k) of (name, k) \<Rightarrow>
      rbind (identity_of fs fc (config_paths fs fc k)) (\<lambda>i. Inr (name, i))) = Inr y"
    by (rule rmap_mem_left [OF g(1) assms(2)])
  then show ?thesis using g(2) by (auto simp: rbind_eq_Inr)
qed

end
