(* ===== verification/ProjectProperties.thy ===== *)
theory ProjectProperties
  imports EvidenceProperties Observer
begin

text \<open>
  The properties of a local project: what a freeze binds of its files, what a registered change may
  touch, and what a loaded configuration guarantees of its declarations.
\<close>

section \<open>Frozen content\<close>

text \<open>A fresh current candidate has the identity that was observed.\<close>

lemma fresh_candidate:
  "candidate_projection m e = (Some c, st, ''CURRENT'', l, x) \<Longrightarrow> rget c ''candidate_id'' = PStr (current_candidate_identity m)"
  by (auto simp: candidate_projection_def Let_def split: option.splits if_splits prod.splits)

lemma fresh_machine:
  assumes "new_machine a = Inr s" "native a = None" "candidate_freshness (projection s) = ''CURRENT''"
    and "current_candidate (projection s) = Some c"
  shows "rget c ''candidate_id'' = PStr (current_candidate_identity a)"
proof -
  note m = new_machine_compat [OF assms(1,2)]
  obtain cand st fr l x where p: "candidate_projection (prepare_inputs a) (fst (epoch_projection (prepare_inputs a))) = (cand, st, fr, l, x)"
    by (cases "candidate_projection (prepare_inputs a) (fst (epoch_projection (prepare_inputs a)))") auto
  have "fr = ''CURRENT''" "cand = Some c"
    using assms(3,4) p unfolding m(2) base_projection_def Let_def by (auto split: prod.splits)
  then have "rget c ''candidate_id'' = PStr (current_candidate_identity (prepare_inputs a))"
    using fresh_candidate p by blast
  then show ?thesis by (simp add: prepare_inputs_def)
qed

text \<open>The inputs of a lifecycle machine are what was observed.\<close>

lemma machine_observations:
  assumes "lifecycle_machine cf ob obs hist = Inr s" "cf_native cf = None"
  obtains a cid bs where "new_machine a = Inr s" "native a = None" "ob_candidate_identity ob = Inr cid"
    "current_candidate_identity a = cid" "ob_freeze_bindings ob cid (current_freeze_of hist) = Inr bs"
    "current_freeze_bindings a = bs"
  using assms by (auto simp: lifecycle_machine_def lifecycle_inputs_def rbind_eq_Inr split: prod.splits)

definition same_content :: "filesystem \<Rightarrow> filesystem \<Rightarrow> forge_config \<Rightarrow> (filesystem \<Rightarrow> path list res) \<Rightarrow> bool" where
  "same_content fs fs' fc paths =
     (\<exists>ps ps'. paths fs = Inr ps \<and> paths fs' = Inr ps'
        \<and> tree_content fs (fc_root fc) ps = tree_content fs' (fc_root fc) ps')"

lemma same_identity_same_content:
  assumes "identity_of fs fc (paths fs) = Inr d" "identity_of fs' fc (paths fs') = Inr d" "\<not> (\<exists>x y. collision x y)"
  shows "same_content fs fs' fc paths"
  using identity_of_binds [OF assms(1,2)] assms(3) unfolding same_content_def by metis

text \<open>The identities a freeze record holds.\<close>

lemma freeze_fields_hold:
  assumes "freeze_fields ob cf now environ plan cand sel = Inr flds" "new_record jcs FREEZE flds = Inr r"
  shows "rget cand ''candidate_id'' = PStr i \<Longrightarrow> rget r ''candidate_identity'' = PStr i"
    and "(name, k) \<in> set FROZEN_GROUPS \<Longrightarrow> \<exists>i. ob_content_identity ob k = Inr i \<and> rget r name = PStr i"
proof -
  obtain contract reference evaluator acceptance protected plan_identity where
      obs: "ob_content_identity ob ''contracts'' = Inr contract" "ob_content_identity ob ''references'' = Inr reference"
        "ob_content_identity ob ''evaluators'' = Inr evaluator" "ob_content_identity ob ''acceptance_policies'' = Inr acceptance"
        "ob_content_identity ob ''protected'' = Inr protected" "ob_content_identity ob ''evidence_plan'' = Inr plan_identity"
      and flds: "flds = dict_of
         [(''candidate_identity'', rget cand ''candidate_id''), (''contract_identity'', PStr contract),
          (''reference_identity'', PStr reference), (''evaluator_identity'', PStr evaluator),
          (''acceptance_policy_identity'', PStr acceptance), (''protected_identity'', PStr protected),
          (''selection_record'', rget sel ''disposition_id''), (''environment'', PStr environ),
          (''required_evidence_plan'', PStr plan), (''required_evidence_plan_identity'', PStr plan_identity),
          (''frozen_path_sets'', PDict (cf_frozen_path_sets cf)), (''frozen_at'', PStr now)]"
    using assms(1) unfolding freeze_fields_def rbind_eq_Inr
    by (elim exE conjE) (rule that, assumption+, simp only: sum.inject)
  have w: "dict_wf flds" unfolding flds by (rule dict_wf_of)
  have t: "rget r f = PStr x" if "dict_get flds f = PStr x" "f \<noteq> ''freeze_id''" "f \<noteq> ''record_type''" "f \<noteq> ''schema_version''" for f x
    by (rule new_record_text [OF assms(2) that(1), where spec = freeze_spec])
      (simp_all add: freeze_spec_def w that(2-4) that(2) [symmetric])
  show "rget cand ''candidate_id'' = PStr i \<Longrightarrow> rget r ''candidate_identity'' = PStr i"
    by (rule t) (simp_all add: flds dict_get_of)
  have "rget r ''contract_identity'' = PStr contract" "rget r ''reference_identity'' = PStr reference"
    "rget r ''evaluator_identity'' = PStr evaluator" "rget r ''acceptance_policy_identity'' = PStr acceptance"
    "rget r ''protected_identity'' = PStr protected"
    by (rule t; simp add: flds dict_get_of)+
  then have "list_all (\<lambda>p. \<exists>i. ob_content_identity ob (snd p) = Inr i \<and> rget r (fst p) = PStr i) FROZEN_GROUPS"
    by (simp add: FROZEN_GROUPS_def obs)
  then show "\<exists>i. ob_content_identity ob k = Inr i \<and> rget r name = PStr i" if "(name, k) \<in> set FROZEN_GROUPS"
    using that by (force simp: list_all_iff)
qed

lemma observed_group:
  assumes "(name, k) \<in> set FROZEN_GROUPS"
  shows "observed_paths fs fc plan k = config_paths fs fc k"
proof -
  have "list_all (\<lambda>p. observed_paths fs fc plan (snd p) = config_paths fs fc (snd p)) FROZEN_GROUPS"
    by (simp add: FROZEN_GROUPS_def observed_paths_def)
  then show ?thesis using assms by (force simp: list_all_iff)
qed

lemma frozen_group:
  assumes "k \<in> set PROTECTED_KEYS"
  shows "\<exists>name. (name, k) \<in> set FROZEN_GROUPS"
proof -
  have e: "PROTECTED_KEYS = map snd FROZEN_GROUPS" by (simp add: PROTECTED_KEYS_def FROZEN_GROUPS_def)
  show ?thesis using assms unfolding e by auto
qed

lemma frozen_binding:
  assumes "\<not> (\<exists>x y. collision x y)" "rget r ''candidate_identity'' = PStr i" "identity_of fs fc (candidate_paths fs fc) = Inr i"
    and "\<And>name k. (name, k) \<in> set FROZEN_GROUPS \<Longrightarrow> \<exists>i. identity_of fs fc (config_paths fs fc k) = Inr i \<and> rget r name = PStr i"
    and "identity_of fs' fc (candidate_paths fs' fc) = Inr i'"
    and "current_freeze_bindings_of fs' fc i' fr = Inr bs" "\<And>name x. (name, x) \<in> set bs \<Longrightarrow> rget r name = PStr x"
  shows "same_content fs fs' fc (\<lambda>fs. candidate_paths fs fc)
      \<and> (\<forall>k \<in> set PROTECTED_KEYS. same_content fs fs' fc (\<lambda>fs. config_paths fs fc k))"
proof (intro conjI ballI)
  have "(''candidate_identity'', i') \<in> set bs"
    using assms(5,6) by (auto simp: current_freeze_bindings_of_def rbind_eq_Inr split: if_splits)
  then have "i' = i" using assms(2,7) by fastforce
  then show "same_content fs fs' fc (\<lambda>fs. candidate_paths fs fc)"
    using same_identity_same_content [of fs fc "\<lambda>fs. candidate_paths fs fc", OF assms(3)] assms(1,5) by blast
  fix k assume "k \<in> set PROTECTED_KEYS"
  then obtain name where nk: "(name, k) \<in> set FROZEN_GROUPS" using frozen_group by blast
  obtain x where x: "identity_of fs fc (config_paths fs fc k) = Inr x" "rget r name = PStr x" using assms(4) [OF nk] by blast
  obtain y where y: "identity_of fs' fc (config_paths fs' fc k) = Inr y" "(name, y) \<in> set bs"
    using freeze_bindings_Inr [OF assms(6)] nk by blast
  have "y = x" using assms(7) [OF y(2)] x(2) by simp
  then show "same_content fs fs' fc (\<lambda>fs. config_paths fs fc k)"
    using same_identity_same_content [of fs fc "\<lambda>fs. config_paths fs fc k", OF x(1)] y(1) assms(1) by blast
qed

lemma no_drift: "freeze_drift m r = [] \<Longrightarrow> (name, x) \<in> set (current_freeze_bindings m) \<Longrightarrow> rget r name = PStr x"
  by (auto simp: freeze_drift_def filter_empty_conv dest!: arg_cong [where f = length])

lemma freeze_groups_of_fields:
  assumes "freeze_fields (local_observer fs fc st env plan) cf now environ plan cand sel = Inr flds"
    and "new_record jcs FREEZE flds = Inr r" "(name, k) \<in> set FROZEN_GROUPS"
  shows "\<exists>i. identity_of fs fc (config_paths fs fc k) = Inr i \<and> rget r name = PStr i"
  using freeze_fields_hold(2) [OF assms] observed_group [OF assms(3)] by (simp add: local_observer_def)


text \<open>The whole way: from a freeze the service made to an evaluation the machine lets in.\<close>

lemma evaluation_on_frozen_content:
  assumes "freeze_record jcs (local_config fc md None) (local_observer fs fc st env plan) now plan_bytes plan environ cid hist = Inr r"
    and "lifecycle_machine (local_config fc md' None) (local_observer fs' fc st' env' plan') obs hist' = Inr s"
    and "authorize_evaluator_entry s req = Inr (r, c)" "\<not> (\<exists>x y. collision x y)"
  shows "same_content fs fs' fc (\<lambda>fs. candidate_paths fs fc)
      \<and> (\<forall>k \<in> set PROTECTED_KEYS. same_content fs fs' fc (\<lambda>fs. config_paths fs fc k))"
proof -
  let ?ob = "local_observer fs fc st env plan" and ?ob' = "local_observer fs' fc st' env' plan'"
  let ?cf = "local_config fc md None"
  have cf: "cf_native (local_config fc md None) = None" for md by (simp add: local_config_def)
  obtain s0 cand d flds where s0: "lifecycle_machine ?cf ?ob True hist = Inr s0"
      "authorize_candidate_freeze s0 cid (plan_requirements (cf_output_cap ?cf) plan_bytes) = Inr (cand, d)"
      and f: "freeze_fields ?ob ?cf now environ plan cand d = Inr flds" and n: "new_record jcs FREEZE flds = Inr r"
    using assms(1) by (auto simp: freeze_record_def rthen_def rbind_eq_Inr)
  obtain a i where a: "new_machine a = Inr s0" "native a = None" "ob_candidate_identity ?ob = Inr i"
      "current_candidate_identity a = i"
    by (rule machine_observations [OF s0(1) cf])
  note g = authorize_freeze_Inr [OF s0(2)]
  have c: "rget cand ''candidate_id'' = PStr i" using fresh_machine [OF a(1,2) g(5,3)] a(4) by simp
  obtain a' i' bs where a': "new_machine a' = Inr s" "native a' = None" "ob_candidate_identity ?ob' = Inr i'"
      "ob_freeze_bindings ?ob' i' (current_freeze_of hist') = Inr bs" "current_freeze_bindings a' = bs"
    by (rule machine_observations [OF assms(2) cf]) blast
  have b: "current_freeze_bindings (inputs s) = bs"
    unfolding new_machine_compat(1) [OF a'(1,2)] by (simp add: prepare_inputs_def a'(5))
  show ?thesis
  proof (rule frozen_binding [OF assms(4) freeze_fields_hold(1) [OF f n c]])
    show "identity_of fs fc (candidate_paths fs fc) = Inr i" "identity_of fs' fc (candidate_paths fs' fc) = Inr i'"
      "current_freeze_bindings_of fs' fc i' (current_freeze_of hist') = Inr bs"
      using a(3) a'(3,4) by (simp_all add: local_observer_def)
  qed (rule freeze_groups_of_fields [OF f n] no_drift [OF authorize_evaluator_Inr(4) [OF assms(3)], unfolded b], assumption)+
qed

section \<open>A sample project\<close>


definition sample_paths :: "(string \<times> pyval list) list" where
  "sample_paths = map (\<lambda>k. (k, [PStr k])) (WRITABLE_KEYS @ PROTECTED_KEYS)"

definition sample_fc :: forge_config where
  "sample_fc =
     \<lparr>fc_path = [''p'', ''mncs-forge.toml''], fc_root = [''p''], fc_raw = [], fc_paths = sample_paths,
      fc_providers = [], fc_workflows = [], fc_verifiers = []\<rparr>"
















section \<open>Writable and protected files\<close>



text \<open>A configuration with one provider, its workflow and a verifier.\<close>

definition sample_document :: pyval where
  "sample_document =
     PDict (dict_of
       [(''project'', PDict (dict_of [(''name'', PStr ''n''), (''identity'', PStr ''p''), (''root'', PStr ''.'')])),
        (''paths'', PDict (dict_of (map (\<lambda>k. (k, PList [PStr k])) (WRITABLE_KEYS @ PROTECTED_KEYS)))),
        (''limits'', PDict (dict_of [(''timeout_seconds'', PInt 10), (''output_bytes'', PInt 1024)])),
        (''authority'', PDict [(''development'', PDict [(''may_run_providers'', PBool True)])]),
        (''policies'', PDict (dict_of [(''selection'', PStr ''select.json''), (''useful_benefit_objective'', PStr ''goal.md'')])),
        (''workflows'', PList [PDict (dict_of
          [(''name'', PStr ''tests''), (''category'', PStr ''mutation''), (''mode'', PStr ''both''),
           (''command'', PList [PStr ''prove'']), (''provider_protocol'', PBool True), (''provider_id'', PStr ''prover''),
           (''disclosure'', PStr ''status-only'')])]),
        (''providers'', PList [PDict (dict_of
          [(''id'', PStr ''prover''), (''command'', PList [PStr ''prove'']), (''capabilities'', PList [PStr ''smt''])])]),
        (''verifiers'', PList [PDict (dict_of
          [(''id'', PStr ''v1''), (''version'', PStr ''1''), (''workflow'', PStr ''tests''), (''provider'', PStr ''prover''),
           (''method'', PStr ''smt''), (''claim'', PStr ''safe''), (''category'', PStr ''mutation''),
           (''modes'', PList [PStr ''development'']), (''scopes'', PList []), (''input_kinds'', PList []),
           (''cost'', PStr ''low'')])])])"

definition loading_fs :: filesystem where
  "loading_fs =
     \<lparr>fs_resolve = Inr, fs_exists = (\<lambda>_. True), fs_is_file = (\<lambda>p. length p > 2), fs_is_dir = (\<lambda>p. length p \<le> 2),
      fs_is_symlink = (\<lambda>_. False), fs_bytes = (\<lambda>p. if length p > 2 then Some ''x'' else None), fs_rglob = (\<lambda>_. [])\<rparr>"

abbreviation load_sample :: "forge_config res" where
  "load_sample \<equiv> load_config (\<lambda>_. True) loading_fs [''p'', ''mncs-forge.toml''] (\<lambda>_. Inr sample_document)"

definition sample_loaded :: forge_config where
  "sample_loaded = (case load_sample of Inr fc \<Rightarrow> fc | Inl _ \<Rightarrow> sample_fc)"

lemma sample_load: "load_sample = Inr sample_loaded"
proof -
  have "is_Inr load_sample" by code_simp
  then show ?thesis by (auto simp: sample_loaded_def split: sum.splits)
qed



section \<open>Declarations\<close>

text \<open>
  C40: Every verifier of a loaded configuration is authorized by what it refers to: its provider and
  workflow are declared, the workflow speaks the provider protocol and runs that provider's command,
  the method is a capability of the provider, its modes are modes of the workflow (development only
  with the authority to run providers), its category is the workflow's, its timeout does not exceed
  the limit, and it does not disclose more than a status-only workflow. Verifier names are unique, and
  the workflows of the protocol run declared commands.
\<close>

theorem declarations_authorized:
  assumes "load_config schema_ok fs p toml = Inr fc"
  shows "distinct (map fst (fc_verifiers fc))
    \<and> (\<forall>(k, w) \<in> set (fc_workflows fc). workflow_declared (fc_providers fc) w)
    \<and> (\<forall>(k, v) \<in> set (fc_verifiers fc). vf_id v = k
        \<and> verifier_authorized (fc_providers fc) (fc_workflows fc)
            (dict_get (dict_items (dict_get (fc_raw fc) ''limits'')) ''timeout_seconds'')
            (py_true (dict_get (dict_items (dict_get (dict_items (dict_get (fc_raw fc) ''authority'')) ''development''))
              ''may_run_providers'')) v)"
proof -
  have d: "load_declarations fs (fc_root fc) (fc_raw fc) = Inr (fc_workflows fc, fc_providers fc, fc_verifiers fc)"
    by (rule load_config_Inr [OF assms])
  show ?thesis using load_declarations_ok [OF d] by blast
qed

theorem declarations_authorized_witness:
  "\<exists>v. (''v1'', v) \<in> set (fc_verifiers sample_loaded) \<and> vf_id v = ''v1''"
proof -
  have "map fst (fc_verifiers sample_loaded) = [''v1'']" by code_simp
  then obtain v where "(''v1'', v) \<in> set (fc_verifiers sample_loaded)" by (cases "fc_verifiers sample_loaded") auto
  then show ?thesis using declarations_authorized [OF sample_load] by blast
qed

end
