(* ===== verification/Runner.thy ===== *)
theory Runner
  imports Config
begin

text \<open>
  Running one declared command (execution.py, execution_observations.py, ports.py, the local runner of
  adapters.py): the loop that collects two bounded streams, and the observation that is kept of a run.

  The operating system is a script of answers (\<open>process\<close>): whether the program starts, what every
  poll of its two pipes returns, and its exit. A script may stop before the run is over; then there is
  no outcome yet, which is \<open>None\<close>.
\<close>

section \<open>Observations\<close>

record stream_observation =
  so_total :: "nat option"
  so_observed :: nat
  so_retained :: nat
  so_retained_sha256 :: "string option"
  so_complete_sha256 :: "string option"
  so_truncated :: "bool option"
  so_limit_hit :: bool
  so_limit :: "nat option"

record aggregate_output =
  ao_total :: "nat option"
  ao_observed :: nat
  ao_retained :: nat
  ao_limit_hit :: bool
  ao_limit :: "nat option"

record runner_capabilities =
  rk_kind :: string
  rk_version :: string
  rk_os_family :: string
  rk_architecture :: string
  rk_scope :: string
  rk_shell :: string
  rk_timeout :: string
  rk_stdout :: string
  rk_stderr :: string
  rk_group_termination :: string
  rk_sandbox :: string
  rk_network :: string
  rk_filesystem :: string

text \<open>What is known of a run before it starts; the builder and the observation both carry it.\<close>

record run_facts =
  rf_argv :: "string list"
  rf_command_identity :: string
  rf_cwd_identity :: string
  rf_environment_identity :: string
  rf_stdin_identity :: string
  rf_timeout :: pyval
  rf_stdout_limit :: nat
  rf_stderr_limit :: nat
  rf_capabilities :: runner_capabilities
  rf_runner_identity :: string
  rf_runner_version :: string
  rf_executable_identity :: "string option"
  rf_runtime_identity :: "string option"
  rf_worker_identity :: "string option"
  rf_host_identity :: "string option"
  rf_image_identity :: "string option"
  rf_placement_identity :: "string option"
  rf_filesystem_policy :: string
  rf_network_policy :: string
  rf_same_operator :: "bool option"

record execution_observation = run_facts +
  eo_started_at :: "string option"
  eo_ended_at :: "string option"
  eo_duration :: pyval
  eo_returncode :: "int option"
  eo_signal :: "int option"
  eo_termination :: string
  eo_stdout :: stream_observation
  eo_stderr :: stream_observation
  eo_aggregate :: aggregate_output
  eo_error_code :: "string option"

record execution_result =
  er_argv :: "string list"
  er_returncode :: int
  er_stdout :: bytes
  er_stderr :: bytes
  er_duration :: pyval

record execution_session =
  es_observation :: execution_observation
  es_stdout :: bytes
  es_stderr :: bytes
  es_result :: "execution_result option"
  es_error_code :: "string option"

section \<open>Capturing a stream\<close>

text \<open>\<open>sc_digested\<close> is what the running digest has been fed.\<close>

record stream_capture =
  sc_limit :: nat
  sc_observed :: nat
  sc_retained :: bytes
  sc_digested :: bytes
  sc_limit_hit :: bool
  sc_complete :: bool

definition new_capture :: "nat \<Rightarrow> stream_capture" where
  "new_capture limit =
     \<lparr>sc_limit = limit, sc_observed = 0, sc_retained = [], sc_digested = [], sc_limit_hit = False, sc_complete = True\<rparr>"

definition feed_capture :: "bytes \<Rightarrow> stream_capture \<Rightarrow> stream_capture" where
  "feed_capture data s =
     (let observed = sc_observed s + length data;
          remaining = sc_limit s - length (sc_retained s);
          over = observed > sc_limit s
      in s\<lparr>sc_observed := observed,
           sc_digested := (if sc_complete s then sc_digested s @ data else sc_digested s),
           sc_retained := sc_retained s @ take remaining data,
           sc_limit_hit := (over \<or> sc_limit_hit s),
           sc_complete := (\<not> over \<and> sc_complete s)\<rparr>)"

definition mark_capture :: "stream_capture \<Rightarrow> stream_capture" where
  "mark_capture s = s\<lparr>sc_limit_hit := True, sc_complete := False\<rparr>"

definition snapshot :: "bool \<Rightarrow> stream_capture \<Rightarrow> stream_observation" where
  "snapshot complete s =
     (let known = (complete \<and> sc_complete s)
      in \<lparr>so_total = (if known then Some (sc_observed s) else None),
          so_observed = sc_observed s,
          so_retained = length (sc_retained s),
          so_retained_sha256 = (if sc_retained s \<noteq> [] then Some (sha256 (sc_retained s)) else None),
          so_complete_sha256 = (if known \<and> sc_observed s \<noteq> 0 then Some (sha256 (sc_digested s)) else None),
          so_truncated = (if known then Some False else if sc_limit_hit s then Some True else None),
          so_limit_hit = sc_limit_hit s,
          so_limit = Some (sc_limit s)\<rparr>)"

section \<open>The observation builder\<close>

record observation_builder = run_facts +
  ob_stdout :: stream_capture
  ob_stderr :: stream_capture
  ob_started_at :: "string option"
  ob_finished :: "execution_observation option"

definition canonical_sha256 :: "jcs \<Rightarrow> dict \<Rightarrow> string res" where
  "canonical_sha256 jcs d = rbind (jcs d) (\<lambda>bs. Inr (sha256 bs))"

text \<open>What a runner says of itself.\<close>

record runner_profile =
  rp_capabilities :: runner_capabilities
  rp_runner_identity :: string
  rp_runner_version :: string
  rp_executable_identity :: "string option"
  rp_runtime_identity :: "string option"
  rp_worker_identity :: "string option"
  rp_host_identity :: "string option"
  rp_image_identity :: "string option"
  rp_placement_identity :: "string option"
  rp_filesystem_policy :: string
  rp_network_policy :: string
  rp_same_operator :: "bool option"

definition new_builder :: "jcs \<Rightarrow> runner_profile \<Rightarrow> string list \<Rightarrow> string \<Rightarrow> pyval \<Rightarrow> nat \<Rightarrow> nat \<Rightarrow> dict \<Rightarrow> bytes
    \<Rightarrow> observation_builder res" where
  "new_builder jcs p argv cwd timeout out_limit err_limit env stdin =
     rbind (canonical_sha256 jcs (dict_of [(''argv'', PList (map PStr argv))])) (\<lambda>command.
     rbind (canonical_sha256 jcs (dict_of [(''cwd'', PStr cwd)])) (\<lambda>cwd_id.
     rbind (canonical_sha256 jcs (dict_of [(''environment'', PDict env)])) (\<lambda>env_id.
       Inr \<lparr>rf_argv = argv, rf_command_identity = command, rf_cwd_identity = cwd_id,
            rf_environment_identity = env_id, rf_stdin_identity = sha256 stdin, rf_timeout = timeout,
            rf_stdout_limit = out_limit, rf_stderr_limit = err_limit, rf_capabilities = rp_capabilities p,
            rf_runner_identity = rp_runner_identity p, rf_runner_version = rp_runner_version p,
            rf_executable_identity = rp_executable_identity p, rf_runtime_identity = rp_runtime_identity p,
            rf_worker_identity = rp_worker_identity p, rf_host_identity = rp_host_identity p,
            rf_image_identity = rp_image_identity p, rf_placement_identity = rp_placement_identity p,
            rf_filesystem_policy = rp_filesystem_policy p, rf_network_policy = rp_network_policy p,
            rf_same_operator = rp_same_operator p,
            ob_stdout = new_capture out_limit, ob_stderr = new_capture err_limit,
            ob_started_at = None, ob_finished = None\<rparr>)))"

datatype stream = Stdout | Stderr

definition feed :: "stream \<Rightarrow> bytes \<Rightarrow> observation_builder \<Rightarrow> observation_builder" where
  "feed s data b =
     (case s of Stdout \<Rightarrow> b\<lparr>ob_stdout := feed_capture data (ob_stdout b)\<rparr>
              | Stderr \<Rightarrow> b\<lparr>ob_stderr := feed_capture data (ob_stderr b)\<rparr>)"

definition mark_limit :: "stream \<Rightarrow> observation_builder \<Rightarrow> observation_builder" where
  "mark_limit s b =
     (case s of Stdout \<Rightarrow> b\<lparr>ob_stdout := mark_capture (ob_stdout b)\<rparr>
              | Stderr \<Rightarrow> b\<lparr>ob_stderr := mark_capture (ob_stderr b)\<rparr>)"

definition termination_of :: "int \<Rightarrow> string \<times> int option" where
  "termination_of returncode =
     (if returncode = 0 then (''completed'', None)
      else if returncode < 0 then (''signal'', Some (- returncode))
      else (''nonzero-exit'', None))"

definition failure_termination :: "string \<Rightarrow> string" where
  "failure_termination c =
     (if c = ''TIMEOUT'' then ''timeout'' else if c = ''OUTPUT_LIMIT'' then ''output-limit'' else ''internal-runner-error'')"

definition aggregate :: "bool \<Rightarrow> stream_observation \<Rightarrow> stream_observation \<Rightarrow> aggregate_output" where
  "aggregate complete out err =
     \<lparr>ao_total = (case (complete, so_total out, so_total err) of (True, Some x, Some y) \<Rightarrow> Some (x + y) | _ \<Rightarrow> None),
      ao_observed = so_observed out + so_observed err,
      ao_retained = so_retained out + so_retained err,
      ao_limit_hit = (so_limit_hit out \<or> so_limit_hit err),
      ao_limit = None\<rparr>"

definition observe :: "bool \<Rightarrow> observation_builder \<Rightarrow> string \<Rightarrow> pyval \<Rightarrow> int option \<Rightarrow> int option \<Rightarrow> string \<Rightarrow> string option
    \<Rightarrow> observation_builder" where
  "observe complete b ended duration returncode signal category err_code =
     (case ob_finished b of
        Some _ \<Rightarrow> b
      | None \<Rightarrow>
          let out = snapshot complete (ob_stdout b); err = snapshot complete (ob_stderr b)
          in b\<lparr>ob_finished := Some
               \<lparr>rf_argv = rf_argv b, rf_command_identity = rf_command_identity b,
                rf_cwd_identity = rf_cwd_identity b, rf_environment_identity = rf_environment_identity b,
                rf_stdin_identity = rf_stdin_identity b, rf_timeout = rf_timeout b,
                rf_stdout_limit = rf_stdout_limit b, rf_stderr_limit = rf_stderr_limit b,
                rf_capabilities = rf_capabilities b, rf_runner_identity = rf_runner_identity b,
                rf_runner_version = rf_runner_version b, rf_executable_identity = rf_executable_identity b,
                rf_runtime_identity = rf_runtime_identity b, rf_worker_identity = rf_worker_identity b,
                rf_host_identity = rf_host_identity b, rf_image_identity = rf_image_identity b,
                rf_placement_identity = rf_placement_identity b, rf_filesystem_policy = rf_filesystem_policy b,
                rf_network_policy = rf_network_policy b, rf_same_operator = rf_same_operator b,
                eo_started_at = ob_started_at b, eo_ended_at = Some ended, eo_duration = duration,
                eo_returncode = returncode, eo_signal = signal, eo_termination = category,
                eo_stdout = out, eo_stderr = err, eo_aggregate = aggregate complete out err,
                eo_error_code = err_code\<rparr>\<rparr>)"

definition completed_run :: "observation_builder \<Rightarrow> string \<Rightarrow> execution_result \<Rightarrow> observation_builder" where
  "completed_run b ended r =
     (let (category, signal) = termination_of (er_returncode r)
      in observe True b ended (er_duration r) (Some (er_returncode r)) signal category None)"

definition failed_run :: "observation_builder \<Rightarrow> string \<Rightarrow> pyval \<Rightarrow> string \<Rightarrow> observation_builder" where
  "failed_run b ended elapsed c = observe False b ended elapsed None None (failure_termination c) (Some c)"

definition session_of :: "observation_builder \<Rightarrow> execution_result option \<Rightarrow> string option \<Rightarrow> execution_session res" where
  "session_of b result err_code =
     (case ob_finished b of
        None \<Rightarrow> Inl (PyExc ''RuntimeError'')
      | Some o' \<Rightarrow>
          Inr \<lparr>es_observation = o',
               es_stdout = (case result of Some r \<Rightarrow> er_stdout r | None \<Rightarrow> sc_retained (ob_stdout b)),
               es_stderr = (case result of Some r \<Rightarrow> er_stderr r | None \<Rightarrow> sc_retained (ob_stderr b)),
               es_result = result, es_error_code = err_code\<rparr>)"

section \<open>The bounded loop\<close>

text \<open>One poll of the pipes: the deadline has passed, or data can be read; empty data is the end of a stream.\<close>

datatype poll = Expired | Ready "(stream \<times> bytes) list"

record process =
  pr_starts :: bool
  pr_started_at :: string
  pr_polls :: "poll list"
  pr_exit :: "int option"
  pr_ended_at :: string
  pr_elapsed :: pyval

record collector =
  co_open :: "stream list"
  co_stdout :: bytes
  co_stderr :: bytes
  co_builder :: observation_builder

definition chunk :: "stream \<Rightarrow> collector \<Rightarrow> bytes" where
  "chunk s c = (case s of Stdout \<Rightarrow> co_stdout c | Stderr \<Rightarrow> co_stderr c)"

definition extend_chunk :: "stream \<Rightarrow> bytes \<Rightarrow> collector \<Rightarrow> collector" where
  "extend_chunk s data c =
     (let c' = c\<lparr>co_builder := feed s data (co_builder c)\<rparr>
      in case s of Stdout \<Rightarrow> c'\<lparr>co_stdout := co_stdout c @ data\<rparr> | Stderr \<Rightarrow> c'\<lparr>co_stderr := co_stderr c @ data\<rparr>)"

text \<open>The selector reports registered streams only.\<close>

fun collect_events :: "(stream \<Rightarrow> nat) \<Rightarrow> (stream \<times> bytes) list \<Rightarrow> collector \<Rightarrow> unit res \<times> collector" where
  "collect_events caps [] c = (Inr (), c)"
| "collect_events caps ((s, data) # es) c =
     (if s \<notin> set (co_open c) then collect_events caps es c
      else if data = [] then collect_events caps es (c\<lparr>co_open := filter (\<lambda>t. t \<noteq> s) (co_open c)\<rparr>)
      else
        let c' = extend_chunk s data c
        in if length (chunk s c') > caps s
           then (raise ''OUTPUT_LIMIT'', c'\<lparr>co_builder := mark_limit s (co_builder c')\<rparr>)
           else collect_events caps es c')"

fun collect :: "(stream \<Rightarrow> nat) \<Rightarrow> poll list \<Rightarrow> collector \<Rightarrow> (unit res \<times> collector) option" where
  "collect caps ps c =
     (if co_open c = [] then Some (Inr (), c)
      else case ps of
             [] \<Rightarrow> None
           | Expired # _ \<Rightarrow> Some (raise ''TIMEOUT'', c)
           | Ready es # ps' \<Rightarrow>
               (case collect_events caps es c of
                  (Inl e, c') \<Rightarrow> Some (Inl e, c')
                | (Inr _, c') \<Rightarrow> collect caps ps' c'))"

declare collect.simps [simp del]

definition not_positive :: "pyval \<Rightarrow> bool" where
  "not_positive v = (case py_num v of Some x \<Rightarrow> \<not> num_less (0, 0) x | None \<Rightarrow> v = PFloat (PInf True))"

definition validate_limits :: "pyval \<Rightarrow> int \<Rightarrow> int option \<Rightarrow> unit res" where
  "validate_limits timeout out_cap err_cap =
     ensure (\<not> (not_positive timeout \<or> out_cap \<le> 0 \<or> (\<exists>n \<in> set_option err_cap. n \<le> 0))) ''INVALID_LIMIT''"

definition stream_caps :: "int \<Rightarrow> int option \<Rightarrow> stream \<Rightarrow> nat" where
  "stream_caps out_cap err_cap s =
     (case s of Stdout \<Rightarrow> nat out_cap
              | Stderr \<Rightarrow> nat (case err_cap of Some n \<Rightarrow> if n \<noteq> 0 then n else out_cap | None \<Rightarrow> out_cap))"

definition run_bounded :: "pyval \<Rightarrow> pyval \<Rightarrow> int \<Rightarrow> int option \<Rightarrow> process \<Rightarrow> observation_builder
    \<Rightarrow> (execution_result res \<times> observation_builder) option" where
  "run_bounded command timeout out_cap err_cap pr b =
     (case rbind (validate_argv command) (\<lambda>argv. rthen (validate_limits timeout out_cap err_cap) (Inr argv)) of
        Inl e \<Rightarrow> Some (Inl e, b)
      | Inr argv \<Rightarrow>
          if \<not> pr_starts pr then Some (raise ''COMMAND_START'', b)
          else
            (case collect (stream_caps out_cap err_cap) (pr_polls pr)
                    \<lparr>co_open = [Stdout, Stderr], co_stdout = [], co_stderr = [],
                     co_builder = b\<lparr>ob_started_at := Some (pr_started_at pr)\<rparr>\<rparr> of
               None \<Rightarrow> None
             | Some (Inl e, c) \<Rightarrow> Some (Inl e, co_builder c)
             | Some (Inr _, c) \<Rightarrow>
                 Some (case pr_exit pr of
                         None \<Rightarrow> (raise ''TIMEOUT'', co_builder c)
                       | Some rc \<Rightarrow>
                           (Inr \<lparr>er_argv = argv, er_returncode = rc, er_stdout = co_stdout c,
                                 er_stderr = co_stderr c, er_duration = pr_elapsed pr\<rparr>, co_builder c))))"

section \<open>The local runner\<close>

record run_request =
  rq_command :: pyval
  rq_cwd :: string
  rq_timeout :: pyval
  rq_output_cap :: int
  rq_stderr_cap :: "int option"
  rq_environment :: dict
  rq_stdin :: bytes

definition local_capabilities :: "string \<Rightarrow> string \<Rightarrow> bool \<Rightarrow> runner_capabilities" where
  "local_capabilities system machine posix =
     \<lparr>rk_kind = ''local-process'', rk_version = ''1'',
      rk_os_family = (if system = [] then ''unknown'' else system),
      rk_architecture = (if machine = [] then ''unknown'' else machine),
      rk_scope = ''local'', rk_shell = ''disabled'', rk_timeout = ''enforced'', rk_stdout = ''enforced'',
      rk_stderr = ''enforced'', rk_group_termination = (if posix then ''enforced'' else ''not-provided''),
      rk_sandbox = ''not-provided'', rk_network = ''not-provided'', rk_filesystem = ''not-provided''\<rparr>"

text \<open>
  The host, its executables and its Python are arguments; the runner itself claims no worker, image
  or placement.
\<close>

definition local_profile :: "runner_capabilities \<Rightarrow> string \<Rightarrow> string option \<Rightarrow> string \<Rightarrow> string \<Rightarrow> runner_profile" where
  "local_profile capabilities runner_identity executable runtime node =
     \<lparr>rp_capabilities = capabilities, rp_runner_identity = runner_identity, rp_runner_version = ''1'',
      rp_executable_identity = executable, rp_runtime_identity = Some (''runtime.python-'' @ runtime),
      rp_worker_identity = None, rp_host_identity = Some (''host.local-'' @ take 32 (sha256 node)),
      rp_image_identity = None, rp_placement_identity = None,
      rp_filesystem_policy = ''unrestricted-process-workspace'', rp_network_policy = ''ambient-process-network'',
      rp_same_operator = Some True\<rparr>"

definition local_run :: "jcs \<Rightarrow> runner_profile \<Rightarrow> run_request \<Rightarrow> process \<Rightarrow> execution_session res option" where
  "local_run jcs p rq pr =
     (case rbind (validate_argv (rq_command rq)) (\<lambda>argv.
             rthen (validate_limits (rq_timeout rq) (rq_output_cap rq) (rq_stderr_cap rq))
               (new_builder jcs p argv (rq_cwd rq) (rq_timeout rq)
                  (stream_caps (rq_output_cap rq) (rq_stderr_cap rq) Stdout)
                  (stream_caps (rq_output_cap rq) (rq_stderr_cap rq) Stderr)
                  (rq_environment rq) (rq_stdin rq))) of
        Inl e \<Rightarrow> Some (Inl e)
      | Inr b \<Rightarrow>
          (case run_bounded (rq_command rq) (rq_timeout rq) (rq_output_cap rq) (rq_stderr_cap rq) pr b of
             None \<Rightarrow> None
           | Some (Inl (ForgeError c), b') \<Rightarrow>
               Some (session_of (failed_run b' (pr_ended_at pr) (pr_elapsed pr) c) None (Some c))
           | Some (Inl (PyExc n), b') \<Rightarrow> Some (Inl (PyExc n))
           | Some (Inr r, b') \<Rightarrow> Some (session_of (completed_run b' (pr_ended_at pr) r) (Some r) None)))"

end
