(* ===== verification/RunnerFacts.thy ===== *)
theory RunnerFacts
  imports Runner
begin

text \<open>
  What a session says of a run: the retained bytes are those the program wrote, and totals, digests and
  truncation agree with them.
\<close>

section \<open>What a program writes\<close>

fun stream_bytes :: "stream \<Rightarrow> (stream \<times> bytes) list \<Rightarrow> bytes" where
  "stream_bytes s [] = []"
| "stream_bytes s ((t, data) # es) =
     (if t \<noteq> s then stream_bytes s es else if data = [] then [] else data @ stream_bytes s es)"

definition poll_events :: "poll list \<Rightarrow> (stream \<times> bytes) list" where
  "poll_events ps = concat (map (\<lambda>p. case p of Expired \<Rightarrow> [] | Ready es \<Rightarrow> es) ps)"

lemma poll_events_simps [simp]:
  "poll_events [] = []" "poll_events (Expired # ps) = poll_events ps"
  "poll_events (Ready es # ps) = es @ poll_events ps"
  by (simp_all add: poll_events_def)

definition closed :: "stream \<Rightarrow> (stream \<times> bytes) list \<Rightarrow> bool" where
  "closed s es \<longleftrightarrow> (s, []) \<in> set es"

lemma closed_simps [simp]:
  "\<not> closed s []" "closed s (es @ fs) \<longleftrightarrow> closed s es \<or> closed s fs"
  "closed s ((t, data) # es) \<longleftrightarrow> t = s \<and> data = [] \<or> closed s es"
  by (auto simp: closed_def)

lemma stream_bytes_append:
  "stream_bytes s (es @ fs) = stream_bytes s es @ (if closed s es then [] else stream_bytes s fs)"
  by (induction s es rule: stream_bytes.induct) auto

section \<open>Captures\<close>

definition captures :: "nat \<Rightarrow> bytes \<Rightarrow> stream_capture \<Rightarrow> bool" where
  "captures n data c \<longleftrightarrow>
     sc_limit c = n \<and> sc_observed c = length data \<and> sc_retained c = take n data
     \<and> sc_limit_hit c = (length data > n) \<and> sc_complete c = (length data \<le> n)
     \<and> (sc_complete c \<longrightarrow> sc_digested c = data)"

lemma captures_new [simp]: "captures n [] (new_capture n)"
  by (simp add: captures_def new_capture_def)

lemma captures_feed: "captures n data c \<Longrightarrow> captures n (data @ x) (feed_capture x c)"
  by (auto simp: captures_def feed_capture_def Let_def min_def)

lemma captures_mark: "captures n data c \<Longrightarrow> length data > n \<Longrightarrow> captures n data (mark_capture c)"
  by (simp add: captures_def mark_capture_def)

lemma snapshot_complete:
  "captures n data c \<Longrightarrow> length data \<le> n \<Longrightarrow> snapshot True c =
    \<lparr>so_total = Some (length data), so_observed = length data, so_retained = length data,
     so_retained_sha256 = (if data = [] then None else Some (sha256 data)),
     so_complete_sha256 = (if data = [] then None else Some (sha256 data)),
     so_truncated = Some False, so_limit_hit = False, so_limit = Some n\<rparr>"
  by (simp add: captures_def snapshot_def Let_def)

lemma snapshot_partial:
  "captures n data c \<Longrightarrow> so_total (snapshot False c) = None \<and> so_complete_sha256 (snapshot False c) = None
    \<and> so_retained (snapshot False c) = length (take n data) \<and> so_observed (snapshot False c) = length data
    \<and> so_truncated (snapshot False c) = (if length data > n then Some True else None)"
  by (simp add: captures_def snapshot_def Let_def)

section \<open>The collector\<close>

definition capture_of :: "stream \<Rightarrow> observation_builder \<Rightarrow> stream_capture" where
  "capture_of s b = (case s of Stdout \<Rightarrow> ob_stdout b | Stderr \<Rightarrow> ob_stderr b)"

text \<open>The collector after the events \<open>es\<close>, as far as it has read them.\<close>

definition tracks :: "(stream \<Rightarrow> nat) \<Rightarrow> (stream \<times> bytes) list \<Rightarrow> collector \<Rightarrow> bool" where
  "tracks caps es c \<longleftrightarrow>
     ob_finished (co_builder c) = None \<and>
     (\<forall>s. chunk s c = stream_bytes s es \<and> (s \<in> set (co_open c) \<longleftrightarrow> \<not> closed s es)
        \<and> captures (caps s) (stream_bytes s es) (capture_of s (co_builder c)))"

lemma stream_all: "(\<forall>s. P s) \<longleftrightarrow> P Stdout \<and> P Stderr"
  by (metis stream.exhaust)

lemma stream_ex: "(\<exists>s. P s) \<longleftrightarrow> P Stdout \<or> P Stderr"
  by (metis stream.exhaust)

lemma extend_chunk_simps:
  "chunk t (extend_chunk s data c) = (if t = s then chunk s c @ data else chunk t c)"
  "co_open (extend_chunk s data c) = co_open c"
  "capture_of t (co_builder (extend_chunk s data c))
     = (if t = s then feed_capture data (capture_of s (co_builder c)) else capture_of t (co_builder c))"
  "ob_finished (co_builder (extend_chunk s data c)) = ob_finished (co_builder c)"
  by (cases s; cases t; simp add: extend_chunk_def chunk_def feed_def capture_of_def Let_def)+

lemma mark_simps:
  "capture_of t (mark_limit s b) = (if t = s then mark_capture (capture_of s b) else capture_of t b)"
  "ob_finished (mark_limit s b) = ob_finished b"
  by (cases s; cases t; simp add: mark_limit_def capture_of_def)+

lemma chunk_update [simp]:
  "chunk s (c\<lparr>co_builder := b\<rparr>) = chunk s c" "chunk s (c\<lparr>co_open := xs\<rparr>) = chunk s c"
  by (simp_all add: chunk_def split: stream.splits)

lemma tracks_skip:
  "tracks caps es c \<Longrightarrow> s \<notin> set (co_open c) \<Longrightarrow> tracks caps (es @ [(s, data)]) c"
  by (auto simp: tracks_def stream_bytes_append)

lemma tracks_close:
  "tracks caps es c \<Longrightarrow> tracks caps (es @ [(s, [])]) (c\<lparr>co_open := filter (\<lambda>t. t \<noteq> s) (co_open c)\<rparr>)"
  by (auto simp: tracks_def stream_bytes_append)

lemma tracks_extend:
  "tracks caps es c \<Longrightarrow> s \<in> set (co_open c) \<Longrightarrow> data \<noteq> [] \<Longrightarrow> tracks caps (es @ [(s, data)]) (extend_chunk s data c)"
  by (auto simp: tracks_def stream_bytes_append extend_chunk_simps captures_feed)

lemma tracks_mark:
  "tracks caps es c \<Longrightarrow> length (chunk s c) > caps s \<Longrightarrow> tracks caps es (c\<lparr>co_builder := mark_limit s (co_builder c)\<rparr>)"
  by (auto simp: tracks_def mark_simps captures_mark)

definition within_caps :: "(stream \<Rightarrow> nat) \<Rightarrow> collector \<Rightarrow> bool" where
  "within_caps caps c \<longleftrightarrow> (\<forall>s. length (chunk s c) \<le> caps s)"

lemma collect_events_tracks:
  assumes "tracks caps es0 c" "within_caps caps c" "collect_events caps es c = (r, c')"
  shows "r = Inr () \<and> tracks caps (es0 @ es) c' \<and> within_caps caps c'
    \<or> r = raise ''OUTPUT_LIMIT'' \<and> (\<exists>es1 es2. es = es1 @ es2 \<and> tracks caps (es0 @ es1) c') \<and> \<not> within_caps caps c'"
  using assms
proof (induction caps es c arbitrary: es0 rule: collect_events.induct)
  case (2 caps s data es c)
  let ?e = "(s, data)" and ?c = "extend_chunk s data c"
  have lift: ?case
    if "r = Inr () \<and> tracks caps ((es0 @ [?e]) @ es) c' \<and> within_caps caps c'
      \<or> r = raise ''OUTPUT_LIMIT'' \<and> (\<exists>es1 es2. es = es1 @ es2 \<and> tracks caps ((es0 @ [?e]) @ es1) c') \<and> \<not> within_caps caps c'"
    using that
  proof (elim disjE conjE exE)
    fix es1 es2
    assume "r = raise ''OUTPUT_LIMIT''" "es = es1 @ es2" "tracks caps ((es0 @ [?e]) @ es1) c'" "\<not> within_caps caps c'"
    then show ?case by (intro disjI2 conjI exI [of _ "?e # es1"] exI [of _ es2]) simp_all
  qed simp
  consider (skip) "s \<notin> set (co_open c)" | (close) "s \<in> set (co_open c)" "data = []"
    | (over) "s \<in> set (co_open c)" "data \<noteq> []" "length (chunk s ?c) > caps s"
    | (more) "s \<in> set (co_open c)" "data \<noteq> []" "\<not> length (chunk s ?c) > caps s" by blast
  then show ?case
  proof cases
    case skip
    have e: "collect_events caps es c = (r, c')" using skip 2(6) by (simp only: collect_events.simps simp_thms if_True)
    show ?thesis by (rule lift [OF 2(1) [OF skip tracks_skip [OF 2(4) skip] 2(5) e]])
  next
    case close
    let ?d = "c\<lparr>co_open := filter (\<lambda>t. t \<noteq> s) (co_open c)\<rparr>"
    have n: "\<not> s \<notin> set (co_open c)" using close(1) by blast
    have e: "collect_events caps es ?d = (r, c')" using close 2(6) by (simp only: collect_events.simps simp_thms if_True if_False)
    have w: "within_caps caps ?d" using 2(5) by (simp add: within_caps_def)
    have t: "tracks caps (es0 @ [?e]) ?d" using tracks_close [OF 2(4)] close(2) by simp
    show ?thesis by (rule lift [OF 2(2) [OF n close(2) t w e]])
  next
    case over
    have t: "tracks caps (es0 @ [?e]) ?c" by (rule tracks_extend [OF 2(4) over(1,2)])
    have r: "(raise ''OUTPUT_LIMIT'', ?c\<lparr>co_builder := mark_limit s (co_builder ?c)\<rparr>) = (r, c')"
      using over 2(6) by (simp only: collect_events.simps simp_thms if_True if_False Let_def)
    have "tracks caps (es0 @ [?e]) (?c\<lparr>co_builder := mark_limit s (co_builder ?c)\<rparr>)"
      by (rule tracks_mark [OF t over(3)])
    moreover have "\<not> within_caps caps (?c\<lparr>co_builder := mark_limit s (co_builder ?c)\<rparr>)"
      using over(3) by (auto simp: within_caps_def not_le)
    moreover have "?e # es = [?e] @ es" by simp
    ultimately show ?thesis using r by blast
  next
    case more
    have n: "\<not> s \<notin> set (co_open c)" using more(1) by blast
    have e: "collect_events caps es ?c = (r, c')"
      using more 2(6) by (simp only: collect_events.simps simp_thms if_True if_False Let_def)
    have w: "within_caps caps ?c" using more(3) 2(5) by (simp add: within_caps_def extend_chunk_simps)
    show ?thesis by (rule lift [OF 2(3) [OF n more(2) refl more(3) tracks_extend [OF 2(4) more(1,2)] w e]])
  qed
qed (auto simp: within_caps_def)

lemma collect_tracks:
  assumes "tracks caps es0 c" "within_caps caps c" "collect caps ps c = Some (r, c')"
  shows "\<exists>es es'. poll_events ps = es @ es' \<and> tracks caps (es0 @ es) c'
    \<and> (r = Inr () \<and> co_open c' = [] \<and> within_caps caps c' \<or> r = raise ''TIMEOUT'' \<and> within_caps caps c'
       \<or> r = raise ''OUTPUT_LIMIT'' \<and> \<not> within_caps caps c')"
  using assms
proof (induction caps ps c arbitrary: es0 rule: collect.induct)
  case (1 caps ps c)
  show ?case
  proof (cases "co_open c = []")
    case True
    then have "r = Inr () \<and> c' = c" using 1(4) by (simp add: collect.simps [of caps ps c])
    with True 1(2,3) show ?thesis by (intro exI [of _ "[]"] exI [of _ "poll_events ps"]) simp
  next
    case False
    note s = 1(4) [unfolded collect.simps [of caps ps c] if_not_P [OF False]]
    then obtain p ps' where ps: "ps = p # ps'" by (cases ps) auto
    show ?thesis
    proof (cases p)
      case Expired
      with s ps have "r = raise ''TIMEOUT''" "c' = c" by simp_all
      with 1(2,3) show ?thesis by (intro exI [of _ "[]"] exI [of _ "poll_events ps"]) simp
    next
      case (Ready es)
      obtain q d where q: "collect_events caps es c = (q, d)" by (cases "collect_events caps es c")
      note e = collect_events_tracks [OF 1(2,3) q]
      show ?thesis
      proof (cases q)
        case (Inl x)
        then have "r = q" "c' = d" using s ps Ready q by simp_all
        then show ?thesis using e Inl ps Ready by fastforce
      next
        case (Inr u)
        then have d: "tracks caps (es0 @ es) d" "within_caps caps d" using e by auto
        have "collect caps ps' d = Some (r, c')" using s ps Ready q Inr by simp
        from 1(1) [OF False ps Ready _ Inr d this] q obtain fs fs' where
          "poll_events ps' = fs @ fs'" "tracks caps ((es0 @ es) @ fs) c'"
          "r = Inr () \<and> co_open c' = [] \<and> within_caps caps c' \<or> r = raise ''TIMEOUT'' \<and> within_caps caps c'
             \<or> r = raise ''OUTPUT_LIMIT'' \<and> \<not> within_caps caps c'"
          by fastforce
        then show ?thesis using ps Ready by (intro exI [of _ "es @ fs"] exI [of _ fs']) simp
      qed
    qed
  qed
qed

text \<open>The loop ends: at the latest when the deadline passes.\<close>

lemma collect_ends: "Expired \<in> set ps \<Longrightarrow> \<exists>r. collect caps ps c = Some r"
proof (induction ps arbitrary: c)
  case (Cons p ps)
  then show ?case
    by (subst collect.simps) (auto split: poll.splits prod.splits sum.splits)
qed simp

section \<open>The session of a run\<close>

definition session_bytes :: "stream \<Rightarrow> execution_session \<Rightarrow> bytes" where
  "session_bytes s e = (case s of Stdout \<Rightarrow> es_stdout e | Stderr \<Rightarrow> es_stderr e)"

definition session_stream :: "stream \<Rightarrow> execution_session \<Rightarrow> stream_observation" where
  "session_stream s e = (case s of Stdout \<Rightarrow> eo_stdout (es_observation e) | Stderr \<Rightarrow> eo_stderr (es_observation e))"

definition written :: "stream \<Rightarrow> process \<Rightarrow> bytes" where
  "written s pr = stream_bytes s (poll_events (pr_polls pr))"

definition caps_of :: "run_request \<Rightarrow> stream \<Rightarrow> nat" where
  "caps_of rq = stream_caps (rq_output_cap rq) (rq_stderr_cap rq)"

lemma stream_bytes_closed: "closed s es \<Longrightarrow> stream_bytes s (es @ fs) = stream_bytes s es"
  by (simp add: stream_bytes_append)

lemma stream_bytes_prefix: "prefix (stream_bytes s es) (stream_bytes s (es @ fs))"
  by (simp add: stream_bytes_append)

text \<open>A fresh builder captures nothing.\<close>

lemma new_builder_fresh:
  assumes "new_builder jcs p argv cwd timeout n m env stdin = Inr b"
  shows "ob_finished b = None \<and> ob_stdout b = new_capture n \<and> ob_stderr b = new_capture m \<and> ob_started_at b = None"
  using assms by (auto simp: new_builder_def)

lemma new_builder_facts:
  assumes "new_builder jcs p argv cwd timeout n m env stdin = Inr b"
  shows "rf_capabilities b = rp_capabilities p" "rf_image_identity b = rp_image_identity p"
    "rf_argv b = argv" "rf_stdin_identity b = sha256 stdin" "rf_same_operator b = rp_same_operator p"
  using assms by (auto simp: new_builder_def)

lemma observe_finished:
  "ob_finished b = None \<Longrightarrow> \<exists>ob. ob_finished (observe complete b ended d rc sg cat err) = Some ob
    \<and> eo_stdout ob = snapshot complete (ob_stdout b) \<and> eo_stderr ob = snapshot complete (ob_stderr b)
    \<and> eo_aggregate ob = aggregate complete (eo_stdout ob) (eo_stderr ob) \<and> eo_returncode ob = rc \<and> eo_signal ob = sg
    \<and> eo_termination ob = cat \<and> eo_error_code ob = err \<and> eo_started_at ob = ob_started_at b \<and> eo_ended_at ob = Some ended
    \<and> eo_duration ob = d \<and> ob_stdout (observe complete b ended d rc sg cat err) = ob_stdout b
    \<and> ob_stderr (observe complete b ended d rc sg cat err) = ob_stderr b"
  by (simp add: observe_def Let_def)

lemma start_tracks:
  assumes "ob_finished b = None" "ob_stdout b = new_capture (caps Stdout)" "ob_stderr b = new_capture (caps Stderr)"
  shows "tracks caps [] \<lparr>co_open = [Stdout, Stderr], co_stdout = [], co_stderr = [],
      co_builder = b\<lparr>ob_started_at := x\<rparr>\<rparr>"
    and "within_caps caps \<lparr>co_open = [Stdout, Stderr], co_stdout = [], co_stderr = [],
      co_builder = b\<lparr>ob_started_at := x\<rparr>\<rparr>"
  using assms by (auto simp: tracks_def within_caps_def stream_all chunk_def capture_of_def)

text \<open>How a run of an accepted request ends.\<close>

definition reads :: "run_request \<Rightarrow> process \<Rightarrow> (stream \<times> bytes) list \<Rightarrow> observation_builder \<Rightarrow> bool" where
  "reads rq pr es b \<longleftrightarrow> (\<exists>es'. poll_events (pr_polls pr) = es @ es') \<and> ob_finished b = None
     \<and> (\<forall>s. captures (caps_of rq s) (stream_bytes s es) (capture_of s b))"

lemma run_bounded_reads:
  assumes "run_bounded (rq_command rq) (rq_timeout rq) (rq_output_cap rq) (rq_stderr_cap rq) pr b = Some (r, b')"
    and "rbind (validate_argv (rq_command rq)) (\<lambda>argv.
      rthen (validate_limits (rq_timeout rq) (rq_output_cap rq) (rq_stderr_cap rq)) (Inr argv)) = Inr argv"
    and "ob_finished b = None" "ob_stdout b = new_capture (caps_of rq Stdout)" "ob_stderr b = new_capture (caps_of rq Stderr)"
  shows "(\<exists>es. reads rq pr es b' \<and>
    (case r of
       Inr x \<Rightarrow> pr_exit pr = Some (er_returncode x) \<and> er_stdout x = written Stdout pr \<and> er_stderr x = written Stderr pr
         \<and> (\<forall>s. stream_bytes s es = written s pr) \<and> (\<forall>s. length (written s pr) \<le> caps_of rq s)
         \<and> er_argv x = argv \<and> er_duration x = pr_elapsed pr
     | Inl e \<Rightarrow> e = ForgeError ''COMMAND_START'' \<and> \<not> pr_starts pr \<and> es = []
         \<or> e = ForgeError ''TIMEOUT'' \<and> (\<forall>s. length (stream_bytes s es) \<le> caps_of rq s)
         \<or> e = ForgeError ''OUTPUT_LIMIT'' \<and> (\<exists>s. length (stream_bytes s es) > caps_of rq s)))"
proof (cases "pr_starts pr")
  case False
  then have "r = raise ''COMMAND_START''" "b' = b" using assms(1,2) by (simp_all add: run_bounded_def)
  then show ?thesis using assms(3-5) False
    by (intro exI [of _ "[]"]) (simp add: reads_def capture_of_def split: stream.splits)
next
  case True
  let ?caps = "caps_of rq"
  let ?c = "\<lparr>co_open = [Stdout, Stderr], co_stdout = [], co_stderr = [],
      co_builder = b\<lparr>ob_started_at := Some (pr_started_at pr)\<rparr>\<rparr>"
  obtain q c where q: "collect ?caps (pr_polls pr) ?c = Some (q, c)"
    using assms(1,2) True by (auto simp: run_bounded_def caps_of_def split: option.splits)
  obtain es es' where e: "poll_events (pr_polls pr) = es @ es'" "tracks ?caps es c"
      "q = Inr () \<and> co_open c = [] \<and> within_caps ?caps c \<or> q = raise ''TIMEOUT'' \<and> within_caps ?caps c
        \<or> q = raise ''OUTPUT_LIMIT'' \<and> \<not> within_caps ?caps c"
    using collect_tracks [OF start_tracks [OF assms(3-5)] q] by auto
  have rd: "reads rq pr es (co_builder c)" using e(1,2) by (auto simp: reads_def tracks_def)
  have ch: "chunk s c = stream_bytes s es" for s using e(2) by (simp add: tracks_def)
  have res: "(r, b') = (case q of
       Inl x \<Rightarrow> (Inl x, co_builder c)
     | Inr _ \<Rightarrow> (case pr_exit pr of None \<Rightarrow> (raise ''TIMEOUT'', co_builder c)
               | Some rc \<Rightarrow> (Inr \<lparr>er_argv = argv, er_returncode = rc, er_stdout = co_stdout c, er_stderr = co_stderr c,
                   er_duration = pr_elapsed pr\<rparr>, co_builder c)))"
    using assms(1,2) True q by (auto simp: run_bounded_def caps_of_def split: sum.splits option.splits)
  have w: "(\<forall>s. length (stream_bytes s es) \<le> ?caps s) \<longleftrightarrow> within_caps ?caps c" by (simp add: within_caps_def ch)
  show ?thesis
  proof (cases "q = Inr ()")
    case True
    then have o: "co_open c = []" "within_caps ?caps c" using e(3) by auto
    have cl: "closed s es" for s using e(2) o(1) by (simp add: tracks_def)
    have wr: "stream_bytes s es = written s pr" for s
      using stream_bytes_closed [OF cl [of s], of es'] by (simp add: written_def e(1))
    have out: "co_stdout c = written Stdout pr" "co_stderr c = written Stderr pr"
      using ch [of Stdout] ch [of Stderr] wr by (simp_all add: chunk_def)
    have "length (written s pr) \<le> ?caps s" for s using o(2) w wr by metis
    then show ?thesis using res True rd out wr w o(2)
      by (intro exI [of _ es]) (auto split: option.splits)
  next
    case False
    then show ?thesis using res e(3) rd w by (intro exI [of _ es]) (auto simp: not_le)
  qed
qed

text \<open>A session comes from a builder and a bounded run.\<close>

lemma local_runE:
  assumes "local_run jcs p rq pr = Some (Inr e)"
  obtains argv b where
      "rbind (validate_argv (rq_command rq)) (\<lambda>argv.
         rthen (validate_limits (rq_timeout rq) (rq_output_cap rq) (rq_stderr_cap rq)) (Inr argv)) = Inr argv"
      "new_builder jcs p argv (rq_cwd rq) (rq_timeout rq) (caps_of rq Stdout) (caps_of rq Stderr) (rq_environment rq) (rq_stdin rq) = Inr b"
      "(case run_bounded (rq_command rq) (rq_timeout rq) (rq_output_cap rq) (rq_stderr_cap rq) pr b of
             None \<Rightarrow> None
           | Some (Inl (ForgeError c), b') \<Rightarrow>
               Some (session_of (failed_run b' (pr_ended_at pr) (pr_elapsed pr) c) None (Some c))
           | Some (Inl (PyExc n), b') \<Rightarrow> Some (Inl (PyExc n))
           | Some (Inr r, b') \<Rightarrow> Some (session_of (completed_run b' (pr_ended_at pr) r) (Some r) None)) = Some (Inr e)"
  using assms unfolding local_run_def caps_of_def
  by (cases "validate_argv (rq_command rq)"; cases "validate_limits (rq_timeout rq) (rq_output_cap rq) (rq_stderr_cap rq)")
    (auto split: sum.splits)

text \<open>What a session establishes of what the program wrote.\<close>

lemma session_observed:
  assumes "local_run jcs p rq pr = Some (Inr e)"
  shows "case es_result e of
     Some r \<Rightarrow> es_error_code e = None \<and> pr_exit pr = Some (er_returncode r)
       \<and> er_stdout r = es_stdout e \<and> er_stderr r = es_stderr e
       \<and> (\<forall>s. session_bytes s e = written s pr \<and> length (written s pr) \<le> caps_of rq s
            \<and> so_total (session_stream s e) = Some (length (written s pr)) \<and> so_truncated (session_stream s e) = Some False
            \<and> so_complete_sha256 (session_stream s e) = (if written s pr = [] then None else Some (sha256 (written s pr))))
   | None \<Rightarrow> (\<exists>c. es_error_code e = Some c \<and> c \<in> {''COMMAND_START'', ''TIMEOUT'', ''OUTPUT_LIMIT''}
       \<and> (\<exists>seen. (\<forall>s. prefix (seen s) (written s pr) \<and> session_bytes s e = take (caps_of rq s) (seen s)
            \<and> so_observed (session_stream s e) = length (seen s)
            \<and> so_total (session_stream s e) = None \<and> so_complete_sha256 (session_stream s e) = None
            \<and> so_truncated (session_stream s e) = (if length (seen s) > caps_of rq s then Some True else None))
          \<and> (c = ''OUTPUT_LIMIT'' \<longleftrightarrow> (\<exists>s. length (seen s) > caps_of rq s))))"
proof -
  let ?pre = "rbind (validate_argv (rq_command rq)) (\<lambda>argv.
      rthen (validate_limits (rq_timeout rq) (rq_output_cap rq) (rq_stderr_cap rq)) (Inr argv))"
  obtain argv b where b: "?pre = Inr argv"
      "new_builder jcs p argv (rq_cwd rq) (rq_timeout rq) (caps_of rq Stdout) (caps_of rq Stderr) (rq_environment rq) (rq_stdin rq) = Inr b"
      "(case run_bounded (rq_command rq) (rq_timeout rq) (rq_output_cap rq) (rq_stderr_cap rq) pr b of
             None \<Rightarrow> None
           | Some (Inl (ForgeError c), b') \<Rightarrow>
               Some (session_of (failed_run b' (pr_ended_at pr) (pr_elapsed pr) c) None (Some c))
           | Some (Inl (PyExc n), b') \<Rightarrow> Some (Inl (PyExc n))
           | Some (Inr r, b') \<Rightarrow> Some (session_of (completed_run b' (pr_ended_at pr) r) (Some r) None)) = Some (Inr e)"
    using assms by (rule local_runE)
  obtain r b' where r: "run_bounded (rq_command rq) (rq_timeout rq) (rq_output_cap rq) (rq_stderr_cap rq) pr b = Some (r, b')"
    using b(3) by (auto split: option.splits)
  have fresh: "ob_finished b = None" "ob_stdout b = new_capture (caps_of rq Stdout)" "ob_stderr b = new_capture (caps_of rq Stderr)"
    using new_builder_fresh [OF b(2)] by simp_all
  obtain es where es: "reads rq pr es b'" and
    c: "case r of
       Inr x \<Rightarrow> pr_exit pr = Some (er_returncode x) \<and> er_stdout x = written Stdout pr \<and> er_stderr x = written Stderr pr
         \<and> (\<forall>s. stream_bytes s es = written s pr) \<and> (\<forall>s. length (written s pr) \<le> caps_of rq s)
         \<and> er_argv x = argv \<and> er_duration x = pr_elapsed pr
     | Inl e \<Rightarrow> e = ForgeError ''COMMAND_START'' \<and> \<not> pr_starts pr \<and> es = []
         \<or> e = ForgeError ''TIMEOUT'' \<and> (\<forall>s. length (stream_bytes s es) \<le> caps_of rq s)
         \<or> e = ForgeError ''OUTPUT_LIMIT'' \<and> (\<exists>s. length (stream_bytes s es) > caps_of rq s)"
    using run_bounded_reads [OF r b(1) fresh(1-3)] by (elim exE conjE)
  have cap: "captures (caps_of rq s) (stream_bytes s es) (capture_of s b')" for s using es by (simp add: reads_def)
  have fin: "ob_finished b' = None" using es by (simp add: reads_def)
  show ?thesis
  proof (cases r)
    case (Inr x)
    obtain cat sg where t: "termination_of (er_returncode x) = (cat, sg)" by (cases "termination_of (er_returncode x)")
    have s: "session_of (completed_run b' (pr_ended_at pr) x) (Some x) None = Inr e" using b(3) r Inr by simp
    note ob = observe_finished [OF fin, of True "pr_ended_at pr" "er_duration x" "Some (er_returncode x)" sg cat None]
    have e: "es_result e = Some x" "es_error_code e = None" "es_stdout e = er_stdout x" "es_stderr e = er_stderr x"
      "eo_stdout (es_observation e) = snapshot True (ob_stdout b')" "eo_stderr (es_observation e) = snapshot True (ob_stderr b')"
      using s ob by (auto simp: session_of_def completed_run_def t split: option.splits)
    have snap: "session_stream s e = snapshot True (capture_of s b')" for s
      by (cases s) (simp_all add: session_stream_def capture_of_def e)
    have sb: "session_bytes s e = written s pr" for s
      using c Inr by (cases s) (simp_all add: session_bytes_def e)
    have "session_stream s e = \<lparr>so_total = Some (length (written s pr)), so_observed = length (written s pr),
       so_retained = length (written s pr),
       so_retained_sha256 = (if written s pr = [] then None else Some (sha256 (written s pr))),
       so_complete_sha256 = (if written s pr = [] then None else Some (sha256 (written s pr))),
       so_truncated = Some False, so_limit_hit = False, so_limit = Some (caps_of rq s)\<rparr>" for s
      unfolding snap by (rule snapshot_complete) (use cap [of s] c Inr in auto)
    then show ?thesis using c Inr e by (simp add: sb)
  next
    case (Inl x)
    then obtain n where n: "x = ForgeError n" "n \<in> {''COMMAND_START'', ''TIMEOUT'', ''OUTPUT_LIMIT''}" using c by auto
    have s: "session_of (failed_run b' (pr_ended_at pr) (pr_elapsed pr) n) None (Some n) = Inr e"
      using b(3) r Inl n by simp
    note ob = observe_finished [OF fin, of False "pr_ended_at pr" "pr_elapsed pr" None None "failure_termination n" "Some n"]
    have e: "es_result e = None" "es_error_code e = Some n"
      "es_stdout e = sc_retained (ob_stdout b')" "es_stderr e = sc_retained (ob_stderr b')"
      "eo_stdout (es_observation e) = snapshot False (ob_stdout b')" "eo_stderr (es_observation e) = snapshot False (ob_stderr b')"
      using s ob by (auto simp: session_of_def failed_run_def split: option.splits)
    have snap: "session_stream s e = snapshot False (capture_of s b')" for s
      by (cases s) (simp_all add: session_stream_def capture_of_def e)
    have sb: "session_bytes s e = sc_retained (capture_of s b')" for s
      by (cases s) (simp_all add: session_bytes_def capture_of_def e)
    have one: "prefix (stream_bytes s es) (written s pr) \<and> session_bytes s e = take (caps_of rq s) (stream_bytes s es)
            \<and> so_observed (session_stream s e) = length (stream_bytes s es)
            \<and> so_total (session_stream s e) = None \<and> so_complete_sha256 (session_stream s e) = None
            \<and> so_truncated (session_stream s e) = (if length (stream_bytes s es) > caps_of rq s then Some True else None)" for s
    proof -
      have "prefix (stream_bytes s es) (written s pr)"
        using es stream_bytes_prefix by (auto simp: reads_def written_def)
      moreover have "session_bytes s e = take (caps_of rq s) (stream_bytes s es)"
        using cap [of s] by (simp add: sb captures_def)
      ultimately show ?thesis using snapshot_partial [OF cap [of s]] by (simp add: snap)
    qed
    have lim: "n = ''OUTPUT_LIMIT'' \<longleftrightarrow> (\<exists>s. length (stream_bytes s es) > caps_of rq s)"
      using c Inl n by (auto simp: not_le [symmetric])
    show ?thesis using e(1,2) n(2) one lim by (simp, intro exI [of _ "\<lambda>s. stream_bytes s es"]) simp
  qed
qed

section \<open>What a session says of its runner\<close>

lemma feed_facts [simp]: "run_facts.truncate (feed s data b) = run_facts.truncate b"
  by (cases s) (simp_all add: feed_def run_facts.truncate_def)

lemma mark_facts [simp]: "run_facts.truncate (mark_limit s b) = run_facts.truncate b"
  by (cases s) (simp_all add: mark_limit_def run_facts.truncate_def)

lemma extend_builder [simp]: "co_builder (extend_chunk s data c) = feed s data (co_builder c)"
  by (cases s) (simp_all add: extend_chunk_def Let_def)

lemma collect_events_facts:
  "collect_events caps es c = (r, c') \<Longrightarrow> run_facts.truncate (co_builder c') = run_facts.truncate (co_builder c)"
  by (induction caps es c rule: collect_events.induct) (auto simp: Let_def split: if_splits)

lemma collect_facts:
  "collect caps ps c = Some (r, c') \<Longrightarrow> run_facts.truncate (co_builder c') = run_facts.truncate (co_builder c)"
proof (induction caps ps c rule: collect.induct)
  case (1 caps ps c)
  show ?case
  proof (cases "co_open c = []")
    case True
    then show ?thesis using "1.prems" by (simp add: collect.simps)
  next
    case False
    show ?thesis
    proof (cases ps)
      case Nil
      then show ?thesis using "1.prems" False by (simp add: collect.simps)
    next
      case (Cons p ps')
      show ?thesis
      proof (cases p)
        case Expired
        then show ?thesis using "1.prems" False Cons by (simp add: collect.simps)
      next
        case (Ready es)
        obtain q d where q: "collect_events caps es c = (q, d)" by (cases "collect_events caps es c")
        have f: "run_facts.truncate (co_builder d) = run_facts.truncate (co_builder c)" by (rule collect_events_facts [OF q])
        show ?thesis
        proof (cases q)
          case (Inl e)
          then show ?thesis using "1.prems" False Cons Ready q f by (simp add: collect.simps)
        next
          case (Inr u)
          have "collect caps ps' d = Some (r, c')" using "1.prems" False Cons Ready q Inr by (simp add: collect.simps)
          from "1.IH" [OF False Cons Ready q [symmetric] Inr this] f show ?thesis by simp
        qed
      qed
    qed
  qed
qed

lemma run_bounded_facts:
  assumes "run_bounded command timeout out_cap err_cap pr b = Some (r, b')"
  shows "run_facts.truncate b' = run_facts.truncate b"
  using assms
  by (auto simp: run_bounded_def run_facts.truncate_def split: sum.splits if_splits option.splits prod.splits
      dest!: collect_facts)

text \<open>Capabilities and the termination of a run, as its observation has them.\<close>

lemma observed_facts:
  "ob_finished b = None \<Longrightarrow> ob_finished (observe complete b ended d rc sg cat err) = Some ob
    \<Longrightarrow> run_facts.truncate ob = run_facts.truncate b \<and> eo_termination ob = cat"
  by (auto simp: observe_def Let_def run_facts.truncate_def)

lemma local_run_facts:
  assumes "local_run jcs p rq pr = Some (Inr e)"
  shows "rf_capabilities (es_observation e) = rp_capabilities p"
    and "rf_image_identity (es_observation e) = rp_image_identity p"
    and "rf_same_operator (es_observation e) = rp_same_operator p"
    and "eo_termination (es_observation e) =
      (case es_result e of Some r \<Rightarrow> fst (termination_of (er_returncode r))
       | None \<Rightarrow> failure_termination (the (es_error_code e)))"
proof -
  let ?pre = "rbind (validate_argv (rq_command rq)) (\<lambda>argv.
      rthen (validate_limits (rq_timeout rq) (rq_output_cap rq) (rq_stderr_cap rq)) (Inr argv))"
  obtain argv b where b: "?pre = Inr argv"
      "new_builder jcs p argv (rq_cwd rq) (rq_timeout rq) (caps_of rq Stdout) (caps_of rq Stderr) (rq_environment rq) (rq_stdin rq) = Inr b"
      "(case run_bounded (rq_command rq) (rq_timeout rq) (rq_output_cap rq) (rq_stderr_cap rq) pr b of
             None \<Rightarrow> None
           | Some (Inl (ForgeError c), b') \<Rightarrow>
               Some (session_of (failed_run b' (pr_ended_at pr) (pr_elapsed pr) c) None (Some c))
           | Some (Inl (PyExc n), b') \<Rightarrow> Some (Inl (PyExc n))
           | Some (Inr r, b') \<Rightarrow> Some (session_of (completed_run b' (pr_ended_at pr) r) (Some r) None)) = Some (Inr e)"
    using assms by (rule local_runE)
  note fresh = new_builder_fresh [OF b(2)]
  obtain r b' where r: "run_bounded (rq_command rq) (rq_timeout rq) (rq_output_cap rq) (rq_stderr_cap rq) pr b = Some (r, b')"
    using b(3) by (auto split: option.splits)
  obtain es where es: "reads rq pr es b'" using run_bounded_reads [OF r b(1)] fresh by (elim conjE) (auto simp only: simp_thms)
  then have fin: "ob_finished b' = None" by (simp add: reads_def)
  obtain b'' where o: "ob_finished b'' = Some (es_observation e)"
      "case es_result e of Some x \<Rightarrow> b'' = completed_run b' (pr_ended_at pr) x
       | None \<Rightarrow> b'' = failed_run b' (pr_ended_at pr) (pr_elapsed pr) (the (es_error_code e))"
    using b(3) r by (auto simp: session_of_def split: sum.splits exn.splits option.splits)
  have f: "run_facts.truncate (es_observation e) = run_facts.truncate b'
    \<and> eo_termination (es_observation e) =
      (case es_result e of Some r \<Rightarrow> fst (termination_of (er_returncode r))
       | None \<Rightarrow> failure_termination (the (es_error_code e)))"
  proof (cases "es_result e")
    case None
    have "ob_finished (failed_run b' (pr_ended_at pr) (pr_elapsed pr) (the (es_error_code e))) = Some (es_observation e)"
      using None o by simp
    then show ?thesis unfolding failed_run_def None by (auto dest: observed_facts [OF fin])
  next
    case (Some x)
    obtain cat sg where cat: "termination_of (er_returncode x) = (cat, sg)" by (cases "termination_of (er_returncode x)")
    have "ob_finished (completed_run b' (pr_ended_at pr) x) = Some (es_observation e)" using Some o by simp
    then show ?thesis unfolding completed_run_def Some cat by (auto simp: cat dest: observed_facts [OF fin])
  qed
  moreover have "run_facts.truncate b' = run_facts.truncate b" by (rule run_bounded_facts [OF r])
  ultimately have "run_facts.truncate (es_observation e) = run_facts.truncate b" by simp
  then have "rf_capabilities (es_observation e) = rf_capabilities b" "rf_image_identity (es_observation e) = rf_image_identity b"
    "rf_same_operator (es_observation e) = rf_same_operator b"
    by (simp_all add: run_facts.truncate_def)
  then show "rf_capabilities (es_observation e) = rp_capabilities p"
    "rf_image_identity (es_observation e) = rp_image_identity p"
    "rf_same_operator (es_observation e) = rp_same_operator p"
    using new_builder_facts [OF b(2)] by simp_all
  show "eo_termination (es_observation e) =
      (case es_result e of Some r \<Rightarrow> fst (termination_of (er_returncode r))
       | None \<Rightarrow> failure_termination (the (es_error_code e)))"
    using f by simp
qed

end
