(* ===== verification/Receipts.thy ===== *)
theory Receipts
  imports Services Runner
begin

text \<open>
  Execution receipts (mncs_execution_receipt.py, application/execution_receipts.py): the envelope that
  binds a complete observation to identities, the binding record that Forge keeps of every run, and
  the persistence of a declared workflow's execution.

  Arithmetic on time stamps is the argument \<open>calendar\<close>: the issue and expiry of a challenge from the
  time of a request and the timeout, and the present time.
\<close>

section \<open>The envelope\<close>

record receipt_artifact =
  art_identity :: string
  art_kind :: string
  art_size :: int
  art_retained :: bool

record placement_reference =
  pl_record_id :: string
  pl_identity :: string
  pl_subject :: string
  pl_environment :: string

record receipt_context =
  rx_record_id :: string
  rx_subject_family :: string
  rx_subject_kind :: string
  rx_subject_record_id :: string
  rx_subject_sha256 :: string
  rx_candidate_id :: "string option"
  rx_test_bundle :: string
  rx_harness :: "string option"
  rx_input_snapshot :: "string option"
  rx_execution_policy :: string
  rx_placement_policy :: "string option"
  rx_result_semantics :: string
  rx_nonce :: string
  rx_issued_at :: string
  rx_expires_at :: string
  rx_observed_at :: string
  rx_harness_status :: string
  rx_result_identity :: "string option"
  rx_artifacts :: "receipt_artifact list"
  rx_command_binding :: string
  rx_environment_binding :: string
  rx_bundle_integrity :: string
  rx_result_integrity :: string
  rx_placement :: "placement_reference option"
  rx_extensions :: dict

definition alnum :: "char \<Rightarrow> bool" where
  "alnum c = (c \<in> set ''ABCDEFGHIJKLMNOPQRSTUVWXYZabcdefghijklmnopqrstuvwxyz0123456789'')"

definition is_id :: "string \<Rightarrow> bool" where
  "is_id s = (case s of [] \<Rightarrow> False
     | c # cs \<Rightarrow> alnum c \<and> length cs \<le> 127 \<and> list_all (\<lambda>x. alnum x \<or> x \<in> set ''._:-'') cs)"

text \<open>\<open>[a-z][a-z0-9.-]*:[A-Za-z0-9][A-Za-z0-9._-]*\<close>, which has one colon.\<close>

definition is_extension :: "string \<Rightarrow> bool" where
  "is_extension s =
     (let pre = takeWhile (\<lambda>c. c \<noteq> CHR '':'') s; post = drop (length pre) s
      in (case pre of [] \<Rightarrow> False
            | c # cs \<Rightarrow> c \<in> set ''abcdefghijklmnopqrstuvwxyz''
                \<and> list_all (\<lambda>x. x \<in> set ''abcdefghijklmnopqrstuvwxyz0123456789.-'') cs)
         \<and> (case post of colon # c # cs \<Rightarrow> alnum c \<and> list_all (\<lambda>x. alnum x \<or> x \<in> set ''._-'') cs | _ \<Rightarrow> False))"

definition require_id :: "string \<Rightarrow> unit res" where
  "require_id s = ensure (is_id s) ''RECEIPT_CONTEXT''"

definition require_sha256 :: "string \<Rightarrow> unit res" where
  "require_sha256 s = ensure (is_hex64 s) ''RECEIPT_CONTEXT''"

definition optional_sha256 :: "string option \<Rightarrow> unit res" where
  "optional_sha256 x = (case x of None \<Rightarrow> Inr () | Some s \<Rightarrow> require_sha256 s)"

definition optional_id :: "string option \<Rightarrow> unit res" where
  "optional_id x = (case x of None \<Rightarrow> Inr () | Some s \<Rightarrow> require_id s)"

definition require_enforcement :: "string \<Rightarrow> unit res" where
  "require_enforcement s = ensure (s \<in> set [''enforced'', ''not-enforced'', ''unknown'']) ''RECEIPT_CONTEXT''"

definition opt_nat :: "nat option \<Rightarrow> pyval" where
  "opt_nat x = (case x of None \<Rightarrow> PNone | Some n \<Rightarrow> PInt (int n))"

definition opt_int :: "int option \<Rightarrow> pyval" where
  "opt_int x = (case x of None \<Rightarrow> PNone | Some n \<Rightarrow> PInt n)"

definition opt_bool :: "bool option \<Rightarrow> pyval" where
  "opt_bool x = (case x of None \<Rightarrow> PNone | Some b \<Rightarrow> PBool b)"

definition stream_dict :: "stream_observation \<Rightarrow> dict" where
  "stream_dict s =
     dict_of [(''total_bytes'', opt_nat (so_total s)), (''retained_bytes'', PInt (int (so_retained s))),
       (''retained_sha256'', opt_text (so_retained_sha256 s)), (''complete_sha256'', opt_text (so_complete_sha256 s)),
       (''truncated'', opt_bool (so_truncated s)), (''limit_hit'', PBool (so_limit_hit s)),
       (''limit_bytes'', opt_nat (so_limit s))]"

definition require_stream :: "stream_observation \<Rightarrow> unit res" where
  "require_stream s = ensure (so_total s \<noteq> None \<and> so_truncated s \<noteq> None) ''RECEIPT_OBSERVATION''"

definition capability_state :: "string \<Rightarrow> string" where
  "capability_state v =
     (if v = ''enforced'' then ''enforced'' else if v = ''not-provided'' then ''not-enforced'' else ''unknown'')"

definition resource_limit_state :: "runner_capabilities \<Rightarrow> string" where
  "resource_limit_state k =
     (let vs = [rk_timeout k, rk_stdout k, rk_stderr k]
      in if list_all (\<lambda>v. v = ''enforced'') vs then ''enforced''
         else if list_ex (\<lambda>v. v = ''unknown'') vs then ''unknown'' else ''not-enforced'')"

definition capabilities_dict :: "runner_capabilities \<Rightarrow> dict" where
  "capabilities_dict k =
     str_dict [(''runner_kind'', rk_kind k), (''runner_version'', rk_version k), (''os_family'', rk_os_family k),
       (''architecture'', rk_architecture k), (''execution_scope'', rk_scope k), (''shell_execution'', rk_shell k),
       (''timeout_enforcement'', rk_timeout k), (''stdout_limit'', rk_stdout k), (''stderr_limit'', rk_stderr k),
       (''process_group_termination'', rk_group_termination k), (''sandbox_isolation'', rk_sandbox k),
       (''network_isolation'', rk_network k), (''filesystem_isolation'', rk_filesystem k)]"

text \<open>The checks, in the order in which they raise.\<close>

definition check_context :: "receipt_context \<Rightarrow> unit res" where
  "check_context x =
     run_checks
       [require_id (rx_record_id x),
        ensure (rx_subject_family x \<in> set [''MNCS'', ''MNCDS'']) ''RECEIPT_CONTEXT'',
        ensure (rx_subject_kind x \<in> set [''contract'', ''assurance'', ''threat'', ''measurement'', ''development-record''])
          ''RECEIPT_CONTEXT'',
        require_id (rx_subject_record_id x), require_sha256 (rx_subject_sha256 x), require_sha256 (rx_test_bundle x),
        require_sha256 (rx_execution_policy x), optional_sha256 (rx_harness x), optional_sha256 (rx_input_snapshot x),
        optional_sha256 (rx_placement_policy x), optional_sha256 (rx_result_identity x), optional_id (rx_candidate_id x),
        ensure (rx_result_semantics x \<noteq> []) ''RECEIPT_CONTEXT'', ensure (rx_nonce x \<noteq> []) ''RECEIPT_CONTEXT'',
        ensure (rx_harness_status x \<in> set STATUSES) ''RECEIPT_CONTEXT'',
        require_enforcement (rx_command_binding x), require_enforcement (rx_environment_binding x),
        require_enforcement (rx_bundle_integrity x), require_enforcement (rx_result_integrity x)]"

definition check_observation :: "execution_observation \<Rightarrow> unit res" where
  "check_observation ob =
     run_checks
       [ensure (eo_started_at ob \<noteq> None \<and> eo_ended_at ob \<noteq> None) ''RECEIPT_OBSERVATION'',
        ensure (eo_duration ob \<noteq> PNone) ''RECEIPT_OBSERVATION'',
        require_stream (eo_stdout ob), require_stream (eo_stderr ob),
        ensure (ao_total (eo_aggregate ob) \<noteq> None) ''RECEIPT_OBSERVATION'']"

definition check_artifacts :: "receipt_context \<Rightarrow> unit res" where
  "check_artifacts x =
     rthen (ensure (case rx_result_identity x of None \<Rightarrow> True | Some i \<Rightarrow> i \<in> set (map art_identity (rx_artifacts x)))
              ''RECEIPT_CONTEXT'')
       (rthen (run_checks (concat (map (\<lambda>a. [require_sha256 (art_identity a), require_id (art_kind a)]) (rx_artifacts x))))
         (ensure (list_all is_extension (map fst (rx_extensions x))) ''RECEIPT_CONTEXT''))"

definition check_placement :: "receipt_context \<Rightarrow> execution_observation \<Rightarrow> unit res" where
  "check_placement x ob =
     (case rx_placement x of
        None \<Rightarrow> Inr ()
      | Some pl \<Rightarrow>
          run_checks [require_sha256 (pl_identity pl), require_sha256 (pl_subject pl), require_id (pl_environment pl),
            ensure (pl_subject pl = rx_subject_sha256 x \<and> pl_environment pl = rf_environment_identity ob) ''RECEIPT_CONTEXT'',
            require_id (pl_record_id pl)])"

definition check_runner_identities :: "execution_observation \<Rightarrow> unit res" where
  "check_runner_identities ob =
     run_checks [require_id (rf_runner_identity ob), optional_sha256 (rf_executable_identity ob),
       optional_id (rf_runtime_identity ob), require_sha256 (rf_command_identity ob), require_id (rf_environment_identity ob)]"

definition receipt_extensions :: "receipt_context \<Rightarrow> execution_observation \<Rightarrow> dict" where
  "receipt_extensions x ob =
     dict_put ''forge:local-process''
       (PDict (dict_of
         [(''cwd_identity'', PStr (rf_cwd_identity ob)), (''stdin_identity'', PStr (rf_stdin_identity ob)),
          (''stdout_limit_bytes'', PInt (int (rf_stdout_limit ob))),
          (''stderr_limit_bytes'', PInt (int (rf_stderr_limit ob))),
          (''capabilities'', PDict (capabilities_dict (rf_capabilities ob))),
          (''termination_error_code'', opt_text (eo_error_code ob))]))
       (rx_extensions x)"

definition CLAIM_BOUNDARY :: dict where
  "CLAIM_BOUNDARY = str_dict (map (\<lambda>k. (k, ''not-asserted''))
     [''conformance'', ''correctness'', ''security'', ''sandbox'', ''independence'', ''protected_custody'', ''promotion''])"

definition placement_value :: "placement_reference option \<Rightarrow> pyval" where
  "placement_value pl =
     (case pl of None \<Rightarrow> PNone
      | Some p \<Rightarrow> PDict (str_dict [(''record_id'', pl_record_id p), (''identity'', pl_identity p),
          (''subject_identity'', pl_subject p), (''environment_identity'', pl_environment p)]))"

text \<open>What the receipt identifies of its subject and its harness, and what it observed of the run.\<close>

definition receipt_subject :: "execution_observation \<Rightarrow> receipt_context \<Rightarrow> dict" where
  "receipt_subject ob x =
     [(''subject'', PDict (dict_of [(''family'', PStr (rx_subject_family x)), (''kind'', PStr (rx_subject_kind x)),
        (''record_id'', PStr (rx_subject_record_id x)), (''canonical_sha256'', PStr (rx_subject_sha256 x)),
        (''candidate_id'', opt_text (rx_candidate_id x))])),
      (''bundle'', PDict (dict_of [(''test_bundle_identity'', PStr (rx_test_bundle x)),
        (''harness_identity'', opt_text (rx_harness x)), (''input_snapshot_identity'', opt_text (rx_input_snapshot x))])),
      (''policy'', PDict (dict_of [(''execution_policy_identity'', PStr (rx_execution_policy x)),
        (''placement_policy_identity'', opt_text (rx_placement_policy x)),
        (''requested_limits'', PList
          [PDict (dict_of [(''resource'', PStr ''timeout''), (''value'', rf_timeout ob), (''unit'', PStr ''seconds'')]),
           PDict (dict_of [(''resource'', PStr ''output''),
             (''value'', PInt (int (max (rf_stdout_limit ob) (rf_stderr_limit ob)))), (''unit'', PStr ''bytes'')])]),
        (''result_semantics'', PStr (rx_result_semantics x))])),
      (''runner'', PDict (dict_of [(''runner_identity'', PStr (rf_runner_identity ob)),
        (''runner_version'', PStr (rf_runner_version ob)), (''executable_identity'', opt_text (rf_executable_identity ob)),
        (''runtime_identity'', opt_text (rf_runtime_identity ob)), (''command_identity'', PStr (rf_command_identity ob))])),
      (''environment'', PDict (dict_of [(''environment_identity'', PStr (rf_environment_identity ob))])),
      (''challenge'', PDict (dict_of [(''nonce'', PStr (rx_nonce x)), (''issued_at'', PStr (rx_issued_at x)),
        (''expires_at'', PStr (rx_expires_at x))])),
      (''request'', PDict (dict_of [(''status'', PStr ''accepted''), (''observed_at'', PStr (rx_observed_at x))]))]"

definition receipt_observed :: "execution_observation \<Rightarrow> receipt_context \<Rightarrow> dict" where
  "receipt_observed ob x =
     [(''lifecycle'', PDict (dict_of [(''started_at'', opt_text (eo_started_at ob)), (''ended_at'', opt_text (eo_ended_at ob)),
        (''duration_seconds'', eo_duration ob), (''termination_category'', PStr (eo_termination ob))])),
      (''process'', PDict (dict_of [(''exit_code'', opt_int (eo_returncode ob)), (''signal'', opt_int (eo_signal ob)),
        (''harness_status'', PStr (rx_harness_status x)), (''result_identity'', opt_text (rx_result_identity x))])),
      (''termination_observations'', PDict (dict_of
        [(''timeout_seconds'', if eo_termination ob = ''timeout'' then rf_timeout ob else PNone), (''resource_name'', PNone)])),
      (''streams'', PDict (dict_of [(''stdout'', PDict (stream_dict (eo_stdout ob))), (''stderr'', PDict (stream_dict (eo_stderr ob)))])),
      (''aggregate_output'', PDict (dict_of [(''total_bytes'', opt_nat (ao_total (eo_aggregate ob))),
        (''retained_bytes'', PInt (int (ao_retained (eo_aggregate ob)))), (''limit_bytes'', opt_nat (ao_limit (eo_aggregate ob))),
        (''limit_hit'', PBool (ao_limit_hit (eo_aggregate ob)))])),
      (''artifacts'', PList (map (\<lambda>a. PDict (dict_of [(''identity'', PStr (art_identity a)), (''kind'', PStr (art_kind a)),
        (''size_bytes'', PInt (art_size a)), (''retained'', PBool (art_retained a))])) (rx_artifacts x))),
      (''resources'', PList [PDict (dict_of [(''metric'', PStr ''wall-duration''), (''value'', eo_duration ob),
        (''unit'', PStr ''seconds''), (''source_identity'', PStr ''forge:wall-clock-v1''), (''phase'', PStr ''whole-execution'')])]),
      (''enforcement'', PDict (str_dict [(''command_binding'', rx_command_binding x),
        (''environment_binding'', rx_environment_binding x),
        (''filesystem_restriction'', capability_state (rk_filesystem (rf_capabilities ob))),
        (''network_restriction'', capability_state (rk_network (rf_capabilities ob))),
        (''process_restriction'', ''unknown''), (''resource_limits'', resource_limit_state (rf_capabilities ob)),
        (''test_bundle_integrity'', rx_bundle_integrity x), (''result_integrity'', rx_result_integrity x)]))]"

definition receipt_body :: "execution_observation \<Rightarrow> receipt_context \<Rightarrow> dict" where
  "receipt_body ob x =
     dict_of
       ([(''schema_version'', PStr ''0.1-experimental''), (''record_type'', PStr ''mncs-execution-receipt''),
         (''record_id'', PStr (rx_record_id x))]
        @ receipt_subject ob x @ receipt_observed ob x
        @ [(''placement'', PDict (dict_of [(''execution_placement_reference'', placement_value (rx_placement x))])),
           (''claim_boundary'', PDict CLAIM_BOUNDARY),
           (''extensions'', PDict (receipt_extensions x ob))])"

definition build_mncs_execution_receipt :: "jcs \<Rightarrow> execution_observation \<Rightarrow> receipt_context \<Rightarrow> dict res" where
  "build_mncs_execution_receipt jcs ob x =
     rthen (check_context x) (rthen (check_observation ob) (rthen (check_artifacts x) (rthen (check_placement x ob)
       (rthen (check_runner_identities ob)
         (rbind (canonical_sha256 jcs (receipt_body ob x)) (\<lambda>i.
            Inr (dict_put ''receipt_identity'' (PStr i) (receipt_body ob x))))))))"

end
