(* ===== verification/Bindings.thy ===== *)
theory Bindings
  imports Receipts
begin

text \<open>
  Receipt bindings (application/execution_receipts.py): the record that ties one run to its action,
  its result and, when the observation is complete, to an envelope; and the persistence of a workflow
  execution as three commits.
\<close>

section \<open>Identities\<close>

definition sha256_digest :: "string option \<Rightarrow> string option" where
  "sha256_digest v =
     (case v of
        None \<Rightarrow> None
      | Some s \<Rightarrow>
          if is_hex64 s then Some s
          else if starts_with ''sha256:'' s \<and> is_hex64 (drop 7 s) then Some (drop 7 s)
          else if CHR '':'' \<in> set s \<and> is_hex64 (after_last_colon s) then Some (after_last_colon s)
          else None)"

text \<open>\<open>content_digest(d)\<close>: the canonical form of a list of one object is the object's in brackets.\<close>

definition content_digest :: "jcs \<Rightarrow> dict \<Rightarrow> string res" where
  "content_digest jcs d = rbind (jcs d) (\<lambda>bs. Inr (sha256 (''['' @ bs @ '']'')))"

definition bounded_id :: "string \<Rightarrow> string \<Rightarrow> string res" where
  "bounded_id pre v =
     (let i = pre @ take 40 (sha256 v) in rthen (ensure (is_id i) ''RECEIPT_CONTEXT'') (Inr i))"

definition subject_digest :: "string \<Rightarrow> string" where
  "subject_digest c = (case sha256_digest (Some c) of Some d \<Rightarrow> d | None \<Rightarrow> sha256 c)"

definition candidate_receipt_id :: "string \<Rightarrow> string option" where
  "candidate_receipt_id c = (if is_id c then Some c else None)"

section \<open>What a run establishes\<close>

definition property_state :: "bool \<Rightarrow> bool \<Rightarrow> string" where
  "property_state established unknown =
     (if unknown then ''unknown'' else if established then ''established'' else ''not-established'')"

definition completed_category :: "execution_observation \<Rightarrow> bool" where
  "completed_category ob = (eo_termination ob \<in> set [''completed'', ''nonzero-exit'', ''signal''])"

definition established_properties :: "execution_observation \<Rightarrow> (string \<times> string) list" where
  "established_properties ob =
     (let k = rf_capabilities ob
      in [(''execution_completed'', property_state (completed_category ob) (\<not> completed_category ob)),
          (''local_result_validity'', ''unknown''),
          (''runner_capability'', property_state
             (rk_timeout k = ''enforced'' \<and> rk_stdout k = ''enforced'' \<and> rk_stderr k = ''enforced'') False),
          (''filesystem_isolation'', property_state (rk_filesystem k = ''enforced'') (rk_filesystem k = ''unknown'')),
          (''network_isolation'', property_state (rk_network k = ''enforced'') (rk_network k = ''unknown'')),
          (''containerization'', property_state (rf_image_identity ob \<noteq> None) False),
          (''same_operator_execution'', property_state (rf_same_operator ob = Some True) (rf_same_operator ob = None)),
          (''external_anchoring'', ''not-established''), (''witnessing'', ''not-established''),
          (''protected_custody'', ''not-established''), (''evaluator_independence'', ''not-established''),
          (''governance_certification'', ''not-established'')])"

definition INCOMPLETE_TERMINATIONS :: "string list" where
  "INCOMPLETE_TERMINATIONS =
     [''timeout'', ''output-limit'', ''crash'', ''cancelled'', ''internal-runner-error'', ''policy-rejected'', ''resource-limit'']"

definition completeness :: "execution_observation \<Rightarrow> string" where
  "completeness ob =
     (if eo_termination ob \<in> set INCOMPLETE_TERMINATIONS
         \<or> eo_started_at ob = None \<or> eo_ended_at ob = None \<or> eo_duration ob = PNone
         \<or> so_total (eo_stdout ob) = None \<or> so_total (eo_stderr ob) = None \<or> ao_total (eo_aggregate ob) = None
         \<or> so_truncated (eo_stdout ob) = None \<or> so_truncated (eo_stderr ob) = None
      then ''incomplete'' else ''complete'')"

section \<open>The context of a receipt\<close>

record calendar =
  cl_window :: "string \<Rightarrow> pyval \<Rightarrow> string \<times> string"
  cl_now :: string

definition policy_digest :: "jcs \<Rightarrow> string \<times> pyval \<Rightarrow> execution_observation \<Rightarrow> string res" where
  "policy_digest jcs env ob =
     content_digest jcs (dict_of
       [(''timeout_seconds'', rf_timeout ob), (''stdout_limit'', PInt (int (rf_stdout_limit ob))),
        (''stderr_limit'', PInt (int (rf_stderr_limit ob))), (''shell'', PBool False), env,
        (''filesystem_policy'', PStr (rf_filesystem_policy ob)), (''network_policy'', PStr (rf_network_policy ob))])"

definition harness_digest :: "jcs \<Rightarrow> execution_observation \<Rightarrow> string res" where
  "harness_digest jcs ob =
     content_digest jcs (str_dict [(''runner_identity'', rf_runner_identity ob),
       (''runner_version'', rf_runner_version ob), (''runner_kind'', rk_kind (rf_capabilities ob))])"

text \<open>What the contexts of workflow and verifier runs share; they differ in the seed of the identifiers.\<close>

definition context_of :: "calendar \<Rightarrow> string \<Rightarrow> string \<Rightarrow> string \<Rightarrow> string \<Rightarrow> string \<Rightarrow> string \<Rightarrow> string \<Rightarrow> execution_observation
    \<Rightarrow> receipt_context res" where
  "context_of cl seed candidate requested bundle policy harness semantics ob =
     rbind (bounded_id ''receipt.'' seed) (\<lambda>record_id.
     rbind (bounded_id ''subject.'' seed) (\<lambda>subject_id.
     rbind (bounded_id ''challenge.'' seed) (\<lambda>nonce.
       Inr \<lparr>rx_record_id = record_id, rx_subject_family = ''MNCS'', rx_subject_kind = ''development-record'',
            rx_subject_record_id = subject_id, rx_subject_sha256 = subject_digest candidate,
            rx_candidate_id = candidate_receipt_id candidate, rx_test_bundle = bundle, rx_harness = Some harness,
            rx_input_snapshot = None, rx_execution_policy = policy,
            rx_placement_policy = sha256_digest (rf_placement_identity ob), rx_result_semantics = semantics,
            rx_nonce = nonce, rx_issued_at = fst (cl_window cl requested (rf_timeout ob)),
            rx_expires_at = snd (cl_window cl requested (rf_timeout ob)),
            rx_observed_at = (case eo_ended_at ob of Some t \<Rightarrow> if t = [] then cl_now cl else t | None \<Rightarrow> cl_now cl),
            rx_harness_status = ''UNKNOWN'', rx_result_identity = None, rx_artifacts = [],
            rx_command_binding = ''enforced'', rx_environment_binding = ''enforced'',
            rx_bundle_integrity = ''unknown'', rx_result_integrity = ''unknown'', rx_placement = None,
            rx_extensions = []\<rparr>)))"

definition WORKFLOW_SEMANTICS :: string where
  "WORKFLOW_SEMANTICS =
     ''Forge records execution provenance only; workflow exit zero is not evidence PASS, '' @
     ''and this receipt does not establish sandbox, independence, or custody.''"

definition VERIFIER_SEMANTICS :: string where
  "VERIFIER_SEMANTICS =
     ''Forge records verifier execution provenance only; the bound verifier '' @
     ''result retains its own PASS/FAIL/UNKNOWN semantics and this receipt '' @
     ''does not establish sandbox, independence, or custody.''"

definition receipt_context_of :: "jcs \<Rightarrow> calendar \<Rightarrow> string \<Rightarrow> dict res \<Rightarrow> workflow \<Rightarrow> forge_record
    \<Rightarrow> execution_observation \<Rightarrow> receipt_context res" where
  "receipt_context_of jcs cl proj env w action ob =
     rbind (content_digest jcs (dict_of
       [(''kind'', PStr ''forge-declared-workflow''), (''project_identity'', PStr proj), (''workflow'', PStr (wf_name w)),
        (''command'', PList (map PStr (wf_command w))), (''category'', PStr (wf_category w)),
        (''subject'', PStr (wf_subject w))])) (\<lambda>bundle.
     rbind env (\<lambda>e.
     rbind (policy_digest jcs (''environment_keys'', PList (map PStr (sort (keys e)))) ob) (\<lambda>policy.
     rbind (harness_digest jcs ob) (\<lambda>harness.
       context_of cl (text_of action ''action_id'') (text_of action ''candidate_identity'')
         (text_of action ''requested_at'') bundle policy harness WORKFLOW_SEMANTICS ob))))"

section \<open>The envelope and the binding\<close>

definition envelope :: "jcs \<Rightarrow> execution_observation \<Rightarrow> string \<Rightarrow> receipt_context
    \<Rightarrow> (dict option \<times> string option \<times> string option \<times> string) res" where
  "envelope jcs ob level x =
     (if level \<noteq> ''complete'' then Inr (None, None, None, level)
      else case build_mncs_execution_receipt jcs ob x of
             Inl (ForgeError c) \<Rightarrow>
               if c = ''RECEIPT_CONTEXT'' then Inr (None, None, None, ''malformed'')
               else if c = ''RECEIPT_OBSERVATION'' then Inr (None, None, None, ''incomplete'')
               else raise c
           | Inl (PyExc n) \<Rightarrow> Inl (PyExc n)
           | Inr d \<Rightarrow>
               (case as_text (dict_get d ''receipt_identity'') of
                  None \<Rightarrow> Inr (None, None, None, ''malformed'')
                | Some i \<Rightarrow>
                    if \<not> is_hex64 i then Inr (None, None, None, ''malformed'')
                    else Inr (Some d, Some i, as_text (dict_get d ''schema_version''), level)))"

text \<open>What a binding says of the action it belongs to.\<close>

record binding_subject =
  bs_project :: string
  bs_epoch :: "string option"
  bs_candidate :: pyval
  bs_action_kind :: string
  bs_action_identity :: string
  bs_request_identity :: pyval
  bs_name :: string
  bs_result :: "string option"

definition binding_fields :: "binding_subject \<Rightarrow> execution_observation
    \<Rightarrow> dict option \<times> string option \<times> string option \<times> string \<Rightarrow> string \<Rightarrow> dict" where
  "binding_fields s ob e now =
     (case e of (receipt, receipt_identity, schema, level) \<Rightarrow>
       dict_of
         [(''project_identity'', PStr (bs_project s)), (''epoch_identity'', opt_text (bs_epoch s)),
          (''candidate_identity'', bs_candidate s), (''action_kind'', PStr (bs_action_kind s)),
          (''action_identity'', PStr (bs_action_identity s)), (''result_identity'', opt_text (bs_result s)),
          (''request_identity'', if is_pstr (bs_request_identity s) then bs_request_identity s else PNone),
          (''workflow_or_verifier'', PStr (bs_name s)), (''runner_identity'', PStr (rf_runner_identity ob)),
          (''runner_kind'', PStr (rk_kind (rf_capabilities ob))), (''runner_version'', PStr (rf_runner_version ob)),
          (''worker_identity'', opt_text (rf_worker_identity ob)), (''host_identity'', opt_text (rf_host_identity ob)),
          (''os_family'', PStr (rk_os_family (rf_capabilities ob))),
          (''architecture'', PStr (rk_architecture (rf_capabilities ob))),
          (''executable_identity'', opt_text (rf_executable_identity ob)),
          (''image_identity'', opt_text (rf_image_identity ob)),
          (''environment_identity'', PStr (rf_environment_identity ob)),
          (''execution_scope'', PStr (rk_scope (rf_capabilities ob))),
          (''termination_category'', PStr (eo_termination ob)), (''receipt_schema_version'', opt_text schema),
          (''receipt_identity'', opt_text receipt_identity), (''receipt_completeness'', PStr level),
          (''status'', PStr ''UNKNOWN''), (''established_properties'', PDict (str_dict (established_properties ob))),
          (''mncs_receipt'', case receipt of None \<Rightarrow> PNone | Some d \<Rightarrow> PDict d), (''recorded_at'', PStr now)])"

definition binding_record :: "jcs \<Rightarrow> binding_subject \<Rightarrow> execution_observation
    \<Rightarrow> dict option \<times> string option \<times> string option \<times> string \<Rightarrow> string \<Rightarrow> forge_record res" where
  "binding_record jcs s ob e now =
     rbind (new_record jcs EXECUTION_RECEIPT_BINDING (binding_fields s ob e now)) (\<lambda>r.
       rthen (ensure (case mapping_items (rget r ''established_properties'') of
                        None \<Rightarrow> False | Some d \<Rightarrow> set (keys d) = set ESTABLISHED_PROPERTY_KEYS) ''INTERNAL_RECORD'')
         (Inr r))"

text \<open>One declared-workflow invocation; an error of the execution is its exception.\<close>

record workflow_execution =
  we_action :: forge_record
  we_result :: "forge_record option"
  we_session :: execution_session
  we_workflow :: workflow
  we_epoch :: "string option"
  we_error :: "exn option"

definition bind_workflow_execution :: "jcs \<Rightarrow> calendar \<Rightarrow> string \<Rightarrow> dict res \<Rightarrow> string \<Rightarrow> workflow_execution
    \<Rightarrow> forge_record res" where
  "bind_workflow_execution jcs cl proj env now x =
     (let ob = es_observation (we_session x)
      in rbind (receipt_context_of jcs cl proj env (we_workflow x) (we_action x) ob) (\<lambda>ctx.
         rbind (envelope jcs ob (completeness ob) ctx) (\<lambda>e.
           binding_record jcs
             \<lparr>bs_project = proj, bs_epoch = we_epoch x, bs_candidate = rget (we_action x) ''candidate_identity'',
              bs_action_kind = ''workflow_action'', bs_action_identity = text_of (we_action x) ''action_id'',
              bs_request_identity = rget (we_action x) ''protocol_request_identity'', bs_name = wf_name (we_workflow x),
              bs_result = (case we_result x of None \<Rightarrow> None | Some r \<Rightarrow> as_text (rget r ''output_identity''))\<rparr>
             ob e now)))"

definition bind_verifier_execution :: "jcs \<Rightarrow> calendar \<Rightarrow> string \<Rightarrow> string \<Rightarrow> execution_session \<Rightarrow> forge_record
    \<Rightarrow> string option \<Rightarrow> string \<Rightarrow> string \<Rightarrow> string \<Rightarrow> forge_record res" where
  "bind_verifier_execution jcs cl proj now session action result verifier_id verifier_version provider_id =
     (let ob = es_observation session; action_id = text_of action ''action_id'';
          env = rget action ''environment_identity''
      in rbind (content_digest jcs (dict_of
           [(''kind'', PStr ''forge-verifier-action''), (''project_identity'', PStr proj),
            (''verifier_id'', PStr verifier_id), (''verifier_version'', PStr verifier_version),
            (''provider_id'', PStr provider_id), (''method'', rget action ''method'')])) (\<lambda>bundle.
         rbind (policy_digest jcs (''environment_identity'', PStr (if py_true env then py_str env else [])) ob) (\<lambda>policy.
         rbind (harness_digest jcs ob) (\<lambda>harness.
         rbind (context_of cl (''verifier:'' @ action_id) (text_of action ''candidate_identity'')
                  (text_of action ''requested_at'') bundle policy harness VERIFIER_SEMANTICS ob) (\<lambda>ctx.
         rbind (envelope jcs ob (completeness ob) ctx) (\<lambda>e.
           binding_record jcs
             \<lparr>bs_project = proj,
              bs_epoch = (if py_true (rget action ''epoch_identity'') then Some (text_of action ''epoch_identity'') else None),
              bs_candidate = rget action ''candidate_identity'', bs_action_kind = ''verifier_action'',
              bs_action_identity = action_id, bs_request_identity = rget action ''protocol_request_identity'',
              bs_name = verifier_id, bs_result = result\<rparr>
             ob e now))))))"

section \<open>Persistence\<close>

definition binding_for_action :: "ledger_entry list \<Rightarrow> string \<Rightarrow> forge_record option" where
  "binding_for_action hist action_id =
     (case filter (\<lambda>e. kind e = ''execution_receipt_binding'' \<and> rget (payload e) ''action_identity'' = PStr action_id) hist of
        [] \<Rightarrow> None | e # _ \<Rightarrow> Some (payload e))"

definition RESULT_COMMIT_CONTEXTS :: "(record_type \<times> string \<times> string) list" where
  "RESULT_COMMIT_CONTEXTS =
     [(WORKFLOW_RESULT, ''results'', ''result''), (FINAL_EVALUATION, ''evaluations'', ''evaluation''),
      (BUNDLE, ''bundles'', ''bundle'')]"

text \<open>The readings of the clock during one execution and its persistence, and the names of its
  transactions, in order. An execution takes the first three readings.\<close>

record stamps =
  st_now :: "nat \<Rightarrow> string"
  st_txid :: "nat \<Rightarrow> string"

definition persist_workflow_execution :: "jcs \<Rightarrow> calendar \<Rightarrow> string \<Rightarrow> dict res \<Rightarrow> stamps \<Rightarrow> workflow_execution
    \<Rightarrow> disk \<Rightarrow> forge_record res \<times> disk" where
  "persist_workflow_execution jcs cl proj env st x dk =
     sbind (rbind (read_history jcs dk) (\<lambda>hist.
              ensure (binding_for_action hist (text_of (we_action x) ''action_id'') = None) ''RECEIPT_DUPLICATE''), dk) (\<lambda>_ dk.
     sbind (commit jcs (st_now st 3) (st_txid st 0) ''workflow-actions'' ''workflow_action'' (we_action x) dk) (\<lambda>_ dk.
     sbind (bind_workflow_execution jcs cl proj env (st_now st 4) x, dk) (\<lambda>binding dk.
     sbind (commit jcs (st_now st 5) (st_txid st 1) ''execution-receipt-bindings'' ''execution_receipt_binding'' binding dk)
       (\<lambda>_ dk.
     case we_result x of
       None \<Rightarrow> (Inr binding, dk)
     | Some r \<Rightarrow>
         (case map_of RESULT_COMMIT_CONTEXTS (rtype r) of
            None \<Rightarrow> (raise ''INTERNAL_RECORD'', dk)
          | Some (grp, knd) \<Rightarrow>
              sbind (commit jcs (st_now st 6) (st_txid st 2) grp knd r dk) (\<lambda>_ dk. (Inr binding, dk)))))))"

definition summarize_binding :: "forge_record \<Rightarrow> dict" where
  "summarize_binding r =
     dict_of (map (\<lambda>k. (k, rget r k))
         [''binding_id'', ''action_identity'', ''result_identity'', ''receipt_identity'', ''receipt_completeness'', ''status'',
          ''termination_category'', ''runner_kind'', ''execution_scope'']
       @ [(''established_properties'',
            case mapping_items (rget r ''established_properties'') of
              Some d \<Rightarrow> PDict d | None \<Rightarrow> rget r ''established_properties'')])"

definition list_bindings :: "string option \<Rightarrow> string option \<Rightarrow> ledger_entry list \<Rightarrow> dict list" where
  "list_bindings candidate action hist =
     map summarize_binding
       (filter (\<lambda>r. (case candidate of None \<Rightarrow> True | Some c \<Rightarrow> rget r ''candidate_identity'' = PStr c)
               \<and> (case action of None \<Rightarrow> True | Some a \<Rightarrow> rget r ''action_identity'' = PStr a))
         (map payload (filter (\<lambda>e. kind e = ''execution_receipt_binding'') hist)))"

definition get_binding :: "ledger_entry list \<Rightarrow> string \<Rightarrow> forge_record res" where
  "get_binding hist binding_id = record_by_id hist ''execution_receipt_binding'' binding_id ''binding_id''"

end
