(* ===== verification/Workflows.thy ===== *)
theory Workflows
  imports Bindings Rights
begin

text \<open>
  Declared workflows (application/workflows.py, the provider protocol of execution.py, \<open>run\<close> of
  application/evaluation.py, \<open>build_bundle\<close> of application/evidence.py): one command is run, its output
  is read as a structured result, and action, binding and result are recorded.

  A runner is a function from a request to a session; \<open>Runner.local_run\<close> gives the one of the local
  process runner. The copied workspace and the redaction of displayed text (a regular expression over
  the decoded bytes) are arguments. Output that is not UTF-8 is not JSON here: UTF-16, UTF-32 and byte
  order marks, which \<open>json.loads\<close> detects in bytes, are not modelled.
\<close>

section \<open>The provider protocol\<close>

text \<open>A line boundary of \<open>str.splitlines\<close> at the front of a text: what follows it.\<close>

fun line_break :: "string \<Rightarrow> string option" where
  "line_break [] = None"
| "line_break (c # cs) =
     (if c = CR then Some (if take 1 cs = [NL] then drop 1 cs else cs)
      else if c = NL \<or> of_char c \<in> {11 :: nat, 12, 28, 29, 30} then Some cs
      else if c = CHR 0xC2 \<and> take 1 cs = [CHR 0x85] then Some (drop 1 cs)
      else if c = CHR 0xE2 \<and> (take 2 cs = [CHR 0x80, CHR 0xA8] \<or> take 2 cs = [CHR 0x80, CHR 0xA9]) then Some (drop 2 cs)
      else None)"

fun first_line :: "string \<Rightarrow> string \<times> string option" where
  "first_line [] = ([], None)"
| "first_line (c # cs) =
     (case line_break (c # cs) of
        Some r \<Rightarrow> ([], Some r)
      | None \<Rightarrow> (case first_line cs of (l, r) \<Rightarrow> (c # l, r)))"

text \<open>\<open>lines = text.splitlines()\<close> with exactly one line, which is not empty.\<close>

definition single_line :: "string \<Rightarrow> string option" where
  "single_line s =
     (case first_line s of
        (l, None) \<Rightarrow> if l = [] then None else Some l
      | (l, Some r) \<Rightarrow> if l = [] \<or> r \<noteq> [] then None else Some l)"

definition RESPONSE_TYPES :: "string list" where
  "RESPONSE_TYPES = [''analysis_response'', ''capabilities'', ''health_response'', ''error'', ''cancelled'']"

definition parse_provider_response :: "bytes \<Rightarrow> dict res" where
  "parse_provider_response out =
     (if \<not> utf8_ok out then raise ''PROVIDER_FRAMING''
      else case single_line out of
        None \<Rightarrow> raise ''PROVIDER_FRAMING''
      | Some line \<Rightarrow>
          (case json_loads True True line of
             None \<Rightarrow> raise ''PROVIDER_MALFORMED''
           | Some (PDict d) \<Rightarrow>
               rthen (run_checks
                 [ensure (dict_get d ''protocol_version'' = PStr ''0.1'') ''PROVIDER_UNSUPPORTED'',
                  ensure_in (dict_get d ''type'') RESPONSE_TYPES ''PROVIDER_MALFORMED'',
                  ensure (is_pdict (dict_get d ''provider'')) ''PROVIDER_MALFORMED'',
                  ensure (is_pdict (dict_get d ''extensions'')) ''PROVIDER_MALFORMED'',
                  ensure (dict_get d ''type'' = PStr ''analysis_response''
                      \<longrightarrow> (\<exists>s \<in> set STATUSES. dict_get d ''status'' = PStr s)) ''PROVIDER_MALFORMED''])
                 (Inr d)
           | Some _ \<Rightarrow> raise ''PROVIDER_MALFORMED''))"

definition string_array :: "pyval \<Rightarrow> bool" where
  "string_array v = (is_plist v \<and> list_all nonempty_str (list_items v))"

definition parse_provider_capabilities :: "bytes \<Rightarrow> dict res" where
  "parse_provider_capabilities out =
     rbind (parse_provider_response out) (\<lambda>d.
       let analyses = dict_get d ''analyses''; statuses = dict_get d ''statuses'';
           ext = dict_items (dict_get d ''extensions'')
       in rthen (run_checks
            [ensure (dict_get d ''type'' = PStr ''capabilities'') ''PROVIDER_MALFORMED'',
             ensure (string_array analyses \<and> distinct (list_items analyses)) ''PROVIDER_MALFORMED'',
             ensure (is_plist statuses \<and> list_items statuses \<noteq> []
                 \<and> list_all (\<lambda>v. \<exists>s \<in> set STATUSES. v = PStr s) (list_items statuses)) ''PROVIDER_MALFORMED'',
             ensure (\<exists>b \<in> {True, False}. dict_get d ''cancellation'' = PBool b) ''PROVIDER_MALFORMED'',
             ensure (\<exists>b \<in> {True, False}. dict_get d ''health_checks'' = PBool b) ''PROVIDER_MALFORMED'',
             ensure (list_all (\<lambda>k. k \<in> set (keys ext) \<longrightarrow> string_array (dict_get ext k))
                 [''supported_constructs'', ''unsupported_constructs'', ''limitations'']) ''PROVIDER_MALFORMED''])
            (Inr d))"

section \<open>The executor\<close>

text \<open>\<open>list(v)\<close>: the items of a list, the characters of a text, the keys of an object.\<close>

fun characters :: "string \<Rightarrow> string list" where
  "characters [] = []"
| "characters (c # cs) =
     (case characters cs of
        [] \<Rightarrow> [[c]]
      | p # ps \<Rightarrow> if utf8_cont (hd p) then (c # p) # ps else [c] # p # ps)"

fun py_list :: "pyval \<Rightarrow> pyval list res" where
  "py_list (PList xs) = Inr xs"
| "py_list (PTuple xs) = Inr xs"
| "py_list (PStr s) = Inr (map PStr (characters s))"
| "py_list (PDict d) = Inr (map (PStr \<circ> fst) d)"
| "py_list (PProxy d) = Inr (map (PStr \<circ> fst) d)"
| "py_list _ = Inl (PyExc ''TypeError'')"

fun to_float :: "pyval \<Rightarrow> pyval" where
  "to_float (PInt i) = PFloat (float_of_decimal (i < 0) (nat \<bar>i\<bar>) 0)"
| "to_float v = v"

definition config_timeout :: "forge_config \<Rightarrow> pyval" where
  "config_timeout fc = to_float (dict_get (dict_items (dict_get (fc_raw fc) ''limits'')) ''timeout_seconds'')"

record executor =
  xc_config :: forge_config
  xc_mode :: string
  xc_state_dir :: path
  xc_environ :: "(string \<times> string) list"
  xc_workspace :: "bool \<Rightarrow> string res"
  xc_runner :: "run_request \<Rightarrow> execution_session res"
  xc_redact :: "bytes \<Rightarrow> nat \<Rightarrow> string"
  xc_calendar :: calendar

definition workflow_environment :: "executor \<Rightarrow> workflow \<Rightarrow> dict res" where
  "workflow_environment x w = environment (xc_config x) (xc_state_dir x) (xc_environ x) w"

definition declared_workflow :: "executor \<Rightarrow> string \<Rightarrow> string \<Rightarrow> workflow res" where
  "declared_workflow x name expected_mode =
     (case map_of (fc_workflows (xc_config x)) name of
        None \<Rightarrow> raise ''UNDECLARED_COMMAND''
      | Some w \<Rightarrow> rthen (ensure (wf_mode w = expected_mode \<or> wf_mode w = ''both'') ''WORKFLOW_MODE'') (Inr w))"

text \<open>What is run on: a candidate, or the project as a whole.\<close>

record run_subject =
  sj_candidate :: pyval
  sj_epoch :: pyval

definition candidate_subject :: "forge_record \<Rightarrow> run_subject" where
  "candidate_subject r = \<lparr>sj_candidate = rget r ''candidate_id'', sj_epoch = rget r ''source_epoch''\<rparr>"

definition workflow_request :: "executor \<Rightarrow> stamps \<Rightarrow> workflow \<Rightarrow> run_subject \<Rightarrow> dict res" where
  "workflow_request x st w sj =
     rbind (local_json_identity (PDict (dict_of
       [(''candidate'', sj_candidate sj), (''workflow'', PStr (wf_name w)), (''at'', PStr (st_now st 0))]))) (\<lambda>i.
       Inr (dict_of
         [(''protocol_version'', PStr ''0.1''), (''type'', PStr ''analysis_request''),
          (''request_id'', PStr (''forge-'' @ take 24 (after_colon i))), (''analysis'', PStr (wf_category w)),
          (''component'', PDict (dict_of [(''candidate_identity'', sj_candidate sj), (''source_epoch'', sj_epoch sj)])),
          (''limits'', PDict (dict_of [(''timeout_seconds'', config_timeout (xc_config x)),
             (''output_bytes'', PInt (int (output_cap (xc_config x))))])),
          (''extensions'', PDict (dict_of [(''mncs_forge'', PDict (dict_of [(''mode'', PStr (xc_mode x))]))]))]))"

definition action_fields :: "executor \<Rightarrow> stamps \<Rightarrow> workflow \<Rightarrow> run_subject \<Rightarrow> pyval \<Rightarrow> dict" where
  "action_fields x st w sj request_identity =
     dict_of [(''workflow'', PStr (wf_name w)), (''candidate_identity'', sj_candidate sj), (''mode'', PStr (xc_mode x)),
       (''protocol_request_identity'', request_identity), (''requested_at'', PStr (st_now st 1))]"

text \<open>How a result reads the output: status, method, provider, witnesses, limitations, unsupported constructs.\<close>

record reading =
  rd_status :: string
  rd_method :: string
  rd_provider :: dict
  rd_witnesses :: "pyval list"
  rd_limitations :: "pyval list"
  rd_unsupported :: "pyval list"

definition read_protocol :: "dict \<Rightarrow> reading res" where
  "read_protocol d =
     rbind (py_list (get_or d ''witnesses'' (PList []))) (\<lambda>witnesses.
     rbind (py_list (get_or d ''limitations'' (PList []))) (\<lambda>limitations.
     rbind (py_list (get_or (dict_items (dict_get d ''extensions'')) ''unsupported'' (PList []))) (\<lambda>unsupported.
       Inr \<lparr>rd_status = py_str (get_or d ''status'' (PStr ''UNKNOWN'')), rd_method = py_str (dict_get d ''type''),
            rd_provider = dict_items (dict_get d ''provider''), rd_witnesses = witnesses,
            rd_limitations = limitations, rd_unsupported = unsupported\<rparr>)))"

definition NO_RESULT_LIMITATION :: string where
  "NO_RESULT_LIMITATION =
     ''command completion is not evidence PASS; '' @ ''no validated structured result was emitted''"

definition unread :: "workflow \<Rightarrow> reading" where
  "unread w =
     \<lparr>rd_status = ''UNKNOWN'', rd_method = ''declared-command'',
      rd_provider = str_dict [(''id'', case wf_provider w of Some p \<Rightarrow> if p = [] then wf_name w else p | None \<Rightarrow> wf_name w),
        (''kind'', ''declared-workflow'')],
      rd_witnesses = [], rd_limitations = [PStr NO_RESULT_LIMITATION], rd_unsupported = []\<rparr>"

definition read_command :: "workflow \<Rightarrow> int \<Rightarrow> bytes \<Rightarrow> reading res" where
  "read_command w returncode out =
     (if returncode \<noteq> 0
      then Inr ((unread w)\<lparr>rd_status := ''FAIL'', rd_witnesses := [PDict (dict_of [(''exit_code'', PInt returncode)])],
             rd_limitations := []\<rparr>)
      else if out = [] then Inr (unread w)
      else case json_loads True True out of
        Some (PDict d) \<Rightarrow>
          rbind (in_strs (dict_get d ''status'') STATUSES) (\<lambda>ok.
            if \<not> ok then Inr (unread w)
            else
              rbind (py_list (get_or d ''witnesses'' (PList []))) (\<lambda>witnesses.
              rbind (py_list (get_or d ''limitations'' (PList []))) (\<lambda>limitations.
              rbind (py_list (get_or d ''unsupported_constructs'' (PList []))) (\<lambda>unsupported.
                Inr ((unread w)\<lparr>rd_status := py_str (dict_get d ''status''), rd_witnesses := witnesses,
                  rd_limitations := limitations, rd_unsupported := unsupported\<rparr>)))))
      | _ \<Rightarrow> Inr (unread w))"

definition result_fields :: "executor \<Rightarrow> stamps \<Rightarrow> workflow \<Rightarrow> run_subject \<Rightarrow> bool \<Rightarrow> dict \<Rightarrow> pyval \<Rightarrow> execution_session
    \<Rightarrow> execution_result \<Rightarrow> reading \<Rightarrow> dict" where
  "result_fields x st w sj evaluator env request_identity session r rd =
     dict_of
       [(''candidate_identity'', sj_candidate sj), (''subject_type'', PStr (wf_subject w)),
        (''provider_or_evaluator_identity'', PDict (rd_provider rd)), (''method'', PStr (rd_method rd)),
        (''workflow'', PStr (wf_name w)), (''category'', PStr (wf_category w)),
        (''scope'', PStr ''declared configuration paths''),
        (''environment'', PDict (dict_of
          [(''allowlisted_keys'', PList (map PStr (sort (keys env)))), (''values_disclosed'', PBool False)])),
        (''duration_seconds'', er_duration r), (''status'', PStr (rd_status rd)),
        (''witnesses_or_counterexamples'',
          PList (if evaluator \<and> wf_disclosure w = ''status-only'' then [] else take 20 (rd_witnesses rd))),
        (''limitations'', PList (take 20 (rd_limitations rd))),
        (''unsupported_constructs'', PList (take 20 (rd_unsupported rd))),
        (''stderr_diagnostic'', PStr (xc_redact x (es_stderr session) 4096)),
        (''returncode'', PInt (er_returncode r)), (''recorded_at'', PStr (st_now st 2)),
        (''protocol_request_identity'', request_identity)]"

definition failed_execution :: "forge_record \<Rightarrow> execution_session \<Rightarrow> workflow \<Rightarrow> string option \<Rightarrow> exn \<Rightarrow> workflow_execution" where
  "failed_execution action session w epoch e =
     \<lparr>we_action = action, we_result = None, we_session = session, we_workflow = w, we_epoch = epoch, we_error = Some e\<rparr>"

text \<open>
  How the output of a run that has a result is read: an error of the protocol is an error of the
  execution (\<open>Inl\<close> inside), any other exception leaves \<open>execute\<close>.
\<close>

definition read_result :: "workflow \<Rightarrow> execution_session \<Rightarrow> execution_result \<Rightarrow> (exn + reading) res" where
  "read_result w session r =
     (if wf_protocol w
      then if er_returncode r \<noteq> 0 then Inr (raise ''PROVIDER_EXIT'')
           else case parse_provider_response (es_stdout session) of
                  Inl (ForgeError c) \<Rightarrow> Inr (raise c)
                | Inl e \<Rightarrow> Inl e
                | Inr d \<Rightarrow> rbind (read_protocol d) (\<lambda>rd. Inr (Inr rd))
      else rbind (read_command w (er_returncode r) (es_stdout session)) (\<lambda>rd. Inr (Inr rd)))"

text \<open>From the session of a run to the records that can be persisted.\<close>

definition conclude :: "jcs \<Rightarrow> executor \<Rightarrow> stamps \<Rightarrow> workflow \<Rightarrow> run_subject \<Rightarrow> bool \<Rightarrow> record_type \<Rightarrow> dict \<Rightarrow> forge_record
    \<Rightarrow> execution_session \<Rightarrow> workflow_execution res" where
  "conclude jcs x st w sj evaluator rt env action session =
     (let epoch = as_text (sj_epoch sj)
      in case (es_error_code session, es_result session) of
           (Some c, _) \<Rightarrow> Inr (failed_execution action session w epoch (ForgeError c))
         | (None, None) \<Rightarrow> Inr (failed_execution action session w epoch (ForgeError ''COMMAND_START''))
         | (None, Some r) \<Rightarrow>
             rbind (read_result w session r) (\<lambda>q.
               case q of
                 Inl e \<Rightarrow> Inr (failed_execution action session w epoch e)
               | Inr rd \<Rightarrow>
                   rbind (new_record jcs rt (result_fields x st w sj evaluator env
                       (rget action ''protocol_request_identity'') session r rd)) (\<lambda>record.
                   rthen (ensure (rtype record \<in> {WORKFLOW_RESULT, FINAL_EVALUATION, BUNDLE}) ''INTERNAL_RECORD'')
                     (Inr \<lparr>we_action = action, we_result = Some record, we_session = session, we_workflow = w,
                           we_epoch = epoch, we_error = None\<rparr>))))"

definition execute :: "jcs \<Rightarrow> executor \<Rightarrow> stamps \<Rightarrow> workflow \<Rightarrow> run_subject \<Rightarrow> bool \<Rightarrow> record_type \<Rightarrow> workflow_execution res" where
  "execute jcs x st w sj evaluator rt =
     rbind (if wf_protocol w
            then rbind (workflow_request x st w sj) (\<lambda>q.
                 rbind (canonical_bytes (PDict q)) (\<lambda>bs.
                 rbind (local_json_identity (PDict q)) (\<lambda>i. Inr (bs @ [NL], PStr i))))
            else Inr ([], PNone)) (\<lambda>(stdin, request_identity).
     rbind (new_record jcs WORKFLOW_ACTION (action_fields x st w sj request_identity)) (\<lambda>action.
     rbind (if wf_protocol w \<or> evaluator then xc_workspace x evaluator
            else Inr (absolute_posix (fc_root (xc_config x)))) (\<lambda>cwd.
     rbind (workflow_environment x w) (\<lambda>env.
     rbind (xc_runner x \<lparr>rq_command = PList (map PStr (wf_command w)), rq_cwd = cwd,
              rq_timeout = config_timeout (xc_config x), rq_output_cap = int (output_cap (xc_config x)),
              rq_stderr_cap = None, rq_environment = env, rq_stdin = stdin\<rparr>) (\<lambda>session.
       conclude jcs x st w sj evaluator rt env action session)))))"

text \<open>\<open>WorkflowExecutor.run\<close>: the result or the error of an execution.\<close>

definition run_workflow :: "jcs \<Rightarrow> executor \<Rightarrow> stamps \<Rightarrow> workflow \<Rightarrow> run_subject \<Rightarrow> bool \<Rightarrow> record_type \<Rightarrow> forge_record res" where
  "run_workflow jcs x st w sj evaluator rt =
     rbind (execute jcs x st w sj evaluator rt) (\<lambda>e.
       case we_error e of
         Some err \<Rightarrow> Inl err
       | None \<Rightarrow> (case we_result e of None \<Rightarrow> raise ''INTERNAL_RECORD'' | Some r \<Rightarrow> Inr r))"

text \<open>An execution and its three commits; what is returned is the result with its binding.\<close>

definition execute_and_persist :: "jcs \<Rightarrow> executor \<Rightarrow> stamps \<Rightarrow> workflow \<Rightarrow> run_subject \<Rightarrow> bool \<Rightarrow> record_type
    \<Rightarrow> disk \<Rightarrow> (forge_record \<times> forge_record) res \<times> disk" where
  "execute_and_persist jcs x st w sj evaluator rt dk =
     sbind (execute jcs x st w sj evaluator rt, dk) (\<lambda>e dk.
     sbind (persist_workflow_execution jcs (xc_calendar x) (project_identity (xc_config x)) (workflow_environment x w) st e dk)
       (\<lambda>binding dk.
       (case we_error e of
          Some err \<Rightarrow> Inl err
        | None \<Rightarrow>
            (case we_result e of
               Some r \<Rightarrow> rthen (ensure (rtype r = rt) ''INTERNAL_RECORD'') (Inr (r, binding))
             | None \<Rightarrow> raise ''INTERNAL_RECORD''), dk)))"

section \<open>Development checks\<close>

text \<open>The subject of a workflow, and the candidate that later workflows of the same request are run on.\<close>

definition development_subject :: "executor \<Rightarrow> state_machine \<Rightarrow> string option \<Rightarrow> workflow \<Rightarrow> forge_record option
    \<Rightarrow> (run_subject \<times> forge_record option) res" where
  "development_subject x s candidate_id w candidate =
     (if wf_subject w = ''project''
      then rbind (authorize_development_work s candidate_id True) (\<lambda>_.
             Inr (\<lparr>sj_candidate = PStr (''project:'' @ project_identity (xc_config x)), sj_epoch = PNone\<rparr>, candidate))
      else rbind (case candidate of Some c \<Rightarrow> Inr (Some c) | None \<Rightarrow> authorize_development_work s candidate_id False) (\<lambda>c.
             case c of
               None \<Rightarrow> raise ''NO_CANDIDATE''
             | Some r \<Rightarrow> Inr (candidate_subject r, Some r)))"

fun development_loop :: "jcs \<Rightarrow> executor \<Rightarrow> state_machine \<Rightarrow> string option \<Rightarrow> (string \<times> stamps) list
    \<Rightarrow> forge_record option \<Rightarrow> disk \<Rightarrow> ((forge_record \<times> forge_record) list \<times> forge_record option) res \<times> disk" where
  "development_loop jcs x s candidate_id [] candidate dk = (Inr ([], candidate), dk)"
| "development_loop jcs x s candidate_id ((name, st) # rest) candidate dk =
     sbind (rbind (declared_workflow x name ''development'') (\<lambda>w.
              rbind (development_subject x s candidate_id w candidate) (\<lambda>(sj, c). Inr (w, sj, c))), dk) (\<lambda>(w, sj, c) dk.
     sbind (execute_and_persist jcs x st w sj False WORKFLOW_RESULT dk) (\<lambda>r dk.
     sbind (development_loop jcs x s candidate_id rest c dk) (\<lambda>(rs, c') dk. (Inr (r # rs, c'), dk))))"

record check_report =
  ck_candidate :: pyval
  ck_subjects :: "string list"
  ck_results :: "(forge_record \<times> forge_record) list"
  ck_aggregate :: string

definition report_of :: "pyval \<Rightarrow> (forge_record \<times> forge_record) list \<Rightarrow> check_report" where
  "report_of candidate rs =
     \<lparr>ck_candidate = candidate, ck_subjects = sorted_set (map (\<lambda>p. text_of (fst p) ''candidate_identity'') rs),
      ck_results = rs, ck_aggregate = aggregate_status (map (\<lambda>p. text_of (fst p) ''status'') rs)\<rparr>"

definition run_development :: "jcs \<Rightarrow> executor \<Rightarrow> project_config \<Rightarrow> project_observer \<Rightarrow> string option
    \<Rightarrow> (string \<times> stamps) list \<Rightarrow> disk \<Rightarrow> check_report res \<times> disk" where
  "run_development jcs x cf ob candidate_id names dk =
     sbind (rbind (read_history jcs dk) (lifecycle_machine cf ob True), dk) (\<lambda>s dk.
     sbind (development_loop jcs x s candidate_id names None dk) (\<lambda>(rs, candidate) dk.
       (Inr (report_of (case candidate of None \<Rightarrow> PNone | Some c \<Rightarrow> rget c ''candidate_id'') rs), dk)))"

text \<open>\<open>explain\<close>: what the last result, or the last with an output identity, leaves to be done.\<close>

definition explain_failure :: "string \<Rightarrow> dict \<Rightarrow> dict" where
  "explain_failure md d =
     (let witnesses = (case dict_get d ''witnesses_or_counterexamples'' of PList ws \<Rightarrow> ws | _ \<Rightarrow> [])
      in [(''violated_invariant_or_gate'', dict_get d ''category''),
          (''witness_or_counterexample'', PList witnesses),
          (''relevant_locations'', PList (filter py_true
             (map (\<lambda>w. dict_get (dict_items w) ''location'') (filter is_pdict witnesses)))),
          (''permitted_next_actions'', PList (map PStr
             (if md = ''development''
              then [''inspect compact witness'', ''repair within declared write paths'', ''rerun check'']
              else [''record rejection'', ''start a new development epoch''])))])"

definition explain_unknown :: "dict \<Rightarrow> dict" where
  "explain_unknown d =
     [(''exact_unresolved_fact'',
         if py_true (dict_get d ''limitations'') then dict_get d ''limitations''
         else if py_true (dict_get d ''unsupported_constructs'') then dict_get d ''unsupported_constructs''
         else PList [PStr ''provider did not establish PASS or FAIL'']),
      (''provider_limitation'', dict_get d ''limitations''),
      (''required_evidence_or_provider'', PStr ''a declared provider that supports the unresolved semantics''),
      (''uncertainty_under_current_policy'', PStr ''mandatory until a declared policy says otherwise'')]"

definition explain :: "string \<Rightarrow> string option \<Rightarrow> ledger_entry list \<Rightarrow> dict res" where
  "explain md output_identity hist =
     (let all = result_records hist None;
          rs = (case output_identity of
                  Some i \<Rightarrow> if i = [] then all else filter (\<lambda>r. rget r ''output_identity'' = PStr i) all
                | None \<Rightarrow> all)
      in if rs = [] then raise ''RESULT_NOT_FOUND''
         else
           let d = to_json (last rs); status = py_str (dict_get d ''status'');
               base = dict_of
                 [(''status'', PStr status), (''candidate_identity'', dict_get d ''candidate_identity''),
                  (''workflow'', dict_get d ''workflow''), (''affected_claim'', dict_get d ''category''),
                  (''repair_allowed'', PBool (md = ''development''))]
           in Inr (dict_update base
                (if status = ''FAIL'' then explain_failure md d
                 else if status = ''UNKNOWN'' then explain_unknown d
                 else [(''message'', PStr ''result is PASS; there is no failure or unknown to explain'')])))"

section \<open>Final evaluation\<close>

text \<open>
  The working tree is observed before and after each workflow: an observer for each. The result is
  committed before the observations are compared.
\<close>

definition check_undisturbed :: "jcs \<Rightarrow> project_config \<Rightarrow> project_observer \<Rightarrow> project_observer \<Rightarrow> pyval \<Rightarrow> disk \<Rightarrow> unit res" where
  "check_undisturbed jcs cf before after freeze_id dk =
     rbind (ob_authority_identities before) (\<lambda>a.
     rbind (ob_candidate_identity before) (\<lambda>c.
     rbind (ob_authority_identities after) (\<lambda>a'.
     rthen (ensure (str_dict a = str_dict a') ''EVALUATION_DRIFT'')
     (rbind (ob_candidate_identity after) (\<lambda>c'.
      rthen (ensure (c = c') ''EVALUATION_DRIFT'')
      (rbind (read_history jcs dk) (\<lambda>hist. verify_freeze cf after hist freeze_id)))))))"

definition observe_before :: "project_observer \<Rightarrow> unit res" where
  "observe_before before =
     rbind (ob_authority_identities before) (\<lambda>_. rbind (ob_candidate_identity before) (\<lambda>_. Inr ()))"

record evaluation_turn =
  tn_workflow :: string
  tn_stamps :: stamps
  tn_before :: project_observer
  tn_after :: project_observer

fun evaluation_loop :: "jcs \<Rightarrow> executor \<Rightarrow> project_config \<Rightarrow> forge_record \<Rightarrow> forge_record \<Rightarrow> evaluation_turn list
    \<Rightarrow> disk \<Rightarrow> (forge_record \<times> forge_record) list res \<times> disk" where
  "evaluation_loop jcs x cf fr candidate [] dk = (Inr [], dk)"
| "evaluation_loop jcs x cf fr candidate (t # ts) dk =
     sbind (rbind (declared_workflow x (tn_workflow t) ''evaluator'') (\<lambda>w.
              rbind (observe_before (tn_before t)) (\<lambda>_. Inr w)), dk) (\<lambda>w dk.
     sbind (execute_and_persist jcs x (tn_stamps t) w (candidate_subject candidate) True FINAL_EVALUATION dk) (\<lambda>r dk.
     sbind (check_undisturbed jcs cf (tn_before t) (tn_after t) (rget fr ''freeze_id'') dk, dk) (\<lambda>_ dk.
     sbind (evaluation_loop jcs x cf fr candidate ts dk) (\<lambda>rs dk. (Inr (r # rs), dk)))))"

definition run_evaluation :: "jcs \<Rightarrow> executor \<Rightarrow> project_config \<Rightarrow> project_observer \<Rightarrow> evaluation_turn list
    \<Rightarrow> disk \<Rightarrow> check_report res \<times> disk" where
  "run_evaluation jcs x cf ob ts dk =
     sbind (rbind (read_history jcs dk) (\<lambda>hist.
              rbind (lifecycle_machine cf ob False hist) (\<lambda>s. authorize_evaluator_entry s None)), dk) (\<lambda>(fr, candidate) dk.
     sbind (evaluation_loop jcs x cf fr candidate ts dk) (\<lambda>rs dk.
       (Inr (report_of (rget fr ''candidate_identity'') rs), dk)))"

section \<open>Bundles\<close>

definition build_bundle :: "jcs \<Rightarrow> executor \<Rightarrow> project_config \<Rightarrow> project_observer \<Rightarrow> stamps \<Rightarrow> string \<Rightarrow> string option
    \<Rightarrow> disk \<Rightarrow> (forge_record \<times> forge_record) res \<times> disk" where
  "build_bundle jcs x cf ob st name candidate_id dk =
     sbind (rbind (declared_workflow x name (xc_mode x)) (\<lambda>w.
              let valid = (wf_category w \<in> set [''mncs_bundle_validation'', ''mncds_record_validation'']) in
              rbind (read_history jcs dk) (\<lambda>hist.
              rbind (lifecycle_machine cf ob True hist) (\<lambda>s.
              rbind (authorize_bundle s candidate_id (if cf_native cf = None then True else valid)) (\<lambda>c.
                rthen (ensure valid ''WORKFLOW_CATEGORY'') (Inr (w, c)))))), dk) (\<lambda>(w, c) dk.
     execute_and_persist jcs x st w (candidate_subject c) (xc_mode x = ''evaluator'') BUNDLE dk)"

end
