(* ===== verification/ExecutionFacts.thy ===== *)
theory ExecutionFacts
  imports RunnerFacts Workflows RecordFields Sessions Assurance
begin

text \<open>
  What the records of an execution say: the binding of a run, the properties a local run establishes,
  the result that is read from the output of a workflow; what persisting an execution leaves, and what
  the turns of a final evaluation establish.
\<close>

section \<open>Bindings\<close>

definition level_of :: "dict option \<times> string option \<times> string option \<times> string \<Rightarrow> string" where
  "level_of e = snd (snd (snd e))"

lemma level_of [simp]: "level_of (a, b, c, l) = l"
  by (simp add: level_of_def)

lemma envelope_complete:
  "envelope jcs ob level x = Inr e \<Longrightarrow> level_of e = ''complete'' \<Longrightarrow> level = ''complete''"
  by (auto simp: envelope_def split: if_splits sum.splits exn.splits option.splits)

text \<open>The fields of a binding a reader relies on.\<close>

lemma binding_record_fields:
  assumes "binding_record jcs s ob e now = Inr b"
  shows "rget b ''status'' = PStr ''UNKNOWN''" "rget b ''receipt_completeness'' = PStr (level_of e)"
    and "rget b ''action_identity'' = PStr (bs_action_identity s)"
    and "rget b ''runner_kind'' = PStr (rk_kind (rf_capabilities ob))"
    and "property_map b = Some (str_dict (established_properties ob))"
proof -
  obtain r i sc l where e: "e = (r, i, sc, l)" by (cases e)
  have n: "new_record jcs EXECUTION_RECEIPT_BINDING (binding_fields s ob e now) = Inr b"
    using assms by (auto simp: binding_record_def rbind_eq_Inr rthen_def)
  have spec: "RECORD_SPECS EXECUTION_RECEIPT_BINDING = Some execution_receipt_binding_spec" by simp
  have wf: "dict_wf (binding_fields s ob e now)" unfolding binding_fields_def e prod.case by (rule dict_wf_of)
  have id: "identity_field execution_receipt_binding_spec = Some ''binding_id''"
    by (simp add: execution_receipt_binding_spec_def)
  note field = new_record_text [OF n _ spec _ _ _ wf, unfolded id]
  show "rget b ''status'' = PStr ''UNKNOWN''"
    by (rule field) (unfold binding_fields_def e prod.case dict_get_of, simp_all)
  show "rget b ''receipt_completeness'' = PStr (level_of e)"
    by (rule field) (unfold binding_fields_def e prod.case dict_get_of, simp_all)
  show "rget b ''action_identity'' = PStr (bs_action_identity s)"
    by (rule field) (unfold binding_fields_def e prod.case dict_get_of, simp_all)
  show "rget b ''runner_kind'' = PStr (rk_kind (rf_capabilities ob))"
    by (rule field) (unfold binding_fields_def e prod.case dict_get_of, simp_all)
  have "rget b ''established_properties'' = PProxy (str_dict (established_properties ob))"
    by (rule new_record_str_dict [OF n _ spec _ _ _ wf, unfolded id])
      (unfold binding_fields_def e prod.case dict_get_of, simp_all)
  then show "property_map b = Some (str_dict (established_properties ob))" by (simp add: property_map_def)
qed

lemma workflow_binding:
  assumes "bind_workflow_execution jcs cl proj env now x = Inr b"
  shows "rget b ''status'' = PStr ''UNKNOWN''" "rget b ''action_identity'' = PStr (text_of (we_action x) ''action_id'')"
    and "rget b ''runner_kind'' = PStr (rk_kind (rf_capabilities (es_observation (we_session x))))"
    and "property_map b = Some (str_dict (established_properties (es_observation (we_session x))))"
    and "rget b ''receipt_completeness'' = PStr ''complete'' \<Longrightarrow> completeness (es_observation (we_session x)) = ''complete''"
proof -
  obtain ctx e s where e: "envelope jcs (es_observation (we_session x)) (completeness (es_observation (we_session x))) ctx = Inr e"
      "binding_record jcs s (es_observation (we_session x)) e now = Inr b"
      "bs_action_identity s = text_of (we_action x) ''action_id''"
    using assms by (auto simp: bind_workflow_execution_def Let_def rbind_eq_Inr)
  note f = binding_record_fields [OF e(2)]
  show "rget b ''status'' = PStr ''UNKNOWN''" "rget b ''action_identity'' = PStr (text_of (we_action x) ''action_id'')"
    "rget b ''runner_kind'' = PStr (rk_kind (rf_capabilities (es_observation (we_session x))))"
    "property_map b = Some (str_dict (established_properties (es_observation (we_session x))))"
    using f e(3) by simp_all
  show "completeness (es_observation (we_session x)) = ''complete''" if "rget b ''receipt_completeness'' = PStr ''complete''"
    using envelope_complete [OF e(1)] f(2) that by simp
qed

section \<open>Local runs\<close>

definition UNSUPPORTED_LOCALLY :: "string list" where
  "UNSUPPORTED_LOCALLY = CONTAINER_PROPERTIES
     @ [''external_anchoring'', ''witnessing'', ''protected_custody'', ''evaluator_independence'', ''governance_certification'']"

lemma established_get:
  "dict_get (str_dict (established_properties ob)) k = (case map_of (rev (established_properties ob)) k of
     None \<Rightarrow> PNone | Some s \<Rightarrow> PStr s)"
proof -
  have "map_of (map (\<lambda>p. (fst p, PStr (snd p))) m) k = map_option PStr (map_of m k)" for m :: "(string \<times> string) list"
    by (induction m) auto
  then show ?thesis by (simp add: str_dict_def dict_get_of rev_map split: option.splits)
qed

lemma local_run_established:
  assumes "local_run jcs (local_profile (local_capabilities system machine posix) rid executable runtime node) rq pr
    = Some (Inr e)"
  shows "list_all (\<lambda>k. dict_get (str_dict (established_properties (es_observation e))) k = PStr ''not-established'')
      UNSUPPORTED_LOCALLY"
    and "dict_get (str_dict (established_properties (es_observation e))) ''execution_completed'' = PStr ''established''
      \<longleftrightarrow> es_result e \<noteq> None"
    and "completeness (es_observation e) = ''complete'' \<Longrightarrow> es_result e \<noteq> None"
proof -
  note f = local_run_facts [OF assms]
  show "list_all (\<lambda>k. dict_get (str_dict (established_properties (es_observation e))) k = PStr ''not-established'')
      UNSUPPORTED_LOCALLY"
    unfolding UNSUPPORTED_LOCALLY_def CONTAINER_PROPERTIES_def append.simps list.pred_inject
    unfolding established_get unfolding established_properties_def Let_def f
    by (simp add: local_profile_def local_capabilities_def property_state_def)
  have t: "completed_category (es_observation e) \<longleftrightarrow> es_result e \<noteq> None"
    using f(4) by (auto simp: completed_category_def termination_of_def failure_termination_def split: option.splits)
  show "dict_get (str_dict (established_properties (es_observation e))) ''execution_completed'' = PStr ''established''
      \<longleftrightarrow> es_result e \<noteq> None"
    unfolding established_get unfolding established_properties_def Let_def using t by (simp add: property_state_def)
  have "es_result e = None \<Longrightarrow> eo_termination (es_observation e) \<in> set INCOMPLETE_TERMINATIONS"
    using f(4) by (simp add: failure_termination_def INCOMPLETE_TERMINATIONS_def)
  then show "completeness (es_observation e) = ''complete'' \<Longrightarrow> es_result e \<noteq> None"
    by (cases "es_result e") (auto simp: completeness_def split: if_splits)
qed

section \<open>Results\<close>

text \<open>What the output of a run says, if it says anything.\<close>

definition said :: "workflow \<Rightarrow> execution_session \<Rightarrow> dict option" where
  "said w session =
     (if wf_protocol w
      then (case parse_provider_response (es_stdout session) of Inr d \<Rightarrow> Some d | Inl _ \<Rightarrow> None)
      else (case json_loads True True (es_stdout session) of Some (PDict d) \<Rightarrow> Some d | _ \<Rightarrow> None))"

lemma read_command_status:
  assumes "read_command w rc out = Inr rd"
  shows "rd_status rd = (if rc \<noteq> 0 then ''FAIL'' else
    (case json_loads True True out of
       Some (PDict d) \<Rightarrow> if out \<noteq> [] \<and> (\<exists>s \<in> set STATUSES. dict_get d ''status'' = PStr s)
                        then py_str (dict_get d ''status'') else ''UNKNOWN''
     | _ \<Rightarrow> ''UNKNOWN''))"
  using assms
  by (auto simp: read_command_def unread_def rbind_eq_Inr in_strs_def split: if_splits option.splits pyval.splits)

lemma conclude_cases:
  assumes "conclude jcs x st w sj evaluator rt env action session = Inr e"
  shows "(\<exists>err. e = failed_execution action session w (as_text (sj_epoch sj)) err)
    \<or> (\<exists>r rd record. es_error_code session = None \<and> es_result session = Some r \<and> read_result w session r = Inr (Inr rd)
         \<and> new_record jcs rt (result_fields x st w sj evaluator env (rget action ''protocol_request_identity'') session r rd)
             = Inr record \<and> rtype record \<in> {WORKFLOW_RESULT, FINAL_EVALUATION, BUNDLE}
         \<and> e = \<lparr>we_action = action, we_result = Some record, we_session = session, we_workflow = w,
                we_epoch = as_text (sj_epoch sj), we_error = None\<rparr>)"
proof (cases "es_error_code session")
  case (Some c)
  then show ?thesis using assms by (auto simp: conclude_def Let_def)
next
  case err: None
  show ?thesis
  proof (cases "es_result session")
    case None
    then show ?thesis using assms err by (auto simp: conclude_def Let_def)
  next
    case (Some r)
    then obtain q where q: "read_result w session r = Inr q" using assms err by (auto simp: conclude_def Let_def rbind_eq_Inr)
    show ?thesis using assms err Some q by (cases q) (auto simp: conclude_def Let_def rbind_eq_Inr rthen_def)
  qed
qed

lemma execute_parts:
  assumes "execute jcs x st w sj evaluator rt = Inr e"
  obtains env action session where "we_action e = action" "we_session e = session" "we_workflow e = w"
    "\<exists>q. new_record jcs WORKFLOW_ACTION (action_fields x st w sj q) = Inr action"
    "\<exists>rq. xc_runner x rq = Inr session \<and> rq_output_cap rq = int (output_cap (xc_config x)) \<and> rq_stderr_cap rq = None"
    "conclude jcs x st w sj evaluator rt env action session = Inr e"
proof -
  obtain env action session rq q where a: "new_record jcs WORKFLOW_ACTION (action_fields x st w sj q) = Inr action"
      "xc_runner x rq = Inr session" "rq_output_cap rq = int (output_cap (xc_config x))" "rq_stderr_cap rq = None"
      "conclude jcs x st w sj evaluator rt env action session = Inr e"
    using assms by (auto simp: execute_def rbind_eq_Inr split: prod.splits)
  have "we_action e = action \<and> we_session e = session \<and> we_workflow e = w"
    using conclude_cases [OF a(5)] by (auto simp: failed_execution_def)
  then show thesis using a that by blast
qed

text \<open>A result comes from a run that ended with a result, and is read from its output.\<close>

lemma execute_result:
  assumes "execute jcs x st w sj evaluator rt = Inr e" "we_result e = Some record"
  obtains env r rd where "es_error_code (we_session e) = None" "es_result (we_session e) = Some r" "we_error e = None"
    "read_result w (we_session e) r = Inr (Inr rd)" "rt \<in> {WORKFLOW_RESULT, FINAL_EVALUATION, BUNDLE}"
    "new_record jcs rt (result_fields x st w sj evaluator env (rget (we_action e) ''protocol_request_identity'')
       (we_session e) r rd) = Inr record"
proof (rule execute_parts [OF assms(1)])
  fix env action session
  assume e: "we_action e = action" "we_session e = session" "conclude jcs x st w sj evaluator rt env action session = Inr e"
  obtain r rd where c: "es_error_code session = None" "es_result session = Some r" "we_error e = None"
      "read_result w session r = Inr (Inr rd)" "rtype record \<in> {WORKFLOW_RESULT, FINAL_EVALUATION, BUNDLE}"
      "new_record jcs rt (result_fields x st w sj evaluator env (rget action ''protocol_request_identity'') session r rd)
        = Inr record"
    using conclude_cases [OF e(3)] assms(2) by (elim disjE exE conjE) (auto simp: failed_execution_def)
  have "rt \<in> {WORKFLOW_RESULT, FINAL_EVALUATION, BUNDLE}" using new_record_ok [OF c(6)] c(5) by simp
  then show thesis using that c e(1,2) by blast
qed

lemma result_spec:
  assumes "rt \<in> {WORKFLOW_RESULT, FINAL_EVALUATION, BUNDLE}"
  obtains spec where "RECORD_SPECS rt = Some spec" "identity_field spec = Some ''output_identity''"
  using assms by (auto simp: workflow_result_spec_def final_evaluation_spec_def bundle_spec_def)

lemma result_record:
  assumes "new_record jcs rt (result_fields x st w sj evaluator env q session r rd) = Inr record"
    and "rt \<in> {WORKFLOW_RESULT, FINAL_EVALUATION, BUNDLE}"
  shows "rget record ''status'' = PStr (rd_status rd)" "rget record ''workflow'' = PStr (wf_name w)"
    and "evaluator \<Longrightarrow> wf_disclosure w = ''status-only'' \<Longrightarrow> rget record ''witnesses_or_counterexamples'' = PTuple []"
    and "sj_candidate sj = PStr c \<Longrightarrow> rget record ''candidate_identity'' = PStr c"
proof -
  obtain spec where spec: "RECORD_SPECS rt = Some spec" "identity_field spec = Some ''output_identity''"
    by (rule result_spec [OF assms(2)])
  have wf: "dict_wf (result_fields x st w sj evaluator env q session r rd)"
    unfolding result_fields_def by (rule dict_wf_of)
  note field = new_record_text [OF assms(1) _ spec(1) _ _ _ wf, unfolded spec(2)]
  show "rget record ''status'' = PStr (rd_status rd)"
    by (rule field) (unfold result_fields_def dict_get_of, simp_all)
  show "rget record ''workflow'' = PStr (wf_name w)"
    by (rule field) (unfold result_fields_def dict_get_of, simp_all)
  show "sj_candidate sj = PStr c \<Longrightarrow> rget record ''candidate_identity'' = PStr c"
    by (rule field) (unfold result_fields_def dict_get_of, simp_all)
  assume d: "evaluator" "wf_disclosure w = ''status-only''"
  have m: "map_of (result_fields x st w sj evaluator env q session r rd) ''witnesses_or_counterexamples'' = Some (PList [])"
    unfolding result_fields_def dict_of_def map_of_dict_update using d by simp
  show "rget record ''witnesses_or_counterexamples'' = PTuple []"
    by (rule new_record_get [OF assms(1) spec(1) wf _ _ _ m, unfolded spec(2)]) (simp_all add: as_json_Inr)
qed

lemma read_result_status:
  assumes "read_result w session r = Inr (Inr rd)"
  shows "rd_status rd = ''PASS'' \<Longrightarrow> er_returncode r = 0
      \<and> (\<exists>d. said w session = Some d \<and> (if wf_protocol w then py_str (get_or d ''status'' (PStr ''UNKNOWN'')) = ''PASS''
                                      else dict_get d ''status'' = PStr ''PASS''))"
    and "\<not> wf_protocol w \<Longrightarrow> er_returncode r \<noteq> 0 \<Longrightarrow> rd_status rd = ''FAIL''"
    and "wf_protocol w \<Longrightarrow> er_returncode r = 0"
proof -
  have p: "er_returncode r = 0 \<and> (\<exists>d. said w session = Some d \<and> rd_status rd = py_str (get_or d ''status'' (PStr ''UNKNOWN'')))"
    if "wf_protocol w"
    using that assms
    by (auto simp: read_result_def said_def read_protocol_def rbind_eq_Inr split: if_splits sum.splits exn.splits)
  have c: "read_command w (er_returncode r) (es_stdout session) = Inr rd" if "\<not> wf_protocol w"
    using that assms by (auto simp: read_result_def rbind_eq_Inr)
  note s = read_command_status [OF c]
  show "wf_protocol w \<Longrightarrow> er_returncode r = 0" using p by blast
  show "\<not> wf_protocol w \<Longrightarrow> er_returncode r \<noteq> 0 \<Longrightarrow> rd_status rd = ''FAIL''" using s by simp
  assume pass: "rd_status rd = ''PASS''"
  show "er_returncode r = 0 \<and> (\<exists>d. said w session = Some d \<and> (if wf_protocol w then py_str (get_or d ''status'' (PStr ''UNKNOWN'')) = ''PASS''
                                      else dict_get d ''status'' = PStr ''PASS''))"
  proof (cases "wf_protocol w")
    case True
    then show ?thesis using p pass by auto
  next
    case False
    then show ?thesis using s pass
      by (auto simp: said_def split: if_splits option.splits pyval.splits)
  qed
qed

section \<open>Persistence\<close>

text \<open>A record that a commit can add to a history at rest.\<close>

definition plain_outcome :: "jcs \<Rightarrow> forge_record \<Rightarrow> bool" where
  "plain_outcome jcs r \<longleftrightarrow> (\<exists>rt flds. new_record jcs rt flds = Inr r \<and> json_val (PDict flds) \<and> outcome_type rt)"

text \<open>The history has an entry with the content of the record.\<close>

definition recorded :: "ledger_entry list \<Rightarrow> forge_record \<Rightarrow> bool" where
  "recorded es r \<longleftrightarrow> (\<exists>e \<in> set es. py_eq (PDict (to_json (payload e))) (PDict (to_json r)))"

lemma recorded_append: "recorded es r \<Longrightarrow> recorded (es @ ys) r"
  by (auto simp: recorded_def)

lemma normalized_left: "normalized jcs rs es \<Longrightarrow> raw \<in> set rs \<Longrightarrow> \<exists>e \<in> set es. normalize_ledger_entry jcs (PDict raw) = Inr e"
  unfolding normalized_def by (induction rs arbitrary: es) auto

lemma existing_recorded:
  assumes "decide_commit jcs now txid grp knd r dk = Inr (Existing e)" "readable jcs dk rs head es"
  shows "recorded es r"
proof -
  obtain ctx identity path bs existing where d: "check_commit grp knd r = Inr (ctx, identity, path, bs)"
      "rmap (\<lambda>e. normalize_ledger_entry jcs (PDict e)) (filter (same_identity knd (ctx_identity_field ctx) identity) rs)
        = Inr existing"
      "resolve_duplicate (record_files dk path) r bs existing = Inr e"
    using assms by (auto simp: decide_commit_def readable_def rbind_eq_Inr rthen_def Let_def split: if_splits prod.splits)
  have x: "existing = [e]" "py_eq (PDict (to_json (payload e))) (PDict (to_json r))"
    using d(3) by (auto simp: resolve_duplicate_def simp del: py_eq.simps split: list.splits option.splits if_splits)
  have n: "normalized jcs rs es" using assms(2) by (simp add: readable_def)
  obtain raw where raw: "raw \<in> set rs" "normalize_ledger_entry jcs (PDict raw) = Inr e"
    using d(2) x(1) by (auto dest!: rmap_mem)
  then have "e \<in> set es" using normalized_left [OF n raw(1)] by auto
  then show ?thesis using x(2) by (auto simp: recorded_def simp del: py_eq.simps)
qed

text \<open>
  What a sequence of commits leaves: the history has grown by some of the records, in their order, and
  has all of them.
\<close>

definition logged :: "jcs \<Rightarrow> ledger_entry list \<Rightarrow> disk \<Rightarrow> forge_record list \<Rightarrow> bool" where
  "logged jcs es d rs \<longleftrightarrow>
     (\<exists>ys. at_rest jcs d (es @ ys) \<and> subseq (map payload ys) rs \<and> list_all (recorded (es @ ys)) rs)"

lemma commit_outcome:
  assumes "at_rest jcs dk es" "commit jcs now txid grp knd r dk = (res, d)" "plain_outcome jcs r"
    and "utf8_ok now" "utf8_ok txid"
  shows "(\<exists>x y. collision x y) \<or> (case res of Inl _ \<Rightarrow> d = dk | Inr _ \<Rightarrow> logged jcs es d [r])"
proof -
  obtain rt flds where n: "new_record jcs rt flds = Inr r" "json_val (PDict flds)" "outcome_type rt"
    using assms(3) by (auto simp: plain_outcome_def)
  obtain rs head where rd: "transactions dk = []" "readable jcs dk rs head es" using assms(1) by (auto simp: at_rest_def)
  show ?thesis
  proof (cases res)
    case (Inl x)
    then show ?thesis using commit_extends [OF rd assms(2) n(1,2) assms(5,4)] by auto
  next
    case (Inr e)
    then obtain c decision where c: "check_commit grp knd r = Inr c" "decide_commit jcs now txid grp knd r dk = Inr decision"
        "(case decision of Existing e \<Rightarrow> (Inr e, dk) | Fresh p \<Rightarrow> execute_plan jcs p dk) = (Inr e, d)"
      using assms(2) rd(1)
      by (cases "decide_commit jcs now txid grp knd r dk") (auto simp: commit_def recover_unlocked_none split: sum.splits)
    show ?thesis
    proof (cases decision)
      case (Existing e')
      then have "recorded es r" "d = dk" using existing_recorded c(2,3) rd(2) by auto
      then show ?thesis using assms(1) Inr by (simp add: logged_def) (metis append_Nil2 list.simps(8) subseq_order.order_refl list_emb_Nil)
    next
      case (Fresh p)
      show ?thesis
      proof (cases "collision (plan_before p) (plan_after p)")
        case False
        obtain ctx identity raw where s: "plan_sound jcs p dk rs head es ctx grp knd identity raw r"
            "check_commit grp knd r = Inr (ctx, identity, plan_path p, plan_record p)"
            "filter (same_identity knd (ctx_identity_field ctx) identity) rs = []"
          by (rule decide_commit_sound [OF c(2) [unfolded Fresh] rd n(1,2) assms(5,4) False])
        have g: "grown jcs rs es knd r d (plan_entry p)"
          using execute_plan_ok [OF s(1)] c(3) Fresh completed_grown [OF s(1) _ s(2,3)] by auto
        have "at_rest jcs d (es @ [plan_entry p]) \<and> payload (plan_entry p) = r"
          by (rule grown_at_rest [OF rd(2) at_rest_outcome [OF assms(1) n g] g])
        moreover have "py_eq (PDict (to_json r)) (PDict (to_json r))"
          by (rule json_val_py_eq_refl [OF new_record_json_val [OF n(1,2)]])
        ultimately have "logged jcs es d [r]"
          unfolding logged_def by (intro exI [of _ "[plan_entry p]"]) (auto simp: recorded_def simp del: py_eq.simps)
        then show ?thesis using Inr by simp
      qed blast
    qed
  qed
qed

lemma logged_Nil: "at_rest jcs d es \<Longrightarrow> logged jcs es d []"
  unfolding logged_def by (intro exI [of _ "[]"]) simp

lemma logged_commit:
  assumes "logged jcs es dk rs" "commit jcs now txid grp knd r dk = (res, d)" "plain_outcome jcs r"
    and "utf8_ok now" "utf8_ok txid"
  shows "(\<exists>x y. collision x y) \<or> logged jcs es d (case res of Inl _ \<Rightarrow> rs | Inr _ \<Rightarrow> rs @ [r])"
proof -
  obtain ys where y: "at_rest jcs dk (es @ ys)" "subseq (map payload ys) rs" "list_all (recorded (es @ ys)) rs"
    using assms(1) by (auto simp: logged_def)
  show ?thesis
  proof (cases res)
    case (Inl x)
    then show ?thesis using commit_outcome [OF y(1) assms(2-5)] assms(1) by auto
  next
    case (Inr e)
    from commit_outcome [OF y(1) assms(2-5)] Inr show ?thesis
    proof (elim disjE)
      assume "case res of Inl _ \<Rightarrow> d = dk | Inr _ \<Rightarrow> logged jcs (es @ ys) d [r]"
      then obtain zs where z: "at_rest jcs d ((es @ ys) @ zs)" "subseq (map payload zs) [r]" "recorded ((es @ ys) @ zs) r"
        using Inr by (auto simp: logged_def)
      have "list_all (recorded ((es @ ys) @ zs)) rs"
        using y(3) recorded_append [of "es @ ys" _ zs] by (auto simp: list_all_iff)
      then have "logged jcs es d (rs @ [r])"
        using z list_emb_append_mono [OF y(2) z(2)] unfolding logged_def by (intro exI [of _ "ys @ zs"]) simp
      then show ?thesis using Inr by simp
    qed blast
  qed
qed

text \<open>
  An operation that commits records one after the other: what it leaves is a prefix of them, and all of
  them when it succeeds.
\<close>

definition commits :: "jcs \<Rightarrow> ledger_entry list \<Rightarrow> forge_record list \<Rightarrow> 'a res \<times> disk \<Rightarrow> bool" where
  "commits jcs es full out \<longleftrightarrow> (\<exists>x y. collision x y)
     \<or> (\<exists>rs. logged jcs es (snd out) rs \<and> prefix rs full \<and> (\<forall>v. fst out = Inr v \<longrightarrow> rs = full))"

lemma commits_fail: "logged jcs es d rs \<Longrightarrow> prefix rs full \<Longrightarrow> commits jcs es full (Inl e, d)"
  by (auto simp: commits_def)

lemma commits_done: "logged jcs es d full \<Longrightarrow> commits jcs es full (Inr v, d)"
  by (auto simp: commits_def)

lemma commits_sbind:
  assumes "logged jcs es dk rs" "plain_outcome jcs r" "utf8_ok now" "utf8_ok txid" "prefix (rs @ [r]) full"
    and "\<And>e d. logged jcs es d (rs @ [r]) \<Longrightarrow> commits jcs es full (k e d)"
  shows "commits jcs es full (sbind (commit jcs now txid grp knd r dk) k)"
proof -
  obtain res d where c: "commit jcs now txid grp knd r dk = (res, d)" by (rule prod.exhaust)
  show ?thesis
    using logged_commit [OF assms(1) c assms(2-4)]
  proof (elim disjE)
    assume "logged jcs es d (case res of Inl _ \<Rightarrow> rs | Inr _ \<Rightarrow> rs @ [r])"
    then show ?thesis
      using c assms(6) append_prefixD [OF assms(5)] by (cases res) (auto intro: commits_fail)
  qed (auto simp: commits_def)
qed

text \<open>The records of an execution, in the order in which they are committed.\<close>

definition run_records :: "workflow_execution \<Rightarrow> forge_record \<Rightarrow> forge_record list" where
  "run_records x b = [we_action x, b] @ (case we_result x of None \<Rightarrow> [] | Some r \<Rightarrow> [r])"

lemma persist_commits:
  assumes "at_rest jcs dk es"
    and "plain_outcome jcs (we_action x)" "\<And>r. we_result x = Some r \<Longrightarrow> plain_outcome jcs r"
    and "\<And>b. bind_workflow_execution jcs cl proj env (st_now st 4) x = Inr b \<Longrightarrow> plain_outcome jcs b"
    and "\<And>n. utf8_ok (st_now st n)" "\<And>n. utf8_ok (st_txid st n)"
  shows "commits jcs es
    (case bind_workflow_execution jcs cl proj env (st_now st 4) x of Inl _ \<Rightarrow> [we_action x] | Inr b \<Rightarrow> run_records x b)
    (persist_workflow_execution jcs cl proj env st x dk)"
    (is "commits jcs es ?full _")
proof -
  let ?bind = "bind_workflow_execution jcs cl proj env (st_now st 4) x"
  let ?check = "rbind (read_history jcs dk) (\<lambda>hist.
       ensure (binding_for_action hist (text_of (we_action x) ''action_id'') = None) ''RECEIPT_DUPLICATE'')"
  have start: "logged jcs es dk []" by (rule logged_Nil [OF assms(1)])
  have first: "prefix ([] @ [we_action x]) ?full" by (simp add: run_records_def split: sum.split)
  have result: "commits jcs es ?full (case we_result x of
       None \<Rightarrow> (Inr b, d)
     | Some r \<Rightarrow>
         (case map_of RESULT_COMMIT_CONTEXTS (rtype r) of
            None \<Rightarrow> (raise ''INTERNAL_RECORD'', d)
          | Some (grp, knd) \<Rightarrow> sbind (commit jcs (st_now st 6) (st_txid st 2) grp knd r d) (\<lambda>_ dk. (Inr b, dk))))"
    if "?bind = Inr b" "logged jcs es d [we_action x, b]" for b d
  proof (cases "we_result x")
    case None
    then show ?thesis using that by (auto simp: run_records_def intro: commits_done)
  next
    case (Some r)
    have full: "?full = [we_action x, b, r]" using Some that(1) by (simp add: run_records_def)
    have k: "commits jcs es ?full (sbind (commit jcs (st_now st 6) (st_txid st 2) grp knd r d) (\<lambda>_ dk. (Inr b, dk)))" for grp knd
      by (rule commits_sbind [OF that(2) assms(3) [OF Some] assms(5,6)]) (auto simp: full intro: commits_done)
    have e: "commits jcs es ?full (raise ''INTERNAL_RECORD'', d)" by (rule commits_fail [OF that(2)]) (simp add: full)
    show ?thesis using k e Some by (auto split: option.split)
  qed
  have bound: "commits jcs es ?full (sbind (?bind, d) (\<lambda>b dk.
      sbind (commit jcs (st_now st 5) (st_txid st 1) ''execution-receipt-bindings'' ''execution_receipt_binding'' b dk) (\<lambda>_ dk.
        case we_result x of
          None \<Rightarrow> (Inr b, dk)
        | Some r \<Rightarrow>
            (case map_of RESULT_COMMIT_CONTEXTS (rtype r) of
               None \<Rightarrow> (raise ''INTERNAL_RECORD'', dk)
             | Some (grp, knd) \<Rightarrow> sbind (commit jcs (st_now st 6) (st_txid st 2) grp knd r dk) (\<lambda>_ dk. (Inr b, dk))))))"
    if l: "logged jcs es d ([] @ [we_action x])" for d
  proof (cases ?bind)
    case (Inl e)
    then show ?thesis using commits_fail [OF l first] by simp
  next
    case (Inr b)
    have p: "prefix (([] @ [we_action x]) @ [b]) ?full" by (simp add: Inr run_records_def)
    show ?thesis unfolding sbind_simps Inr sum.case
      by (rule commits_sbind [OF l assms(4) [OF Inr] assms(5,6) p [unfolded Inr sum.case]])
        (use result [OF Inr] Inr in simp)
  qed
  show ?thesis
  proof (cases ?check)
    case (Inl e)
    show ?thesis unfolding persist_workflow_execution_def Inl sbind_simps by (rule commits_fail [OF start]) simp
  next
    case (Inr u)
    show ?thesis unfolding persist_workflow_execution_def Inr sbind_simps
      by (rule commits_sbind [OF start assms(2,5,6) first]) (rule bound)
  qed
qed

lemma persist_bound:
  assumes "persist_workflow_execution jcs cl proj env st x dk = (Inr b, d)"
  shows "bind_workflow_execution jcs cl proj env (st_now st 4) x = Inr b"
  using assms
  by (auto simp: persist_workflow_execution_def sbind_def split: sum.splits prod.splits option.splits)

section \<open>Final evaluation\<close>

text \<open>The working tree is the same before and after a turn.\<close>

definition undisturbed :: "evaluation_turn \<Rightarrow> bool" where
  "undisturbed t \<longleftrightarrow> (\<exists>a a' c. ob_authority_identities (tn_before t) = Inr a \<and> ob_authority_identities (tn_after t) = Inr a'
     \<and> str_dict a = str_dict a' \<and> ob_candidate_identity (tn_before t) = Inr c \<and> ob_candidate_identity (tn_after t) = Inr c)"

text \<open>The result is one of the turn's workflow, on the candidate; a pass is read from its output.\<close>

definition evaluated :: "executor \<Rightarrow> forge_record \<Rightarrow> evaluation_turn \<Rightarrow> forge_record \<Rightarrow> bool" where
  "evaluated x candidate t r \<longleftrightarrow> (\<exists>w rq session result.
     map_of (fc_workflows (xc_config x)) (tn_workflow t) = Some w \<and> (wf_mode w = ''evaluator'' \<or> wf_mode w = ''both'')
     \<and> xc_runner x rq = Inr session \<and> es_result session = Some result
     \<and> rtype r = FINAL_EVALUATION \<and> (\<exists>s \<in> set STATUSES. rget r ''status'' = PStr s)
     \<and> (rget r ''status'' = PStr ''PASS'' \<longrightarrow> er_returncode result = 0
         \<and> (\<exists>d. said w session = Some d \<and> (if wf_protocol w then py_str (get_or d ''status'' (PStr ''UNKNOWN'')) = ''PASS''
              else dict_get d ''status'' = PStr ''PASS'')))
     \<and> (wf_disclosure w = ''status-only'' \<longrightarrow> rget r ''witnesses_or_counterexamples'' = PTuple [])
     \<and> (\<forall>c. rget candidate ''candidate_id'' = PStr c \<longrightarrow> rget r ''candidate_identity'' = PStr c))"

lemma evaluated_status: "evaluated x candidate t r \<Longrightarrow> \<exists>s \<in> set STATUSES. rget r ''status'' = PStr s"
  unfolding evaluated_def by blast

lemma declared_workflow_Inr:
  "declared_workflow x name md = Inr w \<longleftrightarrow>
    map_of (fc_workflows (xc_config x)) name = Some w \<and> (wf_mode w = md \<or> wf_mode w = ''both'')"
  by (auto simp: declared_workflow_def rthen_def split: option.splits)

lemma execute_and_persist_Inr:
  assumes "execute_and_persist jcs x st w sj evaluator rt dk = (Inr (r, b), d)"
  obtains e where "execute jcs x st w sj evaluator rt = Inr e" "we_result e = Some r" "rtype r = rt"
  using assms
  by (auto simp: execute_and_persist_def sbind_def rthen_def split: sum.splits prod.splits option.splits if_splits)

lemma check_undisturbed_Inr:
  "check_undisturbed jcs cf (tn_before t) (tn_after t) f d = Inr u \<Longrightarrow> undisturbed t"
  by (auto simp: check_undisturbed_def undisturbed_def rthen_def rbind_eq_Inr)

lemma evaluated_turn:
  assumes "declared_workflow x (tn_workflow t) ''evaluator'' = Inr w"
    and "execute_and_persist jcs x st w (candidate_subject candidate) True FINAL_EVALUATION dk = (Inr (r, b), d)"
  shows "evaluated x candidate t r"
proof -
  obtain e where e: "execute jcs x st w (candidate_subject candidate) True FINAL_EVALUATION = Inr e" "we_result e = Some r" "rtype r = FINAL_EVALUATION"
    by (rule execute_and_persist_Inr [OF assms(2)])
  obtain rq where rq: "xc_runner x rq = Inr (we_session e)" using e(1) by (rule execute_parts) auto
  obtain env result rd where res: "es_result (we_session e) = Some result" "read_result w (we_session e) result = Inr (Inr rd)"
      "new_record jcs FINAL_EVALUATION (result_fields x st w (candidate_subject candidate) True env (rget (we_action e) ''protocol_request_identity'')
         (we_session e) result rd) = Inr r"
    using execute_result [OF e(1,2)] by metis
  note f = result_record [OF res(3)]
  have "record_ok jcs r" using new_record_ok [OF res(3)] by blast
  from record_status_valid [OF this, of final_evaluation_spec "''status''"] e(3)
  have v: "\<exists>s \<in> set STATUSES. rget r ''status'' = PStr s" by (auto simp: final_evaluation_spec_def rget_def)
  show ?thesis
    unfolding evaluated_def
    using assms(1) rq res(1) e(3) v f read_result_status(1) [OF res(2)]
    by (intro exI [of _ w] exI [of _ rq] exI [of _ "we_session e"] exI [of _ result]) (auto simp: declared_workflow_Inr candidate_subject_def)
qed

text \<open>
  The turns are taken in order. The loop ends with all results, or with an error after some turns; all
  turns before the one it ended in were undisturbed.
\<close>

lemma evaluation_loop_turns:
  "case evaluation_loop jcs x cf fr candidate ts dk of (out, d) \<Rightarrow>
     (\<exists>rs. list_all2 (\<lambda>t r. evaluated x candidate t r \<and> undisturbed t) (take (length rs) ts) rs
        \<and> (case out of Inr pairs \<Rightarrow> rs = map fst pairs \<and> length rs = length ts | Inl _ \<Rightarrow> length rs < length ts))"
proof (induction ts arbitrary: dk)
  case (Cons t ts)
  let ?pre = "rbind (declared_workflow x (tn_workflow t) ''evaluator'') (\<lambda>w. rbind (observe_before (tn_before t)) (\<lambda>_. Inr w))"
  show ?case
  proof (cases ?pre)
    case (Inl e)
    then show ?thesis by (auto intro!: exI [of _ "[]"])
  next
    case (Inr w)
    then have w: "declared_workflow x (tn_workflow t) ''evaluator'' = Inr w" by (auto simp: rbind_eq_Inr)
    obtain res d where p: "execute_and_persist jcs x (tn_stamps t) w (candidate_subject candidate) True FINAL_EVALUATION dk = (res, d)"
      by (rule prod.exhaust)
    show ?thesis
    proof (cases res)
      case (Inl e)
      then show ?thesis using Inr p by (auto intro!: exI [of _ "[]"])
    next
      case ran: (Inr rb)
      obtain r b where rb: "rb = (r, b)" by (cases rb)
      have ev: "evaluated x candidate t r" by (rule evaluated_turn [OF w]) (use p ran rb in simp)
      show ?thesis
      proof (cases "check_undisturbed jcs cf (tn_before t) (tn_after t) (rget fr ''freeze_id'') d")
        case (Inl e)
        then show ?thesis using Inr p ran by (auto intro!: exI [of _ "[]"])
      next
        case same: (Inr u)
        obtain out d' where l: "evaluation_loop jcs x cf fr candidate ts d = (out, d')" by (rule prod.exhaust)
        from Cons.IH [of d] l obtain rs where rs:
            "list_all2 (\<lambda>t r. evaluated x candidate t r \<and> undisturbed t) (take (length rs) ts) rs"
            "case out of Inr pairs \<Rightarrow> rs = map fst pairs \<and> length rs = length ts | Inl _ \<Rightarrow> length rs < length ts"
          by auto
        then show ?thesis using Inr p ran rb same l ev check_undisturbed_Inr [OF same]
          by (cases out) (auto intro!: exI [of _ "r # rs"])
      qed
    qed
  qed
qed simp

end
