(* ===== verification/ExecutionSamples.thy ===== *)
theory ExecutionSamples
  imports ExecutionFacts LifecycleSamples
begin

text \<open>
  Concrete executions: the sessions of a program that cannot be started and of one that reports a PASS,
  the binding of the first and the result of the second.
\<close>

section \<open>Sessions\<close>

definition sample_request :: run_request where
  "sample_request =
     \<lparr>rq_command = PList [PStr ''tool''], rq_cwd = ''/p'', rq_timeout = PInt 60, rq_output_cap = 1000,
      rq_stderr_cap = None, rq_environment = [], rq_stdin = []\<rparr>"

text \<open>A program that writes a structured result and exits, or that cannot be started.\<close>

definition sample_output :: bytes where
  "sample_output = enc (PDict [(''status'', PStr ''PASS'')])"

definition sample_process :: "bool \<Rightarrow> process" where
  "sample_process starts =
     \<lparr>pr_starts = starts, pr_started_at = sample_now,
      pr_polls = [Ready [(Stdout, sample_output)], Ready [(Stdout, []), (Stderr, [])]],
      pr_exit = Some 0, pr_ended_at = sample_now, pr_elapsed = PInt 1\<rparr>"

definition sample_profile :: runner_profile where
  "sample_profile = local_profile (local_capabilities ''linux'' ''x86'' True) ''runner'' (Some ''tool'') ''3'' ''host''"

text \<open>What the runner puts into an observation.\<close>

definition sample_facts :: "'a run_facts_scheme \<Rightarrow> bool" where
  "sample_facts b \<longleftrightarrow>
     rf_timeout b = PInt 60 \<and> rf_stdout_limit b = 1000 \<and> rf_stderr_limit b = 1000
     \<and> (\<exists>y. rf_environment_identity b = sha256 y) \<and> rf_filesystem_policy b = ''unrestricted-process-workspace''
     \<and> rf_network_policy b = ''ambient-process-network'' \<and> rf_runner_identity b = ''runner'' \<and> rf_runner_version b = ''1''
     \<and> rf_worker_identity b = None \<and> rf_host_identity b = Some (''host.local-'' @ take 32 (sha256 ''host''))
     \<and> rf_executable_identity b = Some ''tool'' \<and> rf_image_identity b = None \<and> rf_placement_identity b = None
     \<and> rf_capabilities b = local_capabilities ''linux'' ''x86'' True \<and> rf_same_operator b = Some True"

lemma sample_builder:
  obtains b where "new_builder sample_jcs sample_profile [''tool''] ''/p'' (PInt 60) 1000 1000 [] [] = Inr b"
    "ob_finished b = None" "sample_facts b"
proof -
  obtain b where b: "new_builder sample_jcs sample_profile [''tool''] ''/p'' (PInt 60) 1000 1000 [] [] = Inr b"
    by (simp add: new_builder_def canonical_sha256_def sample_jcs_def canonical_bytes_def dict_of_def del: enc.simps)
  moreover have "sample_facts b"
    using b by (auto simp: new_builder_def canonical_sha256_def sample_facts_def sample_profile_def local_profile_def
        rbind_eq_Inr simp del: enc.simps)
  ultimately show thesis using new_builder_fresh that by blast
qed

lemma sample_request_ok:
  "validate_argv (PList [PStr ''tool'']) = Inr [''tool'']" "validate_limits (PInt 60) 1000 None = Inr ()"
  by code_simp+

lemma sample_local_run:
  assumes "new_builder sample_jcs sample_profile [''tool''] ''/p'' (PInt 60) 1000 1000 [] [] = Inr b"
    and "run_bounded (PList [PStr ''tool'']) (PInt 60) 1000 None pr b = Some (r, b')"
  shows "local_run sample_jcs sample_profile sample_request pr =
    (case r of
       Inl (ForgeError c) \<Rightarrow> Some (session_of (failed_run b' (pr_ended_at pr) (pr_elapsed pr) c) None (Some c))
     | Inl (PyExc n) \<Rightarrow> Some (Inl (PyExc n))
     | Inr x \<Rightarrow> Some (session_of (completed_run b' (pr_ended_at pr) x) (Some x) None))"
proof -
  have "stream_caps 1000 None s = 1000" for s by (cases s) (simp_all add: stream_caps_def)
  then show ?thesis
    using assms by (simp add: local_run_def sample_request_def sample_request_ok rthen_def split: sum.split exn.split)
qed

lemma sample_collected:
  "collect (stream_caps 1000 None) (pr_polls (sample_process True))
     \<lparr>co_open = [Stdout, Stderr], co_stdout = [], co_stderr = [], co_builder = b\<rparr>
   = Some (Inr (), \<lparr>co_open = [], co_stdout = sample_output, co_stderr = [], co_builder = feed Stdout sample_output b\<rparr>)"
proof -
  have "sample_output \<noteq> [] \<and> length sample_output \<le> 1000" by code_simp
  then show ?thesis
    by (simp add: sample_process_def collect.simps extend_chunk_def chunk_def stream_caps_def Let_def)
qed

text \<open>The sessions of the two programs.\<close>

lemma sample_unstarted:
  obtains e where "local_run sample_jcs sample_profile sample_request (sample_process False) = Some (Inr e)"
    "es_result e = None" "es_error_code e = Some ''COMMAND_START''" "sample_facts (es_observation e)"
    "eo_termination (es_observation e) = ''internal-runner-error''"
proof (rule sample_builder)
  fix b assume b: "new_builder sample_jcs sample_profile [''tool''] ''/p'' (PInt 60) 1000 1000 [] [] = Inr b"
    "ob_finished b = None" "sample_facts b"
  obtain e where e: "session_of (failed_run b sample_now (PInt 1) ''COMMAND_START'') None (Some ''COMMAND_START'') = Inr e"
      "es_result e = None" "es_error_code e = Some ''COMMAND_START''" "sample_facts (es_observation e)"
      "eo_termination (es_observation e) = ''internal-runner-error''"
    using b(2,3) by (simp add: failed_run_def session_of_def observe_def Let_def sample_facts_def failure_termination_def)
  have "run_bounded (PList [PStr ''tool'']) (PInt 60) 1000 None (sample_process False) b = Some (raise ''COMMAND_START'', b)"
    by (simp add: run_bounded_def sample_request_ok rthen_def) (simp add: sample_process_def)
  from sample_local_run [OF b(1) this] show thesis using that e by (simp add: sample_process_def)
qed

lemma sample_completed:
  obtains e r where "local_run sample_jcs sample_profile sample_request (sample_process True) = Some (Inr e)"
    "es_result e = Some r" "er_returncode r = 0" "es_stdout e = sample_output" "es_error_code e = None" "er_duration r = PInt 1"
proof (rule sample_builder)
  fix b assume b: "new_builder sample_jcs sample_profile [''tool''] ''/p'' (PInt 60) 1000 1000 [] [] = Inr b" "ob_finished b = None"
  let ?b = "feed Stdout sample_output (b\<lparr>ob_started_at := Some sample_now\<rparr>)"
  let ?r = "\<lparr>er_argv = [''tool''], er_returncode = 0, er_stdout = sample_output, er_stderr = [], er_duration = PInt 1\<rparr>"
  have f: "ob_finished ?b = None" using b(2) by (simp add: feed_def)
  obtain e where e: "session_of (completed_run ?b sample_now ?r) (Some ?r) None = Inr e"
      "es_result e = Some ?r" "es_stdout e = sample_output" "es_error_code e = None"
    using f by (simp add: completed_run_def termination_of_def session_of_def observe_def Let_def)
  have "run_bounded (PList [PStr ''tool'']) (PInt 60) 1000 None (sample_process True) b = Some (Inr ?r, ?b)"
    by (simp add: run_bounded_def sample_request_ok rthen_def sample_collected) (simp add: sample_process_def sample_collected [unfolded sample_process_def])
  from sample_local_run [OF b(1) this] show thesis using that e by (simp add: sample_process_def)
qed

section \<open>A binding\<close>

definition sample_workflow :: workflow where
  "sample_workflow =
     \<lparr>wf_name = ''unit-tests'', wf_category = ''tests'', wf_mode = ''both'', wf_command = [''tool''], wf_protocol = False,
      wf_provider = None, wf_environment = [], wf_disclosure = ''status-only'', wf_subject = ''project''\<rparr>"

definition sample_calendar :: calendar where
  "sample_calendar = \<lparr>cl_window = (\<lambda>t _. (t, t)), cl_now = sample_now\<rparr>"

definition sample_run_properties :: dict where
  "sample_run_properties =
     [(''containerization'', PStr ''not-established''), (''evaluator_independence'', PStr ''not-established''),
      (''execution_completed'', PStr ''unknown''), (''external_anchoring'', PStr ''not-established''),
      (''filesystem_isolation'', PStr ''not-established''), (''governance_certification'', PStr ''not-established''),
      (''local_result_validity'', PStr ''unknown''), (''network_isolation'', PStr ''not-established''),
      (''protected_custody'', PStr ''not-established''), (''runner_capability'', PStr ''established''),
      (''same_operator_execution'', PStr ''established''), (''witnessing'', PStr ''not-established'')]"

definition sample_run_binding :: "string \<Rightarrow> string \<Rightarrow> dict" where
  "sample_run_binding host env =
     [(''action_identity'', PStr sample_identity), (''action_kind'', PStr ''workflow_action''), (''architecture'', PStr ''x86''),
      (''candidate_identity'', PStr ''candidate:1''), (''environment_identity'', PStr env), (''epoch_identity'', PNone),
      (''established_properties'', PDict sample_run_properties), (''executable_identity'', PStr ''tool''),
      (''execution_scope'', PStr ''local''), (''host_identity'', PStr host), (''image_identity'', PNone),
      (''mncs_receipt'', PNone), (''os_family'', PStr ''linux''), (''project_identity'', PStr ''p''),
      (''receipt_completeness'', PStr ''incomplete''), (''receipt_identity'', PNone), (''receipt_schema_version'', PNone),
      (''recorded_at'', PStr sample_now), (''request_identity'', PNone), (''result_identity'', PNone),
      (''runner_identity'', PStr ''runner''), (''runner_kind'', PStr ''local-process''), (''runner_version'', PStr ''1''),
      (''status'', PStr ''UNKNOWN''), (''termination_category'', PStr ''internal-runner-error''), (''worker_identity'', PNone),
      (''workflow_or_verifier'', PStr ''unit-tests'')]"

lemma sample_run_binding_object:
  "json_object (PDict (sample_run_binding host env)) = Inr (sample_run_binding host env)"
  by (rule fixed_json_object)
    (simp_all add: sample_run_binding_def sample_run_properties_def dict_wf_def json_fixed_def as_json_value.simps as_json_scalar dict_of_def)

lemma sample_identity_utf8: "utf8_ok sample_identity"
  by (rule derive_utf8 [OF sample_derive])

lemma sample_run_binding_json:
  assumes "utf8_ok host" "utf8_ok env"
  shows "json_val (PDict (sample_run_binding host env))"
  using assms sample_identity_utf8 by (simp add: sample_run_binding_def sample_run_properties_def dict_wf_def)

lemma sample_run_binding_derive:
  assumes "utf8_ok host" "utf8_ok env"
  shows "\<exists>i. derive_record_identity EXECUTION_RECEIPT_BINDING (sample_run_binding host env) = Inr i \<and> i \<noteq> []"
  using assms sample_identity_utf8
  by (simp add: derive_record_identity_def spec_of_def execution_receipt_binding_spec_def identity_projection_def
      sample_run_binding_def sample_run_properties_def as_json_value.simps metadata_dict_def CURRENT_SCHEMA_VERSION_def
      local_json_identity_def canonical_bytes_def dict_of_def sample_now_def del: enc.simps)

lemma sample_property_keys: "set (map fst sample_run_properties) = set ESTABLISHED_PROPERTY_KEYS"
  by code_simp

lemma sample_run_binding_valid:
  assumes "env \<noteq> []" "i \<noteq> []"
  shows "validate_fields jcs EXECUTION_RECEIPT_BINDING (dict_put ''binding_id'' (PStr i) (sample_run_binding host env)) = Inr ()"
  using assms sample_identity_facts(1) sample_property_keys [unfolded sample_run_properties_def, simplified]
  by (simp add: sample_run_binding_def sample_run_properties_def keys_def dict_get_def validate_fields_def spec_of_def
      execution_receipt_binding_spec_def validate_shape_def allowed_def execution_receipt_binding_strings_def nonempty_str_def
      status_is_valid_def STATUSES_def validate_type_rules_def validate_execution_receipt_binding_def Let_def
      RECEIPT_ACTION_KINDS_def RECEIPT_COMPLETENESS_def ESTABLISHED_PROPERTY_STATES_def ensure_in_def in_strs_def sample_now_def)

lemma sample_run_binding_record:
  assumes "utf8_ok host" "utf8_ok env" "env \<noteq> []"
  obtains r where "new_record jcs EXECUTION_RECEIPT_BINDING (sample_run_binding host env) = Inr r"
proof -
  let ?d = "sample_run_binding host env"
  obtain i where i: "derive_record_identity EXECUTION_RECEIPT_BINDING ?d = Inr i" "i \<noteq> []"
    using sample_run_binding_derive [OF assms(1,2)] by blast
  have "dict_get ?d ''binding_id'' = PNone" "''record_type'' \<notin> set (keys ?d)" "''schema_version'' \<notin> set (keys ?d)"
    by (simp_all add: sample_run_binding_def dict_get_def keys_def)
  then show thesis
    using that sample_run_binding_valid [OF assms(3) i(2), of jcs host]
    by (simp add: new_record_def sample_run_binding_object i(1) spec_of_def execution_receipt_binding_spec_def
        CURRENT_SCHEMA_VERSION_def)
qed

text \<open>The binding of the program that cannot be started.\<close>

lemma bounded_id_sha:
  assumes "pre \<in> set [''receipt.'', ''subject.'', ''challenge.'']"
  shows "bounded_id pre v = Inr (pre @ take 40 (sha256 v))"
proof -
  have "c \<in> set ''0123456789abcdef''" if "c \<in> set (take 40 (sha256 v))" for c
    using that sha256_hex64 [of v] in_set_takeD [OF that] by (simp only: is_hex64_def list_all_iff)
  then have "list_all (\<lambda>x. alnum x) (take 40 (sha256 v))"
    by (fastforce simp: list_all_iff alnum_def)
  then have "list_all (\<lambda>x. alnum x \<or> x \<in> set ''._:-'') (take 40 (sha256 v))" by (auto simp: list_all_iff)
  then have "is_id (pre @ take 40 (sha256 v))"
    using assms by (auto simp: is_id_def alnum_def)
  then show ?thesis by (simp add: bounded_id_def Let_def)
qed

lemma sha256_ascii: "c \<in> set (sha256 v) \<Longrightarrow> of_char c < (128::nat)"
proof -
  assume "c \<in> set (sha256 v)"
  then have "c \<in> set ''0123456789abcdef''" using sha256_hex64 [of v] by (simp only: is_hex64_def list_all_iff)
  then show "of_char c < (128::nat)" by auto
qed

lemma sample_context_of:
  assumes "sample_facts ob"
  shows "\<exists>ctx. receipt_context_of sample_jcs sample_calendar ''p'' (Inr []) sample_workflow sample_record ob = Inr ctx"
proof -
  have f: "rf_timeout ob = PInt 60" "rf_stdout_limit ob = 1000" "rf_stderr_limit ob = 1000"
    "rf_filesystem_policy ob = ''unrestricted-process-workspace''" "rf_network_policy ob = ''ambient-process-network''"
    "rf_runner_identity ob = ''runner''" "rf_runner_version ob = ''1''"
    "rf_capabilities ob = local_capabilities ''linux'' ''x86'' True"
    using assms by (auto simp: sample_facts_def)
  obtain tb where b: "content_digest sample_jcs (dict_of
       [(''kind'', PStr ''forge-declared-workflow''), (''project_identity'', PStr ''p''), (''workflow'', PStr (wf_name sample_workflow)),
        (''command'', PList (map PStr (wf_command sample_workflow))), (''category'', PStr (wf_category sample_workflow)),
        (''subject'', PStr (wf_subject sample_workflow))]) = Inr tb"
    by (simp add: sample_workflow_def content_digest_def sample_jcs_def canonical_bytes_def dict_of_def del: enc.simps)
  obtain policy where p: "policy_digest sample_jcs (''environment_keys'', PList (map PStr (sort (keys [])))) ob = Inr policy"
    by (simp add: policy_digest_def f content_digest_def sample_jcs_def canonical_bytes_def dict_of_def keys_def del: enc.simps)
  obtain harness where h: "harness_digest sample_jcs ob = Inr harness"
    by (simp add: harness_digest_def f local_capabilities_def content_digest_def sample_jcs_def canonical_bytes_def str_dict_def
        dict_of_def del: enc.simps)
  show ?thesis
    by (simp add: receipt_context_of_def b p h context_of_def bounded_id_sha)
qed

lemma sample_bound:
  assumes "sample_facts (es_observation session)" "eo_termination (es_observation session) = ''internal-runner-error''"
  obtains b where "bind_workflow_execution sample_jcs sample_calendar ''p'' (Inr []) sample_now
    \<lparr>we_action = sample_record, we_result = None, we_session = session, we_workflow = sample_workflow,
     we_epoch = None, we_error = Some (ForgeError ''COMMAND_START'')\<rparr> = Inr b"
    "\<exists>flds. new_record sample_jcs EXECUTION_RECEIPT_BINDING flds = Inr b \<and> json_val (PDict flds)"
proof -
  let ?ob = "es_observation session"
  let ?x = "\<lparr>we_action = sample_record, we_result = None, we_session = session, we_workflow = sample_workflow,
     we_epoch = None, we_error = Some (ForgeError ''COMMAND_START'')\<rparr>"
  let ?host = "''host.local-'' @ take 32 (sha256 ''host'')"
  let ?s = "\<lparr>bs_project = ''p'', bs_epoch = None, bs_candidate = rget sample_record ''candidate_identity'',
              bs_action_kind = ''workflow_action'', bs_action_identity = text_of sample_record ''action_id'',
              bs_request_identity = rget sample_record ''protocol_request_identity'', bs_name = ''unit-tests'', bs_result = None\<rparr>"
  obtain y where env: "rf_environment_identity ?ob = sha256 y" using assms(1) by (auto simp: sample_facts_def)
  have f: "rf_capabilities ?ob = local_capabilities ''linux'' ''x86'' True" "rf_runner_identity ?ob = ''runner''"
    "rf_runner_version ?ob = ''1''" "rf_worker_identity ?ob = None" "rf_host_identity ?ob = Some ?host"
    "rf_executable_identity ?ob = Some ''tool''" "rf_image_identity ?ob = None" "rf_same_operator ?ob = Some True"
    using assms(1) by (simp_all add: sample_facts_def)
  have r: "rget sample_record ''candidate_identity'' = PStr ''candidate:1''" "rget sample_record ''protocol_request_identity'' = PNone"
    "text_of sample_record ''action_id'' = sample_identity"
    by (simp_all add: sample_record_def sample_fields_def dict_get_def text_of_def)
  have props: "str_dict (established_properties ?ob) = sample_run_properties"
    using assms(2)
    by (simp add: established_properties_def f Let_def local_capabilities_def completed_category_def property_state_def
        str_dict_def dict_of_def sample_run_properties_def)
  have flds: "binding_fields ?s ?ob (None, None, None, ''incomplete'') sample_now = sample_run_binding ?host (sha256 y)"
    unfolding binding_fields_def prod.case props
    by (simp add: f env r assms(2) local_capabilities_def opt_text_def dict_of_def sample_run_binding_def)
  have "utf8_ok ?host" by (rule utf8_ok_ascii) (use sha256_ascii in \<open>auto dest: in_set_takeD\<close>)
  moreover have "sha256 y \<noteq> []" using length_sha256 [of y] by force
  ultimately have u: "utf8_ok ?host" "utf8_ok (sha256 y)" "sha256 y \<noteq> []" using utf8_ok_sha256 by auto
  obtain b where b: "new_record sample_jcs EXECUTION_RECEIPT_BINDING (sample_run_binding ?host (sha256 y)) = Inr b"
    by (rule sample_run_binding_record [OF u])
  have idf: "identity_field execution_receipt_binding_spec = Some ''binding_id''"
    by (simp add: execution_receipt_binding_spec_def)
  have "rget b ''established_properties'' = PProxy (str_dict (established_properties ?ob))"
    by (rule new_record_str_dict [OF b, where spec = execution_receipt_binding_spec])
      (simp_all add: sample_run_binding_def dict_get_def props idf dict_wf_def)
  then have "binding_record sample_jcs ?s ?ob (None, None, None, ''incomplete'') sample_now = Inr b"
    using b sample_property_keys by (simp add: binding_record_def flds props keys_def)
  moreover have "completeness ?ob = ''incomplete''"
    using assms(2) by (simp add: completeness_def INCOMPLETE_TERMINATIONS_def)
  ultimately have "bind_workflow_execution sample_jcs sample_calendar ''p'' (Inr []) sample_now ?x = Inr b"
    using sample_context_of [OF assms(1)] by (auto simp: bind_workflow_execution_def Let_def envelope_def sample_workflow_def)
  then show thesis using that b sample_run_binding_json [OF u(1,2)] by blast
qed

section \<open>A result\<close>

definition sample_stamps :: stamps where
  "sample_stamps = \<lparr>st_now = (\<lambda>n. if n < 4 then ''2024-01-01T00:00:00+00:00'' else sample_now), st_txid = (\<lambda>_. sample_txid)\<rparr>"

definition sample_subject :: run_subject where
  "sample_subject = \<lparr>sj_candidate = PStr ''candidate:1'', sj_epoch = PNone\<rparr>"

definition sample_executor :: "execution_session \<Rightarrow> executor" where
  "sample_executor session =
     \<lparr>xc_config = \<lparr>fc_path = [''p'', ''mncs-forge.toml''], fc_root = [''p''],
         fc_raw = [(''limits'', PDict [(''output_bytes'', PInt 1000), (''timeout_seconds'', PInt 60)])],
         fc_paths = [], fc_providers = [], fc_workflows = [(''unit-tests'', sample_workflow)], fc_verifiers = []\<rparr>,
      xc_mode = ''development'', xc_state_dir = [''p'', ''state''], xc_environ = [], xc_workspace = (\<lambda>_. Inr ''/p''),
      xc_runner = (\<lambda>_. Inr session), xc_redact = (\<lambda>_ _. []), xc_calendar = sample_calendar\<rparr>"

definition sample_reading :: reading where
  "sample_reading = (unread sample_workflow)\<lparr>rd_status := ''PASS'', rd_limitations := []\<rparr>"

lemma sample_read: "read_command sample_workflow 0 sample_output = Inr sample_reading"
  by code_simp

definition sample_result_fields :: dict where
  "sample_result_fields =
     [(''candidate_identity'', PStr ''candidate:1''), (''category'', PStr ''tests''), (''duration_seconds'', PInt 1),
      (''environment'', PDict [(''allowlisted_keys'', PList []), (''values_disclosed'', PBool False)]), (''limitations'', PList []),
      (''method'', PStr ''declared-command''), (''protocol_request_identity'', PNone),
      (''provider_or_evaluator_identity'', PDict [(''id'', PStr ''unit-tests''), (''kind'', PStr ''declared-workflow'')]),
      (''recorded_at'', PStr ''2024-01-01T00:00:00+00:00''), (''returncode'', PInt 0), (''scope'', PStr ''declared configuration paths''),
      (''status'', PStr ''PASS''), (''stderr_diagnostic'', PStr []), (''subject_type'', PStr ''project''),
      (''unsupported_constructs'', PList []), (''witnesses_or_counterexamples'', PList []), (''workflow'', PStr ''unit-tests'')]"

lemma sample_result_object: "json_object (PDict sample_result_fields) = Inr sample_result_fields"
  by (rule fixed_json_object)
    (simp_all add: sample_result_fields_def dict_wf_def json_fixed_def as_json_value.simps as_json_scalar dict_of_def)

lemma sample_result_derive: "\<exists>i. derive_record_identity WORKFLOW_RESULT sample_result_fields = Inr i \<and> i \<noteq> []"
  by (simp add: derive_record_identity_def spec_of_def workflow_result_spec_def identity_projection_def
      sample_result_fields_def as_json_value.simps metadata_dict_def CURRENT_SCHEMA_VERSION_def
      local_json_identity_def canonical_bytes_def dict_of_def del: enc.simps)

lemma sample_result_record: "\<exists>r. new_record jcs WORKFLOW_RESULT sample_result_fields = Inr r"
proof -
  obtain i where i: "derive_record_identity WORKFLOW_RESULT sample_result_fields = Inr i" "i \<noteq> []"
    using sample_result_derive by blast
  have v: "validate_fields jcs WORKFLOW_RESULT (dict_put ''output_identity'' (PStr i) sample_result_fields) = Inr ()"
    using i(2)
    by (simp add: sample_result_fields_def keys_def dict_get_def validate_fields_def spec_of_def workflow_result_spec_def
        validate_shape_def allowed_def WORKFLOW_RESULT_FIELDS_def workflow_result_strings_def nonempty_str_def status_is_valid_def STATUSES_def
        validate_type_rules_def ensure_in_def in_strs_def)
  have "dict_get sample_result_fields ''output_identity'' = PNone" "''record_type'' \<notin> set (keys sample_result_fields)"
    "''schema_version'' \<notin> set (keys sample_result_fields)"
    by (simp_all add: sample_result_fields_def dict_get_def keys_def)
  then show ?thesis
    by (simp add: new_record_def sample_result_object i(1) spec_of_def workflow_result_spec_def v CURRENT_SCHEMA_VERSION_def)
qed

text \<open>The execution of the workflow of that program, and the execution of the program that cannot be started.\<close>

lemma sample_action: "action_fields (sample_executor session) sample_stamps sample_workflow sample_subject PNone = sample_fields"
  by (simp add: action_fields_def sample_executor_def sample_stamps_def sample_workflow_def sample_subject_def
      sample_fields_def dict_of_def)

lemma sample_env: "workflow_environment (sample_executor session) sample_workflow = Inr []"
proof -
  have "environment (xc_config (sample_executor undefined)) [''p'', ''state''] [] sample_workflow = Inr []"
    by (simp add: sample_executor_def environment_def declared_environment_def sample_workflow_def get_or_def dict_get_def Let_def
        path_name_def rthen_def) code_simp
  then show ?thesis by (simp add: workflow_environment_def sample_executor_def)
qed

lemma sample_execute:
  "execute sample_jcs (sample_executor session) sample_stamps sample_workflow sample_subject False WORKFLOW_RESULT =
    conclude sample_jcs (sample_executor session) sample_stamps sample_workflow sample_subject False WORKFLOW_RESULT []
      sample_record session"
proof -
  have "\<not> wf_protocol sample_workflow" "xc_runner (sample_executor session) = (\<lambda>_. Inr session)"
    by (simp_all add: sample_workflow_def sample_executor_def)
  then show ?thesis by (simp add: execute_def sample_action sample_new_record sample_env)
qed

lemma sample_unstarted_execution:
  assumes "es_result session = None" "es_error_code session = Some ''COMMAND_START''"
  shows "execute sample_jcs (sample_executor session) sample_stamps sample_workflow sample_subject False WORKFLOW_RESULT =
    Inr \<lparr>we_action = sample_record, we_result = None, we_session = session, we_workflow = sample_workflow,
     we_epoch = None, we_error = Some (ForgeError ''COMMAND_START'')\<rparr>"
  unfolding sample_execute using assms by (simp add: conclude_def failed_execution_def Let_def sample_subject_def)

lemma sample_passed_execution:
  assumes "es_result session = Some r" "es_error_code session = None" "er_returncode r = 0" "er_duration r = PInt 1"
    and "es_stdout session = sample_output"
  obtains e rr where "execute sample_jcs (sample_executor session) sample_stamps sample_workflow sample_subject False WORKFLOW_RESULT = Inr e"
    "we_result e = Some rr" "we_session e = session" "rget rr ''status'' = PStr ''PASS''"
proof -
  have flds: "result_fields (sample_executor session) sample_stamps sample_workflow sample_subject False []
      (rget sample_record ''protocol_request_identity'') session r sample_reading = sample_result_fields"
  proof -
    have "rget sample_record ''protocol_request_identity'' = PNone"
      by (simp add: sample_record_def sample_fields_def dict_get_def)
    then show ?thesis
      by (simp add: result_fields_def sample_executor_def sample_stamps_def sample_workflow_def sample_subject_def
          sample_reading_def unread_def assms(3,4) sample_result_fields_def dict_of_def keys_def str_dict_def)
  qed
  obtain rr where n: "new_record sample_jcs WORKFLOW_RESULT sample_result_fields = Inr rr"
    using sample_result_record by blast
  then have t: "rtype rr = WORKFLOW_RESULT" using new_record_ok by blast
  have rd: "read_result sample_workflow session r = Inr (Inr sample_reading)"
    using sample_read by (simp add: read_result_def assms(3,5)) (simp add: sample_workflow_def)
  have "execute sample_jcs (sample_executor session) sample_stamps sample_workflow sample_subject False WORKFLOW_RESULT
    = Inr \<lparr>we_action = sample_record, we_result = Some rr, we_session = session, we_workflow = sample_workflow,
       we_epoch = None, we_error = None\<rparr>"
    unfolding sample_execute conclude_def Let_def assms(1,2) prod.case option.case rd rbind_Inr sum.case flds n
    by (simp add: t sample_subject_def)
  moreover have "rget rr ''status'' = PStr ''PASS''"
    by (rule result_record(1) [of sample_jcs WORKFLOW_RESULT "sample_executor session" sample_stamps sample_workflow sample_subject
          False "[]" "rget sample_record ''protocol_request_identity''" session r sample_reading rr, unfolded sample_reading_def, simplified])
      (simp add: sample_reading_def [symmetric] flds n)
  ultimately show thesis using that by simp
qed

end
