(* ===== verification/ExecutionProperties.thy ===== *)
theory ExecutionProperties
  imports ExecutionSamples Rights
begin

text \<open>
  The properties of running a workflow: what a session says of its program, what a local run may claim,
  when a result passes, and what is recorded of an execution.
\<close>

section \<open>Sessions\<close>

text \<open>
  C9. What a session of the local runner says of its program is what the program did. With a result,
  both outputs are complete, within their caps, and the observation has their exact lengths and
  digests. Without one the error is that the program could not be started, ran out of time or exceeded
  a cap; what is retained is a prefix of what was written, cut at the cap, nothing claims to be
  complete, and the error is OUTPUT_LIMIT exactly when more than a cap was read of some stream.
\<close>

theorem session_faithful:
  assumes "local_run jcs p rq pr = Some (Inr e)"
  shows "case es_result e of
     Some r \<Rightarrow> es_error_code e = None \<and> pr_exit pr = Some (er_returncode r)
       \<and> er_stdout r = es_stdout e \<and> er_stderr r = es_stderr e
       \<and> (\<forall>s. session_bytes s e = written s pr \<and> length (written s pr) \<le> caps_of rq s
            \<and> so_total (session_stream s e) = Some (length (written s pr)) \<and> so_truncated (session_stream s e) = Some False
            \<and> so_complete_sha256 (session_stream s e) = (if written s pr = [] then None else Some (sha256 (written s pr))))
   | None \<Rightarrow> (\<exists>c. es_error_code e = Some c \<and> c \<in> {''COMMAND_START'', ''TIMEOUT'', ''OUTPUT_LIMIT''}
       \<and> (\<exists>seen. (\<forall>s. prefix (seen s) (written s pr) \<and> session_bytes s e = take (caps_of rq s) (seen s)
            \<and> so_observed (session_stream s e) = length (seen s)
            \<and> so_total (session_stream s e) = None \<and> so_complete_sha256 (session_stream s e) = None
            \<and> so_truncated (session_stream s e) = (if length (seen s) > caps_of rq s then Some True else None))
          \<and> (c = ''OUTPUT_LIMIT'' \<longleftrightarrow> (\<exists>s. length (seen s) > caps_of rq s))))"
  by (rule session_observed [OF assms])

theorem session_faithful_witness:
  "\<exists>e. local_run sample_jcs sample_profile sample_request (sample_process True) = Some (Inr e)
    \<and> es_stdout e = sample_output \<and> so_total (eo_stdout (es_observation e)) = Some (length sample_output)"
proof -
  obtain e r where e: "local_run sample_jcs sample_profile sample_request (sample_process True) = Some (Inr e)"
      "es_result e = Some r" "er_returncode r = 0" "es_stdout e = sample_output" "es_error_code e = None"
      "er_duration r = PInt 1"
    by (rule sample_completed)
  from session_faithful [OF e(1)] e(2) have "session_bytes Stdout e = written Stdout (sample_process True)"
      "so_total (session_stream Stdout e) = Some (length (written Stdout (sample_process True)))"
    by simp_all
  then show ?thesis using e by (auto simp: session_bytes_def session_stream_def)
qed

text \<open>
  C18. The binding of a local run claims nothing the local runner does not provide: its status is
  UNKNOWN; no assessment of it fails, none of isolation, containerization, anchoring, witnessing,
  custody, independence or governance passes, and one that passes is of a run whose outputs were
  observed to the last byte. The binding says that the execution completed exactly when the run had a
  result.
\<close>

theorem local_runs_claim_little:
  assumes "local_run jcs (local_profile (local_capabilities system machine posix) rid executable runtime node) rq pr
      = Some (Inr session)"
    and "bind_workflow_execution jcs cl proj env now x = Inr b" "we_session x = session"
  shows "rget b ''status'' = PStr ''UNKNOWN'' \<and> (\<exists>ps. property_map b = Some ps
    \<and> (dict_get ps ''execution_completed'' = PStr ''established'' \<longleftrightarrow> es_result session \<noteq> None)
    \<and> (\<forall>requested. as_status (assess_binding b ps requested) \<in> {''PASS'', ''UNKNOWN''}
        \<and> (as_status (assess_binding b ps requested) = ''PASS'' \<longrightarrow>
            set requested \<inter> set UNSUPPORTED_LOCALLY = {} \<and> es_result session \<noteq> None
            \<and> (\<forall>s. session_bytes s session = written s pr))))"
proof -
  let ?ps = "str_dict (established_properties (es_observation session))"
  note b = workflow_binding [OF assms(2), unfolded assms(3)]
  note loc = local_run_established [OF assms(1)]
  have not_est: "dict_get ?ps k \<noteq> PStr ''established''" if "k \<in> set UNSUPPORTED_LOCALLY" for k
    using loc(1) that by (auto simp: list_all_iff)
  have st: "as_status (assess_binding b ?ps requested) \<in> {''PASS'', ''UNKNOWN''}
      \<and> (as_status (assess_binding b ?ps requested) = ''PASS'' \<longrightarrow>
          set requested \<inter> set UNSUPPORTED_LOCALLY = {} \<and> es_result session \<noteq> None
          \<and> (\<forall>s. session_bytes s session = written s pr))" for requested
  proof -
    have "laundering_contradiction b = None"
      using laundering_iff [of b] b(4) not_est by (auto simp: UNSUPPORTED_LOCALLY_def)
    then have "as_status (assess_binding b ?ps requested) \<in> {''PASS'', ''UNKNOWN''}"
      by (auto simp: assess_binding_def Let_def)
    moreover have "set requested \<inter> set UNSUPPORTED_LOCALLY = {} \<and> es_result session \<noteq> None
        \<and> (\<forall>s. session_bytes s session = written s pr)" if "as_status (assess_binding b ?ps requested) = ''PASS''"
    proof -
      have p: "rget b ''receipt_completeness'' = PStr ''complete''" "\<forall>k \<in> set requested. dict_get ?ps k = PStr ''established''"
        using that assess_pass [OF b(4)] by auto
      have "es_result session \<noteq> None" using loc(3) b(5) p(1) by blast
      then show ?thesis using session_observed [OF assms(1)] p(2) not_est by auto
    qed
    ultimately show ?thesis by blast
  qed
  show ?thesis using b(1,4) loc(2) st by (intro conjI exI [of _ ?ps]) auto
qed

theorem local_runs_claim_little_witness:
  "\<exists>session b ps. local_run sample_jcs sample_profile sample_request (sample_process False) = Some (Inr session)
    \<and> bind_workflow_execution sample_jcs sample_calendar ''p'' (Inr []) sample_now
        \<lparr>we_action = sample_record, we_result = None, we_session = session, we_workflow = sample_workflow,
         we_epoch = None, we_error = Some (ForgeError ''COMMAND_START'')\<rparr> = Inr b
    \<and> property_map b = Some ps \<and> as_status (assess_binding b ps [''containerization'']) = ''UNKNOWN''"
proof -
  obtain session where s: "local_run sample_jcs sample_profile sample_request (sample_process False) = Some (Inr session)"
      "es_result session = None" "es_error_code session = Some ''COMMAND_START''" "sample_facts (es_observation session)"
      "eo_termination (es_observation session) = ''internal-runner-error''"
    by (rule sample_unstarted)
  obtain b where b: "bind_workflow_execution sample_jcs sample_calendar ''p'' (Inr []) sample_now
        \<lparr>we_action = sample_record, we_result = None, we_session = session, we_workflow = sample_workflow,
         we_epoch = None, we_error = Some (ForgeError ''COMMAND_START'')\<rparr> = Inr b"
    by (rule sample_bound [OF s(4,5)])
  from local_runs_claim_little [OF s(1) [unfolded sample_profile_def] b] s b show ?thesis by auto
qed

section \<open>Results\<close>

text \<open>
  C17. A workflow's result passes only when its program exited with zero and its output is a structured
  object that says PASS: the completion of a command is not evidence. A command that exits with another
  code fails; a run without a result, and a protocol run whose exit code is not zero, has no result
  record; and what a status-only evaluator found is not disclosed.
\<close>

theorem pass_needs_output:
  assumes "execute jcs x st w sj evaluator rt = Inr e" "we_result e = Some record"
  shows "\<exists>r. es_result (we_session e) = Some r \<and> es_error_code (we_session e) = None
    \<and> (rget record ''status'' = PStr ''PASS'' \<longrightarrow> er_returncode r = 0
        \<and> (\<exists>d. said w (we_session e) = Some d
             \<and> (if wf_protocol w then py_str (get_or d ''status'' (PStr ''UNKNOWN'')) = ''PASS''
                else dict_get d ''status'' = PStr ''PASS'')))
    \<and> (er_returncode r \<noteq> 0 \<longrightarrow> \<not> wf_protocol w \<and> rget record ''status'' = PStr ''FAIL'')
    \<and> (evaluator \<and> wf_disclosure w = ''status-only'' \<longrightarrow> rget record ''witnesses_or_counterexamples'' = PTuple [])"
proof -
  obtain env r rd where r: "es_error_code (we_session e) = None" "es_result (we_session e) = Some r" "we_error e = None"
      "read_result w (we_session e) r = Inr (Inr rd)" "rt \<in> {WORKFLOW_RESULT, FINAL_EVALUATION, BUNDLE}"
      "new_record jcs rt (result_fields x st w sj evaluator env (rget (we_action e) ''protocol_request_identity'')
         (we_session e) r rd) = Inr record"
    by (rule execute_result [OF assms])
  note f = result_record [OF r(6,5)]
  show ?thesis
    using r(1,2) f read_result_status [OF r(4)] by (cases "wf_protocol w") auto
qed

theorem pass_needs_output_witness:
  "\<exists>session e record d. execute sample_jcs (sample_executor session) sample_stamps sample_workflow sample_subject False
      WORKFLOW_RESULT = Inr e \<and> we_result e = Some record \<and> rget record ''status'' = PStr ''PASS''
    \<and> said sample_workflow session = Some d \<and> dict_get d ''status'' = PStr ''PASS''"
proof -
  obtain session r where s: "local_run sample_jcs sample_profile sample_request (sample_process True) = Some (Inr session)"
      "es_result session = Some r" "er_returncode r = 0" "es_stdout session = sample_output" "es_error_code session = None"
      "er_duration r = PInt 1"
    by (rule sample_completed)
  obtain e rr where e: "execute sample_jcs (sample_executor session) sample_stamps sample_workflow sample_subject False
      WORKFLOW_RESULT = Inr e" "we_result e = Some rr" "we_session e = session" "rget rr ''status'' = PStr ''PASS''"
    by (rule sample_passed_execution [OF s(2,5,3,6,4)])
  have np: "\<not> wf_protocol sample_workflow" by (simp add: sample_workflow_def)
  obtain d where "said sample_workflow (we_session e) = Some d" "dict_get d ''status'' = PStr ''PASS''"
    using pass_needs_output [OF e(1,2)] e(4) by (elim exE conjE) (simp only: np if_False simp_thms, elim conjE exE)
  with e show ?thesis
    by (intro exI [of _ session] exI [of _ e] exI [of _ rr] exI [of _ d] conjI) simp_all
qed

section \<open>What is recorded\<close>



section \<open>Final evaluation\<close>





end
