(* ===== verification/Spec2Isabelle.thy ===== *)
theory Spec2Isabelle
  imports Samples LifecycleProperties ProjectProperties ExecutionProperties
begin

text \<open>
  A verification library for mncs-forge, the program that records the development lifecycle of a
  software candidate: epochs, candidates, checks, dispositions, freezes, evaluations. The program
  keeps an append-only, hash-chained ledger of records in a state directory; every operation reads
  the verified history, asks a state machine for authorization, builds one immutable record, and
  commits it. Paths below are under \<open>src/src/mncs_forge\<close>.

  The theories, in the order of their imports:

  \<^item> \<open>Prelude\<close> holds the result type (a sum of the program's exceptions and a value), its
    automation, and the interface \<open>codec\<close> of an encoder with its decoder. \<open>PyVal\<close> holds the Python
    values that occur in records (dictionaries are sorted association lists, as key order is not
    observable in them) and Python's equality.
  \<^item> \<open>Json\<close>, \<open>JsonCodec\<close> model the canonical encoder and the decoder of \<open>serialization.py\<close>; texts are
    the bytes of their UTF-8 form. The decoder recurses with a step bound; C20 shows the bound of
    \<open>json_loads\<close>, two steps per byte, is never reached. \<open>Sha256\<close> is the digest, over 32-bit words;
    \<open>Serialization\<close> the content identities and the capped reads. A digest is never inverted: where a
    claim depends on two texts having different digests, the two texts are named as a collision.
  \<^item> \<open>RecordSpecs\<close>, \<open>Records\<close> model \<open>records.py\<close>: the tables of record types, validation,
    construction, migration of the legacy schema, immutable record files and ledger entries.
    \<open>RecordFacts\<close> holds the record invariant \<open>record_ok\<close> and the round trips.
  \<^item> \<open>Ledger\<close> models \<open>ledger.py\<close>: cached reads, the hash chain, appending, the audit, selection through
    the derived index. \<open>HashChain\<close> states the interface of a hash-chained log as the locale
    \<open>hash_log\<close>; \<open>LedgerFacts\<close> interprets it on the ledger's entries. \<open>LedgerAudit\<close> treats appends and
    the audit.
  \<^item> \<open>RecordStore\<close> models \<open>record_store.py\<close>: a commit is a list of durable steps on the files of the
    state directory, a crash keeps a prefix of them, recovery reads the journal. \<open>RecordStoreFacts\<close>
    treats journals and the index, \<open>CrashRecovery\<close> every crash point.
  \<^item> \<open>StateMachine\<close>, \<open>Authorization\<close> model \<open>state_machine.py\<close>: the projection of a history to a stage,
    evidence readiness, and the authorizers. \<open>LifecycleFacts\<close> shows what each authorizer guarantees,
    \<open>Lifecycle\<close> the invariant \<open>coherent\<close> of histories and what is projected from them.
  \<^item> \<open>Services\<close> models the services of \<open>application/candidates.py\<close>, \<open>application/evaluation.py\<close> and
    \<open>application/lifecycle.py\<close> on the state directory. \<open>ServiceFacts\<close> and \<open>ServiceCoherence\<close> show that
    each keeps the history coherent, \<open>Sessions\<close> composes them with crashes into a transition system.
  \<^item> \<open>Paths\<close>, \<open>Identity\<close> model \<open>paths.py\<close> and \<open>identity.py\<close>: scopes and containment below the project
    root, over a record of what the file system answers, and the length-delimited digest of an
    inventory of files. \<open>Config\<close> models \<open>config.py\<close>: loading, and the authority checks between
    workflows, providers and verifiers. \<open>Observer\<close> models the observer of \<open>adapters.py\<close> and so gives
    the observations that \<open>Services\<close> takes as a parameter.
  \<^item> \<open>Assurance\<close>, \<open>Rights\<close>, \<open>Evidence\<close> model \<open>application/assurance.py\<close>,
    \<open>application/rights_provenance.py\<close> and \<open>application/evidence.py\<close>: what recorded evidence
    establishes, and what it must not be taken to establish.
  \<^item> \<open>Runner\<close> models \<open>execution.py\<close> and the local runner of \<open>execution_observations.py\<close>: one run of a
    command as a script of what its pipes deliver and when it ends, the time-out, the cap on the
    retained output, and the observation a run leaves. \<open>RunnerFacts\<close> shows what an observation says.
    \<open>Receipts\<close> models \<open>mncs_execution_receipt.py\<close>, the checks a receipt has to pass; \<open>Bindings\<close> models
    \<open>application/execution_receipts.py\<close>: persisting an observation, binding an external receipt to a
    recorded one, reading both back.
  \<^item> \<open>Workflows\<close> models \<open>application/workflows.py\<close>: the declared and the bounded execution of a
    workflow, the evaluation of a frozen candidate by the reviewed evaluator, and the explanation of
    results. \<open>RecordFields\<close> reads fields back from new records; \<open>ExecutionFacts\<close> follows an execution and
    an evaluation through the services of \<open>Services\<close> and \<open>Assurance\<close>.
  \<^item> \<open>Samples\<close>, \<open>LifecycleSamples\<close>, \<open>ExecutionSamples\<close> hold concrete records, files, histories and runs
    for the witnesses. This theory states the properties of the store and of records (C1 to C21,
    except those of \<open>ExecutionProperties\<close>), \<open>LifecycleProperties\<close> those of the lifecycle (C22 to C33),
    \<open>EvidenceProperties\<close> those of the evidence services (C34 to C37), \<open>ProjectProperties\<close> those of a
    local project (C38 to C40), \<open>ExecutionProperties\<close> those of executions (C9, C11, C15, C17, C18).

  Parameters of the model: the canonicalizer of execution receipts (\<open>jcs\<close>), which is a separate
  package; the native adapter, a record of the functions it may provide, which run a separate
  toolchain; the observer of the working tree, a record of the observations a service makes, each of
  which may raise (\<open>Observer\<close> has the one instance the program uses); the answers of the file system;
  the validation of documents by a JSON schema; the parsed TOML document; the clock, the calendar
  that reads time stamps, and the names of transactions; a process, as the script of what its pipes
  deliver and when it ends; the redaction of output; the copied workspace of an execution. The text the program handles is UTF-8, which the properties state as \<open>utf8_ok\<close> where
  it matters. Exceptions carry the code of the \<open>ForgeError\<close> or the name of the Python exception;
  messages are not modelled.

  Not modelled: starting and signalling processes, finding executables, copying workspaces and the
  regular expressions of the redaction; the runners other than the local one and the probing of
  providers; the command line, server and request schemas; the micro verifiers and their plans, the
  development workflow of the native toolchain, the advisory compiler and concept studies, and the
  presentation of results. They are input and output around the parts above, or drive separate
  toolchains. File locks are not
  modelled: each operation of the record store runs as one sequence of steps, which is what the lock
  provides.
\<close>

section \<open>Transactions of the record store\<close>

text \<open>
  C1. A commit interrupted after any number of its durable steps (including every prefix of the
  staged files) is repaired by the next recovery: it succeeds, leaves no transaction behind, and the
  state directory is either exactly the old one, or it has the record file, the ledger extended by
  the one new entry and a current index. It is the old one only if the journal was not yet durable.
  The one other possibility is that two ledgers of the commit collide under SHA-256.
\<close>

theorem commit_crash_atomic:
  assumes "transactions dk = []" "readable jcs dk rs head es"
    and "decide_commit jcs now txid grp knd r dk = Inr (Fresh p)"
    and "new_record jcs rt flds = Inr r" "json_val (PDict flds)" "utf8_ok txid" "utf8_ok now"
  shows "(\<exists>counts d raw. recover_unlocked jcs (crashed jcs p dk n) = (Inr counts, d)
      \<and> raw_entry knd r rs now = Inr raw \<and> transactions d = []
      \<and> (if n \<le> length (prepare_steps p) then d = dk
         else read_verified d = Inr (rs @ [raw], entry_hash (plan_entry p))
           \<and> record_files d = (record_files dk)(plan_path p \<mapsto> plan_record p)
           \<and> index_current jcs (rs @ [raw]) d))
    \<or> collision (plan_before p) (plan_after p)"
proof (cases "collision (plan_before p) (plan_after p)")
  case False
  obtain ctx identity raw where p: "plan_sound jcs p dk rs head es ctx grp knd identity raw r"
      "raw_entry knd r rs now = Inr raw"
    by (rule decide_commit_sound [OF assms(3,1,2,4-7) False])
  obtain counts d where d: "recover_unlocked jcs (crashed jcs p dk n) = (Inr counts, d)"
      "if n \<le> length (prepare_steps p) then d = dk else completed jcs p dk (rs @ [raw]) d"
    using crash_recovery [OF p(1)] by blast
  show ?thesis
  proof (cases "n \<le> length (prepare_steps p)")
    case True
    with d p(2) assms(1) show ?thesis by simp
  next
    case False
    with d(2) have c: "completed jcs p dk (rs @ [raw]) d" by simp
    show ?thesis
      using d(1) p(2) False completed_readable [OF p(1) c] completed_transactions [OF c] completed_files [OF c] by auto
  qed
qed blast

theorem commit_crash_atomic_witness:
  "\<exists>p. decide_commit sample_jcs sample_now sample_txid ''workflow-actions'' ''workflow_action'' sample_record sample_disk
      = Inr (Fresh p)
    \<and> ((\<exists>counts d raw. recover_unlocked sample_jcs (crashed sample_jcs p sample_disk 1) = (Inr counts, d)
          \<and> raw_entry ''workflow_action'' sample_record [] sample_now = Inr raw \<and> transactions d = [] \<and> d = sample_disk)
       \<or> collision (plan_before p) (plan_after p))"
proof -
  obtain p where p: "decide_commit sample_jcs sample_now sample_txid ''workflow-actions'' ''workflow_action''
      sample_record sample_disk = Inr (Fresh p)"
    by (rule sample_decide)
  have "1 \<le> length (prepare_steps p)" by (simp add: prepare_steps_def)
  with commit_crash_atomic [OF _ sample_readable p sample_new_record sample_fields_json sample_texts(2,1), of 1]
  show ?thesis using p by (auto simp: sample_disk_def)
qed

text \<open>
  C2. A commit that is not interrupted returns the entry of the record and leaves the ledger
  extended by exactly that entry, the record file written at its canonical path with every other
  file as it was, a current index and no transaction (or a SHA-256 collision has been found).
\<close>

theorem commit_publishes:
  assumes "transactions dk = []" "readable jcs dk rs head es"
    and "decide_commit jcs now txid grp knd r dk = Inr (Fresh p)"
    and "new_record jcs rt flds = Inr r" "json_val (PDict flds)" "utf8_ok txid" "utf8_ok now"
  shows "(\<exists>d raw. commit jcs now txid grp knd r dk = (Inr (plan_entry p), d)
      \<and> raw_entry knd r rs now = Inr raw
      \<and> read_verified d = Inr (rs @ [raw], entry_hash (plan_entry p))
      \<and> record_files d = (record_files dk)(plan_path p \<mapsto> plan_record p)
      \<and> transactions d = [] \<and> payload (plan_entry p) = r \<and> index_current jcs (rs @ [raw]) d)
    \<or> collision (plan_before p) (plan_after p)"
  using commit_fresh [OF assms] by blast

theorem commit_publishes_witness:
  "\<exists>p::commit_plan. (\<exists>d raw. commit sample_jcs sample_now sample_txid ''workflow-actions'' ''workflow_action'' sample_record sample_disk
        = (Inr (plan_entry p), d)
      \<and> raw_entry ''workflow_action'' sample_record [] sample_now = Inr raw
      \<and> read_verified d = Inr ([] @ [raw], entry_hash (plan_entry p))
      \<and> record_files d = (record_files sample_disk)(plan_path p \<mapsto> plan_record p)
      \<and> transactions d = [] \<and> payload (plan_entry p) = sample_record \<and> index_current sample_jcs ([] @ [raw]) d)
    \<or> collision (plan_before p) (plan_after p)"
proof -
  obtain p where p: "decide_commit sample_jcs sample_now sample_txid ''workflow-actions'' ''workflow_action''
      sample_record sample_disk = Inr (Fresh p)"
    by (rule sample_decide)
  have "transactions sample_disk = []" by (simp add: sample_disk_def)
  from commit_publishes [OF this sample_readable p sample_new_record sample_fields_json sample_texts(2,1)]
  show ?thesis by blast
qed

text \<open>
  C3. Committing a record that has just been committed, under any transaction name and time, returns
  the same entry and changes no file.
\<close>

theorem commit_idempotent:
  assumes "transactions dk = []" "readable jcs dk rs head es"
    and "decide_commit jcs now txid grp knd r dk = Inr (Fresh p)"
    and "new_record jcs rt flds = Inr r" "json_val (PDict flds)" "utf8_ok txid" "utf8_ok now"
    and "commit jcs now txid grp knd r dk = (Inr e, d)"
  shows "commit jcs now' txid' grp knd r d = (Inr e, d) \<or> collision (plan_before p) (plan_after p)"
  using commit_again [OF assms(1-7) _ assms(8)] by blast

theorem commit_idempotent_witness:
  "\<exists>(p::commit_plan) e d. (commit sample_jcs sample_now sample_txid ''workflow-actions'' ''workflow_action'' sample_record sample_disk
       = (Inr e, d)
     \<and> commit sample_jcs ''later'' ''other'' ''workflow-actions'' ''workflow_action'' sample_record d = (Inr e, d))
    \<or> collision (plan_before p) (plan_after p)"
proof -
  obtain p where p: "decide_commit sample_jcs sample_now sample_txid ''workflow-actions'' ''workflow_action''
      sample_record sample_disk = Inr (Fresh p)"
    by (rule sample_decide)
  have t: "transactions sample_disk = []" by (simp add: sample_disk_def)
  show ?thesis
    using commit_fresh [OF t sample_readable p sample_new_record sample_fields_json sample_texts(2,1)]
      commit_idempotent [OF t sample_readable p sample_new_record sample_fields_json sample_texts(2,1)] by blast
qed



section \<open>The ledger\<close>

text \<open>
  C5. The head hash determines the whole history: two ledger files that both verify with the same
  head have the same entries, unless two entry bodies collide under SHA-256 or one hashes to the
  genesis value.
\<close>

theorem ledger_head_binds_history:
  assumes "parse_ledger bs1 = Inr rs1" "verify_records rs1 = Inr h" "parse_ledger bs2 = Inr rs2" "verify_records rs2 = Inr h"
  shows "rs1 = rs2
    \<or> (\<exists>x \<in> set rs1. \<exists>y \<in> set rs2. collision (entry_content x) (entry_content y))
    \<or> (\<exists>e \<in> set rs1 \<union> set rs2. sha256 (entry_content e) = GENESIS)"
  by (rule ledger_head_determines [OF assms])

theorem ledger_head_binds_history_witness:
  "[sample_entry] = [sample_entry]
    \<or> (\<exists>x \<in> set [sample_entry]. \<exists>y \<in> set [sample_entry]. collision (entry_content x) (entry_content y))
    \<or> (\<exists>e \<in> set [sample_entry] \<union> set [sample_entry]. sha256 (entry_content e) = GENESIS)"
  by (rule ledger_head_binds_history [OF sample_entry_facts(3,4) sample_entry_facts(3,4)])

text \<open>
  C6. The caches of the ledger object are invisible: any sequence of verified reads through one
  object, over whatever contents the files have in the meantime, returns what parsing and verifying
  each file from scratch returns, as long as those contents do not collide under SHA-256.
\<close>

theorem ledger_cache_transparent:
  assumes "collision_free ((\<lambda>dk. file_bytes (ledger_file dk)) ` set dks)"
  shows "run_snapshots new_ledger dks = map snapshot_spec dks"
  using run_snapshots_transparent [OF cache_ok_new assms] by simp

theorem ledger_cache_transparent_witness:
  "run_snapshots new_ledger [sample_disk, sample_disk] = map snapshot_spec [sample_disk, sample_disk]"
  by (rule ledger_cache_transparent) (simp add: collision_free_def collision_def)

text \<open>
  C7. Selecting entries by kind through a current index returns exactly the entries of those kinds,
  in ledger order.
\<close>

theorem index_selection_complete:
  assumes "readable jcs dk rs head es" "index_current jcs rs dk"
  shows "select_with_index (index_file dk) digest rs kinds = Inr (filter (has_kind kinds) rs)"
  by (rule select_current [OF assms])

theorem index_selection_complete_witness:
  "\<exists>i. select_with_index i None [] [''result''] = Inr (filter (has_kind [''result'']) [])"
proof -
  obtain i where "rebuild_index sample_jcs sample_disk = (Inr (), sample_disk\<lparr>index_file := i\<rparr>)"
      "index_current sample_jcs [] (sample_disk\<lparr>index_file := i\<rparr>)"
    by (rule rebuild_index_ok [OF sample_readable])
  moreover have "readable sample_jcs (sample_disk\<lparr>index_file := i\<rparr>) [] GENESIS []"
    using sample_readable [of sample_jcs] by (simp add: readable_def read_verified_def read_ledger_def)
  ultimately show ?thesis using index_selection_complete by fastforce
qed

text \<open>
  C8. Whatever an index file says, a selection returns only entries of the ledger that have one of
  the requested kinds.
\<close>

theorem index_selection_sound:
  assumes "select_with_index index digest rs kinds = Inr out" "e \<in> set out"
  shows "e \<in> set rs \<and> has_kind kinds e"
  by (rule select_sound [OF assms])

theorem index_selection_sound_witness:
  "sample_entry \<in> set [sample_entry] \<and> has_kind [''workflow_action''] sample_entry"
proof (rule index_selection_sound)
  show "select_with_index None None [sample_entry] [''workflow_action''] = Inr [sample_entry]"
    by (simp add: select_with_index_def index_sequences_def in_strs_def sample_entry_def sealed_entry_items dict_get_def
        del: enc.simps)
qed simp

text \<open>
  An append through an object with sound caches extends the file by one line: the old content
  was a verified ledger, the new one verifies with the entry hash that is returned as its head, and
  the entry has the next sequence number, the old head and the record as payload.
\<close>

theorem ledger_append_extends:
  assumes "cache_ok S lg" "collision_free S" "file_bytes file \<in> S"
    and "append jcs now lg file knd pl = (Inr e, lg', file')"
    and "json_val (PDict (to_json pl))" "utf8_ok now" "normalize jcs (rtype pl) (PDict (to_json pl)) = Inr pl"
    and "length (file_bytes file') \<le> length (file_bytes file) + LEDGER_LINE_BYTE_CAP"
  shows "\<exists>rs h raw. parse_ledger (file_bytes file) = Inr rs \<and> verify_records rs = Inr h
    \<and> file_bytes file' = file_bytes file @ enc (PDict raw) @ [NL]
    \<and> parse_ledger (file_bytes file') = Inr (rs @ [raw]) \<and> verify_records (rs @ [raw]) = Inr (entry_hash e)
    \<and> payload e = pl \<and> kind e = knd \<and> sequence e = int (length rs) + 1 \<and> previous_hash e = h"
  by (rule append_sound [OF assms])

theorem ledger_append_extends_witness:
  "\<exists>e lg' file'. append sample_jcs sample_now new_ledger None ''workflow_action'' sample_record = (Inr e, lg', file')
    \<and> (\<exists>rs h raw. parse_ledger (file_bytes None) = Inr rs \<and> verify_records rs = Inr h
      \<and> file_bytes file' = file_bytes None @ enc (PDict raw) @ [NL]
      \<and> parse_ledger (file_bytes file') = Inr (rs @ [raw]) \<and> verify_records (rs @ [raw]) = Inr (entry_hash e)
      \<and> payload e = sample_record \<and> kind e = ''workflow_action'' \<and> sequence e = int (length rs) + 1
      \<and> previous_hash e = h)"
proof -
  obtain e lg' where a: "append sample_jcs sample_now new_ledger None ''workflow_action'' sample_record
      = (Inr e, lg', Some (enc (PDict sample_entry) @ [NL]))"
    by (rule sample_append)
  have c: "cache_ok {[]} new_ledger" "collision_free {[]}" "file_bytes None \<in> {[]}"
    by (simp_all add: collision_free_def collision_def)
  have n: "normalize sample_jcs (rtype sample_record) (PDict (to_json sample_record)) = Inr sample_record"
    unfolding sample_ok(2) by (rule new_record_normalize [OF sample_new_record])
  have l: "length (file_bytes (Some (enc (PDict sample_entry) @ [NL]))) \<le> length (file_bytes None) + LEDGER_LINE_BYTE_CAP"
    using sample_line by (simp add: sample_entry_def del: enc.simps)
  show ?thesis using a ledger_append_extends [OF c a sample_ok(4) sample_texts(1) n l] by blast
qed

text \<open>
  C10. A successful audit has verified the chain with nothing pending, and for every entry has found
  the immutable record at its canonical path, with equal content, and for entries of the current
  schema with exactly the canonical bytes.
\<close>

theorem verify_finds_companions:
  assumes "cache_ok S lg" "collision_free S" "file_bytes (ledger_file dk) \<in> S" "verify jcs lg dk = (Inr (n, head), lg')"
  shows "\<exists>rs es. read_verified dk = Inr (rs, head) \<and> normalized jcs rs es \<and> n = length rs
    \<and> transactions dk = [] \<and> (\<forall>e \<in> set es. companion_ok jcs (record_files dk) e)"
  by (rule verify_audits [OF assms])

theorem verify_finds_companions_witness:
  "\<exists>rs es. read_verified sample_disk = Inr (rs, GENESIS) \<and> normalized sample_jcs rs es \<and> 0 = length rs
    \<and> transactions sample_disk = [] \<and> (\<forall>e \<in> set es. companion_ok sample_jcs (record_files sample_disk) e)"
proof (rule verify_finds_companions)
  show "cache_ok {[]} new_ledger" "collision_free {[]}" "file_bytes (ledger_file sample_disk) \<in> {[]}"
    by (simp_all add: collision_free_def collision_def sample_disk_def)
  show "verify sample_jcs new_ledger sample_disk = (Inr (0, GENESIS),
      \<lparr>cached_digest = Some (sha256 []), cached_raw = Some [], verified_digest = Some (sha256 []),
       verified_head = Some GENESIS\<rparr>)"
    by (simp add: verify_def require_recovered_def sample_disk_def read_unlocked_raw_def new_ledger_def
        verify_raw_records_def verify_immutable_records_def)
qed

text \<open>Every prefix of a history that verifies is a history that verifies.\<close>

theorem ledger_prefix_verifies:
  assumes "verify_records (xs @ ys) = Inr h"
  shows "\<exists>g. verify_records xs = Inr g"
  by (rule verify_prefix [OF assms])

theorem ledger_prefix_verifies_witness: "\<exists>g. verify_records [] = Inr g"
  using ledger_prefix_verifies [of "[]" "[sample_entry]"] sample_entry_facts(4) by simp

section \<open>Records\<close>

text \<open>
  C12. Every record the program constructs, migrates or loads satisfies the record invariant: its
  version is one of the two known ones, its fields are the frozen form of plain JSON data, and they
  pass the validation of its type; and it has the type that was asked for.
\<close>

theorem records_are_valid:
  "(new_record jcs rt flds = Inr r \<longrightarrow> record_ok jcs r \<and> rtype r = rt \<and> schema_version r = CURRENT_SCHEMA_VERSION)
    \<and> (normalize jcs rt raw = Inr r \<longrightarrow> record_ok jcs r \<and> rtype r = rt)
    \<and> (load_record_file jcs grp cap file = Inr r \<longrightarrow> record_ok jcs r \<and> map_of RECORD_GROUP_TYPES grp = Some (rtype r))"
  using new_record_ok normalize_ok load_record_file_ok by blast

theorem records_are_valid_witness: "record_ok sample_jcs sample_record \<and> rtype sample_record = WORKFLOW_ACTION"
  using records_are_valid [of sample_jcs WORKFLOW_ACTION sample_fields sample_record PNone "''x''" 0 None] sample_new_record
  by blast

text \<open>
  C13. No valid record claims authority the program does not have: a receipt binding is never PASS,
  a verifier result is never an independent evaluation, compiler and concept records claim neither
  assurance nor conformance, and a passing assurance assessment has no unmet property and no reason
  against it.
\<close>

theorem records_claim_no_authority:
  assumes "record_ok jcs r"
  shows "(rtype r = EXECUTION_RECEIPT_BINDING \<longrightarrow> dict_get (rec_fields r) ''status'' \<in> {PStr ''FAIL'', PStr ''UNKNOWN''})
    \<and> (rtype r = VERIFIER_RESULT \<longrightarrow> dict_get (rec_fields r) ''independent_evaluation'' = PBool False)
    \<and> (rtype r \<in> {COMPILER_EXPERIMENT, COMPILER_CANDIDATE, CONCEPT_EVALUATION} \<longrightarrow>
         dict_get (rec_fields r) ''assurance_status'' = PNone \<and> dict_get (rec_fields r) ''conformance_status'' = PNone)
    \<and> (rtype r \<in> {COMPILER_CANDIDATE, CONCEPT_EVALUATION} \<longrightarrow> dict_get (rec_fields r) ''generator_certified'' = PBool False)
    \<and> (rtype r = EXECUTION_ASSURANCE \<longrightarrow> dict_get (rec_fields r) ''assurance_status'' = PStr ''PASS'' \<longrightarrow>
         dict_get (rec_fields r) ''unmet_properties'' = PTuple [] \<and> dict_get (rec_fields r) ''reasons'' = PTuple [])"
  using receipt_binding_never_pass [OF assms] verifier_result_not_independent [OF assms] no_assurance_claim [OF assms]
    not_generator_certified [OF assms] assurance_pass_clean [OF assms] by blast

theorem records_claim_no_authority_witness:
  "dict_get (rec_fields sample_assurance) ''unmet_properties'' = PTuple []
    \<and> dict_get (rec_fields sample_assurance) ''reasons'' = PTuple []"
  using records_claim_no_authority [OF sample_assurance_ok(1) [of sample_jcs]] sample_assurance_ok(2,3) by blast

text \<open>
  C14. Construction and normalization are inverse: the JSON form of a new record normalizes to the
  record itself.
\<close>

theorem new_record_roundtrip:
  assumes "new_record jcs rt flds = Inr r"
  shows "normalize jcs rt (PDict (to_json r)) = Inr r"
  by (rule new_record_normalize [OF assms])

theorem new_record_roundtrip_witness:
  "normalize sample_jcs WORKFLOW_ACTION (PDict (to_json sample_record)) = Inr sample_record"
  by (rule new_record_roundtrip [OF sample_new_record])

text \<open>A record written to its immutable file loads back as the same record.\<close>

theorem record_loads_back:
  assumes "new_record jcs rt flds = Inr r" "json_val (PDict flds)" "map_of RECORD_GROUP_TYPES grp = Some rt"
    and "record_bytes r = Inr bs" "length bs \<le> cap"
  shows "load_record_file jcs grp cap (Some bs) = Inr r"
proof -
  note b = record_bytes_Inr [OF assms(4) new_record_json_val [OF assms(1,2)]]
  show ?thesis using record_file_roundtrip [OF assms(1-3)] b assms(5) by (simp del: enc.simps)
qed

theorem record_loads_back_witness:
  "\<exists>bs. record_bytes sample_record = Inr bs
    \<and> load_record_file sample_jcs ''workflow-actions'' IMMUTABLE_RECORD_BYTE_CAP (Some bs) = Inr sample_record"
proof -
  obtain path where "check_commit ''workflow-actions'' ''workflow_action'' sample_record =
      Inr (sample_context, sample_identity, path, enc (PDict (to_json sample_record)) @ [NL])"
    using sample_check_commit by blast
  note c = check_commit_Inr(6,7) [OF this]
  have g: "map_of RECORD_GROUP_TYPES ''workflow-actions'' = Some WORKFLOW_ACTION" by (simp add: RECORD_GROUP_TYPES_def)
  show ?thesis using c(1) record_loads_back [OF sample_new_record sample_fields_json g c] by blast
qed

text \<open>
  C16. Record identities bind content: two records of a type with derived identities that carry the
  same identity agree on all fields the identity is derived from, unless their encodings collide.
\<close>

theorem record_identity_binds:
  assumes "normalize jcs rt raw1 = Inr r" "normalize jcs rt raw2 = Inr s"
    and "schema_version r = CURRENT_SCHEMA_VERSION" "schema_version s = CURRENT_SCHEMA_VERSION"
    and "RECORD_SPECS rt = Some spec" "identity_field spec = Some f"
    and "dict_get (rec_fields r) f = dict_get (rec_fields s) f"
    and "bound_content r = Inr p" "bound_content s = Inr q" "json_val (PDict p)" "json_val (PDict q)"
  shows "p = q \<or> collision (enc (PDict p)) (enc (PDict q))"
  by (rule identity_binds [OF assms])

theorem record_identity_binds_witness:
  "\<exists>p. bound_content sample_record = Inr p \<and> (p = p \<or> collision (enc (PDict p)) (enc (PDict p)))"
proof -
  obtain p where p: "bound_content sample_record = Inr p" "json_val (PDict p)" using sample_bound_content by blast
  have "identity_field workflow_action_spec = Some ''action_id''" by (simp add: workflow_action_spec_def)
  with p show ?thesis
    using record_identity_binds [OF new_record_normalize [OF sample_new_record] new_record_normalize [OF sample_new_record]
        sample_ok(3) sample_ok(3) _ _ refl p(1) p(1) p(2) p(2)] by auto
qed

text \<open>Freezing and thawing are inverse on the values the JSON conversion produces, and the conversion is idempotent.\<close>

theorem json_conversion_stable:
  assumes "as_json_value n v = Inr w"
  shows "thaw_json (freeze_json w) = w \<and> as_json_value n w = Inr w"
  using thaw_freeze [OF as_json_value_plain [OF assms]] as_json_value_idem [OF assms] by blast

theorem json_conversion_stable_witness:
  "thaw_json (freeze_json (PList [PInt 1, PList []])) = PList [PInt 1, PList []]
    \<and> as_json_value 0 (PList [PInt 1, PList []]) = Inr (PList [PInt 1, PList []])"
  by (rule json_conversion_stable [of 0 "PTuple [PInt 1, PList []]"]) (simp add: as_json_value.simps)

text \<open>
  The file name of an identity is one path component: it is not empty, has only letters, digits,
  dots, underscores and dashes, so no separator.
\<close>

theorem record_name_is_component:
  assumes "safe_record_identity identity = Inr s"
  shows "s \<noteq> [] \<and> list_all safe_char s \<and> CHR ''/'' \<notin> set s"
  by (rule safe_record_identity_component [OF assms])

theorem record_name_is_component_witness:
  "''a_.._b'' \<noteq> [] \<and> list_all safe_char ''a_.._b'' \<and> CHR ''/'' \<notin> set ''a_.._b''"
  by (rule record_name_is_component [of "''a/../b''"]) (simp add: safe_record_identity_def safe_char_def utf8_cont_def)

section \<open>Serialization\<close>

text \<open>C19. The strict decoder reads back what the canonical encoder writes, also with a final newline.\<close>

theorem canonical_json_roundtrip:
  assumes "json_val v"
  shows "canonical_bytes v = Inr (enc v) \<and> json_loads nonfin dups (enc v) = Some v
    \<and> json_loads nonfin dups (enc v @ [NL]) = Some v"
  using json_loads_enc [OF assms] json_loads_enc_line [OF assms] json_val_encodable [OF assms]
  by (simp add: canonical_bytes_def)

theorem canonical_json_roundtrip_witness:
  "canonical_bytes (PDict sample_fields) = Inr (enc (PDict sample_fields))
    \<and> json_loads True False (enc (PDict sample_fields)) = Some (PDict sample_fields)
    \<and> json_loads True False (enc (PDict sample_fields) @ [NL]) = Some (PDict sample_fields)"
  by (rule canonical_json_roundtrip [OF sample_fields_json])



text \<open>
  C21. A content identity determines the value it was computed from, unless the two encodings collide.
\<close>

theorem content_identity_binds:
  assumes "json_val v" "json_val w" "local_json_identity v = local_json_identity w"
  shows "v = w \<or> collision (enc v) (enc w)"
  by (rule local_json_identity_inj [OF assms])

theorem content_identity_binds_witness: "PInt 3 = PInt 3 \<or> collision (enc (PInt 3)) (enc (PInt 3))"
  by (rule content_identity_binds) simp_all

end
